(* ===== verification/Prelude.thy ===== *)
theory Prelude
  imports Main "HOL-Library.Word" "HOL-Library.Sublist"
begin

text \<open>
  Shared vocabulary of the development: Go error values, the outcome of a Go call (a value, an
  error, or a run-time panic), the effect type of a call that reads and writes an opaque world,
  its combinators, and the calculus the component theories use on them.

  The world type \<open>'w\<close> is a type variable everywhere. It holds all that is outside the
  driver's own code: the Quobyte service, the node's file systems, the mount table. An operation
  of an interface value (a Quobyte client, a mounter) is a function on that world, and nothing is
  assumed of it unless a theorem says so.
\<close>

named_theorems io_eval \<open>equations that run the effect combinators\<close>
named_theorems io_inv \<open>what a given outcome of a combinator says about its parts\<close>
named_theorems quiet_rules \<open>calls that cannot panic\<close>
named_theorems keeps_rules \<open>calls that keep a predicate on the world\<close>

section \<open>Machine integers\<close>

type_synonym int32 = "32 word"
type_synonym int64 = "64 word"
type_synonym uint64 = "64 word"
type_synonym FileMode = "32 word"

section \<open>Error values\<close>

text \<open>
  Go's \<open>error\<close> is an interface. The code looks at a value of it in two ways: by its text
  (\<open>err.Error()\<close>) and by its dynamic type (\<open>*os.PathError\<close>, \<open>*os.LinkError\<close>) with the system
  error inside. A \<open>syscall.Errno\<close> carries its number and the text of the standard library's
  table for that number. What \<open>fmt.Errorf\<close> makes of a \<open>%w\<close> verb has a text of its own and the
  wrapped error.
\<close>

datatype go_error =
    ErrorString string
  | SyscallErrno nat string
  | PathError string string go_error
  | LinkError string string string go_error
  | NumError string string string
  | StatusError string string
  | WrapError string go_error

fun Error :: "go_error \<Rightarrow> string" where
  "Error (ErrorString s) = s"
| "Error (SyscallErrno n s) = s"
| "Error (PathError opn p e) = opn @ '' '' @ p @ '': '' @ Error e"
| "Error (LinkError opn old new e) = opn @ '' '' @ old @ '' '' @ new @ '': '' @ Error e"
| "Error (NumError f num why) =
     ''strconv.'' @ f @ '': parsing '' @ [CHR 0x22] @ num @ [CHR 0x22] @ '': '' @ why"
| "Error (StatusError code msg) = ''rpc error: code = '' @ code @ '' desc = '' @ msg"
| "Error (WrapError s e) = s"

abbreviation (input) ENOENT :: nat where "ENOENT \<equiv> 2"
abbreviation (input) EEXIST :: nat where "EEXIST \<equiv> 17"
abbreviation (input) ENOTCONN :: nat where "ENOTCONN \<equiv> 107"

text \<open>\<open>e == syscall.ENOENT\<close> and its like: equality of an error interface value with an errno.\<close>

fun is_errno :: "nat \<Rightarrow> go_error \<Rightarrow> bool" where
  "is_errno n (SyscallErrno m s) = (m = n)"
| "is_errno n _ = False"

section \<open>Outcomes\<close>

datatype 'a outcome = Ok 'a | Err go_error | Panic string

definition bind_outcome :: "'a outcome \<Rightarrow> ('a \<Rightarrow> 'b outcome) \<Rightarrow> 'b outcome" where
  "bind_outcome r f = (case r of Ok a \<Rightarrow> f a | Err e \<Rightarrow> Err e | Panic p \<Rightarrow> Panic p)"

lemma bind_outcome_simps [simp]:
  "bind_outcome (Ok a) f = f a"
  "bind_outcome (Err e) f = Err e"
  "bind_outcome (Panic p) f = Panic p"
  by (simp_all add: bind_outcome_def)

lemma bind_outcome_Ok [io_inv]:
  "bind_outcome r f = Ok b \<longleftrightarrow> (\<exists>a. r = Ok a \<and> f a = Ok b)"
  by (cases r) simp_all

lemma bind_outcome_Err [io_inv]:
  "bind_outcome r f = Err e \<longleftrightarrow> r = Err e \<or> (\<exists>a. r = Ok a \<and> f a = Err e)"
  by (cases r) simp_all

lemma bind_outcome_Panic [io_inv]:
  "bind_outcome r f = Panic p \<longleftrightarrow> r = Panic p \<or> (\<exists>a. r = Ok a \<and> f a = Panic p)"
  by (cases r) simp_all

text \<open>An index expression on a slice is a run-time panic out of range.\<close>

definition slice_at :: "'a list \<Rightarrow> nat \<Rightarrow> 'a outcome" where
  "slice_at xs i = (if i < length xs then Ok (xs ! i) else Panic ''index out of range'')"

lemma slice_at_within:
  "i < length xs \<Longrightarrow> slice_at xs i = Ok (xs ! i)"
  "\<not> length xs < 2 \<Longrightarrow> slice_at xs 0 = Ok (xs ! 0)"
  "\<not> length xs < 3 \<Longrightarrow> slice_at xs 0 = Ok (xs ! 0)"
  by (auto simp: slice_at_def)

lemma slice_at_simps [simp]:
  "slice_at (x # xs) 0 = Ok x" "slice_at (x # xs) (Suc n) = slice_at xs n"
  "slice_at (x # xs) (numeral v) = slice_at xs (pred_numeral v)"
  by (simp_all add: slice_at_def nth_Cons' numeral_eq_Suc)

section \<open>Calls on the world\<close>

type_synonym ('w, 'a) io = "'w \<Rightarrow> 'a outcome \<times> 'w"

definition return_io :: "'a \<Rightarrow> ('w, 'a) io" where
  "return_io a = (\<lambda>w. (Ok a, w))"

definition throw_io :: "go_error \<Rightarrow> ('w, 'a) io" where
  "throw_io e = (\<lambda>w. (Err e, w))"

definition panic_io :: "string \<Rightarrow> ('w, 'a) io" where
  "panic_io p = (\<lambda>w. (Panic p, w))"

definition lift_io :: "'a outcome \<Rightarrow> ('w, 'a) io" where
  "lift_io r = (\<lambda>w. (r, w))"

text \<open>
  \<open>bind_io m f\<close> is \<open>x, err := m; if err != nil { return nil, err }; f(x)\<close>, and a panic of
  \<open>m\<close> ends the whole call. \<open>try_io m\<close> hands the error to the code that follows
  (\<open>x, err := m\<close> with \<open>err\<close> inspected later); it does not catch a panic, as the driver has no
  \<open>recover\<close>. \<open>wrap_io\<close> is \<open>return nil, f(err)\<close> on the error path.
\<close>

definition bind_io :: "('w, 'a) io \<Rightarrow> ('a \<Rightarrow> ('w, 'b) io) \<Rightarrow> ('w, 'b) io" where
  "bind_io m f = (\<lambda>w. case m w of
       (Ok a, w') \<Rightarrow> f a w'
     | (Err e, w') \<Rightarrow> (Err e, w')
     | (Panic p, w') \<Rightarrow> (Panic p, w'))"

definition try_io :: "('w, 'a) io \<Rightarrow> ('w, go_error + 'a) io" where
  "try_io m = (\<lambda>w. case m w of
       (Ok a, w') \<Rightarrow> (Ok (Inr a), w')
     | (Err e, w') \<Rightarrow> (Ok (Inl e), w')
     | (Panic p, w') \<Rightarrow> (Panic p, w'))"

definition wrap_io :: "(go_error \<Rightarrow> go_error) \<Rightarrow> ('w, 'a) io \<Rightarrow> ('w, 'a) io" where
  "wrap_io f m = (\<lambda>w. case m w of
       (Ok a, w') \<Rightarrow> (Ok a, w')
     | (Err e, w') \<Rightarrow> (Err (f e), w')
     | (Panic p, w') \<Rightarrow> (Panic p, w'))"

subsection \<open>Running the combinators\<close>

lemma return_io_eval [io_eval, simp]: "return_io a w = (Ok a, w)"
  by (simp add: return_io_def)

lemma throw_io_eval [io_eval, simp]: "throw_io e w = (Err e, w)"
  by (simp add: throw_io_def)

lemma panic_io_eval [io_eval, simp]: "panic_io p w = (Panic p, w)"
  by (simp add: panic_io_def)

lemma lift_io_eval [io_eval, simp]: "lift_io r w = (r, w)"
  by (simp add: lift_io_def)

lemma bind_io_step:
  "m w = (Ok a, w') \<Longrightarrow> bind_io m f w = f a w'"
  "m w = (Err e, w') \<Longrightarrow> bind_io m f w = (Err e, w')"
  "m w = (Panic p, w') \<Longrightarrow> bind_io m f w = (Panic p, w')"
  by (simp_all add: bind_io_def)

declare bind_io_step [io_eval, simp]

lemma try_io_step:
  "m w = (Ok a, w') \<Longrightarrow> try_io m w = (Ok (Inr a), w')"
  "m w = (Err e, w') \<Longrightarrow> try_io m w = (Ok (Inl e), w')"
  "m w = (Panic p, w') \<Longrightarrow> try_io m w = (Panic p, w')"
  by (simp_all add: try_io_def)

declare try_io_step [io_eval, simp]

lemma wrap_io_step:
  "m w = (Ok a, w') \<Longrightarrow> wrap_io f m w = (Ok a, w')"
  "m w = (Err e, w') \<Longrightarrow> wrap_io f m w = (Err (f e), w')"
  "m w = (Panic p, w') \<Longrightarrow> wrap_io f m w = (Panic p, w')"
  by (simp_all add: wrap_io_def)

declare wrap_io_step [io_eval, simp]

lemma bind_io_return [simp]: "bind_io (return_io a) f = f a"
  by (rule ext) simp

lemma bind_io_throw [simp]: "bind_io (throw_io e) f = throw_io e"
  by (rule ext) simp

lemma bind_io_lift_Ok [simp]: "bind_io (lift_io (Ok a)) f = f a"
  by (rule ext) simp

lemma bind_io_lift_Err [simp]: "bind_io (lift_io (Err e)) f = throw_io e"
  by (rule ext) simp

subsection \<open>Reading an outcome backwards\<close>

lemma bind_io_Ok [io_inv]:
  "bind_io m f w = (Ok b, w') \<longleftrightarrow> (\<exists>a w1. m w = (Ok a, w1) \<and> f a w1 = (Ok b, w'))"
  by (auto simp: bind_io_def split: prod.splits outcome.splits)

lemma bind_io_Err [io_inv]:
  "bind_io m f w = (Err e, w') \<longleftrightarrow>
     m w = (Err e, w') \<or> (\<exists>a w1. m w = (Ok a, w1) \<and> f a w1 = (Err e, w'))"
  by (auto simp: bind_io_def split: prod.splits outcome.splits)

lemma bind_io_Panic [io_inv]:
  "bind_io m f w = (Panic p, w') \<longleftrightarrow>
     m w = (Panic p, w') \<or> (\<exists>a w1. m w = (Ok a, w1) \<and> f a w1 = (Panic p, w'))"
  by (auto simp: bind_io_def split: prod.splits outcome.splits)

lemma try_io_Ok [io_inv]:
  "try_io m w = (Ok r, w') \<longleftrightarrow>
     (\<exists>a. r = Inr a \<and> m w = (Ok a, w')) \<or> (\<exists>e. r = Inl e \<and> m w = (Err e, w'))"
  by (auto simp: try_io_def split: prod.splits outcome.splits)

lemma try_io_Err [io_inv]: "try_io m w \<noteq> (Err e, w')"
  by (auto simp: try_io_def split: prod.splits outcome.splits)

lemma try_io_Panic [io_inv]: "try_io m w = (Panic p, w') \<longleftrightarrow> m w = (Panic p, w')"
  by (auto simp: try_io_def split: prod.splits outcome.splits)

lemma wrap_io_Ok [io_inv]: "wrap_io f m w = (Ok a, w') \<longleftrightarrow> m w = (Ok a, w')"
  by (auto simp: wrap_io_def split: prod.splits outcome.splits)

lemma wrap_io_Err [io_inv]:
  "wrap_io f m w = (Err e, w') \<longleftrightarrow> (\<exists>e0. m w = (Err e0, w') \<and> e = f e0)"
  by (auto simp: wrap_io_def split: prod.splits outcome.splits)

lemma wrap_io_Panic [io_inv]: "wrap_io f m w = (Panic p, w') \<longleftrightarrow> m w = (Panic p, w')"
  by (auto simp: wrap_io_def split: prod.splits outcome.splits)

text \<open>An early error return.\<close>

lemma guard_Ok [io_inv]:
  "(if c then throw_io e else m) w = (Ok x, w') \<longleftrightarrow> \<not> c \<and> m w = (Ok x, w')"
  by simp

section \<open>Calls that cannot panic\<close>

definition quiet :: "('w, 'a) io \<Rightarrow> bool" where
  "quiet m \<longleftrightarrow> (\<forall>w p w'. m w \<noteq> (Panic p, w'))"

lemma quietD: "quiet m \<Longrightarrow> m w \<noteq> (Panic p, w')"
  by (simp add: quiet_def)

lemma quiet_return [quiet_rules]: "quiet (return_io a)"
  by (simp add: quiet_def)

lemma quiet_throw [quiet_rules]: "quiet (throw_io e)"
  by (simp add: quiet_def)

lemma quiet_lift [quiet_rules]: "(\<And>p. r \<noteq> Panic p) \<Longrightarrow> quiet (lift_io r)"
  by (simp add: quiet_def)

lemma quiet_bind [quiet_rules]:
  "quiet m \<Longrightarrow> (\<And>a. quiet (f a)) \<Longrightarrow> quiet (bind_io m f)"
  unfolding quiet_def io_inv by blast

lemma quiet_try [quiet_rules]: "quiet m \<Longrightarrow> quiet (try_io m)"
  unfolding quiet_def io_inv by blast

lemma quiet_wrap [quiet_rules]: "quiet m \<Longrightarrow> quiet (wrap_io f m)"
  unfolding quiet_def io_inv by blast

section \<open>Calls that keep a predicate on the world\<close>

text \<open>
  \<open>keeps I m\<close>: whatever the outcome of \<open>m\<close>, it leads from a world where \<open>I\<close> holds to a world
  where \<open>I\<close> holds. As the world is opaque, \<open>keeps I\<close> of a whole handler from \<open>keeps I\<close> of some
  interface operations says that the handler calls no other operation.
\<close>

definition keeps :: "('w \<Rightarrow> bool) \<Rightarrow> ('w, 'a) io \<Rightarrow> bool" where
  "keeps I m \<longleftrightarrow> (\<forall>w r w'. I w \<longrightarrow> m w = (r, w') \<longrightarrow> I w')"

lemma keepsD: "keeps I m \<Longrightarrow> m w = (r, w') \<Longrightarrow> I w \<Longrightarrow> I w'"
  by (auto simp: keeps_def)

lemma keeps_return [keeps_rules]: "keeps I (return_io a)"
  by (simp add: keeps_def)

lemma keeps_throw [keeps_rules]: "keeps I (throw_io e)"
  by (simp add: keeps_def)

lemma keeps_panic [keeps_rules]: "keeps I (panic_io p)"
  by (simp add: keeps_def)

lemma keeps_lift [keeps_rules]: "keeps I (lift_io r)"
  by (simp add: keeps_def)

lemma keeps_bind [keeps_rules]:
  assumes "keeps I m" and "\<And>a. keeps I (f a)"
  shows "keeps I (bind_io m f)"
  unfolding keeps_def
proof (intro allI impI)
  fix w r w'
  assume I: "I w" and run: "bind_io m f w = (r, w')"
  obtain s w1 where m: "m w = (s, w1)"
    by (cases "m w")
  with assms(1) I have "I w1"
    by (auto intro: keepsD)
  with run m assms(2) show "I w'"
    by (cases s) (auto dest: keepsD)
qed

lemma keeps_bind_run:
  assumes "keeps I m" and "\<And>w a w'. m w = (Ok a, w') \<Longrightarrow> keeps I (f a)"
  shows "keeps I (bind_io m f)"
  unfolding keeps_def
proof (intro allI impI)
  fix w r w'
  assume I: "I w" and run: "bind_io m f w = (r, w')"
  obtain s w1 where m: "m w = (s, w1)"
    by (cases "m w")
  with assms(1) I have "I w1"
    by (auto intro: keepsD)
  with run m assms(2) show "I w'"
    by (cases s) (auto dest: keepsD)
qed

lemma keeps_try [keeps_rules]: "keeps I m \<Longrightarrow> keeps I (try_io m)"
  unfolding keeps_def try_io_def by (fastforce split: prod.splits outcome.splits)

lemma keeps_wrap [keeps_rules]: "keeps I m \<Longrightarrow> keeps I (wrap_io f m)"
  unfolding keeps_def wrap_io_def by (fastforce split: prod.splits outcome.splits)

end
