(* ===== verification/Go_Strings.thy ===== *)
theory Go_Strings
  imports Prelude
begin

text \<open>
  The parts of Go's \<open>strings\<close>, \<open>strconv\<close> and \<open>fmt\<close> packages the driver calls, on strings as lists
  of bytes. \<open>ToLower\<close>, \<open>TrimSpace\<close> and number parsing are those of the standard library on ASCII
  bytes; other bytes are passed through unchanged. The words the driver compares a lowered string with
  contain no letter that a non-ASCII rune lowers to (that is, no \<open>i\<close> and no \<open>k\<close>), so these
  comparisons come out as in the code for every string.
\<close>

section \<open>Splitting\<close>

text \<open>\<open>strings.Split(s, sep)\<close> for a non-empty separator: \<open>acc\<close> is the current piece, reversed.\<close>

function split_from :: "string \<Rightarrow> string \<Rightarrow> string \<Rightarrow> string list" where
  "split_from sep acc [] = [rev acc]"
| "split_from sep acc (c # s) =
     (if sep \<noteq> [] \<and> prefix sep (c # s)
      then rev acc # split_from sep [] (drop (length sep) (c # s))
      else split_from sep (c # acc) s)"
  by pat_completeness auto
termination
  by (relation "measure (\<lambda>(sep, acc, s). length s)") (auto simp: neq_Nil_conv)

definition Split :: "string \<Rightarrow> string \<Rightarrow> string list" where
  "Split s sep = split_from sep [] s"

text \<open>The one-byte separators of the driver, by structural recursion.\<close>

fun split_char :: "char \<Rightarrow> string \<Rightarrow> string list" where
  "split_char sep [] = [[]]"
| "split_char sep (c # s) =
     (if c = sep then [] # split_char sep s
      else (case split_char sep s of [] \<Rightarrow> [[c]] | p # ps \<Rightarrow> (c # p) # ps))"

fun join_char :: "char \<Rightarrow> string list \<Rightarrow> string" where
  "join_char sep [] = []"
| "join_char sep [p] = p"
| "join_char sep (p # q # ps) = p @ sep # join_char sep (q # ps)"

lemma split_char_nonempty [simp]: "split_char sep s \<noteq> []"
  by (cases s) (auto split: list.splits)

lemma split_from_char:
  "split_from [sep] acc s =
     (case split_char sep s of [] \<Rightarrow> [rev acc] | p # ps \<Rightarrow> (rev acc @ p) # ps)"
proof (induction s arbitrary: acc)
  case Nil
  show ?case by simp
next
  case (Cons c s)
  obtain p ps where s: "split_char sep s = p # ps"
    by (cases "split_char sep s") auto
  show ?case
    by (cases "c = sep") (simp_all add: Cons.IH s)
qed

lemma Split_char [simp]: "Split s [sep] = split_char sep s"
  unfolding Split_def split_from_char by (simp split: list.splits)

lemma split_char_append:
  "split_char sep (p @ sep # s) = split_char sep p @ split_char sep s"
proof (induction p)
  case Nil
  show ?case by simp
next
  case (Cons c p)
  then show ?case
    by (auto split: list.splits)
qed

lemma split_char_free: "sep \<notin> set p \<Longrightarrow> split_char sep p = [p]"
  by (induction p) auto

lemma split_char_parts: "p \<in> set (split_char sep s) \<Longrightarrow> sep \<notin> set p"
proof (induction s arbitrary: p)
  case Nil
  then show ?case by simp
next
  case (Cons c s)
  obtain q qs where s: "split_char sep s = q # qs"
    by (cases "split_char sep s") auto
  with Cons show ?case
    by (auto split: if_splits)
qed

lemma set_join_char: "p \<in> set ps \<Longrightarrow> set p \<subseteq> set (join_char sep ps)"
  by (induction sep ps rule: join_char.induct) auto

lemma join_split_char: "join_char sep (split_char sep s) = s"
proof (induction s)
  case Nil
  show ?case by simp
next
  case (Cons c s)
  obtain q qs where s: "split_char sep s = q # qs"
    by (cases "split_char sep s") auto
  with Cons show ?case
    by (cases qs) auto
qed

lemma set_split_char: "p \<in> set (split_char sep s) \<Longrightarrow> set p \<subseteq> set s"
  using set_join_char [of p "split_char sep s" sep] by (simp add: join_split_char)

lemma split_join_char:
  "ps \<noteq> [] \<Longrightarrow> (\<And>p. p \<in> set ps \<Longrightarrow> sep \<notin> set p) \<Longrightarrow> split_char sep (join_char sep ps) = ps"
proof (induction sep ps rule: join_char.induct)
  case (1 sep)
  then show ?case by simp
next
  case (2 sep p)
  then show ?case by (simp add: split_char_free)
next
  case (3 sep p q ps)
  then show ?case by (simp add: split_char_append split_char_free)
qed

lemma length_split_char: "length (split_char sep s) = Suc (count_list s sep)"
  by (induction s) (auto split: list.splits)

section \<open>The interface of a separated text\<close>

text \<open>
  Volume handles, snapshot ids, labels and paths are texts of separated parts. Their users rely
  on these laws only: splitting undoes joining for parts without the separator, joining undoes
  splitting, and no part contains the separator.
\<close>

locale separated_text =
  fixes split :: "string \<Rightarrow> string list"
    and join :: "string list \<Rightarrow> string"
    and sep :: char
  assumes split_join: "ps \<noteq> [] \<Longrightarrow> (\<And>p. p \<in> set ps \<Longrightarrow> sep \<notin> set p) \<Longrightarrow> split (join ps) = ps"
    and join_split: "join (split s) = s"
    and split_parts: "p \<in> set (split s) \<Longrightarrow> sep \<notin> set p"
    and split_some: "split s \<noteq> []"
begin

lemma split_inj: "split s = split t \<Longrightarrow> s = t"
  by (metis join_split)

lemma join_inj:
  assumes "ps \<noteq> []" and "qs \<noteq> []"
    and "\<And>p. p \<in> set ps \<Longrightarrow> sep \<notin> set p" and "\<And>q. q \<in> set qs \<Longrightarrow> sep \<notin> set q"
    and "join ps = join qs"
  shows "ps = qs"
proof -
  have "split (join ps) = split (join qs)"
    using assms(5) by simp
  then show ?thesis
    using assms(1-4) by (simp add: split_join)
qed

lemma join_of_split: "split s = ps \<Longrightarrow> s = join ps"
  by (metis join_split)

lemma split_pos: "0 < length (split s)"
  using split_some by simp

end

interpretation handle_text: separated_text
  "\<lambda>s. Split s ''|''" "join_char (CHR ''|'')" "CHR ''|''"
  by unfold_locales (auto simp: split_join_char join_split_char dest: split_char_parts)

interpretation path_text: separated_text
  "\<lambda>s. Split s ''/''" "join_char (CHR ''/'')" "CHR ''/''"
  by unfold_locales (auto simp: split_join_char join_split_char dest: split_char_parts)

interpretation comma_text: separated_text
  "\<lambda>s. Split s '',''" "join_char (CHR '','')" "CHR '',''"
  by unfold_locales (auto simp: split_join_char join_split_char dest: split_char_parts)

section \<open>Prefixes, search, trimming, case\<close>

definition HasPrefix :: "string \<Rightarrow> string \<Rightarrow> bool" where
  "HasPrefix s p = prefix p s"

lemma HasPrefix_append [simp]: "HasPrefix (p @ s) p"
  by (simp add: HasPrefix_def)

text \<open>\<open>strings.Index\<close>: the first position of \<open>sub\<close> in \<open>s\<close>, -1 when there is none.\<close>

fun Index :: "string \<Rightarrow> string \<Rightarrow> int" where
  "Index [] sub = (if sub = [] then 0 else -1)"
| "Index (c # s) sub =
     (if prefix sub (c # s) then 0
      else (let i = Index s sub in if i < 0 then -1 else i + 1))"

definition Contains :: "string \<Rightarrow> string \<Rightarrow> bool" where
  "Contains s sub \<longleftrightarrow> 0 \<le> Index s sub"

lemma Index_range: "-1 \<le> Index s sub \<and> Index s sub \<le> int (length s)"
  by (induction s) (auto simp: Let_def)

lemma Index_append: "0 \<le> Index (pre @ sub @ post) sub"
proof (induction pre)
  case Nil
  have "prefix sub (sub @ post)" by simp
  then show ?case by (cases "sub @ post") (auto simp del: prefix_append)
next
  case (Cons c pre)
  then show ?case by (simp add: Let_def)
qed

lemma Index_at:
  "0 \<le> Index s sub \<Longrightarrow> \<exists>post. s = take (nat (Index s sub)) s @ sub @ post"
proof (induction s)
  case Nil
  then show ?case by (auto split: if_splits)
next
  case (Cons c s)
  show ?case
  proof (cases "prefix sub (c # s)")
    case True
    then show ?thesis by (auto simp: prefix_def)
  next
    case False
    with Cons.prems have pos: "0 \<le> Index s sub"
      by (auto simp: Let_def split: if_splits)
    with Cons.IH obtain post where "s = take (nat (Index s sub)) s @ sub @ post"
      by blast
    with False pos show ?thesis
      by (auto simp: Let_def nat_add_distrib)
  qed
qed

lemma Contains_iff: "Contains s sub \<longleftrightarrow> (\<exists>pre post. s = pre @ sub @ post)"
  unfolding Contains_def using Index_at Index_append by blast

definition is_space :: "char \<Rightarrow> bool" where
  "is_space c \<longleftrightarrow> c \<in> {CHR '' '', CHR 0x09, CHR 0x0A, CHR 0x0B, CHR 0x0C, CHR 0x0D}"

definition TrimSpace :: "string \<Rightarrow> string" where
  "TrimSpace s = rev (dropWhile is_space (rev (dropWhile is_space s)))"

definition lower_char :: "char \<Rightarrow> char" where
  "lower_char c = (let n = of_char c :: nat in if 65 \<le> n \<and> n \<le> 90 then char_of (n + 32) else c)"

definition ToLower :: "string \<Rightarrow> string" where
  "ToLower s = map lower_char s"

lemma set_TrimSpace: "set (TrimSpace s) \<subseteq> set s"
  unfolding TrimSpace_def by (auto dest!: set_dropWhileD)

lemma TrimSpace_id: "s = [] \<or> \<not> is_space (hd s) \<and> \<not> is_space (last s) \<Longrightarrow> TrimSpace s = s"
  unfolding TrimSpace_def
  by (metis dropWhile_eq_self_iff hd_rev rev.simps(1) rev_rev_ident)

lemma TrimSpace_ends:
  "TrimSpace s = [] \<or> \<not> is_space (hd (TrimSpace s)) \<and> \<not> is_space (last (TrimSpace s))"
proof -
  let ?u = "dropWhile is_space s"
  let ?t = "TrimSpace s"
  have last: "?t \<noteq> [] \<Longrightarrow> \<not> is_space (last ?t)"
    unfolding TrimSpace_def by (metis hd_dropWhile last_rev rev_is_Nil_conv)
  obtain post where u: "?u = ?t @ post"
    unfolding TrimSpace_def
    by (metis rev_append rev_rev_ident takeWhile_dropWhile_id)
  have hd: "?t \<noteq> [] \<Longrightarrow> \<not> is_space (hd ?t)"
    using u by (metis append_is_Nil_conv hd_append2 hd_dropWhile)
  show ?thesis
    using hd last by blast
qed

lemma TrimSpace_fixed:
  "TrimSpace s = s \<longleftrightarrow> s = [] \<or> \<not> is_space (hd s) \<and> \<not> is_space (last s)"
  using TrimSpace_ends [of s] TrimSpace_id [of s] by metis

lemma TrimSpace_idem [simp]: "TrimSpace (TrimSpace s) = TrimSpace s"
  by (rule TrimSpace_id) (rule TrimSpace_ends)

end
