(* ===== verification/Go_Strconv.thy ===== *)
theory Go_Strconv
  imports Go_Strings
begin

text \<open>
  \<open>strconv\<close> and \<open>fmt.Sprintf\<close> as the driver uses them: unsigned parsing in a base up to ten with a
  bit size, decimal rendering, \<open>Atoi\<close>, \<open>ParseBool\<close>, and formats whose verbs are \<open>%s\<close>, \<open>%d\<close>,
  \<open>%t\<close>, \<open>%v\<close>, \<open>%q\<close> and \<open>%w\<close> (a number, a truth value, an error or a quoted text is rendered
  before it is passed).
\<close>

section \<open>Formats\<close>

fun Sprintf :: "string \<Rightarrow> string list \<Rightarrow> string" where
  "Sprintf [] args = []"
| "Sprintf [c] args = [c]"
| "Sprintf (c # v # f) args =
     (if c = CHR ''%'' \<and> (v = CHR ''s'' \<or> v = CHR ''d'' \<or> v = CHR ''t'' \<or> v = CHR ''v''
                           \<or> v = CHR ''q'' \<or> v = CHR ''w'')
      then (case args of [] \<Rightarrow> ''%!'' @ [v] @ ''(MISSING)'' @ Sprintf f []
            | a # as \<Rightarrow> a @ Sprintf f as)
      else c # Sprintf (v # f) args)"

definition Errorf :: "string \<Rightarrow> string list \<Rightarrow> go_error" where
  "Errorf fmt args = ErrorString (Sprintf fmt args)"

text \<open>\<open>fmt.Errorf\<close> with one \<open>%w\<close> verb: \<open>args\<close> holds the text of the wrapped error in its place.\<close>

definition Errorw :: "string \<Rightarrow> string list \<Rightarrow> go_error \<Rightarrow> go_error" where
  "Errorw fmt args err = WrapError (Sprintf fmt args) err"

section \<open>Decimal rendering\<close>

definition digit_char :: "nat \<Rightarrow> char" where
  "digit_char d = char_of (48 + d)"

fun decimal :: "nat \<Rightarrow> string" where
  "decimal n = (if n < 10 then [digit_char n] else decimal (n div 10) @ [digit_char (n mod 10)])"

declare decimal.simps [simp del]

definition Itoa :: "int \<Rightarrow> string" where
  "Itoa n = (if n < 0 then CHR ''-'' # decimal (nat (- n)) else decimal (nat n))"

section \<open>Parsing\<close>

text \<open>The value of a byte as a digit of a base up to ten; a letter is never a digit there.\<close>

definition digit_val :: "char \<Rightarrow> nat option" where
  "digit_val c = (let n = of_char c :: nat in if 48 \<le> n \<and> n \<le> 57 then Some (n - 48) else None)"

abbreviation ErrSyntax :: string where "ErrSyntax \<equiv> ''invalid syntax''"
abbreviation ErrRange :: string where "ErrRange \<equiv> ''value out of range''"

text \<open>
  The loop of \<open>strconv.ParseUint\<close>: at each byte a syntax error for a non-digit, then a range error
  as soon as the value passes \<open>maxVal = 2^bitSize - 1\<close>. The cut-off test of the code guards its
  64-bit product; with \<open>bitSize\<close> 32 the product cannot overflow and the range test decides.
\<close>

fun parse_digits :: "nat \<Rightarrow> nat \<Rightarrow> nat \<Rightarrow> string \<Rightarrow> string + nat" where
  "parse_digits base maxVal n [] = Inr n"
| "parse_digits base maxVal n (c # s) =
     (case digit_val c of
        None \<Rightarrow> Inl ErrSyntax
      | Some d \<Rightarrow>
          if base \<le> d then Inl ErrSyntax
          else if maxVal < n * base + d then Inl ErrRange
          else parse_digits base maxVal (n * base + d) s)"

definition ParseUint :: "string \<Rightarrow> nat \<Rightarrow> nat \<Rightarrow> uint64 outcome" where
  "ParseUint s base bitSize =
     (if s = [] then Err (NumError ''ParseUint'' s ErrSyntax)
      else (case parse_digits base (2 ^ bitSize - 1) 0 s of
              Inl why \<Rightarrow> Err (NumError ''ParseUint'' s why)
            | Inr n \<Rightarrow> Ok (of_nat n)))"

text \<open>\<open>strconv.Atoi\<close> on a 64-bit platform: an optional sign, then decimal digits within \<open>int64\<close>.\<close>

definition Atoi :: "string \<Rightarrow> int outcome" where
  "Atoi s =
     (let neg = (s \<noteq> [] \<and> hd s = CHR ''-'');
          body = (if s \<noteq> [] \<and> (hd s = CHR ''-'' \<or> hd s = CHR ''+'') then tl s else s);
          limit = (if neg then 2 ^ 63 else 2 ^ 63 - 1 :: nat)
      in if body = [] then Err (NumError ''Atoi'' s ErrSyntax)
         else (case parse_digits 10 (2 ^ 64 - 1) 0 body of
                 Inl why \<Rightarrow> Err (NumError ''Atoi'' s why)
               | Inr n \<Rightarrow>
                   if limit < n then Err (NumError ''Atoi'' s ErrRange)
                   else Ok (if neg then - int n else int n)))"

definition ParseBool :: "string \<Rightarrow> bool outcome" where
  "ParseBool s =
     (if s \<in> {''1'', ''t'', ''T'', ''TRUE'', ''true'', ''True''} then Ok True
      else if s \<in> {''0'', ''f'', ''F'', ''FALSE'', ''false'', ''False''} then Ok False
      else Err (NumError ''ParseBool'' s ErrSyntax))"

lemma ParseUint_no_panic [simp]: "ParseUint s b n \<noteq> Panic p"
  by (simp add: ParseUint_def split: sum.splits)

lemma Atoi_no_panic [simp]: "Atoi s \<noteq> Panic p"
  by (simp add: Atoi_def Let_def split: sum.splits)

lemma ParseBool_no_panic [simp]: "ParseBool s \<noteq> Panic p"
  by (simp add: ParseBool_def)

section \<open>What a parsed number is\<close>

fun digits_val :: "nat \<Rightarrow> nat \<Rightarrow> string \<Rightarrow> nat" where
  "digits_val base n [] = n"
| "digits_val base n (c # s) = digits_val base (n * base + the (digit_val c)) s"

definition digits_of :: "nat \<Rightarrow> string \<Rightarrow> bool" where
  "digits_of base s \<longleftrightarrow> s \<noteq> [] \<and> (\<forall>c \<in> set s. \<exists>d < base. digit_val c = Some d)"

lemma digits_val_append: "digits_val b n (s @ t) = digits_val b (digits_val b n s) t"
  by (induction s arbitrary: n) auto

lemma digits_val_ge: "1 \<le> b \<Longrightarrow> n \<le> digits_val b n s"
proof (induction s arbitrary: n)
  case Nil
  then show ?case by simp
next
  case (Cons c s)
  have "n * 1 \<le> n * b" using Cons.prems by (rule mult_le_mono2)
  then have "n \<le> n * b + the (digit_val c)" by linarith
  also have "\<dots> \<le> digits_val b (n * b + the (digit_val c)) s" using Cons by blast
  finally show ?case by simp
qed

lemma digits_val_mono:
  "b \<le> b' \<Longrightarrow> n \<le> n' \<Longrightarrow> digits_val b n s \<le> digits_val b' n' s"
  by (induction s arbitrary: n n') (simp_all add: mult_le_mono)

lemma parse_digits_ok:
  assumes "\<forall>c \<in> set s. \<exists>d < base. digit_val c = Some d" and "1 \<le> base"
    and "digits_val base n s \<le> m"
  shows "parse_digits base m n s = Inr (digits_val base n s)"
  using assms
proof (induction s arbitrary: n)
  case Nil
  then show ?case by simp
next
  case (Cons c s)
  from Cons.prems(1) obtain d where d: "digit_val c = Some d" "d < base"
    by auto
  have "n * base + d \<le> m"
    using digits_val_ge [OF Cons.prems(2), of "n * base + d" s] Cons.prems(3) d by simp
  with d Cons show ?case by simp
qed

lemma parse_digits_Inr:
  "parse_digits base m n s = Inr v \<Longrightarrow>
     (\<forall>c \<in> set s. \<exists>d < base. digit_val c = Some d) \<and> v = digits_val base n s"
  by (induction s arbitrary: n) (auto split: option.splits if_splits)

lemma parse_digits_bound: "parse_digits base m n s = Inr v \<Longrightarrow> n \<le> m \<Longrightarrow> v \<le> m"
  by (induction s arbitrary: n) (auto split: option.splits if_splits)

lemma ParseUint_Ok_iff:
  assumes "1 \<le> base"
  shows "ParseUint s base k = Ok v \<longleftrightarrow>
     digits_of base s \<and> digits_val base 0 s < 2 ^ k \<and> v = of_nat (digits_val base 0 s)"
proof -
  have le: "x \<le> 2 ^ k - 1 \<longleftrightarrow> x < 2 ^ k" for x :: nat
    by (simp add: Nat.le_diff_conv2 less_eq_Suc_le)
  show ?thesis
    using parse_digits_ok [of s base 0 "2 ^ k - 1"] assms
      parse_digits_Inr [of base "2 ^ k - 1" 0 s] parse_digits_bound [of base "2 ^ k - 1" 0 s]
    unfolding ParseUint_def digits_of_def le by (auto simp: le split: sum.splits)
qed

lemma digit_val_char [simp]: "d < 10 \<Longrightarrow> digit_val (digit_char d) = Some d"
  by (simp add: digit_val_def digit_char_def)

lemma digits_val_decimal: "digits_val 10 0 (decimal n) = n"
proof (induction n rule: decimal.induct)
  case (1 n)
  show ?case
    by (cases "n < 10")
      (use 1 in \<open>simp_all add: decimal.simps [of n] digits_val_append\<close>)
qed

lemma digit_char_digit_val: "digit_val c = Some d \<Longrightarrow> c = digit_char d"
  unfolding digit_val_def digit_char_def Let_def by (auto split: if_splits)

lemma digits_of_decimal: "digits_of 10 (decimal n)"
proof (induction n rule: decimal.induct)
  case (1 n)
  show ?case
  proof (cases "n < 10")
    case True
    then show ?thesis by (simp add: decimal.simps [of n] digits_of_def)
  next
    case False
    have "digit_val (digit_char (n mod 10)) = Some (n mod 10)" by simp
    with 1 [OF False] False show ?thesis
      by (auto simp: decimal.simps [of n] digits_of_def)
  qed
qed

lemma decimal_snoc:
  assumes "0 < n" and "d < 10"
  shows "decimal (n * 10 + d) = decimal n @ [digit_char d]"
  using assms by (subst decimal.simps) simp

lemma digits_of_snocD:
  assumes "digits_of b (s @ [c])"
  obtains d where "digit_val c = Some d" and "d < b" and "c = digit_char d"
    and "s = [] \<or> digits_of b s"
  using assms by (auto simp: digits_of_def dest: digit_char_digit_val)

text \<open>
  Rendering a parsed decimal text gives a text with the same value in every base (it differs in
  leading zeros at most) and with no digit the text did not have.
\<close>

lemma digits_val_render:
  "digits_of 10 s \<Longrightarrow> digits_val b 0 (decimal (digits_val 10 0 s)) = digits_val b 0 s"
proof (induction s rule: rev_induct)
  case Nil
  then show ?case by (simp add: digits_of_def)
next
  case (snoc c s)
  from snoc.prems obtain d where c: "digit_val c = Some d" "d < 10" "c = digit_char d"
    and s: "s = [] \<or> digits_of 10 s"
    by (rule digits_of_snocD)
  have v: "digits_val k 0 (s @ [c]) = digits_val k 0 s * k + d" for k
    by (simp add: digits_val_append c(1))
  show ?case
  proof (cases "digits_val 10 0 s = 0")
    case True
    have "digits_val b 0 s = 0"
    proof (cases "s = []")
      case False
      with s snoc.IH True have "digits_val b 0 s = digits_val b 0 (decimal 0)" by simp
      then show ?thesis by (simp add: decimal.simps)
    qed simp
    with True c show ?thesis unfolding v by (simp add: decimal.simps)
  next
    case False
    then have "s \<noteq> []" by auto
    with s snoc.IH have "digits_val b 0 (decimal (digits_val 10 0 s)) = digits_val b 0 s"
      by simp
    with False c show ?thesis
      unfolding v by (simp add: decimal_snoc digits_val_append)
  qed
qed

lemma set_render: "digits_of 10 s \<Longrightarrow> set (decimal (digits_val 10 0 s)) \<subseteq> set s"
proof (induction s rule: rev_induct)
  case Nil
  then show ?case by (simp add: digits_of_def)
next
  case (snoc c s)
  from snoc.prems obtain d where c: "digit_val c = Some d" "d < 10" "c = digit_char d"
    and s: "s = [] \<or> digits_of 10 s"
    by (rule digits_of_snocD)
  have v: "digits_val 10 0 (s @ [c]) = digits_val 10 0 s * 10 + d"
    by (simp add: digits_val_append c(1))
  show ?case
  proof (cases "digits_val 10 0 s = 0")
    case True
    with c show ?thesis unfolding v by (simp add: decimal.simps)
  next
    case False
    then have "s \<noteq> []" by auto
    with s snoc.IH have "set (decimal (digits_val 10 0 s)) \<subseteq> set s" by simp
    with False c show ?thesis unfolding v by (auto simp: decimal_snoc)
  qed
qed

lemma decimal_nonempty [simp]: "decimal n \<noteq> []"
  by (subst decimal.simps) simp

lemma digits_of_render:
  assumes "digits_of b s" and "b \<le> 10"
  shows "digits_of b (decimal (digits_val 10 0 s))"
proof -
  have "digits_of 10 s"
    using assms by (fastforce simp: digits_of_def)
  then have "set (decimal (digits_val 10 0 s)) \<subseteq> set s"
    by (rule set_render)
  with assms(1) show ?thesis
    unfolding digits_of_def by auto
qed

lemma digits_of_mono: "digits_of b s \<Longrightarrow> b \<le> b' \<Longrightarrow> digits_of b' s"
  unfolding digits_of_def by fastforce

end
