(* ===== verification/Go_Path.thy ===== *)
theory Go_Path
  imports Go_Strconv
begin

text \<open>
  \<open>path/filepath\<close> on Unix: \<open>Clean\<close> (the lexical normal form of a path), \<open>Join\<close> and \<open>Split\<close>, and what
  they do on absolute paths given by their components.
\<close>

text \<open>
  \<open>Clean\<close> reads the components from the left: empty ones and \<open>.\<close> are dropped, \<open>..\<close> removes the
  component before it, is dropped at the root, and stays at the start of a relative path. The stack
  holds the components kept so far, innermost first.
\<close>

fun clean_step :: "bool \<Rightarrow> string \<Rightarrow> string list \<Rightarrow> string list" where
  "clean_step rooted c st =
     (if c = [] \<or> c = ''.'' then st
      else if c = ''..'' then
        (case st of
           [] \<Rightarrow> if rooted then [] else [''..'']
         | t # ts \<Rightarrow> if t = ''..'' then ''..'' # t # ts else ts)
      else c # st)"

definition Clean :: "string \<Rightarrow> string" where
  "Clean p =
     (if p = [] then ''.''
      else let rooted = (hd p = CHR ''/'');
               out = join_char (CHR ''/'') (rev (fold (clean_step rooted) (Split p ''/'') []))
           in if rooted then CHR ''/'' # out else if out = [] then ''.'' else out)"

text \<open>\<open>filepath.Join\<close>: leading empty elements are skipped, the rest is joined by slashes and cleaned.\<close>

definition Join :: "string list \<Rightarrow> string" where
  "Join elems =
     (case dropWhile (\<lambda>e. e = []) elems of
        [] \<Rightarrow> []
      | es \<Rightarrow> Clean (join_char (CHR ''/'') es))"

text \<open>\<open>filepath.Split\<close>: the directory up to and with the last slash, and the file name after it.\<close>

definition path_Split :: "string \<Rightarrow> string \<times> string" where
  "path_Split p =
     (let file = rev (takeWhile (\<lambda>c. c \<noteq> CHR ''/'') (rev p))
      in (take (length p - length file) p, file))"

section \<open>Absolute paths by their components\<close>

text \<open>A name that can be a directory entry: not empty, no slash, not \<open>.\<close> and not \<open>..\<close>.\<close>

definition simple_name :: "string \<Rightarrow> bool" where
  "simple_name c \<longleftrightarrow> c \<noteq> [] \<and> c \<noteq> ''.'' \<and> c \<noteq> ''..'' \<and> CHR ''/'' \<notin> set c"

definition abs_path :: "string list \<Rightarrow> string" where
  "abs_path cs = concat (map (\<lambda>c. CHR ''/'' # c) cs)"

lemma abs_path_simps [simp]:
  "abs_path [] = []"
  "abs_path (c # cs) = CHR ''/'' # c @ abs_path cs"
  "abs_path (cs @ ds) = abs_path cs @ abs_path ds"
  by (simp_all add: abs_path_def)

lemma abs_path_join: "cs \<noteq> [] \<Longrightarrow> abs_path cs = CHR ''/'' # join_char (CHR ''/'') cs"
proof (induction cs)
  case (Cons c cs)
  then show ?case by (cases cs) simp_all
qed simp

lemma simple_nameD:
  assumes "simple_name c"
  shows "c \<noteq> []" and "c \<noteq> ''.''" and "c \<noteq> ''..''" and "CHR ''/'' \<notin> set c"
  using assms by (simp_all add: simple_name_def)

lemma split_abs_path:
  assumes "cs \<noteq> []" and "\<And>c. c \<in> set cs \<Longrightarrow> CHR ''/'' \<notin> set c"
  shows "Split (abs_path cs) ''/'' = [] # cs"
  using assms by (simp add: abs_path_join split_join_char)

lemma fold_clean_simple:
  "\<forall>c \<in> set cs. simple_name c \<Longrightarrow> fold (clean_step r) cs st = rev cs @ st"
  by (induction cs arbitrary: st) (auto simp: simple_name_def)

lemma Clean_abs_path:
  assumes "cs \<noteq> []" and "\<forall>c \<in> set cs. simple_name c"
  shows "Clean (abs_path cs) = abs_path cs"
proof -
  have "Split (abs_path cs) ''/'' = [] # cs"
    using assms by (intro split_abs_path) (auto dest: simple_nameD)
  moreover have "abs_path cs \<noteq> []" and "hd (abs_path cs) = CHR ''/''"
    using assms(1) by (cases cs; simp)+
  ultimately show ?thesis
    using assms unfolding Clean_def Let_def
    by (simp add: fold_clean_simple abs_path_join del: Split_char)
qed

lemma join_char_abs_path:
  "ds \<noteq> [] \<Longrightarrow> join_char (CHR ''/'') (abs_path cs # ds) = abs_path (cs @ ds)"
  by (cases ds) (simp_all add: abs_path_join [symmetric])

text \<open>Joining simple names below an absolute path appends them.\<close>

lemma Join_abs_path:
  assumes "cs \<noteq> []" and "ds \<noteq> []" and "\<forall>c \<in> set (cs @ ds). simple_name c"
  shows "Join (abs_path cs # ds) = abs_path (cs @ ds)"
proof -
  have "abs_path cs \<noteq> []" using assms(1) by (cases cs) simp_all
  then have "Join (abs_path cs # ds) = Clean (abs_path (cs @ ds))"
    using assms(2) by (simp add: Join_def join_char_abs_path del: abs_path_simps)
  also have "\<dots> = abs_path (cs @ ds)"
    using assms by (intro Clean_abs_path) simp_all
  finally show ?thesis .
qed

lemma path_Split_abs_path:
  assumes "CHR ''/'' \<notin> set c"
  shows "path_Split (abs_path (cs @ [c])) = (abs_path cs @ ''/'', c)"
proof -
  have "takeWhile (\<lambda>x. x \<noteq> CHR ''/'') (rev c @ CHR ''/'' # r) = rev c" for r
    using assms by (subst takeWhile_append2) auto
  then show ?thesis
    by (simp add: path_Split_def Let_def)
qed

lemma abs_path_inj:
  assumes "cs \<noteq> []" and "ds \<noteq> []" and "abs_path cs = abs_path ds"
    and "\<And>c. c \<in> set cs \<union> set ds \<Longrightarrow> CHR ''/'' \<notin> set c"
  shows "cs = ds"
proof -
  have "Split (abs_path cs) ''/'' = [] # cs"
    using assms(4) by (intro split_abs_path [OF assms(1)]) blast
  moreover have "Split (abs_path ds) ''/'' = [] # ds"
    using assms(4) by (intro split_abs_path [OF assms(2)]) blast
  ultimately show ?thesis
    unfolding assms(3) by simp
qed

lemma path_Split_join: "path_Split p = (dir, file) \<Longrightarrow> p = dir @ file \<and> CHR ''/'' \<notin> set file"
proof -
  assume s: "path_Split p = (dir, file)"
  let ?f = "takeWhile (\<lambda>c. c \<noteq> CHR ''/'') (rev p)"
  have p: "p = rev (dropWhile (\<lambda>c. c \<noteq> CHR ''/'') (rev p)) @ rev ?f"
    by (metis rev_append rev_rev_ident takeWhile_dropWhile_id)
  have f: "file = rev ?f" and d: "dir = take (length p - length ?f) p"
    using s by (simp_all add: path_Split_def Let_def)
  have "dir = rev (dropWhile (\<lambda>c. c \<noteq> CHR ''/'') (rev p))"
    unfolding d by (subst (2) p) (metis add_diff_cancel_right' append_eq_conv_conj length_append length_rev p)
  then show ?thesis
    using p f by (auto dest: set_takeWhileD)
qed

end
