(* ===== verification/Csi_Types.thy ===== *)
theory Csi_Types
  imports Go_Path
begin

text \<open>
  The data the driver's handlers exchange (CSI requests and responses, requests of the Quobyte
  API), the two interfaces they call (\<open>Mounter\<close> and the Quobyte client) as records of functions on
  the world, and the driver's own struct. A Go map is an association list, in the order in which a
  \<open>range\<close> loop visits it; a pointer or map that may be nil is an \<open>option\<close>.
\<close>

type_synonym gomap = "(string \<times> string) list"

definition map_get :: "gomap \<Rightarrow> string \<Rightarrow> string" where
  "map_get m k = (case map_of m k of None \<Rightarrow> [] | Some v \<Rightarrow> v)"

section \<open>CSI messages\<close>

datatype VolumeCapability = NoAccessType | BlockVolume | MountVolume "string list"

fun GetBlock :: "VolumeCapability \<Rightarrow> unit option" where
  "GetBlock BlockVolume = Some ()"
| "GetBlock _ = None"

fun GetMount :: "VolumeCapability \<Rightarrow> string list option" where
  "GetMount (MountVolume flags) = Some flags"
| "GetMount _ = None"

datatype VolumeContentSource = NoSource | SourceVolume string | SourceSnapshot string

fun GetSnapshot :: "VolumeContentSource \<Rightarrow> string option" where
  "GetSnapshot (SourceSnapshot i) = Some i"
| "GetSnapshot _ = None"

record CreateVolumeRequest =
  cv_Name :: string
  cv_CapacityRange :: "int64 option"
  cv_VolumeCapabilities :: "VolumeCapability list option"
  cv_Parameters :: "gomap option"
  cv_Secrets :: gomap
  cv_VolumeContentSource :: "VolumeContentSource option"

record Volume =
  VolumeId :: string
  CapacityBytes :: int64
  ContentSource :: "VolumeContentSource option"
  VolumeContext :: gomap

record DeleteVolumeRequest =
  dv_VolumeId :: string
  dv_Secrets :: gomap

record CreateSnapshotReq =
  cs_SourceVolumeId :: string
  cs_Name :: string
  cs_Secrets :: gomap
  cs_Parameters :: gomap

record Snapshot =
  SnapshotId :: string
  SourceVolumeId :: string
  CreationTime :: int64
  ReadyToUse :: bool

record SnapshotIdRequest =
  sr_SnapshotId :: string
  sr_Secrets :: gomap

record ControllerExpandVolumeRequest =
  ev_VolumeId :: string
  ev_CapacityRange :: "int64 option"
  ev_Secrets :: gomap

record NodePublishVolumeRequest =
  np_VolumeId :: string
  np_TargetPath :: string
  np_VolumeCapability :: "VolumeCapability option"
  np_Secrets :: gomap
  np_VolumeContext :: "gomap option"

section \<open>Messages of the Quobyte API\<close>

record Label =
  lb_Name :: string
  lb_Value :: string

record WhoAmIResponse =
  UserName :: string
  PrimaryGroup :: string

record VolumeRequest =
  vr_Name :: string
  vr_TenantId :: string
  vr_RootUserId :: string
  vr_RootGroupId :: string
  vr_AccessMode :: int32
  vr_Label :: "Label list"

datatype TaskType = DELETE_FILES_IN_VOLUMES

record CreateTaskRequest =
  RestrictToVolumes :: "string list"
  task_type :: TaskType
  DirectoryPath :: string
  RunAsUser :: bool

record SnapshotRequest =
  qs_VolumeUuid :: string
  qs_Name :: string
  qs_Pinned :: bool

record SnapshotEntry =
  se_VolumeUuid :: string
  se_Name :: string
  se_Timestamp :: int64

section \<open>The interfaces\<close>

record User = Uid :: string
record Group = Gid :: string
record FileInfo = IsDir :: bool

record Statfs =
  Blocks :: uint64
  Bfree :: uint64
  Bavail :: uint64
  Files :: uint64
  Ffree :: uint64
  Bsize :: int64

record 'w Mounter =
  m_Mkdirs :: "string \<Rightarrow> FileMode \<Rightarrow> ('w, unit) io"
  m_Mkdir :: "string \<Rightarrow> FileMode \<Rightarrow> ('w, unit) io"
  m_Chmod :: "string \<Rightarrow> FileMode \<Rightarrow> ('w, unit) io"
  m_Chown :: "string \<Rightarrow> int \<Rightarrow> int \<Rightarrow> ('w, unit) io"
  m_Rename :: "string \<Rightarrow> string \<Rightarrow> ('w, unit) io"
  m_Lookup :: "string \<Rightarrow> ('w, User) io"
  m_LookupGroup :: "string \<Rightarrow> ('w, Group) io"
  m_Mount :: "string \<Rightarrow> string \<Rightarrow> ('w, unit) io"
  m_Unmount :: "string \<Rightarrow> ('w, unit) io"
  m_Stat :: "string \<Rightarrow> ('w, FileInfo) io"
  m_Statfs :: "string \<Rightarrow> ('w, Statfs) io"
  m_SetXAttr :: "string \<Rightarrow> string \<Rightarrow> string \<Rightarrow> ('w, unit) io"
  m_CreateAccessKeyContextHandle :: "('w, string) io"
  m_GetNodeName :: string
  m_RemoveAll :: "string \<Rightarrow> ('w, unit) io"

text \<open>
  The methods of \<open>quobyte.ExtendedQuobyteApi\<close> the driver calls, of the package
  \<open>github.com/quobyte/api\<close>, which is not part of the repository: a parameter, with nothing assumed.
\<close>

record 'w QuobyteApi =
  q_WhoAmI :: "('w, WhoAmIResponse) io"
  q_GetTenantUUID :: "string \<Rightarrow> ('w, string) io"
  q_CreateVolume :: "VolumeRequest \<Rightarrow> ('w, string) io"
  q_ResolveVolumeNameToUUID :: "string \<Rightarrow> string \<Rightarrow> ('w, string) io"
  q_SetVolumeQuota :: "string \<Rightarrow> int64 \<Rightarrow> ('w, unit) io"
  q_DeleteVolumeByResolvingNamesToUUID :: "string \<Rightarrow> string \<Rightarrow> ('w, unit) io"
  q_EraseVolumeByResolvingNamesToUUID :: "string \<Rightarrow> string \<Rightarrow> bool \<Rightarrow> ('w, unit) io"
  q_CreateTask :: "CreateTaskRequest \<Rightarrow> ('w, unit) io"
  q_GetVolumeUUID :: "string \<Rightarrow> string \<Rightarrow> ('w, string) io"
  q_CreateSnapshot :: "SnapshotRequest \<Rightarrow> ('w, unit) io"
  q_DeleteSnapshot :: "string \<Rightarrow> string \<Rightarrow> ('w, unit) io"
  q_ListSnapshots :: "string \<Rightarrow> ('w, SnapshotEntry list) io"

section \<open>The driver\<close>

record 'w QuobyteDriver =
  drv_Name :: string
  drv_Version :: string
  endpoint :: string
  clientMountPoint :: string
  NodeName :: string
  ApiURL :: string
  UseK8SNamespaceAsQuobyteTenant :: bool
  IsQuobyteAccessKeyMountsEnabled :: bool
  ImmediateErase :: bool
  QuobyteVersion :: int
  enabledVolumeMetrics :: bool
  UseDeleteFilesTask :: bool
  NewQuobyteApiClient :: "string \<Rightarrow> gomap \<Rightarrow> ('w, 'w QuobyteApi) io"
  mounter :: "'w Mounter"

text \<open>The client factory of a driver, called with the driver's API URL as every handler does.\<close>

abbreviation new_client :: "'w QuobyteDriver \<Rightarrow> gomap \<Rightarrow> ('w, 'w QuobyteApi) io" where
  "new_client d secrets \<equiv> NewQuobyteApiClient d (ApiURL d) secrets"

end
