(* ===== verification/Utils.thy ===== *)
theory Utils
  imports Csi_Types
begin

text \<open>
  \<open>driver/utils.go\<close>: the access-key attribute text, the volume UUID in an error message, validation
  of a create request, the parser of volume labels, and the tests for API credentials in a secret.
  The lemmas say exactly when each succeeds and that label texts parse back.
\<close>

definition VOLUME_HANDLE_PART_SEPARATOR :: string where
  "VOLUME_HANDLE_PART_SEPARATOR = ''|''"

definition KEY_VAL :: string where
  \<open>KEY_VAL = ''{ "access_key_id": "%s","access_key_secret": "%s","access_context": "%s","access_key_scope": "context" }''\<close>

definition VOL_UUID_LOCATOR :: string where
  "VOL_UUID_LOCATOR = ''used by volume ''"

definition secretUserKey :: string where "secretUserKey = ''user''"
definition secretPasswordKey :: string where "secretPasswordKey = ''password''"
definition accessKeyID :: string where "accessKeyID = ''accessKeyId''"
definition accessKeySecret :: string where "accessKeySecret = ''accessKeySecret''"

lemmas secret_keys = secretUserKey_def secretPasswordKey_def accessKeyID_def accessKeySecret_def

definition getAccessKeyValStr :: "string \<Rightarrow> string \<Rightarrow> string \<Rightarrow> string" where
  "getAccessKeyValStr key_id key_secret accessKeyHandle =
     Sprintf KEY_VAL [key_id, key_secret, accessKeyHandle]"

text \<open>\<open>str[i:]\<close> with Go's bounds check.\<close>

definition slice_from :: "string \<Rightarrow> int \<Rightarrow> string outcome" where
  "slice_from s i =
     (if 0 \<le> i \<and> i \<le> int (length s) then Ok (drop (nat i) s)
      else Panic ''slice bounds out of range'')"

definition getUUIDFromError :: "string \<Rightarrow> string outcome" where
  "getUUIDFromError str =
     (let index = Index str VOL_UUID_LOCATOR
      in bind_outcome (slice_from str (index + int (length VOL_UUID_LOCATOR)))
           (\<lambda>uuid. Ok (TrimSpace uuid)))"

text \<open>The loop over the requested capabilities stops at the first block volume.\<close>

fun check_capabilities :: "VolumeCapability list \<Rightarrow> unit outcome" where
  "check_capabilities [] = Ok ()"
| "check_capabilities (cap # caps) =
     (if GetBlock cap \<noteq> None
      then Err (ErrorString ''Quobyte CSI provisioner does not support block volumes.'')
      else check_capabilities caps)"

definition validateCreateVolumeRequest :: "CreateVolumeRequest option \<Rightarrow> unit outcome" where
  "validateCreateVolumeRequest mreq =
     (case mreq of
        None \<Rightarrow> Err (ErrorString ''invalid create volume request'')
      | Some req \<Rightarrow>
          if cv_CapacityRange req = None then Err (ErrorString ''capacity range must not be empty'')
          else if cv_Parameters req = None then Err (ErrorString ''request must not be empty'')
          else if cv_Secrets req = [] then
            Err (Errorf ''secrets are required to dynamically provision a volume. Provide csi.storage.k8s.io/provisioner-secret-<name/namespace> in storage class'' [])
          else (case cv_VolumeCapabilities req of
                  None \<Rightarrow> Ok ()
                | Some caps \<Rightarrow> check_capabilities caps))"

text \<open>The body of the loop of \<open>parseLabels\<close> on one element of the comma-separated text.\<close>

definition parse_label :: "string \<Rightarrow> Label outcome" where
  "parse_label kv =
     (let labelKV = TrimSpace kv;
          labelKVArr = Split labelKV '':''
      in if length labelKVArr < 2 then
           Err (Errorf ''Found invalid label '%s'. Label should be of the form <Name>:<Value>.'' [labelKV])
         else
           bind_outcome (slice_at labelKVArr 0) (\<lambda>name.
           let key = TrimSpace name
           in bind_outcome (slice_at labelKVArr 1) (\<lambda>value.
              let val = TrimSpace value
              in if key = [] then
                   Err (Errorf ''Found invalid label '%s'. Label name must not be empty.'' [labelKV])
                 else if val = [] then
                   Err (Errorf ''Found invalid label '%s'. Label value must not be empty.'' [labelKV])
                 else Ok \<lparr>lb_Name = key, lb_Value = val\<rparr>)))"

text \<open>Behind the check of the length the two look-ups are in range.\<close>

lemma parse_label_guarded:
  "parse_label kv =
     (let labelKV = TrimSpace kv;
          labelKVArr = Split labelKV '':''
      in if length labelKVArr < 2 then
           Err (Errorf ''Found invalid label '%s'. Label should be of the form <Name>:<Value>.'' [labelKV])
         else
           (let key = TrimSpace (labelKVArr ! 0);
                val = TrimSpace (labelKVArr ! 1)
            in if key = [] then
                 Err (Errorf ''Found invalid label '%s'. Label name must not be empty.'' [labelKV])
               else if val = [] then
                 Err (Errorf ''Found invalid label '%s'. Label value must not be empty.'' [labelKV])
               else Ok \<lparr>lb_Name = key, lb_Value = val\<rparr>))"
  unfolding parse_label_def Let_def by (auto simp: slice_at_within simp del: Split_char)

fun parse_label_list :: "Label list \<Rightarrow> string list \<Rightarrow> Label list outcome" where
  "parse_label_list parsedLabels [] = Ok parsedLabels"
| "parse_label_list parsedLabels (kv # kvs) =
     bind_outcome (parse_label kv) (\<lambda>label. parse_label_list (parsedLabels @ [label]) kvs)"

definition parseLabels :: "string \<Rightarrow> Label list outcome" where
  "parseLabels labels = parse_label_list [] (Split labels '','')"

definition getInvalidSnapshotIdError :: "string \<Rightarrow> go_error" where
  "getInvalidSnapshotIdError snapshotId =
     Errorf ''given snapshot id %s is not of the form <Tenant>%s<Volume>%s<Snapshot_Name>[%sSubDirectory]''
       [snapshotId, VOLUME_HANDLE_PART_SEPARATOR, VOLUME_HANDLE_PART_SEPARATOR,
        VOLUME_HANDLE_PART_SEPARATOR]"

definition hasApiAccessKeyIdAndSecret :: "gomap \<Rightarrow> bool" where
  "hasApiAccessKeyIdAndSecret secrets \<longleftrightarrow>
     map_of secrets accessKeyID \<noteq> None \<and> map_of secrets accessKeySecret \<noteq> None"

definition hasApiUserAndPassword :: "gomap \<Rightarrow> bool" where
  "hasApiUserAndPassword secrets \<longleftrightarrow>
     map_of secrets secretUserKey \<noteq> None \<and> map_of secrets secretPasswordKey \<noteq> None"

definition hasApiCredentials :: "gomap \<Rightarrow> bool" where
  "hasApiCredentials secrets \<longleftrightarrow> hasApiUserAndPassword secrets \<or> hasApiAccessKeyIdAndSecret secrets"

section \<open>Validation\<close>

lemma check_capabilities_Ok: "check_capabilities caps = Ok () \<longleftrightarrow> BlockVolume \<notin> set caps"
proof (induction caps)
  case (Cons cap caps)
  then show ?case by (cases cap) auto
qed simp

lemma check_capabilities_no_panic [simp]: "check_capabilities caps \<noteq> Panic p"
  by (induction caps) auto

lemma validate_Ok_iff:
  "validateCreateVolumeRequest mreq = Ok () \<longleftrightarrow>
     (\<exists>req cap ps. mreq = Some req \<and> cv_CapacityRange req = Some cap \<and> cv_Parameters req = Some ps \<and>
        cv_Secrets req \<noteq> [] \<and>
        (\<forall>caps. cv_VolumeCapabilities req = Some caps \<longrightarrow> BlockVolume \<notin> set caps))"
  by (auto simp: validateCreateVolumeRequest_def check_capabilities_Ok split: option.splits)

lemma validate_no_panic [simp]: "validateCreateVolumeRequest mreq \<noteq> Panic p"
  by (auto simp: validateCreateVolumeRequest_def split: option.splits)

section \<open>Labels\<close>

lemma parse_label_no_panic [simp]: "parse_label kv \<noteq> Panic p"
  by (auto simp: parse_label_guarded Let_def)

lemma parse_label_list_no_panic [simp]: "parse_label_list acc kvs \<noteq> Panic p"
  by (induction kvs arbitrary: acc) (auto simp: bind_outcome_Panic)

lemma parseLabels_no_panic [simp]: "parseLabels s \<noteq> Panic p"
  by (simp add: parseLabels_def)

lemma parse_label_list_Ok:
  "parse_label_list acc kvs = Ok ls \<longleftrightarrow> (\<exists>ms. ls = acc @ ms \<and> list_all2 (\<lambda>kv l. parse_label kv = Ok l) kvs ms)"
proof (induction kvs arbitrary: acc)
  case Nil
  then show ?case by auto
next
  case (Cons kv kvs)
  show ?case
    unfolding parse_label_list.simps bind_outcome_Ok Cons.IH
    by (auto simp: list_all2_Cons1)
qed

lemma parseLabels_Ok:
  "parseLabels s = Ok ls \<longleftrightarrow> list_all2 (\<lambda>kv l. parse_label kv = Ok l) (Split s '','') ls"
  by (simp add: parseLabels_def parse_label_list_Ok)

text \<open>A text that stays as it is under \<open>TrimSpace\<close> and can stand between separators.\<close>

definition plain :: "string \<Rightarrow> bool" where
  "plain s \<longleftrightarrow> s \<noteq> [] \<and> TrimSpace s = s \<and> CHR '','' \<notin> set s \<and> CHR '':'' \<notin> set s"

lemma parse_label_sound:
  assumes "parse_label kv = Ok l" and "CHR '','' \<notin> set kv"
  shows "plain (lb_Name l) \<and> plain (lb_Value l)"
proof -
  let ?ps = "Split (TrimSpace kv) '':''"
  from assms(1) have len: "1 < length ?ps" and l: "l = \<lparr>lb_Name = TrimSpace (?ps ! 0), lb_Value = TrimSpace (?ps ! 1)\<rparr>"
    and ne: "TrimSpace (?ps ! 0) \<noteq> []" "TrimSpace (?ps ! 1) \<noteq> []"
    unfolding parse_label_guarded Let_def by (auto simp: not_less split: if_splits)
  have part: "CHR '':'' \<notin> set (?ps ! i) \<and> CHR '','' \<notin> set (?ps ! i)" if "i < length ?ps" for i
  proof -
    have mem: "?ps ! i \<in> set ?ps" using that by (rule nth_mem)
    then have "CHR '':'' \<notin> set (?ps ! i)" by (auto dest: split_char_parts)
    moreover have "set (?ps ! i) \<subseteq> set (TrimSpace kv)"
      using mem by (simp add: set_split_char)
    ultimately show ?thesis
      using assms(2) set_TrimSpace [of kv] by blast
  qed
  have "0 < length ?ps" using len by simp
  then show ?thesis
    using part [of 0] part [of 1] len l ne set_TrimSpace [of "?ps ! 0"] set_TrimSpace [of "?ps ! 1"]
    unfolding plain_def by auto
qed

definition render_label :: "Label \<Rightarrow> string" where
  "render_label l = lb_Name l @ '':'' @ lb_Value l"

lemma TrimSpace_plain_pair:
  assumes "plain k" and "plain v"
  shows "TrimSpace (k @ '':'' @ v) = k @ '':'' @ v"
  using assms unfolding plain_def TrimSpace_fixed by auto

lemma parse_render_label:
  assumes "plain (lb_Name l)" and "plain (lb_Value l)"
  shows "parse_label (render_label l) = Ok l"
proof -
  have "Split (TrimSpace (render_label l)) '':'' = [lb_Name l, lb_Value l]"
    using assms unfolding render_label_def TrimSpace_plain_pair [OF assms]
    by (simp add: split_char_append split_char_free plain_def)
  then show ?thesis
    using assms by (simp add: parse_label_guarded Let_def plain_def del: Split_char)
qed

section \<open>Properties\<close>

text \<open>
  C28 (label texts parse back): a non-empty list of labels whose names and values are non-empty,
  trimmed and free of the two separators, written as \<open>name:value\<close> pairs joined by commas, is parsed
  by \<open>parseLabels\<close> back to itself.
\<close>

theorem labels_roundtrip:
  assumes "ls \<noteq> []" and "\<forall>l \<in> set ls. plain (lb_Name l) \<and> plain (lb_Value l)"
  shows "parseLabels (join_char (CHR '','') (map render_label ls)) = Ok ls"
proof -
  have "Split (join_char (CHR '','') (map render_label ls)) '','' = map render_label ls"
    using assms by (intro comma_text.split_join) (auto simp: render_label_def plain_def)
  then show ?thesis
    using assms(2) unfolding parseLabels_Ok
    by (auto simp: list_all2_map1 list_all2_same parse_render_label simp del: Split_char)
qed

theorem labels_roundtrip_witness:
  "parseLabels ''k:v,k1:v1'' = Ok [\<lparr>lb_Name = ''k'', lb_Value = ''v''\<rparr>, \<lparr>lb_Name = ''k1'', lb_Value = ''v1''\<rparr>]"
  using labels_roundtrip
    [of "[\<lparr>lb_Name = ''k'', lb_Value = ''v''\<rparr>, \<lparr>lb_Name = ''k1'', lb_Value = ''v1''\<rparr>]"]
  by (simp add: plain_def TrimSpace_def is_space_def render_label_def)

text \<open>
  (what a parsed label is): when \<open>parseLabels\<close> succeeds, there is exactly one label per
  comma-separated element (so an empty element is an error, never skipped), and every name and
  value is non-empty, trimmed, and free of commas and colons.
\<close>

theorem labels_wellformed:
  assumes "parseLabels s = Ok ls"
  shows "length ls = Suc (count_list s (CHR '','')) \<and>
     (\<forall>l \<in> set ls. plain (lb_Name l) \<and> plain (lb_Value l))"
proof
  have rel: "list_all2 (\<lambda>kv l. parse_label kv = Ok l) (split_char (CHR '','') s) ls"
    using assms by (simp add: parseLabels_Ok)
  from list_all2_lengthD [OF this] show "length ls = Suc (count_list s (CHR '',''))"
    by (simp add: length_split_char)
  show "\<forall>l \<in> set ls. plain (lb_Name l) \<and> plain (lb_Value l)"
  proof
    fix l assume "l \<in> set ls"
    then obtain i where i: "i < length ls" and l: "l = ls ! i"
      by (auto simp: in_set_conv_nth)
    have "parse_label (split_char (CHR '','') s ! i) = Ok l"
      using list_all2_nthD2 [OF rel i] l by simp
    moreover have "split_char (CHR '','') s ! i \<in> set (split_char (CHR '','') s)"
      using i list_all2_lengthD [OF rel] by simp
    ultimately show "plain (lb_Name l) \<and> plain (lb_Value l)"
      using split_char_parts parse_label_sound by blast
  qed
qed

theorem labels_wellformed_witness:
  "parseLabels ''a : b:c'' = Ok [\<lparr>lb_Name = ''a'', lb_Value = ''b''\<rparr>] \<and>
   length [\<lparr>lb_Name = ''a'', lb_Value = ''b''\<rparr>] = Suc (count_list ''a : b:c'' (CHR '',''))"
proof -
  have run: "parseLabels ''a : b:c'' = Ok [\<lparr>lb_Name = ''a'', lb_Value = ''b''\<rparr>]"
    by (simp add: parseLabels_def parse_label_guarded Let_def TrimSpace_def is_space_def)
  show ?thesis using run labels_wellformed [OF run] by blast
qed

end
