(* ===== verification/Client_Factory.thy ===== *)
theory Client_Factory
  imports Utils
begin

text \<open>
  \<open>driver/quobyte_api_client_factory.go\<close>: the factory of Quobyte API clients with its global cache.
  The LRU cache (\<open>hashicorp/golang-lru\<close>) and the client type (\<open>quobyte.QuobyteClient\<close>) are third
  party: the cache's two operations, the client's constructor and its method set are parameters.
  What the theorems use of the cache is its documented behaviour, the predicate \<open>lru_contract\<close>.
\<close>

text \<open>A cached value is an \<open>interface{}\<close>: the code tests that its dynamic type is the client's.\<close>

datatype 'cl cached = ClientPtr 'cl | OtherValue

record ('w, 'cl) lru_cache =
  lru_Get :: "string \<Rightarrow> ('w, 'cl cached option) io"
  lru_Add :: "string \<Rightarrow> 'cl cached \<Rightarrow> ('w, unit) io"

text \<open>
  The cache is made when the program starts; when that fails \<open>klog.Fatalf\<close> ends the process with
  status 255, the left alternative.
\<close>

definition init_clientCache :: "(nat \<Rightarrow> 'cache outcome) \<Rightarrow> (nat + 'cache) outcome" where
  "init_clientCache cache_New =
     (case cache_New 1000 of
        Ok clientCache \<Rightarrow> Ok (Inr clientCache)
      | Err err \<Rightarrow> Ok (Inl 255)
      | Panic p \<Rightarrow> Panic p)"

record ('w, 'cl) client_package =
  NewQuobyteClient :: "string \<Rightarrow> string \<Rightarrow> string \<Rightarrow> 'cl"
  as_api :: "'cl \<Rightarrow> 'w QuobyteApi"

text \<open>The credentials the factory uses: an access key first, then user and password.\<close>

definition api_credentials :: "gomap \<Rightarrow> (string \<times> string) outcome" where
  "api_credentials secrets =
     (if hasApiAccessKeyIdAndSecret secrets then
        Ok (map_get secrets accessKeyID, map_get secrets accessKeySecret)
      else if hasApiUserAndPassword secrets then
        Ok (map_get secrets secretUserKey, map_get secrets secretPasswordKey)
      else Err (Errorf ''Requires Quobyte management API user/password or accessKeyId/accessKeySecret combination'' []))"

definition QuobyteApiClientFactory ::
  "('w, 'cl) lru_cache \<Rightarrow> ('w, 'cl) client_package \<Rightarrow> string \<Rightarrow> gomap \<Rightarrow> ('w, 'w QuobyteApi) io" where
  "QuobyteApiClientFactory clientCache quobyte apiURL secrets =
     bind_io (lift_io (api_credentials secrets)) (\<lambda>(apiUser, apiPass).
       let cacheKey = apiUser @ apiPass in
       bind_io (lru_Get clientCache cacheKey) (\<lambda>hit.
         case hit of
           Some (ClientPtr apiClient) \<Rightarrow> return_io (as_api quobyte apiClient)
         | Some OtherValue \<Rightarrow> throw_io (Errorf ''Cached API client is not QuobyteClient type'' [])
         | None \<Rightarrow>
             (let apiClient = NewQuobyteClient quobyte apiURL apiUser apiPass in
              bind_io (lru_Add clientCache cacheKey (ClientPtr apiClient)) (\<lambda>_.
                return_io (as_api quobyte apiClient)))))"

section \<open>The interface its users rely on\<close>

text \<open>
  The handlers see the factory through \<open>QuobyteApiClientProvider\<close>. What they rely on is that a
  secret without API credentials is refused before anything is called.
\<close>

locale client_provider =
  fixes factory :: "string \<Rightarrow> gomap \<Rightarrow> ('w, 'w QuobyteApi) io"
  assumes no_credentials: "\<not> hasApiCredentials secrets \<Longrightarrow> \<exists>e. factory url secrets = throw_io e"
begin

lemma refused:
  assumes "\<not> hasApiCredentials secrets"
  obtains e where "bind_io (factory url secrets) f w = (Err e, w)"
proof -
  obtain e where "factory url secrets = throw_io e"
    using no_credentials [OF assms] by blast
  then have "bind_io (factory url secrets) f w = (Err e, w)" by simp
  then show thesis by (rule that)
qed

lemma client_needs_credentials:
  "factory url secrets w = (Ok api, w') \<Longrightarrow> hasApiCredentials secrets"
  by (metis Pair_inject no_credentials outcome.distinct(1) throw_io_eval)

end

lemma api_credentials_Err:
  "\<not> hasApiCredentials secrets \<Longrightarrow>
     api_credentials secrets = Err (Errorf ''Requires Quobyte management API user/password or accessKeyId/accessKeySecret combination'' [])"
  by (simp add: api_credentials_def hasApiCredentials_def)

lemma api_credentials_Ok_iff: "(\<exists>up. api_credentials secrets = Ok up) \<longleftrightarrow> hasApiCredentials secrets"
  by (auto simp: api_credentials_def hasApiCredentials_def)

interpretation qfactory: client_provider "QuobyteApiClientFactory clientCache quobyte"
  for clientCache quobyte
  by unfold_locales
    (simp add: QuobyteApiClientFactory_def api_credentials_Err, blast)

section \<open>The cache\<close>

text \<open>
  The documented behaviour of the LRU cache, on the map \<open>view w\<close> from keys to cached values: \<open>Get\<close>
  returns the value of a key and changes no entry; \<open>Add\<close> stores the value, and of the other
  entries it changes none but may evict some.
\<close>

definition lru_contract :: "('w \<Rightarrow> string \<Rightarrow> 'cl cached option) \<Rightarrow> ('w, 'cl) lru_cache \<Rightarrow> bool" where
  "lru_contract view c \<longleftrightarrow>
     (\<forall>k w. \<exists>w'. lru_Get c k w = (Ok (view w k), w') \<and> view w' = view w) \<and>
     (\<forall>k v w. \<exists>w'. lru_Add c k v w = (Ok (), w') \<and> view w' k = Some v \<and>
        (\<forall>k'. k' \<noteq> k \<longrightarrow> view w' k' = view w k' \<or> view w' k' = None))"

text \<open>Every entry is a client made for credentials whose concatenation is the entry's key.\<close>

definition cache_inv ::
  "('w \<Rightarrow> string \<Rightarrow> 'cl cached option) \<Rightarrow> ('w, 'cl) client_package \<Rightarrow> string \<Rightarrow> 'w \<Rightarrow> bool" where
  "cache_inv view quobyte url w \<longleftrightarrow>
     (\<forall>k v. view w k = Some v \<longrightarrow>
        (\<exists>u p. k = u @ p \<and> v = ClientPtr (NewQuobyteClient quobyte url u p)))"

lemma lru_GetE:
  assumes "lru_contract view c"
  obtains w' where "lru_Get c k w = (Ok (view w k), w')" and "view w' = view w"
  using assms unfolding lru_contract_def by blast

lemma lru_AddE:
  assumes "lru_contract view c"
  obtains w' where "lru_Add c k v w = (Ok (), w')" and "view w' k = Some v"
    and "\<And>k'. k' \<noteq> k \<Longrightarrow> view w' k' = view w k' \<or> view w' k' = None"
  using assms unfolding lru_contract_def by blast

text \<open>One call of the factory under the contract: a hit, or a miss that fills the entry.\<close>

lemma factory_hit:
  assumes "lru_contract view c" and "api_credentials secrets = Ok (u, p)"
    and "view w (u @ p) = Some (ClientPtr cl)"
  obtains w' where "QuobyteApiClientFactory c q url secrets w = (Ok (as_api q cl), w')"
    and "view w' = view w"
proof -
  obtain w' where "lru_Get c (u @ p) w = (Ok (view w (u @ p)), w')" and v: "view w' = view w"
    by (rule lru_GetE [OF assms(1), of "u @ p" w])
  then have "QuobyteApiClientFactory c q url secrets w = (Ok (as_api q cl), w')"
    using assms(2,3) by (simp add: QuobyteApiClientFactory_def Let_def)
  then show thesis using v by (rule that)
qed

lemma factory_miss:
  assumes "lru_contract view c" and "api_credentials secrets = Ok (u, p)"
    and "view w (u @ p) = None"
  obtains w' where
    "QuobyteApiClientFactory c q url secrets w = (Ok (as_api q (NewQuobyteClient q url u p)), w')"
    and "view w' (u @ p) = Some (ClientPtr (NewQuobyteClient q url u p))"
    and "\<And>k. k \<noteq> u @ p \<Longrightarrow> view w' k = view w k \<or> view w' k = None"
proof -
  let ?cl = "ClientPtr (NewQuobyteClient q url u p)"
  obtain w1 where g: "lru_Get c (u @ p) w = (Ok (view w (u @ p)), w1)" and v1: "view w1 = view w"
    by (rule lru_GetE [OF assms(1), of "u @ p" w])
  obtain w' where a: "lru_Add c (u @ p) ?cl w1 = (Ok (), w')" and v: "view w' (u @ p) = Some ?cl"
    and o: "\<And>k. k \<noteq> u @ p \<Longrightarrow> view w' k = view w1 k \<or> view w' k = None"
    using lru_AddE [OF assms(1), of "u @ p" ?cl w1] by blast
  have "QuobyteApiClientFactory c q url secrets w = (Ok (as_api q (NewQuobyteClient q url u p)), w')"
    using assms(2,3) g a by (simp add: QuobyteApiClientFactory_def Let_def)
  then show thesis using v o unfolding v1 by (rule that)
qed

section \<open>Properties\<close>

text \<open>
  C13 (the client cache stays well formed): under the documented behaviour of the LRU cache, a
  call of the factory keeps the invariant that every entry holds a Quobyte client made for
  credentials whose user and password concatenate to the entry's key. Its result is then an error
  only for a secret without credentials (the branch for a cached value of another type is never
  taken), and otherwise a client made for credentials with the same concatenation.
\<close>

theorem factory_cache_invariant:
  assumes "lru_contract view c" and "cache_inv view q url w"
    and "QuobyteApiClientFactory c q url secrets w = (r, w')"
  shows "cache_inv view q url w' \<and>
     (case api_credentials secrets of
        Ok (u, p) \<Rightarrow> \<exists>u' p'. u' @ p' = u @ p \<and> r = Ok (as_api q (NewQuobyteClient q url u' p'))
      | Err e \<Rightarrow> r = Err e \<and> w' = w
      | Panic x \<Rightarrow> False)"
proof (cases "api_credentials secrets")
  case (Ok up)
  obtain u p where up: "up = (u, p)" by (cases up)
  note cred = Ok [unfolded up]
  show ?thesis
  proof (cases "view w (u @ p)")
    case None
    obtain w1 where run: "QuobyteApiClientFactory c q url secrets w = (Ok (as_api q (NewQuobyteClient q url u p)), w1)"
      and new: "view w1 (u @ p) = Some (ClientPtr (NewQuobyteClient q url u p))"
      and old: "\<And>k. k \<noteq> u @ p \<Longrightarrow> view w1 k = view w k \<or> view w1 k = None"
      using factory_miss [OF assms(1) cred None, of q url] by blast
    have "cache_inv view q url w1"
      unfolding cache_inv_def
    proof (intro allI impI)
      fix k v
      assume kv: "view w1 k = Some v"
      show "\<exists>u p. k = u @ p \<and> v = ClientPtr (NewQuobyteClient q url u p)"
      proof (cases "k = u @ p")
        case True
        with kv new show ?thesis by auto
      next
        case False
        with kv old [OF False] assms(2) show ?thesis by (simp add: cache_inv_def)
      qed
    qed
    with run assms(3) cred show ?thesis by auto
  next
    case (Some v)
    with assms(2) obtain u' p' where k: "u' @ p' = u @ p" and v: "v = ClientPtr (NewQuobyteClient q url u' p')"
      unfolding cache_inv_def by metis
    obtain w1 where "QuobyteApiClientFactory c q url secrets w = (Ok (as_api q (NewQuobyteClient q url u' p')), w1)"
      and "view w1 = view w"
      using factory_hit [OF assms(1) cred, of w _ q url] Some v by blast
    then show ?thesis
      using assms(2,3) cred k by (auto simp: cache_inv_def)
  qed
next
  case (Err e)
  then show ?thesis using assms(2,3) by (simp add: QuobyteApiClientFactory_def)
next
  case (Panic x)
  then show ?thesis by (simp add: api_credentials_def split: if_splits)
qed

text \<open>A cache that never evicts, and clients that are their own credentials, for the witnesses.\<close>

definition map_cache :: "(string \<Rightarrow> string cached option, string) lru_cache" where
  "map_cache = \<lparr>lru_Get = (\<lambda>k w. (Ok (w k), w)), lru_Add = (\<lambda>k v w. (Ok (), w(k := Some v)))\<rparr>"

lemma map_cache_contract: "lru_contract (\<lambda>w. w) map_cache"
  by (simp add: lru_contract_def map_cache_def)

definition text_clients :: "'w QuobyteApi \<Rightarrow> ('w, string) client_package" where
  "text_clients api = \<lparr>NewQuobyteClient = (\<lambda>url u p. url @ u @ p), as_api = (\<lambda>_. api)\<rparr>"

theorem factory_cache_invariant_witness:
  "\<forall>api. \<exists>r w'. QuobyteApiClientFactory map_cache (text_clients api) ''url'' [(''user'', ''u''), (''password'', ''p'')]
       (\<lambda>_. None) = (r, w') \<and> cache_inv (\<lambda>w. w) (text_clients api) ''url'' w'"
proof
  fix api
  let ?w = "\<lambda>_. None :: string cached option"
  obtain r w' where run: "QuobyteApiClientFactory map_cache (text_clients api) ''url''
      [(''user'', ''u''), (''password'', ''p'')] ?w = (r, w')"
    by (cases "QuobyteApiClientFactory map_cache (text_clients api) ''url''
      [(''user'', ''u''), (''password'', ''p'')] ?w")
  have "cache_inv (\<lambda>w. w) (text_clients api) ''url'' ?w"
    by (simp add: cache_inv_def)
  with factory_cache_invariant [OF map_cache_contract _ run] run
  show "\<exists>r w'. QuobyteApiClientFactory map_cache (text_clients api) ''url'' [(''user'', ''u''), (''password'', ''p'')] ?w = (r, w') \<and>
      cache_inv (\<lambda>w. w) (text_clients api) ''url'' w'" by blast
qed

text \<open>
  (clients are shared across credentials): the cache key is the plain concatenation of user and
  password, so after a client was made for one pair of credentials, a secret with another pair of
  the same concatenation is given the client that is authenticated with the first pair.
\<close>

theorem client_shared_across_credentials:
  assumes "lru_contract view c" and "view w (u @ p) = None"
    and "api_credentials s1 = Ok (u, p)" and "api_credentials s2 = Ok (u2, p2)" and "u2 @ p2 = u @ p"
  shows "\<exists>w1 w2. QuobyteApiClientFactory c q url s1 w = (Ok (as_api q (NewQuobyteClient q url u p)), w1) \<and>
     QuobyteApiClientFactory c q url s2 w1 = (Ok (as_api q (NewQuobyteClient q url u p)), w2)"
proof -
  obtain w1 where first: "QuobyteApiClientFactory c q url s1 w = (Ok (as_api q (NewQuobyteClient q url u p)), w1)"
    and entry: "view w1 (u @ p) = Some (ClientPtr (NewQuobyteClient q url u p))"
    using factory_miss [OF assms(1,3,2), of q url] by blast
  obtain w2 where "QuobyteApiClientFactory c q url s2 w1 = (Ok (as_api q (NewQuobyteClient q url u p)), w2)"
    using factory_hit [OF assms(1,4), of w1 _ q url] entry assms(5) by metis
  with first show ?thesis by blast
qed

theorem client_shared_across_credentials_witness:
  "\<forall>api. \<exists>w1 w2. QuobyteApiClientFactory map_cache (text_clients api) ''url'' [(''user'', ''ad''), (''password'', ''min'')] (\<lambda>_. None)
        = (Ok (as_api (text_clients api) (NewQuobyteClient (text_clients api) ''url'' ''ad'' ''min'')), w1) \<and>
     QuobyteApiClientFactory map_cache (text_clients api) ''url'' [(''user'', ''admi''), (''password'', ''n'')] w1
        = (Ok (as_api (text_clients api) (NewQuobyteClient (text_clients api) ''url'' ''ad'' ''min'')), w2)"
proof -
  have s1: "api_credentials [(''user'', ''ad''), (''password'', ''min'')] = Ok (''ad'', ''min'')"
    and s2: "api_credentials [(''user'', ''admi''), (''password'', ''n'')] = Ok (''admi'', ''n'')"
    by (simp_all add: api_credentials_def hasApiAccessKeyIdAndSecret_def hasApiUserAndPassword_def
        secret_keys map_get_def)
  show ?thesis
    using client_shared_across_credentials [OF map_cache_contract, of "\<lambda>_. None", OF _ s1 s2]
    by simp
qed

end
