(* ===== verification/Mounter.thy ===== *)
theory Mounter
  imports Csi_Types
begin

text \<open>
  \<open>driver/mounter.go\<close>: the production mounter. Its methods hand over to the operating system (and,
  for \<open>SetXAttr\<close> and the key handle, to third-party packages), which is the parameter \<open>os_calls\<close>;
  what the driver adds is the bind-mount flag, the guards and error handling of \<open>Unmount\<close>, and the
  zero result of a failed \<open>Statfs\<close>.
\<close>

record 'w os_calls =
  os_MkdirAll :: "string \<Rightarrow> FileMode \<Rightarrow> ('w, unit) io"
  os_Mkdir :: "string \<Rightarrow> FileMode \<Rightarrow> ('w, unit) io"
  os_Chmod :: "string \<Rightarrow> FileMode \<Rightarrow> ('w, unit) io"
  os_Chown :: "string \<Rightarrow> int \<Rightarrow> int \<Rightarrow> ('w, unit) io"
  os_Rename :: "string \<Rightarrow> string \<Rightarrow> ('w, unit) io"
  os_RemoveAll :: "string \<Rightarrow> ('w, unit) io"
  os_Stat :: "string \<Rightarrow> ('w, FileInfo) io"
  user_Lookup :: "string \<Rightarrow> ('w, User) io"
  user_LookupGroup :: "string \<Rightarrow> ('w, Group) io"
  xattr_Set :: "string \<Rightarrow> string \<Rightarrow> string \<Rightarrow> ('w, unit) io"
  unix_Mount :: "string \<Rightarrow> string \<Rightarrow> string \<Rightarrow> nat \<Rightarrow> string \<Rightarrow> ('w, unit) io"
  unix_Unmount :: "string \<Rightarrow> nat \<Rightarrow> ('w, unit) io"
  unix_Statfs :: "string \<Rightarrow> ('w, Statfs) io"
  uuid_New :: "('w, string) io"

definition MS_BIND :: nat where "MS_BIND = 4096"

definition LinuxMounter_Mount :: "'w os_calls \<Rightarrow> string \<Rightarrow> string \<Rightarrow> ('w, unit) io" where
  "LinuxMounter_Mount os source target =
     wrap_io (\<lambda>err. Errorf ''failed bind mount of source: '%s' target: '%s' due to: %s'' [source, target, Error err])
       (unix_Mount os source target [] MS_BIND [])"

definition LinuxMounter_Unmount :: "'w os_calls \<Rightarrow> string \<Rightarrow> ('w, unit) io" where
  "LinuxMounter_Unmount os path =
     (if path = [] then throw_io (ErrorString ''Given unmount path is empty.'')
      else bind_io (try_io (unix_Unmount os path 0)) (\<lambda>r.
        case r of
          Inr _ \<Rightarrow> return_io ()
        | Inl err \<Rightarrow>
            (case err of
               SyscallErrno errno txt \<Rightarrow>
                 if errno = ENOTCONN then return_io () else throw_io err
             | _ \<Rightarrow> panic_io ''interface conversion: error is not syscall.Errno'')))"

definition LinuxMounter_Statfs :: "'w os_calls \<Rightarrow> string \<Rightarrow> ('w, Statfs) io" where
  "LinuxMounter_Statfs os path = unix_Statfs os path"

definition LinuxMounter_SetXAttr :: "'w os_calls \<Rightarrow> string \<Rightarrow> string \<Rightarrow> string \<Rightarrow> ('w, unit) io" where
  "LinuxMounter_SetXAttr os key val path = xattr_Set os path key val"

definition LinuxMounter :: "'w os_calls \<Rightarrow> string \<Rightarrow> 'w Mounter" where
  "LinuxMounter os node =
     \<lparr>m_Mkdirs = os_MkdirAll os,
      m_Mkdir = os_Mkdir os,
      m_Chmod = os_Chmod os,
      m_Chown = os_Chown os,
      m_Rename = os_Rename os,
      m_Lookup = user_Lookup os,
      m_LookupGroup = user_LookupGroup os,
      m_Mount = LinuxMounter_Mount os,
      m_Unmount = LinuxMounter_Unmount os,
      m_Stat = os_Stat os,
      m_Statfs = LinuxMounter_Statfs os,
      m_SetXAttr = LinuxMounter_SetXAttr os,
      m_CreateAccessKeyContextHandle = uuid_New os,
      m_GetNodeName = node,
      m_RemoveAll = os_RemoveAll os\<rparr>"

text \<open>The package-level helpers the node service calls.\<close>

definition Mount :: "string \<Rightarrow> string \<Rightarrow> 'w Mounter \<Rightarrow> ('w, unit) io" where
  "Mount source target mnt = bind_io (m_Mount mnt source target) (\<lambda>_. return_io ())"

definition Unmount :: "string \<Rightarrow> 'w Mounter \<Rightarrow> ('w, unit) io" where
  "Unmount target mnt = m_Unmount mnt target"

lemma bind_io_unit [simp]: "bind_io m return_io = m"
  by (rule ext) (simp add: bind_io_def split: prod.splits outcome.splits)

lemma Mount_eq: "Mount source target mnt = m_Mount mnt source target"
  by (simp add: Mount_def)

text \<open>The system's contract of \<open>unmount(2)\<close> as Go's \<open>unix\<close> package returns it: a failure is an errno.\<close>

definition unmount_errno :: "'w os_calls \<Rightarrow> bool" where
  "unmount_errno os \<longleftrightarrow>
     (\<forall>p f w r w'. unix_Unmount os p f w = (r, w') \<longrightarrow>
        r = Ok () \<or> (\<exists>n t. r = Err (SyscallErrno n t)))"

section \<open>Properties\<close>

text \<open>
  (unmounting): given that the system call fails with an errno only, \<open>Unmount\<close> of the production
  mounter never panics; it succeeds exactly when the path is not empty and the system call
  succeeds or reports a disconnected mount point (\<open>ENOTCONN\<close>); every other error is returned
  unchanged; and an empty path is refused without a system call.
\<close>

theorem LinuxMounter_Unmount_spec:
  assumes "unmount_errno os" and "unix_Unmount os path 0 w = (r, w1)"
  shows "m_Unmount (LinuxMounter os node) path w =
     (if path = [] then (Err (ErrorString ''Given unmount path is empty.''), w)
      else if r = Ok () \<or> (\<exists>t. r = Err (SyscallErrno ENOTCONN t)) then (Ok (), w1)
      else (r, w1))"
proof -
  from assms consider "r = Ok ()" | n t where "r = Err (SyscallErrno n t)"
    unfolding unmount_errno_def by blast
  then show ?thesis
    using assms(2) by cases (simp_all add: LinuxMounter_def LinuxMounter_Unmount_def)
qed

definition sample_unmount :: "nat \<Rightarrow> unit os_calls \<Rightarrow> unit os_calls" where
  "sample_unmount n os = os\<lparr>unix_Unmount := (\<lambda>p f w. (Err (SyscallErrno n ''errno''), w))\<rparr>"

theorem LinuxMounter_Unmount_spec_witness:
  "\<forall>os. m_Unmount (LinuxMounter (sample_unmount 107 os) ''node'') ''/pod'' () = (Ok (), ()) \<and>
     m_Unmount (LinuxMounter (sample_unmount 16 os) ''node'') ''/pod'' () = (Err (SyscallErrno 16 ''errno''), ())"
proof
  fix os
  have c: "unmount_errno (sample_unmount n os)" for n
    by (simp add: unmount_errno_def sample_unmount_def)
  have r: "unix_Unmount (sample_unmount n os) ''/pod'' 0 () = (Err (SyscallErrno n ''errno''), ())" for n
    by (simp add: sample_unmount_def)
  show "m_Unmount (LinuxMounter (sample_unmount 107 os) ''node'') ''/pod'' () = (Ok (), ()) \<and>
     m_Unmount (LinuxMounter (sample_unmount 16 os) ''node'') ''/pod'' () = (Err (SyscallErrno 16 ''errno''), ())"
    by (simp add: LinuxMounter_Unmount_spec [OF c r])
qed

end
