(* ===== verification/Directory_View.thy ===== *)
theory Directory_View
  imports Csi_Types
begin

text \<open>
  The documented behaviour of the file-system calls behind the mounter, as predicates on a mounter
  and a view of its world. Theorems about directories take them as hypotheses; nothing here models
  code of the repository.
\<close>

unbundle bit_operations_syntax

section \<open>What the system promises about directories\<close>

text \<open>
  The documented behaviour of the file-system calls, on a view of the world: which directory or
  other file stands at a path, with a directory's permission bits and owner. \<open>Stat\<close> may fail, but what it
  reports is so, an \<open>ENOENT\<close> included; \<open>Mkdir\<close>, \<open>Chmod\<close> and \<open>Chown\<close> change the one path they are given
  when they succeed and nothing when they fail; the look-ups change nothing.
\<close>

record dir_meta =
  dm_mode :: FileMode
  dm_uid :: int
  dm_gid :: int

datatype node = FileNode | DirNode dir_meta

text \<open>
  The bits that Go's \<open>os.Chmod\<close> hands to the system: the nine permission bits of a \<open>FileMode\<close>, and the
  system's set-user, set-group and sticky bits for Go's own flags, which are high bits of a \<open>FileMode\<close>. The
  octal bits \<open>07000\<close> of a \<open>FileMode\<close> mean nothing and are dropped.
\<close>

definition syscallMode :: "FileMode \<Rightarrow> FileMode" where
  "syscallMode i =
     (i AND 511) OR (if bit i 23 then 2048 else 0) OR (if bit i 22 then 1024 else 0) OR (if bit i 20 then 512 else 0)"

lemma syscallMode_small:
  assumes "uint i < 2 ^ 20"
  shows "syscallMode i = i AND 511"
proof -
  have "\<not> bit i n" if "20 \<le> n" for n
  proof -
    have "uint i < 2 ^ n" using assms power_increasing [OF that, of "2::int"] by linarith
    then have "uint i div 2 ^ n = 0" by simp
    then have "\<not> bit (uint i) n" by (simp only: bit_iff_odd) simp
    then show ?thesis using bit_uint_iff bit_imp_le_length by blast
  qed
  then show ?thesis by (simp add: syscallMode_def)
qed

definition stat_contract :: "('w \<Rightarrow> string \<Rightarrow> node option) \<Rightarrow> 'w Mounter \<Rightarrow> bool" where
  "stat_contract view mnt \<longleftrightarrow>
     (\<forall>p w r w'. m_Stat mnt p w = (r, w') \<longrightarrow> view w' = view w \<and>
        (case r of
           Ok info \<Rightarrow> (\<exists>n. view w p = Some n \<and> (IsDir info \<longleftrightarrow> n \<noteq> FileNode))
         | Err e \<Rightarrow> (\<forall>opn q c. e = PathError opn q c \<longrightarrow> is_errno ENOENT c \<longrightarrow> view w p = None)
         | Panic s \<Rightarrow> False))"

definition mkdir_contract :: "('w \<Rightarrow> string \<Rightarrow> node option) \<Rightarrow> 'w Mounter \<Rightarrow> bool" where
  "mkdir_contract view mnt \<longleftrightarrow>
     (\<forall>p m w r w'. m_Mkdir mnt p m w = (r, w') \<longrightarrow>
        (r = Ok () \<and> view w p = None \<and> (\<exists>d. view w' = (view w)(p := Some (DirNode d)))) \<or>
        (\<exists>opn e. r = Err (PathError opn p e) \<and> view w' = view w \<and>
           (is_errno EEXIST e \<longrightarrow> view w p \<noteq> None)))"

definition attribute_contract ::
  "('w \<Rightarrow> string \<Rightarrow> node option) \<Rightarrow> (dir_meta \<Rightarrow> dir_meta) \<Rightarrow> string \<Rightarrow> ('w, unit) io \<Rightarrow> bool" where
  "attribute_contract view change p m \<longleftrightarrow>
     (\<forall>w r w'. m w = (r, w') \<longrightarrow>
        (r = Ok () \<and> (\<exists>d. view w p = Some (DirNode d) \<and>
            view w' = (view w)(p := Some (DirNode (change d))))) \<or>
        (r = Ok () \<and> view w p = Some FileNode \<and> view w' = view w) \<or>
        (\<exists>e. r = Err e \<and> view w' = view w))"

definition dir_contract :: "('w \<Rightarrow> string \<Rightarrow> node option) \<Rightarrow> 'w Mounter \<Rightarrow> bool" where
  "dir_contract view mnt \<longleftrightarrow>
     stat_contract view mnt \<and> mkdir_contract view mnt \<and>
     (\<forall>p m. attribute_contract view (\<lambda>d. d\<lparr>dm_mode := syscallMode m\<rparr>) p (m_Chmod mnt p m)) \<and>
     (\<forall>p u g. attribute_contract view (\<lambda>d. d\<lparr>dm_uid := u, dm_gid := g\<rparr>) p (m_Chown mnt p u g)) \<and>
     (\<forall>n w r w'. m_Lookup mnt n w = (r, w') \<longrightarrow> view w' = view w) \<and>
     (\<forall>n w r w'. m_LookupGroup mnt n w = (r, w') \<longrightarrow> view w' = view w)"

lemma Stat_cases:
  assumes "dir_contract view mnt" and "m_Stat mnt p w = (r, w')"
  shows "view w' = view w"
    and "r = Ok info \<Longrightarrow> \<exists>n. view w p = Some n \<and> (IsDir info \<longleftrightarrow> n \<noteq> FileNode)"
    and "r = Err (PathError opn q c) \<Longrightarrow> is_errno ENOENT c \<Longrightarrow> view w p = None"
    and "r \<noteq> Panic s"
  using assms unfolding dir_contract_def stat_contract_def by fastforce+

lemma Mkdir_Ok:
  assumes "dir_contract view mnt" and "m_Mkdir mnt p md w = (Ok x, w')"
  shows "view w p = None \<and> (\<exists>d. view w' = (view w)(p := Some (DirNode d)))"
  using assms unfolding dir_contract_def mkdir_contract_def by blast

lemma Mkdir_Err:
  assumes "dir_contract view mnt" and "m_Mkdir mnt p md w = (Err e, w')"
  obtains opn c where "e = PathError opn p c" and "view w' = view w"
    and "is_errno EEXIST c \<longrightarrow> view w p \<noteq> None"
proof -
  have "\<exists>opn c. e = PathError opn p c \<and> view w' = view w \<and> (is_errno EEXIST c \<longrightarrow> view w p \<noteq> None)"
    using assms unfolding dir_contract_def mkdir_contract_def by (metis outcome.distinct(1) outcome.inject(2))
  then show thesis using that by blast
qed

lemma attribute_Ok:
  assumes "attribute_contract view change p m" and "m w = (Ok x, w')" and "view w p = Some (DirNode d)"
  shows "view w' = (view w)(p := Some (DirNode (change d)))"
  using assms unfolding attribute_contract_def by fastforce

lemma attribute_Err:
  assumes "attribute_contract view change p m" and "m w = (Err e, w')"
  shows "view w' = view w"
  using assms unfolding attribute_contract_def by blast

lemma dir_contract_parts:
  assumes "dir_contract view mnt"
  shows "attribute_contract view (\<lambda>d. d\<lparr>dm_mode := syscallMode md\<rparr>) p (m_Chmod mnt p md)"
    and "attribute_contract view (\<lambda>d. d\<lparr>dm_uid := u, dm_gid := g\<rparr>) p (m_Chown mnt p u g)"
    and "m_Lookup mnt n w = (s, w') \<Longrightarrow> view w' = view w"
    and "m_LookupGroup mnt n w = (s', w') \<Longrightarrow> view w' = view w"
  using assms unfolding dir_contract_def by blast+

end
