(* ===== verification/Sample_World.thy ===== *)
theory Sample_World
  imports Directory_View
begin

text \<open>
  One small concrete world: a file system, a volume service and a log of calls. It is the instance
  at which the witnesses run the handlers, and shows that the hypotheses on the system and on the
  Quobyte service can hold together. It is not a model of either.
\<close>

record sample =
  files :: "string \<Rightarrow> node option"
  volumes :: "string \<times> string \<Rightarrow> string option"
  log :: "string list"

definition no_entry :: go_error where
  "no_entry = SyscallErrno ENOENT ''no such file or directory''"

definition sample_attribute :: "(dir_meta \<Rightarrow> dir_meta) \<Rightarrow> string \<Rightarrow> (sample, unit) io" where
  "sample_attribute change p w =
     (case files w p of
        Some (DirNode d) \<Rightarrow> (Ok (), w\<lparr>files := (files w)(p := Some (DirNode (change d)))\<rparr>)
      | _ \<Rightarrow> (Err (PathError ''chattr'' p no_entry), w))"

definition logged :: "string \<Rightarrow> (sample, unit) io" where
  "logged s = (\<lambda>w. (Ok (), w\<lparr>log := log w @ [s]\<rparr>))"

text \<open>The users the node knows are a parameter; every known user and group has id 1000.\<close>

definition sample_mounter :: "string list \<Rightarrow> sample Mounter" where
  "sample_mounter known =
     \<lparr>m_Mkdirs = (\<lambda>p m w. (Ok (), w\<lparr>files := (files w)(p := Some (DirNode \<lparr>dm_mode = m, dm_uid = 0, dm_gid = 0\<rparr>))\<rparr>)),
      m_Mkdir = (\<lambda>p m w.
        (case files w p of
           None \<Rightarrow> (Ok (), w\<lparr>files := (files w)(p := Some (DirNode \<lparr>dm_mode = m, dm_uid = 0, dm_gid = 0\<rparr>))\<rparr>)
         | Some n \<Rightarrow> (Err (PathError ''mkdir'' p (SyscallErrno EEXIST ''file exists'')), w))),
      m_Chmod = (\<lambda>p m. sample_attribute (\<lambda>d. d\<lparr>dm_mode := syscallMode m\<rparr>) p),
      m_Chown = (\<lambda>p u g. sample_attribute (\<lambda>d. d\<lparr>dm_uid := u, dm_gid := g\<rparr>) p),
      m_Rename = (\<lambda>old new w.
        (case files w old of
           None \<Rightarrow> (Err (LinkError ''rename'' old new no_entry), w)
         | Some n \<Rightarrow> (Ok (), w\<lparr>files := (files w)(old := None, new := Some n)\<rparr>))),
      m_Lookup = (\<lambda>u w. (if u \<in> set known then Ok \<lparr>Uid = ''1000''\<rparr> else Err (ErrorString ''unknown user''), w)),
      m_LookupGroup = (\<lambda>g w. (Ok \<lparr>Gid = ''1000''\<rparr>, w)),
      m_Mount = (\<lambda>s t. logged (''mount '' @ s @ '' '' @ t)),
      m_Unmount = (\<lambda>t. logged (''umount '' @ t)),
      m_Stat = (\<lambda>p w.
        ((case files w p of
            None \<Rightarrow> Err (PathError ''stat'' p no_entry)
          | Some FileNode \<Rightarrow> Ok \<lparr>IsDir = False\<rparr>
          | Some (DirNode d) \<Rightarrow> Ok \<lparr>IsDir = True\<rparr>), w)),
      m_Statfs = (\<lambda>p w. (Ok \<lparr>Blocks = 100, Bfree = 60, Bavail = 50, Files = 10, Ffree = 4, Bsize = 4096\<rparr>, w)),
      m_SetXAttr = (\<lambda>k v p. logged (''setxattr '' @ k)),
      m_CreateAccessKeyContextHandle = return_io ''handle'',
      m_GetNodeName = ''node'',
      m_RemoveAll = (\<lambda>p w. (Ok (), w\<lparr>files := (files w)(p := None)\<rparr>))\<rparr>"

lemma sample_dir_contract: "dir_contract files (sample_mounter known)"
  unfolding dir_contract_def stat_contract_def mkdir_contract_def attribute_contract_def
  by (auto simp: sample_mounter_def sample_attribute_def no_entry_def split: option.splits node.splits)

text \<open>
  A service whose volume identifiers are derived from the names. The outcome of setting a quota is
  a parameter.
\<close>

definition sample_api :: "unit outcome \<Rightarrow> sample QuobyteApi" where
  "sample_api quota =
     \<lparr>q_WhoAmI = return_io \<lparr>UserName = ''admin'', PrimaryGroup = ''staff''\<rparr>,
      q_GetTenantUUID = (\<lambda>t. return_io (t @ ''-id'')),
      q_CreateVolume = (\<lambda>r w.
        (case volumes w (vr_Name r, vr_TenantId r) of
           None \<Rightarrow> (Ok (''v-'' @ vr_Name r),
             w\<lparr>volumes := (volumes w)((vr_Name r, vr_TenantId r) := Some (''v-'' @ vr_Name r))\<rparr>)
         | Some u \<Rightarrow> (Err (ErrorString ''ENTITY_EXISTS_ALREADY/POSIX_ERROR_NONE''), w))),
      q_ResolveVolumeNameToUUID = (\<lambda>n t w.
        (case volumes w (n, t) of
           None \<Rightarrow> (Err (ErrorString ''ENTITY_NOT_FOUND''), w)
         | Some u \<Rightarrow> (Ok u, w))),
      q_SetVolumeQuota = (\<lambda>v c w. (quota, w\<lparr>log := log w @ [''quota '' @ v]\<rparr>)),
      q_DeleteVolumeByResolvingNamesToUUID = (\<lambda>v t. logged (''delete '' @ v)),
      q_EraseVolumeByResolvingNamesToUUID = (\<lambda>v t imm. logged (''erase '' @ v)),
      q_CreateTask = (\<lambda>r. logged (''task '' @ DirectoryPath r)),
      q_GetVolumeUUID = (\<lambda>v t. return_io v),
      q_CreateSnapshot = (\<lambda>r. logged (''snapshot '' @ qs_Name r)),
      q_DeleteSnapshot = (\<lambda>v n. logged (''unsnapshot '' @ n)),
      q_ListSnapshots = (\<lambda>v. return_io
        [\<lparr>se_VolumeUuid = v, se_Name = ''snap1'', se_Timestamp = 1500\<rparr>,
         \<lparr>se_VolumeUuid = v, se_Name = ''snap2'', se_Timestamp = 2500\<rparr>])\<rparr>"

definition empty_world :: sample where
  "empty_world = \<lparr>files = (\<lambda>_. None), volumes = (\<lambda>_. None), log = []\<rparr>"

definition sample_driver :: "unit outcome \<Rightarrow> sample QuobyteDriver" where
  "sample_driver quota =
     \<lparr>drv_Name = ''csi'', drv_Version = ''1'', endpoint = ''unix:///csi.sock'', clientMountPoint = ''/mnt'',
      NodeName = ''node'', ApiURL = ''http://api'', UseK8SNamespaceAsQuobyteTenant = False,
      IsQuobyteAccessKeyMountsEnabled = False, ImmediateErase = False, QuobyteVersion = 3,
      enabledVolumeMetrics = True, UseDeleteFilesTask = False,
      NewQuobyteApiClient = (\<lambda>url secrets. return_io (sample_api quota)),
      mounter = sample_mounter [''admin'']\<rparr>"

lemmas sample_defs = sample_driver_def sample_api_def sample_mounter_def logged_def empty_world_def
  no_entry_def sample_attribute_def

end
