(* ===== verification/Shared_Volume.thy ===== *)
theory Shared_Volume
  imports Mounter Sample_World
begin

text \<open>
  \<open>driver/shared_volume_mapper.go\<close>: a dynamic volume inside a shared volume is a directory below the
  shared volume. \<open>Mkdir\<close> of \<open>DirectoryMaker\<close> accepts an existing directory and otherwise creates it,
  sets its permission bits and hands it to the requested user and group.
\<close>

text \<open>The error inside an \<open>*os.PathError\<close>; \<open>None\<close> when the dynamic type is another one.\<close>

fun path_error_cause :: "go_error \<Rightarrow> go_error option" where
  "path_error_cause (PathError opn p e) = Some e"
| "path_error_cause _ = None"

definition chownDirectory :: "string \<Rightarrow> VolumeRequest \<Rightarrow> 'w Mounter \<Rightarrow> ('w, unit) io" where
  "chownDirectory path req mnt =
     bind_io (wrap_io (\<lambda>err. Errorf ''Cannot look up user '%s' on node '%s' due to error %s''
                [vr_RootUserId req, m_GetNodeName mnt, Error err])
              (m_Lookup mnt (vr_RootUserId req))) (\<lambda>userInfo.
     bind_io (lift_io (Atoi (Uid userInfo))) (\<lambda>userId.
     bind_io (wrap_io (\<lambda>err. Errorf ''Cannot look up group '%s' on node '%s' due to error %s''
                [vr_RootGroupId req, m_GetNodeName mnt, Error err])
              (m_LookupGroup mnt (vr_RootGroupId req))) (\<lambda>groupInfo.
     bind_io (lift_io (Atoi (Gid groupInfo))) (\<lambda>groupId.
     wrap_io (\<lambda>err. Errorf ''Cannot change ownership of '%s' to '%s:%s' on node '%s' due to %s''
                [path, vr_RootUserId req, vr_RootGroupId req, m_GetNodeName mnt, Error err])
       (m_Chown mnt path userId groupId)))))"

text \<open>The access mode is a decimal number whose digits are read again as an octal number.\<close>

definition directory_mode :: "int32 \<Rightarrow> uint64 outcome" where
  "directory_mode accessMode = ParseUint (Itoa (sint accessMode)) 8 32"

text \<open>An existing entry is no error: it might have been made by a replicated pod.\<close>

definition mkdir_ignore_exists :: "string \<Rightarrow> FileMode \<Rightarrow> 'w Mounter \<Rightarrow> ('w, unit) io" where
  "mkdir_ignore_exists path mode mnt =
     bind_io (try_io (m_Mkdir mnt path mode)) (\<lambda>r.
       case r of
         Inr _ \<Rightarrow> return_io ()
       | Inl err \<Rightarrow>
           (case path_error_cause err of
              Some e \<Rightarrow>
                if \<not> is_errno EEXIST e
                then throw_io (Errorf ''Unable to create sub-directory %s due to %s'' [path, Error err])
                else return_io ()
            | None \<Rightarrow> return_io ()))"

definition createDirectory :: "string \<Rightarrow> VolumeRequest \<Rightarrow> 'w Mounter \<Rightarrow> ('w, unit) io" where
  "createDirectory path volRequest mnt =
     bind_io (wrap_io (\<lambda>err. Errorf ''Cannot parse access mode due to %s'' [Error err])
              (lift_io (directory_mode (vr_AccessMode volRequest)))) (\<lambda>modeVal.
     bind_io (mkdir_ignore_exists path (ucast modeVal) mnt) (\<lambda>_.
     bind_io (wrap_io (\<lambda>err. Errorf ''Cannot apply requested permissions %d for %s due to %s''
                [Itoa (uint modeVal), path, Error err])
              (m_Chmod mnt path (ucast modeVal))) (\<lambda>_.
     chownDirectory path volRequest mnt)))"

definition DirectoryMaker_Mkdir :: "'w Mounter \<Rightarrow> string \<Rightarrow> VolumeRequest \<Rightarrow> ('w, unit) io" where
  "DirectoryMaker_Mkdir mnt path req =
     bind_io (try_io (m_Stat mnt path)) (\<lambda>r.
       case r of
         Inl err \<Rightarrow>
           (case path_error_cause err of
              Some e \<Rightarrow> if is_errno ENOENT e then createDirectory path req mnt else throw_io err
            | None \<Rightarrow> throw_io err)
       | Inr statInfo \<Rightarrow>
           if \<not> IsDir statInfo
           then throw_io (Errorf ''A file with sub-directory name exists at %s'' [path])
           else return_io ())"

section \<open>The permission bits\<close>

lemma directory_mode_no_panic [simp]: "directory_mode m \<noteq> Panic p"
  by (simp add: directory_mode_def)

lemma int32_of_uint64: "ucast (of_nat n :: uint64) = (of_nat n :: int32)"
  by (simp add: unsigned_of_nat word_of_nat_eq_iff)

lemma sint_int32_of_nat:
  assumes "n < 2 ^ 31"
  shows "sint (of_nat n :: int32) = int n"
proof -
  have "int n mod 2 ^ 32 = int n" using assms by simp
  moreover have "\<not> odd (int n div 2 ^ 31)" using assms by simp
  ultimately show ?thesis
    using assms by (simp add: sint_uint uint_nat unat_of_nat signed_take_bit_eq_if_positive take_bit_eq_mod
      bit_iff_odd)
qed

lemma sint_int32_negative:
  assumes "2 ^ 31 \<le> n" and "n < 2 ^ 32"
  shows "sint (of_nat n :: int32) < 0"
proof -
  have "int n div 2 ^ 31 = 1" using assms by simp
  then show ?thesis
    using assms by (simp add: sint_uint uint_nat unat_of_nat signed_take_bit_negative_iff bit_iff_odd)
qed

text \<open>
  C40 (access modes are octal): a StorageClass access mode \<open>v\<close> is parsed as a decimal number and
  stored in 32 bits; when a directory is made from it, that number is rendered and read as octal.
  For a text of octal digits whose decimal value fits in \<open>int32\<close> the result is the octal value of
  \<open>v\<close> itself, leading zeros included or not. A decimal value from \<open>2^31\<close> on is stored as a negative
  number, and a digit 8 or 9 survives the first parse: in both cases making the directory fails.
\<close>

theorem access_mode_is_octal:
  assumes "ParseUint v 10 32 = Ok u"
  shows "(digits_of 8 v \<and> digits_val 10 0 v < 2 ^ 31 \<longrightarrow>
       directory_mode (ucast u) = Ok (of_nat (digits_val 8 0 v))) \<and>
     (2 ^ 31 \<le> digits_val 10 0 v \<longrightarrow> (\<exists>e. directory_mode (ucast u) = Err e))"
proof -
  let ?n = "digits_val 10 0 v"
  from assms have d: "digits_of 10 v" and n: "?n < 2 ^ 32" and u: "u = of_nat ?n"
    by (simp_all add: ParseUint_Ok_iff)
  have small: "directory_mode (ucast u) = Ok (of_nat (digits_val 8 0 v))"
    if o: "digits_of 8 v" and lt: "?n < 2 ^ 31"
  proof -
    have itoa: "Itoa (sint (ucast u :: int32)) = decimal ?n"
      unfolding u int32_of_uint64 sint_int32_of_nat [OF lt] by (simp add: Itoa_def)
    have "digits_val 8 0 v \<le> ?n" by (rule digits_val_mono) simp_all
    then have "digits_val 8 0 v < 2 ^ 32" using n by (rule le_less_trans)
    then show ?thesis
      unfolding directory_mode_def itoa ParseUint_Ok_iff [of 8, simplified]
      using digits_of_render [OF o] digits_val_render [OF d] by simp
  qed
  have big: "\<exists>e. directory_mode (ucast u) = Err e" if ge: "2 ^ 31 \<le> ?n"
  proof -
    have "sint (ucast u :: int32) < 0"
      unfolding u int32_of_uint64 using ge n by (rule sint_int32_negative)
    then show ?thesis
      by (simp add: directory_mode_def Itoa_def ParseUint_def digit_val_def)
  qed
  show ?thesis using small big by blast
qed

theorem access_mode_is_octal_witness:
  "directory_mode (ucast (750 :: uint64)) = Ok 488 \<and>
   (\<exists>e. directory_mode (ucast (4294967295 :: uint64)) = Err e)"
proof -
  have "ParseUint ''0750'' 10 32 = Ok 750" and "ParseUint ''4294967295'' 10 32 = Ok 4294967295"
    by (simp_all add: ParseUint_def digit_val_def)
  from access_mode_is_octal [OF this(1)] access_mode_is_octal [OF this(2)]
  show ?thesis by (simp add: digits_of_def digit_val_def)
qed

section \<open>What making a directory does\<close>

lemma chownDirectory_Ok:
  "chownDirectory path req mnt w = (Ok x, w') \<longleftrightarrow>
     (\<exists>u w1 uid g w2 gid. m_Lookup mnt (vr_RootUserId req) w = (Ok u, w1) \<and> Atoi (Uid u) = Ok uid \<and>
        m_LookupGroup mnt (vr_RootGroupId req) w1 = (Ok g, w2) \<and> Atoi (Gid g) = Ok gid \<and>
        m_Chown mnt path uid gid w2 = (Ok x, w'))"
  by (fastforce simp: chownDirectory_def io_inv)

lemma mkdir_ignore_exists_Ok:
  "mkdir_ignore_exists path mode mnt w = (Ok x, w1) \<longleftrightarrow>
     m_Mkdir mnt path mode w = (Ok (), w1) \<or>
     (\<exists>e. m_Mkdir mnt path mode w = (Err e, w1) \<and>
        (\<forall>c. path_error_cause e = Some c \<longrightarrow> is_errno EEXIST c))"
  by (cases "m_Mkdir mnt path mode w", cases "fst (m_Mkdir mnt path mode w)")
    (auto simp: mkdir_ignore_exists_def split: option.splits)

text \<open>
  The steps of a successful creation: parse the mode, make the directory (an \<open>EEXIST\<close> or an error
  of another dynamic type counts as made), set the mode, set the owner.
\<close>

lemma createDirectory_Ok:
  assumes "createDirectory path req mnt w = (Ok x, w')"
  obtains md r w1 w2 where "directory_mode (vr_AccessMode req) = Ok md"
    and "m_Mkdir mnt path (ucast md) w = (r, w1)"
    and "r = Ok () \<or> (\<exists>e. r = Err e \<and> (\<forall>c. path_error_cause e = Some c \<longrightarrow> is_errno EEXIST c))"
    and "m_Chmod mnt path (ucast md) w1 = (Ok (), w2)"
    and "chownDirectory path req mnt w2 = (Ok x, w')"
proof -
  from assms obtain md w1 w2 where md: "directory_mode (vr_AccessMode req) = Ok md"
    and mk: "m_Mkdir mnt path (ucast md) w = (Ok (), w1) \<or>
      (\<exists>e. m_Mkdir mnt path (ucast md) w = (Err e, w1) \<and>
         (\<forall>c. path_error_cause e = Some c \<longrightarrow> is_errno EEXIST c))"
    and ch: "m_Chmod mnt path (ucast md) w1 = (Ok (), w2)"
    and own: "chownDirectory path req mnt w2 = (Ok x, w')"
    unfolding createDirectory_def bind_io_Ok wrap_io_Ok mkdir_ignore_exists_Ok by auto
  from mk obtain r where "m_Mkdir mnt path (ucast md) w = (r, w1)"
    and "r = Ok () \<or> (\<exists>e. r = Err e \<and> (\<forall>c. path_error_cause e = Some c \<longrightarrow> is_errno EEXIST c))"
    by blast
  with that md ch own show thesis by blast
qed

lemma chownDirectory_view:
  assumes "dir_contract view mnt" and "chownDirectory path req mnt w = (Ok x, w')" and "view w path = Some (DirNode d)"
  obtains u g uid gid w1 w2 w3 where "m_Lookup mnt (vr_RootUserId req) w = (Ok u, w1)"
    and "Atoi (Uid u) = Ok uid"
    and "m_LookupGroup mnt (vr_RootGroupId req) w2 = (Ok g, w3)" and "Atoi (Gid g) = Ok gid"
    and "view w' = (view w)(path := Some (DirNode (d\<lparr>dm_uid := uid, dm_gid := gid\<rparr>)))"
proof -
  from assms(2) obtain u w1 uid g w2 gid where u: "m_Lookup mnt (vr_RootUserId req) w = (Ok u, w1)"
    and uid: "Atoi (Uid u) = Ok uid"
    and g: "m_LookupGroup mnt (vr_RootGroupId req) w1 = (Ok g, w2)" and gid: "Atoi (Gid g) = Ok gid"
    and ch: "m_Chown mnt path uid gid w2 = (Ok x, w')"
    unfolding chownDirectory_Ok by blast
  have v: "view w2 = view w"
    using dir_contract_parts(3) [OF assms(1) u] dir_contract_parts(4) [OF assms(1) g] by simp
  have "view w' = (view w)(path := Some (DirNode (d\<lparr>dm_uid := uid, dm_gid := gid\<rparr>)))"
    using attribute_Ok [OF dir_contract_parts(2) [OF assms(1)] ch] assms(3) unfolding v by simp
  then show thesis by (rule that [OF u uid g gid])
qed

text \<open>Under the contract, a successful creation where nothing stood: now a directory stands there.\<close>

lemma createDirectory_view:
  assumes "dir_contract view mnt" and "createDirectory path req mnt w = (Ok x, w')" and "view w path = None"
  obtains md u g uid gid wu wg w1 w2 where "directory_mode (vr_AccessMode req) = Ok md"
    and "m_Lookup mnt (vr_RootUserId req) wu = (Ok u, w1)" and "Atoi (Uid u) = Ok uid"
    and "m_LookupGroup mnt (vr_RootGroupId req) wg = (Ok g, w2)" and "Atoi (Gid g) = Ok gid"
    and "view w' = (view w)(path := Some (DirNode \<lparr>dm_mode = syscallMode (ucast md), dm_uid = uid, dm_gid = gid\<rparr>))"
proof -
  obtain md r w1 w2 where md: "directory_mode (vr_AccessMode req) = Ok md"
    and mk: "m_Mkdir mnt path (ucast md) w = (r, w1)"
    and r: "r = Ok () \<or> (\<exists>e. r = Err e \<and> (\<forall>c. path_error_cause e = Some c \<longrightarrow> is_errno EEXIST c))"
    and ch: "m_Chmod mnt path (ucast md) w1 = (Ok (), w2)"
    and own: "chownDirectory path req mnt w2 = (Ok x, w')"
    using createDirectory_Ok [OF assms(2)] by blast
  have "r = Ok ()"
    using r mk assms(3) by (auto elim: Mkdir_Err [OF assms(1)])
  with mk obtain d :: dir_meta where w1: "view w1 = (view w)(path := Some (DirNode d))"
    using Mkdir_Ok [OF assms(1)] by blast
  have d: "view w2 = (view w)(path := Some (DirNode (d\<lparr>dm_mode := syscallMode (ucast md)\<rparr>)))"
    using attribute_Ok [OF dir_contract_parts(1) [OF assms(1)] ch] w1 by simp
  then have d2: "view w2 path = Some (DirNode (d\<lparr>dm_mode := syscallMode (ucast md)\<rparr>))" by simp
  obtain u g uid gid wu wg wl wl' where u: "m_Lookup mnt (vr_RootUserId req) wl = (Ok u, wu)"
    and uid: "Atoi (Uid u) = Ok uid" and g: "m_LookupGroup mnt (vr_RootGroupId req) wl' = (Ok g, wg)"
    and gid: "Atoi (Gid g) = Ok gid"
    and w': "view w' = (view w2)(path := Some (DirNode (d\<lparr>dm_mode := syscallMode (ucast md)\<rparr>\<lparr>dm_uid := uid, dm_gid := gid\<rparr>)))"
    by (rule chownDirectory_view [OF assms(1) own d2]) (rule that)
  have "view w' = (view w)(path := Some (DirNode \<lparr>dm_mode = syscallMode (ucast md), dm_uid = uid, dm_gid = gid\<rparr>))"
    unfolding w' d by (cases d) simp
  then show thesis by (rule that [OF md u uid g gid])
qed

text \<open>\<open>Mkdir\<close> of the maker, by what stands at the path.\<close>

lemma DirectoryMaker_Mkdir_cases:
  assumes "dir_contract view mnt" and "m_Stat mnt path w = (s, w1)"
  shows "view w1 = view w"
    and "s = Ok info \<Longrightarrow> view w path = Some (DirNode d) \<Longrightarrow> DirectoryMaker_Mkdir mnt path req w = (Ok (), w1)"
    and "view w path = Some n \<Longrightarrow> snd (DirectoryMaker_Mkdir mnt path req w) = w1"
    and "DirectoryMaker_Mkdir mnt path req w = (Ok x, w') \<Longrightarrow>
      (\<exists>d. view w path = Some (DirNode d)) \<and> w' = w1 \<or>
      view w path = None \<and> createDirectory path req mnt w1 = (Ok x, w')"
proof -
  note st = Stat_cases [OF assms]
  show "view w1 = view w" by (rule st(1))
  show "DirectoryMaker_Mkdir mnt path req w = (Ok (), w1)" if "s = Ok info" and "view w path = Some (DirNode d)"
    using st(2) [OF that(1)] that assms(2) by (simp add: DirectoryMaker_Mkdir_def)
  show "snd (DirectoryMaker_Mkdir mnt path req w) = w1" if "view w path = Some n"
  proof (cases s)
    case (Err e)
    then show ?thesis
      using st(3) that assms(2) by (cases e) (auto simp: DirectoryMaker_Mkdir_def)
  qed (use assms(2) st(4) in \<open>auto simp: DirectoryMaker_Mkdir_def\<close>)
  show "(\<exists>d. view w path = Some (DirNode d)) \<and> w' = w1 \<or> view w path = None \<and> createDirectory path req mnt w1 = (Ok x, w')"
    if run: "DirectoryMaker_Mkdir mnt path req w = (Ok x, w')"
  proof (cases s)
    case (Ok info)
    then obtain n where "view w path = Some n" and "IsDir info \<longleftrightarrow> n \<noteq> FileNode" using st(2) by blast
    then show ?thesis using run assms(2) Ok by (cases n) (auto simp: DirectoryMaker_Mkdir_def split: if_splits)
  next
    case (Err e)
    with run assms(2) obtain c where c: "path_error_cause e = Some c" "is_errno ENOENT c"
      and run': "createDirectory path req mnt w1 = (Ok x, w')"
      by (auto simp: DirectoryMaker_Mkdir_def split: option.splits if_splits)
    from c(1) have "\<exists>opn q. e = PathError opn q c" by (cases e) auto
    with Err c(2) have "view w path = None" using st(3) by blast
    with run' show ?thesis by blast
  qed (use st(4) in blast)
qed

section \<open>The interface its user relies on\<close>

text \<open>
  \<open>CreateVolume\<close> uses the directory maker through \<open>DirectoryCreator\<close>: one operation. Its laws, for a
  mounter that keeps the system's contract: a success leaves a directory at the path and changes no
  other path; a call on a path where something stands changes nothing; and a directory that can be
  examined is accepted.
\<close>

locale directory_creator =
  fixes mkdir :: "'w Mounter \<Rightarrow> string \<Rightarrow> VolumeRequest \<Rightarrow> ('w, unit) io"
  assumes made: "dir_contract view mnt \<Longrightarrow> mkdir mnt path req w = (Ok x, w') \<Longrightarrow>
      \<exists>d. view w' path = Some (DirNode d)"
    and others: "dir_contract view mnt \<Longrightarrow> mkdir mnt path req w = (Ok x, w') \<Longrightarrow> q \<noteq> path \<Longrightarrow>
      view w' q = view w q"
    and untouched: "dir_contract view mnt \<Longrightarrow> view w path = Some n \<Longrightarrow> mkdir mnt path req w = (r, w') \<Longrightarrow>
      view w' = view w"
    and accepted: "dir_contract view mnt \<Longrightarrow> view w path = Some (DirNode d) \<Longrightarrow> m_Stat mnt path w = (Ok info, w1) \<Longrightarrow>
      mkdir mnt path req w = (Ok (), w1)"
begin

text \<open>Making a directory again changes nothing, whatever the second request asks for.\<close>

lemma mkdir_again:
  assumes "dir_contract view mnt" and "mkdir mnt path req w = (Ok x, w1)" and "mkdir mnt path req' w1 = (r, w2)"
  shows "view w2 = view w1"
  using made [OF assms(1,2)] untouched [OF assms(1) _ assms(3)] by blast

lemma mkdir_keeps_directories:
  assumes "dir_contract view mnt" and "mkdir mnt path req w = (Ok x, w1)" and "view w q = Some (DirNode d)"
  shows "\<exists>d'. view w1 q = Some (DirNode d')"
proof (cases "q = path")
  case True
  then show ?thesis using made [OF assms(1,2)] by simp
next
  case False
  then show ?thesis using others [OF assms(1,2)] assms(3) by simp
qed

end

interpretation dmaker: directory_creator DirectoryMaker_Mkdir
proof
  fix view :: "'w \<Rightarrow> string \<Rightarrow> node option" and mnt path req w x w'
  assume c: "dir_contract view mnt" and run: "DirectoryMaker_Mkdir mnt path req w = (Ok x, w')"
  obtain s w1 where st: "m_Stat mnt path w = (s, w1)" by (cases "m_Stat mnt path w")
  note cases = DirectoryMaker_Mkdir_cases [OF c st]
  from cases(4) [OF run] cases(1)
  have upd: "(\<exists>d. view w path = Some (DirNode d)) \<and> view w' = view w \<or>
     (\<exists>n. view w' = (view w)(path := Some (DirNode n)))"
    by (metis createDirectory_view [OF c])
  then show "\<exists>d. view w' path = Some (DirNode d)" by auto
  show "view w' q = view w q" if "q \<noteq> path" for q using upd that by auto
next
  fix view :: "'w \<Rightarrow> string \<Rightarrow> node option" and mnt path req w n r w'
  assume c: "dir_contract view mnt" and n: "view w path = Some n" and run: "DirectoryMaker_Mkdir mnt path req w = (r, w')"
  obtain s w1 where st: "m_Stat mnt path w = (s, w1)" by (cases "m_Stat mnt path w")
  show "view w' = view w"
    using DirectoryMaker_Mkdir_cases(1) [OF c st] DirectoryMaker_Mkdir_cases(3) [OF c st n, of req] run by simp
next
  fix view :: "'w \<Rightarrow> string \<Rightarrow> node option" and mnt path req w d info w1
  assume "dir_contract view mnt" and "view w path = Some (DirNode d)" and "m_Stat mnt path w = (Ok info, w1)"
  then show "DirectoryMaker_Mkdir mnt path req w = (Ok (), w1)" by (metis DirectoryMaker_Mkdir_cases(2))
qed

section \<open>Properties\<close>

text \<open>
  C25 (a new subdirectory is ready for its user): under the documented behaviour of the file-system
  calls, when \<open>Mkdir\<close> of the directory maker succeeds at a path where nothing was, then the only
  change is a directory at that path, whose mode is what \<open>chmod\<close> makes of the request's access mode read
  as octal and whose owner and group are the numbers the node's look-ups gave for the requested names.
  Of a mode of up to six octal digits only the nine permission bits arrive: a sticky bit is lost.
\<close>

theorem shared_directory_ready:
  assumes "dir_contract view mnt" and "view w path = None"
    and "DirectoryMaker_Mkdir mnt path req w = (Ok (), w')"
  shows "\<exists>md mode uid gid. view w' = (view w)(path := Some (DirNode \<lparr>dm_mode = mode, dm_uid = uid, dm_gid = gid\<rparr>)) \<and>
     directory_mode (vr_AccessMode req) = Ok md \<and> mode = syscallMode (ucast md) \<and>
     (uint md < 8 ^ 6 \<longrightarrow> mode = ucast md AND 511) \<and>
     (\<exists>wu u w1. m_Lookup mnt (vr_RootUserId req) wu = (Ok u, w1) \<and> Atoi (Uid u) = Ok uid) \<and>
     (\<exists>wg g w2. m_LookupGroup mnt (vr_RootGroupId req) wg = (Ok g, w2) \<and> Atoi (Gid g) = Ok gid)"
proof -
  obtain s w0 where st: "m_Stat mnt path w = (s, w0)" by (cases "m_Stat mnt path w")
  note cases = DirectoryMaker_Mkdir_cases [OF assms(1) st]
  have run: "createDirectory path req mnt w0 = (Ok (), w')" and none: "view w0 path = None"
    using cases(4) [OF assms(3)] cases(1) assms(2) by auto
  obtain md u g uid gid wu wg w1 w2
    where p: "directory_mode (vr_AccessMode req) = Ok md"
      "m_Lookup mnt (vr_RootUserId req) wu = (Ok u, w1)" "Atoi (Uid u) = Ok uid"
      "m_LookupGroup mnt (vr_RootGroupId req) wg = (Ok g, w2)" "Atoi (Gid g) = Ok gid"
      "view w' = (view w0)(path := Some (DirNode \<lparr>dm_mode = syscallMode (ucast md), dm_uid = uid, dm_gid = gid\<rparr>))"
    by (rule createDirectory_view [OF assms(1) run none]) (rule that)
  have "syscallMode (ucast md) = ucast md AND 511" if "uint md < 8 ^ 6"
  proof (rule syscallMode_small)
    have "uint (ucast md :: FileMode) \<le> uint md"
      by (simp add: unsigned_ucast_eq take_bit_int_less_eq_self_iff)
    with that show "uint (ucast md :: FileMode) < 2 ^ 20" by simp
  qed
  with p(2-5) p(1) p(6) [unfolded cases(1)] show ?thesis by (intro exI conjI impI) (assumption | rule refl)+
qed

definition sample_request :: "string \<Rightarrow> VolumeRequest" where
  "sample_request user = \<lparr>vr_Name = ''shared'', vr_TenantId = ''t-id'', vr_RootUserId = user,
     vr_RootGroupId = ''staff'', vr_AccessMode = 750, vr_Label = []\<rparr>"

lemma directory_mode_750: "directory_mode 750 = Ok 488"
  by (simp add: directory_mode_def Itoa_def decimal.simps digit_char_def ParseUint_def digit_val_def)

lemma Atoi_1000: "Atoi ''1000'' = Ok 1000"
  by (simp add: Atoi_def digit_val_def)

lemmas run_mkdir = DirectoryMaker_Mkdir_def createDirectory_def mkdir_ignore_exists_def
  chownDirectory_def sample_request_def directory_mode_750 Atoi_1000 bind_io_def try_io_def wrap_io_def

theorem shared_directory_ready_witness:
  "\<exists>w'. DirectoryMaker_Mkdir (sample_mounter [''admin'']) ''/mnt/v/pvc-1'' (sample_request ''admin'') empty_world = (Ok (), w') \<and>
     (\<exists>uid gid. files w' = (files empty_world)(''/mnt/v/pvc-1'' := Some (DirNode \<lparr>dm_mode = 488, dm_uid = uid, dm_gid = gid\<rparr>)))"
proof -
  obtain w' where run: "DirectoryMaker_Mkdir (sample_mounter [''admin'']) ''/mnt/v/pvc-1'' (sample_request ''admin'') empty_world = (Ok (), w')"
    by (simp add: run_mkdir sample_defs)
  have "files empty_world ''/mnt/v/pvc-1'' = None" by (simp add: empty_world_def)
  from shared_directory_ready [where view = files, OF sample_dir_contract this run] obtain md :: uint64 and mode uid gid
    where v: "files w' = (files empty_world)(''/mnt/v/pvc-1'' := Some (DirNode \<lparr>dm_mode = mode, dm_uid = uid, dm_gid = gid\<rparr>))"
      and md: "directory_mode (vr_AccessMode (sample_request ''admin'')) = Ok md"
      and mode: "uint md < 8 ^ 6 \<longrightarrow> mode = ucast md AND 511"
    by (elim exE conjE) (rule that)
  from md have "md = 488" by (simp add: sample_request_def directory_mode_750)
  with mode have "mode = 488" by simp
  with run v show ?thesis
    by - (rule exI [of _ w'], rule conjI [OF run], rule exI [of _ uid], rule exI [of _ gid], simp)
qed

text \<open>
  (a half-made subdirectory is accepted): an existing directory that can be examined is accepted as it
  stands. So when a first attempt failed after making the directory (its user is unknown on the node, say,
  or \<open>chown\<close> failed), the repeated request reports success and changes nothing: the directory keeps
  the owner and mode the failed attempt left.
\<close>

theorem half_made_directory_accepted:
  assumes "dir_contract view mnt" and "DirectoryMaker_Mkdir mnt path req w = (Err e, w1)"
    and "view w1 path = Some (DirNode d)" and "m_Stat mnt path w1 = (Ok info, w2)"
  shows "DirectoryMaker_Mkdir mnt path req w1 = (Ok (), w2) \<and> view w2 path = Some (DirNode d)"
  using dmaker.accepted [OF assms(1,3,4)] dmaker.untouched [OF assms(1,3)] assms(3) by force

theorem half_made_directory_accepted_witness:
  "\<exists>e w1 w2. DirectoryMaker_Mkdir (sample_mounter [''admin'']) ''/mnt/v/pvc-1'' (sample_request ''bob'') empty_world = (Err e, w1) \<and>
     DirectoryMaker_Mkdir (sample_mounter [''admin'']) ''/mnt/v/pvc-1'' (sample_request ''bob'') w1 = (Ok (), w2) \<and>
     files w2 ''/mnt/v/pvc-1'' = Some (DirNode \<lparr>dm_mode = 488, dm_uid = 0, dm_gid = 0\<rparr>)"
proof -
  obtain e w1 where run: "DirectoryMaker_Mkdir (sample_mounter [''admin'']) ''/mnt/v/pvc-1'' (sample_request ''bob'') empty_world = (Err e, w1)"
    and d: "files w1 ''/mnt/v/pvc-1'' = Some (DirNode \<lparr>dm_mode = 488, dm_uid = 0, dm_gid = 0\<rparr>)"
    by (simp add: run_mkdir sample_defs syscallMode_def)
  have "m_Stat (sample_mounter [''admin'']) ''/mnt/v/pvc-1'' w1 = (Ok \<lparr>IsDir = True\<rparr>, w1)"
    using d by (simp add: sample_mounter_def)
  from half_made_directory_accepted [where view = files, OF sample_dir_contract run d this]
  have again: "DirectoryMaker_Mkdir (sample_mounter [''admin'']) ''/mnt/v/pvc-1'' (sample_request ''bob'') w1 = (Ok (), w1)"
    and kept: "files w1 ''/mnt/v/pvc-1'' = Some (DirNode \<lparr>dm_mode = 488, dm_uid = 0, dm_gid = 0\<rparr>)"
    by (rule conjunct1, rule conjunct2)
  show ?thesis
    by (intro exI conjI) (rule run, rule again, rule kept)
qed

end
