(* ===== verification/Controller.thy ===== *)
theory Controller
  imports Utils Client_Factory Shared_Volume
begin

text \<open>
  \<open>driver/controller.go\<close>, volumes: creation, deletion and expansion. A volume handle is
  \<open>tenant|volume\<close>, or \<open>tenant|volume|directory\<close> for a directory of a shared volume; a volume made
  from a snapshot has the dummy handle \<open>SnapshotVolumeHandle-name\<close> and its snapshot id in the volume
  context. The handlers are composed of the steps below in the order of the code.
\<close>

definition DefaultCreateQuota :: bool where "DefaultCreateQuota = False"
definition DefaultAccessModes :: int32 where "DefaultAccessModes = 700"
definition DefaultSharedVolumeAccessModes :: int32 where "DefaultSharedVolumeAccessModes = 1777"
definition DefaultPVCAccessModeInsideSharedVolume :: int32 where
  "DefaultPVCAccessModeInsideSharedVolume = 1700"
definition pvcNamespaceKey :: string where "pvcNamespaceKey = ''csi.storage.k8s.io/pvc/namespace''"
definition SnapshotIDKey :: string where "SnapshotIDKey = ''snapshot_id_key''"
definition SnapshotVolumeHandlePrefix :: string where
  "SnapshotVolumeHandlePrefix = ''SnapshotVolumeHandle-''"
definition SharedVolumeNameKey :: string where "SharedVolumeNameKey = ''sharedVolumeName''"
definition DELETE_MARKER_FORMAT :: string where "DELETE_MARKER_FORMAT = ''%s_delete_%s''"

abbreviation nil_dereference :: string where
  "nil_dereference \<equiv> ''invalid memory address or nil pointer dereference''"

definition accessMode :: "bool \<Rightarrow> int32" where
  "accessMode isSharedVolume =
     (if isSharedVolume then DefaultSharedVolumeAccessModes else DefaultAccessModes)"

section \<open>A volume from a snapshot\<close>

text \<open>\<open>Ok None\<close> is the code's \<open>nil, nil\<close>: the request is not one for a snapshot volume.\<close>

definition createSnapshotResponse :: "CreateVolumeRequest \<Rightarrow> Volume option outcome" where
  "createSnapshotResponse req =
     (case cv_VolumeContentSource req of
        None \<Rightarrow> Ok None
      | Some volumeContentSource \<Rightarrow>
          (case GetSnapshot volumeContentSource of
             None \<Rightarrow> Ok None
           | Some snapshotId \<Rightarrow>
               if length (Split snapshotId VOLUME_HANDLE_PART_SEPARATOR) < 3
               then Err (getInvalidSnapshotIdError snapshotId)
               else (case cv_CapacityRange req of
                       None \<Rightarrow> Panic nil_dereference
                     | Some requiredBytes \<Rightarrow>
                         Ok (Some \<lparr>VolumeId = SnapshotVolumeHandlePrefix @ cv_Name req,
                                   CapacityBytes = requiredBytes,
                                   ContentSource = Some (SourceSnapshot snapshotId),
                                   VolumeContext = [(SnapshotIDKey, snapshotId)]\<rparr>))))"

section \<open>Parameters of the StorageClass\<close>

text \<open>The variables the loop over the parameters writes.\<close>

record create_state =
  volRequest :: VolumeRequest
  createQuota :: bool
  configuredVolumeAccessMode :: int32

definition set_param :: "bool \<Rightarrow> string \<times> string \<Rightarrow> create_state \<Rightarrow> create_state outcome" where
  "set_param isSharedVolume kv st =
     (let k = ToLower (fst kv); v = snd kv; r = volRequest st
      in if k = ''quobytetenant'' then Ok (st\<lparr>volRequest := r\<lparr>vr_TenantId := v\<rparr>\<rparr>)
         else if k = ''sharedvolumename'' then Ok (st\<lparr>volRequest := r\<lparr>vr_Name := v\<rparr>\<rparr>)
         else if k = ''user'' then
           (if 0 < length (TrimSpace v) then Ok (st\<lparr>volRequest := r\<lparr>vr_RootUserId := v\<rparr>\<rparr>) else Ok st)
         else if k = ''group'' then Ok (st\<lparr>volRequest := r\<lparr>vr_RootGroupId := v\<rparr>\<rparr>)
         else if k = ''createquota'' then Ok (st\<lparr>createQuota := (ToLower v = ''true'')\<rparr>)
         else if k = ''labels'' then
           bind_outcome (parseLabels v) (\<lambda>ls. Ok (st\<lparr>volRequest := r\<lparr>vr_Label := ls\<rparr>\<rparr>))
         else if k = ''accessmode'' then
           bind_outcome (ParseUint v 10 32) (\<lambda>u64.
             let m = ucast u64 :: int32;
                 st' = st\<lparr>configuredVolumeAccessMode := m\<rparr>
             in Ok (if \<not> isSharedVolume then st'\<lparr>volRequest := r\<lparr>vr_AccessMode := m\<rparr>\<rparr> else st'))
         else Ok st)"

fun set_params :: "bool \<Rightarrow> gomap \<Rightarrow> create_state \<Rightarrow> create_state outcome" where
  "set_params isSharedVolume [] st = Ok st"
| "set_params isSharedVolume (kv # kvs) st =
     bind_outcome (set_param isSharedVolume kv st) (\<lambda>st'. set_params isSharedVolume kvs st')"

section \<open>The steps of CreateVolume\<close>

text \<open>The tenant of the StorageClass, or the namespace of the claim when the driver maps namespaces.\<close>

definition choose_tenant :: "'w QuobyteDriver \<Rightarrow> gomap \<Rightarrow> VolumeRequest \<Rightarrow> VolumeRequest outcome" where
  "choose_tenant d params r =
     (if vr_TenantId r = [] \<and> UseK8SNamespaceAsQuobyteTenant d then
        (case map_of params pvcNamespaceKey of
           Some pvcNamespace \<Rightarrow> Ok (r\<lparr>vr_TenantId := pvcNamespace\<rparr>)
         | None \<Rightarrow> Err (Errorf ''To use K8S namespace to Quobyte tenant mapping, quay.io/k8scsi/csi-provisioner should be deployed with --extra-create-metadata=true. Please redeploy driver with the above flag and retry.'' []))
      else Ok r)"

definition resolve_tenant :: "'w QuobyteApi \<Rightarrow> VolumeRequest \<Rightarrow> ('w, VolumeRequest) io" where
  "resolve_tenant quobyteClient r =
     (if 0 < length (vr_TenantId r)
      then bind_io (q_GetTenantUUID quobyteClient (vr_TenantId r)) (\<lambda>t. return_io (r\<lparr>vr_TenantId := t\<rparr>))
      else return_io r)"

text \<open>Creating is idempotent: a volume that exists already is resolved by its name.\<close>

definition create_or_resolve :: "'w QuobyteApi \<Rightarrow> VolumeRequest \<Rightarrow> ('w, string) io" where
  "create_or_resolve quobyteClient r =
     bind_io (try_io (q_CreateVolume quobyteClient r)) (\<lambda>resp.
       case resp of
         Inl err \<Rightarrow>
           if \<not> Contains (Error err) ''ENTITY_EXISTS_ALREADY'' then throw_io err
           else q_ResolveVolumeNameToUUID quobyteClient (vr_Name r) (vr_TenantId r)
       | Inr volUUID \<Rightarrow> return_io volUUID)"

definition apply_quota :: "'w QuobyteApi \<Rightarrow> string \<Rightarrow> int64 \<Rightarrow> ('w, unit) io" where
  "apply_quota quobyteClient volUUID capacity =
     bind_io (try_io (q_SetVolumeQuota quobyteClient volUUID capacity)) (\<lambda>res.
       case res of
         Inl err \<Rightarrow>
           bind_io (try_io (q_DeleteVolumeByResolvingNamesToUUID quobyteClient volUUID [])) (\<lambda>_.
             throw_io err)
       | Inr _ \<Rightarrow> return_io ())"

definition volume_handle :: "string list \<Rightarrow> string" where
  "volume_handle parts = join_char (CHR ''|'') parts"

lemma volume_handle_simps:
  "volume_handle [t, v] = t @ VOLUME_HANDLE_PART_SEPARATOR @ v"
  "volume_handle [t, v, s] = t @ VOLUME_HANDLE_PART_SEPARATOR @ v @ VOLUME_HANDLE_PART_SEPARATOR @ s"
  by (simp_all add: volume_handle_def VOLUME_HANDLE_PART_SEPARATOR_def)

definition make_subdirectory :: "'w QuobyteDriver \<Rightarrow> create_state \<Rightarrow> VolumeRequest \<Rightarrow> string \<Rightarrow> string \<Rightarrow> ('w, string) io" where
  "make_subdirectory d st r volUUID k8sPVName =
     (let r' = r\<lparr>vr_AccessMode :=
                  (if configuredVolumeAccessMode st = 0 then DefaultPVCAccessModeInsideSharedVolume
                   else configuredVolumeAccessMode st)\<rparr>;
          subdirPath = Join [clientMountPoint d, volUUID, k8sPVName]
      in bind_io (DirectoryMaker_Mkdir (mounter d) subdirPath r') (\<lambda>_.
           return_io (vr_TenantId r' @ VOLUME_HANDLE_PART_SEPARATOR @ volUUID
             @ VOLUME_HANDLE_PART_SEPARATOR @ k8sPVName)))"

definition initial_state :: "bool \<Rightarrow> string \<Rightarrow> WhoAmIResponse \<Rightarrow> create_state" where
  "initial_state isSharedVolume k8sPVName userInfo =
     \<lparr>volRequest = \<lparr>vr_Name = k8sPVName, vr_TenantId = [], vr_RootUserId = UserName userInfo,
        vr_RootGroupId = PrimaryGroup userInfo, vr_AccessMode = accessMode isSharedVolume, vr_Label = []\<rparr>,
      createQuota = DefaultCreateQuota, configuredVolumeAccessMode = 0\<rparr>"

text \<open>From the resolved volume to the response: quota, subdirectory, handle.\<close>

definition finish_volume ::
  "'w QuobyteDriver \<Rightarrow> 'w QuobyteApi \<Rightarrow> bool \<Rightarrow> create_state \<Rightarrow> VolumeRequest \<Rightarrow> int64 \<Rightarrow> string \<Rightarrow> string \<Rightarrow> ('w, Volume) io" where
  "finish_volume d quobyteClient isSharedVolume st r capacity k8sPVName volUUID =
     bind_io (if \<not> isSharedVolume \<and> createQuota st
              then apply_quota quobyteClient volUUID capacity else return_io ()) (\<lambda>_.
     bind_io (if isSharedVolume then make_subdirectory d st r volUUID k8sPVName
              else return_io (vr_TenantId r @ VOLUME_HANDLE_PART_SEPARATOR @ volUUID)) (\<lambda>volumeId.
     return_io \<lparr>VolumeId = volumeId, CapacityBytes = capacity, ContentSource = None, VolumeContext = []\<rparr>))"

text \<open>
  Everything before the first call that changes the service: the client, the user it acts for, the
  parameters, the group check, the tenant. The result is the client, the loop's variables and the
  request to send.
\<close>

definition prepare_volume ::
  "'w QuobyteDriver \<Rightarrow> CreateVolumeRequest \<Rightarrow> gomap \<Rightarrow> bool \<Rightarrow> ('w, 'w QuobyteApi \<times> create_state \<times> VolumeRequest) io" where
  "prepare_volume d req params isSharedVolume =
     bind_io (new_client d (cv_Secrets req)) (\<lambda>quobyteClient.
     bind_io (wrap_io (\<lambda>err. Errorf ''unable to resolve user/group via Quobyte API: %s'' [Error err])
                (q_WhoAmI quobyteClient)) (\<lambda>userInfo.
     bind_io (lift_io (set_params isSharedVolume params
                (initial_state isSharedVolume (cv_Name req) userInfo))) (\<lambda>st.
     if length (vr_RootGroupId (volRequest st)) = 0
     then throw_io (Errorf ''primary group is empty. Configure user '%s' primary group or provide override in StorageClass''
            [vr_RootUserId (volRequest st)])
     else
     bind_io (lift_io (choose_tenant d params (volRequest st))) (\<lambda>r0.
     bind_io (resolve_tenant quobyteClient r0) (\<lambda>r.
     return_io (quobyteClient, st, r))))))"

definition CreateVolume :: "'w QuobyteDriver \<Rightarrow> CreateVolumeRequest option \<Rightarrow> ('w, Volume) io" where
  "CreateVolume d mreq =
     bind_io (lift_io (validateCreateVolumeRequest mreq)) (\<lambda>_.
     case mreq of None \<Rightarrow> panic_io nil_dereference | Some req \<Rightarrow>
     bind_io (lift_io (createSnapshotResponse req)) (\<lambda>result.
     case result of Some vol \<Rightarrow> return_io vol | None \<Rightarrow>
     case cv_CapacityRange req of None \<Rightarrow> panic_io nil_dereference | Some capacity \<Rightarrow>
     (let params = (case cv_Parameters req of None \<Rightarrow> [] | Some ps \<Rightarrow> ps);
          isSharedVolume = (map_of params SharedVolumeNameKey \<noteq> None)
      in bind_io (prepare_volume d req params isSharedVolume) (\<lambda>(quobyteClient, st, r).
         bind_io (create_or_resolve quobyteClient r) (\<lambda>volUUID.
         finish_volume d quobyteClient isSharedVolume st r capacity (cv_Name req) volUUID)))))"

section \<open>DeleteVolume\<close>

text \<open>The error inside an \<open>*os.LinkError\<close>; \<open>None\<close> when the dynamic type is another one.\<close>

fun link_error_cause :: "go_error \<Rightarrow> go_error option" where
  "link_error_cause (LinkError opn old new e) = Some e"
| "link_error_cause _ = None"

definition delete_marker :: "string \<Rightarrow> string \<Rightarrow> string" where
  "delete_marker name dir = Sprintf DELETE_MARKER_FORMAT [name, dir]"

definition mark_for_deletion :: "'w QuobyteDriver \<Rightarrow> string \<Rightarrow> string \<Rightarrow> ('w, unit) io" where
  "mark_for_deletion d vol dir =
     (let subdirPath = Join [clientMountPoint d, vol, dir];
          renameTo = Join [clientMountPoint d, vol, delete_marker (drv_Name d) dir]
      in bind_io (try_io (m_Rename (mounter d) subdirPath renameTo)) (\<lambda>r.
           case r of
             Inr _ \<Rightarrow> return_io ()
           | Inl err \<Rightarrow>
               (case link_error_cause err of
                  Some e \<Rightarrow>
                    if \<not> is_errno ENOENT e
                    then throw_io (Errorf ''Cannot mark directory '%s' for deletion due to %s'' [subdirPath, Error err])
                    else return_io ()
                | None \<Rightarrow> return_io ())))"

definition delete_files_task :: "string \<Rightarrow> string \<Rightarrow> CreateTaskRequest" where
  "delete_files_task vol dir =
     \<lparr>RestrictToVolumes = [vol], task_type = DELETE_FILES_IN_VOLUMES,
      DirectoryPath = ''/'' @ dir, RunAsUser = True\<rparr>"

definition DeleteVolume :: "'w QuobyteDriver \<Rightarrow> DeleteVolumeRequest \<Rightarrow> ('w, unit) io" where
  "DeleteVolume d req =
     (let volID = dv_VolumeId req;
          volumeIdParts = Split volID VOLUME_HANDLE_PART_SEPARATOR
      in if length volID = 0 then throw_io (Errorf ''volumeId is required for DeleteVolume'' [])
         else if HasPrefix volID SnapshotVolumeHandlePrefix then return_io ()
         else if length volumeIdParts < 2 \<or> 3 < length volumeIdParts then
           throw_io (Errorf ''given volumeHandle '%s' is not in the form <Tenant_Name/Tenant_UUID>%s<VOL_NAME/VOL_UUID>[|<subdir>]''
             [volID, VOLUME_HANDLE_PART_SEPARATOR])
         else if length (dv_Secrets req) = 0 then
           throw_io (Errorf ''secrets are required to delete a volume. Provide csi.storage.k8s.io/provisioner-secret-name/namespace in storage class'' [])
         else
           bind_io (new_client d (dv_Secrets req)) (\<lambda>quobyteClient.
             if length volumeIdParts = 2 then
               bind_io (lift_io (slice_at volumeIdParts 1)) (\<lambda>volume.
               bind_io (lift_io (slice_at volumeIdParts 0)) (\<lambda>tenant.
               q_EraseVolumeByResolvingNamesToUUID quobyteClient volume tenant (ImmediateErase d)))
             else if \<not> UseDeleteFilesTask d then
               bind_io (lift_io (slice_at volumeIdParts 1)) (\<lambda>volume.
               bind_io (lift_io (slice_at volumeIdParts 2)) (\<lambda>dir.
               mark_for_deletion d volume dir))
             else
               bind_io (lift_io (slice_at volumeIdParts 1)) (\<lambda>volume.
               bind_io (lift_io (slice_at volumeIdParts 2)) (\<lambda>dir.
               wrap_io (\<lambda>err. Errorf ''could not delete subdirectory of the shared volume due to %s'' [Error err])
                 (q_CreateTask quobyteClient (delete_files_task volume dir))))))"

text \<open>Behind the check of the number of parts every look-up is in range.\<close>

lemma DeleteVolume_guarded:
  "DeleteVolume d req =
     (let volID = dv_VolumeId req;
          volumeIdParts = Split volID VOLUME_HANDLE_PART_SEPARATOR
      in if length volID = 0 then throw_io (Errorf ''volumeId is required for DeleteVolume'' [])
         else if HasPrefix volID SnapshotVolumeHandlePrefix then return_io ()
         else if length volumeIdParts < 2 \<or> 3 < length volumeIdParts then
           throw_io (Errorf ''given volumeHandle '%s' is not in the form <Tenant_Name/Tenant_UUID>%s<VOL_NAME/VOL_UUID>[|<subdir>]''
             [volID, VOLUME_HANDLE_PART_SEPARATOR])
         else if length (dv_Secrets req) = 0 then
           throw_io (Errorf ''secrets are required to delete a volume. Provide csi.storage.k8s.io/provisioner-secret-name/namespace in storage class'' [])
         else
           bind_io (new_client d (dv_Secrets req)) (\<lambda>quobyteClient.
             if length volumeIdParts = 2 then
               q_EraseVolumeByResolvingNamesToUUID quobyteClient (volumeIdParts ! 1) (volumeIdParts ! 0)
                 (ImmediateErase d)
             else if \<not> UseDeleteFilesTask d then
               mark_for_deletion d (volumeIdParts ! 1) (volumeIdParts ! 2)
             else
               wrap_io (\<lambda>err. Errorf ''could not delete subdirectory of the shared volume due to %s'' [Error err])
                 (q_CreateTask quobyteClient (delete_files_task (volumeIdParts ! 1) (volumeIdParts ! 2)))))"
proof -
  let ?parts = "Split (dv_VolumeId req) VOLUME_HANDLE_PART_SEPARATOR"
  consider "length ?parts < 2 \<or> 3 < length ?parts" | "length ?parts = 2" | "length ?parts = 3" by linarith
  then show ?thesis
  proof cases
    case 1
    then show ?thesis unfolding DeleteVolume_def Let_def by (simp only: if_True refl)
  next
    case 2
    then have at: "slice_at ?parts 0 = Ok (?parts ! 0)" "slice_at ?parts 1 = Ok (?parts ! 1)"
      by (simp_all add: slice_at_def del: Split_char)
    show ?thesis
      unfolding DeleteVolume_def Let_def at bind_io_lift_Ok 2 if_P [OF refl] ..
  next
    case 3
    then have at: "slice_at ?parts 1 = Ok (?parts ! 1)" "slice_at ?parts 2 = Ok (?parts ! 2)"
      by (simp_all add: slice_at_def del: Split_char)
    have two: "(3::nat) = 2 \<longleftrightarrow> False" by simp
    show ?thesis
      unfolding DeleteVolume_def Let_def at bind_io_lift_Ok 3 two if_False ..
  qed
qed

section \<open>ControllerExpandVolume\<close>

definition expandVolume :: "'w QuobyteDriver \<Rightarrow> string \<Rightarrow> gomap \<Rightarrow> int64 \<Rightarrow> ('w, unit) io" where
  "expandVolume d volumeId secrets capacity =
     (let volParts = Split volumeId VOLUME_HANDLE_PART_SEPARATOR
      in if length volParts < 2 then
           throw_io (Errorf ''given volumeHandle '%s' is not in the form <Tenant_Name/Tenant_UUID>|<VOL_NAME/VOL_UUID>'' [volumeId])
         else if length volParts = 3 then return_io ()
         else if length secrets = 0 then
           throw_io (Errorf ''controller-expand-secret-name and controller-expand-secret-namespace should be configured'' [])
         else
           bind_io (new_client d secrets) (\<lambda>quobyteClient.
           bind_io (lift_io (slice_at volParts 1)) (\<lambda>volume.
           bind_io (lift_io (slice_at volParts 0)) (\<lambda>tenant.
           bind_io (q_GetVolumeUUID quobyteClient volume tenant) (\<lambda>volUUID.
           q_SetVolumeQuota quobyteClient volUUID capacity)))))"

lemma expandVolume_guarded:
  "expandVolume d volumeId secrets capacity =
     (let volParts = Split volumeId VOLUME_HANDLE_PART_SEPARATOR
      in if length volParts < 2 then
           throw_io (Errorf ''given volumeHandle '%s' is not in the form <Tenant_Name/Tenant_UUID>|<VOL_NAME/VOL_UUID>'' [volumeId])
         else if length volParts = 3 then return_io ()
         else if length secrets = 0 then
           throw_io (Errorf ''controller-expand-secret-name and controller-expand-secret-namespace should be configured'' [])
         else
           bind_io (new_client d secrets) (\<lambda>quobyteClient.
           bind_io (q_GetVolumeUUID quobyteClient (volParts ! 1) (volParts ! 0)) (\<lambda>volUUID.
           q_SetVolumeQuota quobyteClient volUUID capacity)))"
  unfolding expandVolume_def Let_def
  by (auto simp: slice_at_within simp del: Split_char)

definition ControllerExpandVolume :: "'w QuobyteDriver \<Rightarrow> ControllerExpandVolumeRequest \<Rightarrow> ('w, int64) io" where
  "ControllerExpandVolume d req =
     (case ev_CapacityRange req of
        None \<Rightarrow> throw_io (Errorf ''invalid capacity range nil for expand volume'' [])
      | Some capacity \<Rightarrow>
          bind_io (expandVolume d (ev_VolumeId req) (ev_Secrets req) capacity) (\<lambda>_. return_io capacity))"

section \<open>Shapes of handles\<close>

lemma split_handle:
  assumes "parts \<noteq> []" and "\<And>p. p \<in> set parts \<Longrightarrow> CHR ''|'' \<notin> set p"
  shows "Split (volume_handle parts) VOLUME_HANDLE_PART_SEPARATOR = parts"
  unfolding volume_handle_def VOLUME_HANDLE_PART_SEPARATOR_def
  using assms by (rule handle_text.split_join)

lemma handle_parts_free: "p \<in> set (Split s VOLUME_HANDLE_PART_SEPARATOR) \<Longrightarrow> CHR ''|'' \<notin> set p"
  unfolding VOLUME_HANDLE_PART_SEPARATOR_def by (rule handle_text.split_parts)

lemma snapshot_prefix_free: "CHR ''|'' \<notin> set SnapshotVolumeHandlePrefix"
  by (simp add: SnapshotVolumeHandlePrefix_def)

text \<open>A handle of several parts is the dummy handle of a snapshot only if its first part has the prefix.\<close>

lemma HasPrefix_handle:
  assumes "CHR ''|'' \<notin> set pre" and "ps \<noteq> []"
  shows "HasPrefix (volume_handle (p # ps)) pre \<longleftrightarrow> HasPrefix p pre"
proof -
  obtain q qs where ps: "ps = q # qs" using assms(2) by (cases ps) auto
  let ?rest = "CHR ''|'' # join_char (CHR ''|'') (q # qs)"
  have "prefix pre (p @ ?rest) \<longleftrightarrow> prefix pre p"
  proof
    assume "prefix pre (p @ ?rest)"
    then have "prefix pre p \<or> (\<exists>us. pre = p @ us \<and> us \<noteq> [] \<and> prefix us ?rest)"
      unfolding prefix_append by (metis append_Nil2 prefix_order.refl)
    then show "prefix pre p"
    proof
      assume "\<exists>us. pre = p @ us \<and> us \<noteq> [] \<and> prefix us ?rest"
      then obtain us where "pre = p @ us" and "us \<noteq> []" and "prefix us ?rest" by blast
      then have "CHR ''|'' \<in> set pre" by (cases us) auto
      with assms(1) show ?thesis by blast
    qed
  qed (rule prefix_prefix)
  then show ?thesis by (simp add: HasPrefix_def volume_handle_def ps)
qed

lemma length_volume_handle: "ps \<noteq> [] \<Longrightarrow> 0 < length (volume_handle (p # ps))"
  by (cases ps) (simp_all add: volume_handle_def)

section \<open>What the handlers return\<close>

lemma CreateVolume_dynamic:
  assumes "validateCreateVolumeRequest (Some req) = Ok ()" and "createSnapshotResponse req = Ok None"
    and "cv_CapacityRange req = Some capacity" and "cv_Parameters req = Some params"
    and "isShared = (map_of params SharedVolumeNameKey \<noteq> None)"
  shows "CreateVolume d (Some req) =
     bind_io (prepare_volume d req params isShared) (\<lambda>(quobyteClient, st, r).
     bind_io (create_or_resolve quobyteClient r) (\<lambda>volUUID.
     finish_volume d quobyteClient isShared st r capacity (cv_Name req) volUUID))"
  using assms by (simp add: CreateVolume_def Let_def)

lemma CreateVolume_invalid:
  assumes "validateCreateVolumeRequest mreq = Err e"
  shows "CreateVolume d mreq = throw_io e"
  using assms by (simp add: CreateVolume_def)

lemma validateE:
  assumes "validateCreateVolumeRequest mreq = Ok ()"
  obtains req capacity params where "mreq = Some req" and "cv_CapacityRange req = Some capacity"
    and "cv_Parameters req = Some params" and "cv_Secrets req \<noteq> []"
  using assms unfolding validate_Ok_iff by blast

lemma validate_SomeD:
  assumes "validateCreateVolumeRequest (Some req) = Ok ()"
  shows "\<exists>c. cv_CapacityRange req = Some c" and "\<exists>ps. cv_Parameters req = Some ps"
    and "cv_Secrets req \<noteq> []"
  using validateE [OF assms] by blast+

lemma validate_cases:
  "validateCreateVolumeRequest mreq = Ok () \<or> (\<exists>e. validateCreateVolumeRequest mreq = Err e)"
  by (cases "validateCreateVolumeRequest mreq") auto

lemma createSnapshotResponse_no_panic:
  "cv_CapacityRange req = Some c \<Longrightarrow> createSnapshotResponse req \<noteq> Panic p"
  by (auto simp: createSnapshotResponse_def split: option.splits)

lemma createSnapshotResponse_cases:
  assumes "cv_CapacityRange req = Some c"
  shows "createSnapshotResponse req =
     (case cv_VolumeContentSource req of
        Some (SourceSnapshot i) \<Rightarrow>
          (if length (Split i VOLUME_HANDLE_PART_SEPARATOR) < 3 then Err (getInvalidSnapshotIdError i)
           else Ok (Some \<lparr>VolumeId = SnapshotVolumeHandlePrefix @ cv_Name req, CapacityBytes = c,
                          ContentSource = Some (SourceSnapshot i), VolumeContext = [(SnapshotIDKey, i)]\<rparr>))
      | _ \<Rightarrow> Ok None)"
  using assms by (simp add: createSnapshotResponse_def split: option.splits VolumeContentSource.splits)

lemma create_or_resolve_run:
  "q_CreateVolume api r w = (Ok u, w1) \<Longrightarrow> create_or_resolve api r w = (Ok u, w1)"
  "q_CreateVolume api r w = (Err e, w1) \<Longrightarrow> create_or_resolve api r w =
     (if Contains (Error e) ''ENTITY_EXISTS_ALREADY''
      then q_ResolveVolumeNameToUUID api (vr_Name r) (vr_TenantId r) w1 else (Err e, w1))"
  "q_CreateVolume api r w = (Panic p, w1) \<Longrightarrow> create_or_resolve api r w = (Panic p, w1)"
  by (simp_all add: create_or_resolve_def)

lemma create_or_resolve_OkE:
  assumes "create_or_resolve api r w = (Ok u, w')"
  obtains (created) "q_CreateVolume api r w = (Ok u, w')"
    | (existed) e w1 where "q_CreateVolume api r w = (Err e, w1)"
        and "Contains (Error e) ''ENTITY_EXISTS_ALREADY''"
        and "q_ResolveVolumeNameToUUID api (vr_Name r) (vr_TenantId r) w1 = (Ok u, w')"
proof -
  obtain c w1 where c: "q_CreateVolume api r w = (c, w1)" by (cases "q_CreateVolume api r w")
  with assms created existed show thesis
    by (cases c) (auto simp: create_or_resolve_run split: if_splits)
qed

lemma finish_volume_Ok:
  assumes "finish_volume d api isShared st r capacity name u w = (Ok vol, w')"
  shows "vol = \<lparr>VolumeId = volume_handle (if isShared then [vr_TenantId r, u, name] else [vr_TenantId r, u]),
                CapacityBytes = capacity, ContentSource = None, VolumeContext = []\<rparr>"
  using assms
  by (auto simp: finish_volume_def make_subdirectory_def volume_handle_simps Let_def bind_io_Ok
      split: if_splits)

end
