(* ===== verification/Volume_Parameters.thy ===== *)
theory Volume_Parameters
  imports Controller "HOL-Library.Multiset"
begin

text \<open>
  The loop of \<open>CreateVolume\<close> over the StorageClass parameters. Go visits a map in an unspecified
  order; these lemmas show when the order does not matter, and which variables a parameter can
  change.
\<close>

section \<open>A parameter as an update\<close>

text \<open>What one parameter does, with the parsing of its value taken out of the update.\<close>

definition param_update :: "bool \<Rightarrow> string \<times> string \<Rightarrow> (create_state \<Rightarrow> create_state) outcome" where
  "param_update s kv =
     (let k = ToLower (fst kv); v = snd kv
      in if k = ''quobytetenant'' then Ok (\<lambda>st. st\<lparr>volRequest := volRequest st\<lparr>vr_TenantId := v\<rparr>\<rparr>)
         else if k = ''sharedvolumename'' then Ok (\<lambda>st. st\<lparr>volRequest := volRequest st\<lparr>vr_Name := v\<rparr>\<rparr>)
         else if k = ''user'' then
           Ok (\<lambda>st. if 0 < length (TrimSpace v) then st\<lparr>volRequest := volRequest st\<lparr>vr_RootUserId := v\<rparr>\<rparr> else st)
         else if k = ''group'' then Ok (\<lambda>st. st\<lparr>volRequest := volRequest st\<lparr>vr_RootGroupId := v\<rparr>\<rparr>)
         else if k = ''createquota'' then Ok (\<lambda>st. st\<lparr>createQuota := (ToLower v = ''true'')\<rparr>)
         else if k = ''labels'' then
           bind_outcome (parseLabels v) (\<lambda>ls. Ok (\<lambda>st. st\<lparr>volRequest := volRequest st\<lparr>vr_Label := ls\<rparr>\<rparr>))
         else if k = ''accessmode'' then
           bind_outcome (ParseUint v 10 32) (\<lambda>u64. Ok (\<lambda>st.
             if \<not> s then st\<lparr>configuredVolumeAccessMode := ucast u64, volRequest := volRequest st\<lparr>vr_AccessMode := ucast u64\<rparr>\<rparr>
             else st\<lparr>configuredVolumeAccessMode := ucast u64\<rparr>))
         else Ok (\<lambda>st. st))"

lemma set_param_update: "set_param s kv st = bind_outcome (param_update s kv) (\<lambda>f. Ok (f st))"
  by (simp add: set_param_def param_update_def Let_def bind_outcome_def split: outcome.splits)

lemma param_updates_commute:
  assumes "ToLower (fst a) \<noteq> ToLower (fst b)" and "param_update s a = Ok f" and "param_update s b = Ok g"
  shows "f (g st) = g (f st)"
proof -
  obtain ka va where a: "a = (ka, va)" by (cases a)
  obtain kb vb where b: "b = (kb, vb)" by (cases b)
  show ?thesis
    using assms unfolding a b param_update_def Let_def fst_conv snd_conv
    by (auto simp: bind_outcome_Ok split: if_splits)
qed

lemma set_param_commute:
  assumes "ToLower (fst a) \<noteq> ToLower (fst b)"
  shows "bind_outcome (set_param s a st) (set_param s b) = Ok r \<longleftrightarrow>
     bind_outcome (set_param s b st) (set_param s a) = Ok r"
  unfolding set_param_update bind_outcome_Ok
  using param_updates_commute [OF assms] by auto

section \<open>The order of the parameters\<close>

text \<open>No two keys are equal up to case.\<close>

definition distinct_keys :: "gomap \<Rightarrow> bool" where
  "distinct_keys kvs \<longleftrightarrow> distinct (map (ToLower \<circ> fst) kvs)"

lemma distinct_keysD:
  assumes "distinct_keys (us @ a # vs)" and "x \<in> set us \<union> set vs"
  shows "ToLower (fst x) \<noteq> ToLower (fst a)"
proof
  assume eq: "ToLower (fst x) = ToLower (fst a)"
  have "(ToLower \<circ> fst) a \<notin> (ToLower \<circ> fst) ` (set us \<union> set vs)"
    using assms(1) by (auto simp: distinct_keys_def simp del: comp_apply)
  with assms(2) eq show False
    by (metis comp_apply image_eqI)
qed

lemma set_params_append:
  "set_params s (xs @ ys) st = bind_outcome (set_params s xs st) (set_params s ys)"
  by (induction xs arbitrary: st) (auto simp: bind_outcome_def split: outcome.splits)

lemma set_params_front:
  assumes "\<And>x. x \<in> set xs \<Longrightarrow> ToLower (fst x) \<noteq> ToLower (fst a)"
  shows "set_params s (xs @ a # ys) st = Ok r \<longleftrightarrow> set_params s (a # xs @ ys) st = Ok r"
  using assms
proof (induction xs arbitrary: st)
  case Nil
  show ?case by simp
next
  case (Cons x xs)
  have ne: "ToLower (fst x) \<noteq> ToLower (fst a)" using Cons.prems by simp
  have "set_params s ((x # xs) @ a # ys) st = Ok r \<longleftrightarrow>
      (\<exists>st1. set_param s x st = Ok st1 \<and> set_params s (a # xs @ ys) st1 = Ok r)"
    using Cons.IH Cons.prems by (auto simp: bind_outcome_Ok)
  also have "\<dots> \<longleftrightarrow> (\<exists>st2. bind_outcome (set_param s x st) (set_param s a) = Ok st2 \<and> set_params s (xs @ ys) st2 = Ok r)"
    by (auto simp: bind_outcome_Ok)
  also have "\<dots> \<longleftrightarrow> (\<exists>st2. bind_outcome (set_param s a st) (set_param s x) = Ok st2 \<and> set_params s (xs @ ys) st2 = Ok r)"
    by (simp only: set_param_commute [OF ne])
  also have "\<dots> \<longleftrightarrow> set_params s (a # (x # xs) @ ys) st = Ok r"
    by (auto simp: bind_outcome_Ok)
  finally show ?case .
qed

lemma set_params_perm:
  assumes "mset xs = mset ys" and "distinct_keys xs"
  shows "set_params s xs st = Ok r \<longleftrightarrow> set_params s ys st = Ok r"
  using assms
proof (induction xs arbitrary: ys st)
  case Nil
  then show ?case by simp
next
  case (Cons a xs)
  from Cons.prems(1) have "a \<in> set ys" by (metis list.set_intros(1) set_mset_mset)
  then obtain us vs where ys: "ys = us @ a # vs" by (auto dest: split_list)
  with Cons.prems(1) have perm: "mset xs = mset (us @ vs)" by simp
  have "set us \<subseteq> set xs" using perm by (metis le_sup_iff set_append set_mset_mset subset_refl)
  then have ne: "ToLower (fst x) \<noteq> ToLower (fst a)" if "x \<in> set us" for x
    using that Cons.prems(2) distinct_keysD [of "[]" a xs x] by auto
  have "set_params s (a # xs) st = Ok r \<longleftrightarrow> set_params s (a # us @ vs) st = Ok r"
    using Cons.IH [OF perm] Cons.prems(2) by (simp add: distinct_keys_def bind_outcome_Ok)
  also have "\<dots> \<longleftrightarrow> set_params s ys st = Ok r"
    unfolding ys using set_params_front [OF ne, of us s vs st r] by blast
  finally show ?case .
qed

lemma set_param_no_panic [simp]: "set_param s kv st \<noteq> Panic p"
  by (auto simp: set_param_def Let_def bind_outcome_Panic)

lemma set_params_no_panic [simp]: "set_params s kvs st \<noteq> Panic p"
  by (induction kvs arbitrary: st) (auto simp: bind_outcome_Panic)

section \<open>Which variables a parameter changes\<close>

text \<open>
  The name after the loop depends on the loop's variables through the name before it only, and so
  does the tenant.
\<close>

definition same_target :: "(VolumeRequest \<Rightarrow> string) \<Rightarrow> create_state \<Rightarrow> create_state \<Rightarrow> bool" where
  "same_target sel st1 st2 \<longleftrightarrow> sel (volRequest st1) = sel (volRequest st2)"

lemma set_param_target:
  assumes "set_param s kv st1 = Ok st1'" and "set_param s kv st2 = Ok st2'"
    and "sel = vr_Name \<or> sel = vr_TenantId" and "same_target sel st1 st2"
  shows "same_target sel st1' st2'"
  using assms unfolding set_param_def Let_def same_target_def
  by (auto simp: bind_outcome_Ok split: if_splits)

lemma set_params_target:
  assumes "set_params s kvs st1 = Ok st1'" and "set_params s kvs st2 = Ok st2'"
    and "sel = vr_Name \<or> sel = vr_TenantId" and "same_target sel st1 st2"
  shows "same_target sel st1' st2'"
  using assms
proof (induction kvs arbitrary: st1 st2)
  case Nil
  then show ?case by simp
next
  case (Cons kv kvs)
  from Cons.prems(1,2) obtain a b where ab: "set_param s kv st1 = Ok a" "set_param s kv st2 = Ok b"
    and rest: "set_params s kvs a = Ok st1'" "set_params s kvs b = Ok st2'"
    by (auto simp: bind_outcome_Ok)
  from Cons.IH [OF rest Cons.prems(3) set_param_target [OF ab Cons.prems(3,4)]] show ?case .
qed

text \<open>A parameter whose lowered key is \<open>sharedvolumename\<close> sets the name, and only such a one does.\<close>

lemma set_params_Name_keep:
  assumes "set_params s kvs st = Ok st'" and "\<forall>kv \<in> set kvs. ToLower (fst kv) \<noteq> ''sharedvolumename''"
  shows "vr_Name (volRequest st') = vr_Name (volRequest st)"
  using assms
proof (induction kvs arbitrary: st)
  case Nil
  then show ?case by simp
next
  case (Cons kv kvs)
  from Cons.prems(1) obtain a where a: "set_param s kv st = Ok a" and rest: "set_params s kvs a = Ok st'"
    by (auto simp: bind_outcome_Ok)
  have "vr_Name (volRequest a) = vr_Name (volRequest st)"
    using a Cons.prems(2) unfolding set_param_def Let_def by (auto simp: bind_outcome_Ok split: if_splits)
  with Cons.IH [OF rest] Cons.prems(2) show ?case by simp
qed

lemma set_params_Name:
  assumes "set_params s kvs st = Ok st'" and "kv \<in> set kvs" and "ToLower (fst kv) = ''sharedvolumename''"
    and "distinct_keys kvs"
  shows "vr_Name (volRequest st') = snd kv"
proof -
  obtain us vs where kvs: "kvs = us @ kv # vs" using assms(2) by (auto dest: split_list)
  with assms(1) obtain a b where b: "set_param s kv a = Ok b" and rest: "set_params s vs b = Ok st'"
    by (auto simp: set_params_append bind_outcome_Ok)
  have "vr_Name (volRequest b) = snd kv"
    using b assms(3) unfolding set_param_def Let_def by auto
  moreover have "\<forall>x \<in> set vs. ToLower (fst x) \<noteq> ''sharedvolumename''"
    using distinct_keysD [of us kv vs] assms(4) unfolding kvs assms(3) by blast
  ultimately show ?thesis using set_params_Name_keep [OF rest] by simp
qed

section \<open>What the parameters ask for\<close>

text \<open>
  The value the loop leaves for a key, whatever the case in which the key is written: the last one in the
  order in which the loop visits the map.
\<close>

definition last_param :: "gomap \<Rightarrow> string \<Rightarrow> string option" where
  "last_param params key = map_of (rev (map (\<lambda>kv. (ToLower (fst kv), snd kv)) params)) key"

definition param_or :: "gomap \<Rightarrow> string \<Rightarrow> string \<Rightarrow> string" where
  "param_or params key dflt = (case last_param params key of None \<Rightarrow> dflt | Some v \<Rightarrow> v)"

lemma last_param_Nil [simp]: "last_param [] key = None"
  by (simp add: last_param_def)

lemma last_param_Cons [simp]:
  "last_param (kv # kvs) key =
     (case last_param kvs key of
        Some v \<Rightarrow> Some v
      | None \<Rightarrow> if ToLower (fst kv) = key then Some (snd kv) else None)"
  by (auto simp: last_param_def map_add_def split: option.splits)

lemma param_or_Cons:
  "param_or (kv # kvs) key dflt = param_or kvs key (if ToLower (fst kv) = key then snd kv else dflt)"
  by (simp add: param_or_def split: option.splits)

lemma param_or_Nil [simp]: "param_or [] key dflt = dflt"
  by (simp add: param_or_def)

lemma set_param_requested:
  assumes "set_param s kv st = Ok st'"
  shows "vr_Name (volRequest st') =
       (if ToLower (fst kv) = ''sharedvolumename'' then snd kv else vr_Name (volRequest st))"
    and "vr_TenantId (volRequest st') =
       (if ToLower (fst kv) = ''quobytetenant'' then snd kv else vr_TenantId (volRequest st))"
    and "createQuota st' \<longleftrightarrow>
       (if ToLower (fst kv) = ''createquota'' then ToLower (snd kv) = ''true'' else createQuota st)"
  using assms unfolding set_param_def Let_def by (auto simp: bind_outcome_Ok split: if_splits)

lemma set_params_requested:
  assumes "set_params s kvs st = Ok st'"
  shows "vr_Name (volRequest st') = param_or kvs ''sharedvolumename'' (vr_Name (volRequest st))"
    and "vr_TenantId (volRequest st') = param_or kvs ''quobytetenant'' (vr_TenantId (volRequest st))"
    and "createQuota st' \<longleftrightarrow> (case last_param kvs ''createquota'' of
            None \<Rightarrow> createQuota st | Some v \<Rightarrow> ToLower v = ''true'')"
proof -
  have "vr_Name (volRequest st') = param_or kvs ''sharedvolumename'' (vr_Name (volRequest st)) \<and>
      vr_TenantId (volRequest st') = param_or kvs ''quobytetenant'' (vr_TenantId (volRequest st)) \<and>
      (createQuota st' \<longleftrightarrow> (case last_param kvs ''createquota'' of
            None \<Rightarrow> createQuota st | Some v \<Rightarrow> ToLower v = ''true''))"
    using assms
  proof (induction kvs arbitrary: st)
    case Nil
    then show ?case by simp
  next
    case (Cons kv kvs)
    from Cons.prems obtain a where a: "set_param s kv st = Ok a" and rest: "set_params s kvs a = Ok st'"
      by (auto simp: bind_outcome_Ok)
    show ?case
      using Cons.IH [OF rest] set_param_requested [OF a]
      by (simp add: param_or_Cons split: option.splits)
  qed
  then show "vr_Name (volRequest st') = param_or kvs ''sharedvolumename'' (vr_Name (volRequest st))"
    and "vr_TenantId (volRequest st') = param_or kvs ''quobytetenant'' (vr_TenantId (volRequest st))"
    and "createQuota st' \<longleftrightarrow> (case last_param kvs ''createquota'' of
            None \<Rightarrow> createQuota st | Some v \<Rightarrow> ToLower v = ''true'')"
    by simp_all
qed

text \<open>
  The loop fails in one order of the parameters exactly when it fails in the other.
\<close>

lemma set_params_perm_cases:
  assumes "mset xs = mset ys" and "distinct_keys xs"
  shows "set_params s xs st = set_params s ys st \<or>
     (\<exists>e e'. set_params s xs st = Err e \<and> set_params s ys st = Err e')"
proof (cases "set_params s xs st")
  case (Ok r)
  with set_params_perm [OF assms, of s st r] show ?thesis by simp
next
  case (Err e)
  then have "set_params s ys st \<noteq> Ok r" for r using set_params_perm [OF assms, of s st r] by simp
  with Err show ?thesis by (cases "set_params s ys st") auto
next
  case (Panic p)
  then show ?thesis by simp
qed

end
