(* ===== verification/Handler_Contracts.thy ===== *)
theory Handler_Contracts
  imports Volume_Parameters
begin

text \<open>
  What the theorems about handlers assume of the Quobyte service and of the mounter: that their calls
  do not panic, and the documented behaviour of the service's volumes. Each is a predicate on a
  driver, and the sample driver satisfies both.
\<close>

section \<open>Calls that do not panic\<close>

definition quiet_api :: "'w QuobyteApi \<Rightarrow> bool" where
  "quiet_api api \<longleftrightarrow>
     quiet (q_WhoAmI api) \<and> (\<forall>t. quiet (q_GetTenantUUID api t)) \<and> (\<forall>r. quiet (q_CreateVolume api r)) \<and>
     (\<forall>n t. quiet (q_ResolveVolumeNameToUUID api n t)) \<and> (\<forall>v c. quiet (q_SetVolumeQuota api v c)) \<and>
     (\<forall>v t. quiet (q_DeleteVolumeByResolvingNamesToUUID api v t)) \<and>
     (\<forall>v t i. quiet (q_EraseVolumeByResolvingNamesToUUID api v t i)) \<and>
     (\<forall>r. quiet (q_CreateTask api r)) \<and> (\<forall>v t. quiet (q_GetVolumeUUID api v t)) \<and>
     (\<forall>r. quiet (q_CreateSnapshot api r)) \<and> (\<forall>v n. quiet (q_DeleteSnapshot api v n)) \<and>
     (\<forall>v. quiet (q_ListSnapshots api v))"

definition quiet_mounter :: "'w Mounter \<Rightarrow> bool" where
  "quiet_mounter mnt \<longleftrightarrow>
     (\<forall>p m. quiet (m_Mkdirs mnt p m)) \<and> (\<forall>p m. quiet (m_Mkdir mnt p m)) \<and> (\<forall>p m. quiet (m_Chmod mnt p m)) \<and>
     (\<forall>p u g. quiet (m_Chown mnt p u g)) \<and> (\<forall>p q. quiet (m_Rename mnt p q)) \<and>
     (\<forall>u. quiet (m_Lookup mnt u)) \<and> (\<forall>g. quiet (m_LookupGroup mnt g)) \<and>
     (\<forall>s t. quiet (m_Mount mnt s t)) \<and> (\<forall>t. quiet (m_Unmount mnt t)) \<and> (\<forall>p. quiet (m_Stat mnt p)) \<and>
     (\<forall>p. quiet (m_Statfs mnt p)) \<and> (\<forall>k v p. quiet (m_SetXAttr mnt k v p)) \<and>
     quiet (m_CreateAccessKeyContextHandle mnt) \<and> (\<forall>p. quiet (m_RemoveAll mnt p))"

definition quiet_driver :: "'w QuobyteDriver \<Rightarrow> bool" where
  "quiet_driver d \<longleftrightarrow> quiet_mounter (mounter d) \<and> (\<forall>s. quiet (new_client d s)) \<and>
     (\<forall>s w api w'. new_client d s w = (Ok api, w') \<longrightarrow> quiet_api api)"

lemma quiet_bind_run:
  assumes "quiet m" and "\<And>w a w'. m w = (Ok a, w') \<Longrightarrow> quiet (f a)"
  shows "quiet (bind_io m f)"
  using assms unfolding quiet_def io_inv by blast

lemma quiet_new_client:
  assumes "quiet_driver d" and "\<And>api. quiet_api api \<Longrightarrow> quiet (f api)"
  shows "quiet (bind_io (new_client d s) f)"
proof (rule quiet_bind_run)
  show "quiet (new_client d s)" using assms(1) unfolding quiet_driver_def by blast
  show "quiet (f api)" if "new_client d s w = (Ok api, w')" for w api w'
    using assms that unfolding quiet_driver_def by blast
qed

lemma quiet_DirectoryMaker:
  assumes "quiet_mounter mnt"
  shows "quiet (DirectoryMaker_Mkdir mnt path req)"
  using assms unfolding quiet_mounter_def DirectoryMaker_Mkdir_def createDirectory_def
    mkdir_ignore_exists_def chownDirectory_def
  by (auto intro!: quiet_rules split: sum.splits option.splits)

lemma sample_quiet:
  assumes "\<And>p. quota \<noteq> Panic p"
  shows "quiet_driver (sample_driver quota)"
  using assms unfolding quiet_driver_def quiet_mounter_def quiet_api_def quiet_def
  by (auto simp: sample_defs return_io_def split: option.splits node.splits if_splits)

section \<open>The volumes of the service\<close>

text \<open>
  On a view of the world that gives the identifier of the volume with a name and a tenant: creating
  a volume adds it under a new identifier, or fails and changes nothing, and it fails where a volume
  with that name and tenant exists; resolving a name changes nothing and finds the volume; the
  other calls \<open>CreateVolume\<close> makes on the service change no volume; and a tenant is resolved to the
  same identifier each time.
\<close>

definition api_contract ::
  "('w \<Rightarrow> string \<times> string \<Rightarrow> string option) \<Rightarrow> (string \<Rightarrow> string) \<Rightarrow> 'w QuobyteApi \<Rightarrow> bool" where
  "api_contract vols tid api \<longleftrightarrow>
     (\<forall>r w res w'. q_CreateVolume api r w = (res, w') \<longrightarrow>
        (\<exists>u. res = Ok u \<and> vols w (vr_Name r, vr_TenantId r) = None \<and>
             vols w' = (vols w)((vr_Name r, vr_TenantId r) := Some u)) \<or>
        (\<exists>e. res = Err e \<and> vols w' = vols w)) \<and>
     (\<forall>n t w res w'. q_ResolveVolumeNameToUUID api n t w = (res, w') \<longrightarrow>
        vols w' = vols w \<and> (\<forall>u. res = Ok u \<longrightarrow> vols w (n, t) = Some u)) \<and>
     (\<forall>w res w'. q_WhoAmI api w = (res, w') \<longrightarrow> vols w' = vols w) \<and>
     (\<forall>t w res w'. q_GetTenantUUID api t w = (res, w') \<longrightarrow>
        vols w' = vols w \<and> (\<forall>u. res = Ok u \<longrightarrow> u = tid t)) \<and>
     (\<forall>v c w res w'. q_SetVolumeQuota api v c w = (res, w') \<longrightarrow> vols w' = vols w)"

definition mounter_keeps_volumes :: "('w \<Rightarrow> string \<times> string \<Rightarrow> string option) \<Rightarrow> 'w Mounter \<Rightarrow> bool" where
  "mounter_keeps_volumes vols mnt \<longleftrightarrow>
     (\<forall>v. (\<forall>p. keeps (\<lambda>w. vols w = v) (m_Stat mnt p)) \<and> (\<forall>p m. keeps (\<lambda>w. vols w = v) (m_Mkdir mnt p m)) \<and>
          (\<forall>p m. keeps (\<lambda>w. vols w = v) (m_Chmod mnt p m)) \<and> (\<forall>p u g. keeps (\<lambda>w. vols w = v) (m_Chown mnt p u g)) \<and>
          (\<forall>u. keeps (\<lambda>w. vols w = v) (m_Lookup mnt u)) \<and> (\<forall>g. keeps (\<lambda>w. vols w = v) (m_LookupGroup mnt g)))"

definition service_contract ::
  "('w \<Rightarrow> string \<times> string \<Rightarrow> string option) \<Rightarrow> (string \<Rightarrow> string) \<Rightarrow> 'w QuobyteDriver \<Rightarrow> bool" where
  "service_contract vols tid d \<longleftrightarrow>
     mounter_keeps_volumes vols (mounter d) \<and>
     (\<forall>s w res w'. new_client d s w = (res, w') \<longrightarrow>
        vols w' = vols w \<and> (\<forall>api. res = Ok api \<longrightarrow> api_contract vols tid api))"

lemma sample_api_contract:
  assumes "quota = Ok ()"
  shows "api_contract volumes (\<lambda>t. t @ ''-id'') (sample_api quota)"
  unfolding api_contract_def using assms
  by (auto simp: sample_api_def split: option.splits)

lemma sample_mounter_keeps_volumes: "mounter_keeps_volumes volumes (sample_mounter known)"
  unfolding mounter_keeps_volumes_def keeps_def
  by (auto simp: sample_mounter_def sample_attribute_def split: option.splits node.splits if_splits)

lemma sample_service_contract:
  "service_contract volumes (\<lambda>t. t @ ''-id'') (sample_driver (Ok ()))"
  using sample_api_contract sample_mounter_keeps_volumes
  by (simp add: service_contract_def sample_driver_def)

lemma keeps_DirectoryMaker:
  assumes "mounter_keeps_volumes vols mnt"
  shows "keeps (\<lambda>w. vols w = v) (DirectoryMaker_Mkdir mnt path req)"
  using assms unfolding mounter_keeps_volumes_def DirectoryMaker_Mkdir_def createDirectory_def
    mkdir_ignore_exists_def chownDirectory_def
  by (auto intro!: keeps_rules split: sum.splits option.splits)

lemma api_contract_create:
  assumes "api_contract vols tid api" and "q_CreateVolume api r w = (res, w')"
  shows "(\<exists>u. res = Ok u \<and> vols w (vr_Name r, vr_TenantId r) = None \<and>
             vols w' = (vols w)((vr_Name r, vr_TenantId r) := Some u)) \<or>
        (\<exists>e. res = Err e \<and> vols w' = vols w)"
  by (rule conjunct1 [OF assms(1) [unfolded api_contract_def], rule_format, OF assms(2)])

lemma api_contract_resolve:
  assumes "api_contract vols tid api" and "q_ResolveVolumeNameToUUID api n t w = (res, w')"
  shows "vols w' = vols w \<and> (\<forall>u. res = Ok u \<longrightarrow> vols w (n, t) = Some u)"
  using assms unfolding api_contract_def by blast

lemma api_contract_others:
  assumes "api_contract vols tid api"
  shows "q_WhoAmI api w = (res1, w') \<Longrightarrow> vols w' = vols w"
    and "q_GetTenantUUID api t w = (res2, w') \<Longrightarrow> vols w' = vols w"
    and "q_GetTenantUUID api t w = (Ok u, w') \<Longrightarrow> u = tid t"
    and "q_SetVolumeQuota api v c w = (res3, w') \<Longrightarrow> vols w' = vols w"
  using assms unfolding api_contract_def by blast+

lemma create_or_resolve_volumes:
  assumes "api_contract vols tid api" and "create_or_resolve api r w = (Ok u, w')"
  shows "vols w' (vr_Name r, vr_TenantId r) = Some u \<and>
     (\<forall>k v. vols w k = Some v \<longrightarrow> vols w' k = Some v)"
proof -
  from assms(2) show ?thesis
  proof (cases rule: create_or_resolve_OkE)
    case created
    have "vols w (vr_Name r, vr_TenantId r) = None"
      and "vols w' = (vols w)((vr_Name r, vr_TenantId r) := Some u)"
      using api_contract_create [OF assms(1) created] by simp_all
    then show ?thesis by auto
  next
    case (existed e w1)
    have "vols w1 = vols w"
      using api_contract_create [OF assms(1) existed(1)] by simp
    then show ?thesis
      using api_contract_resolve [OF assms(1) existed(3)] by simp
  qed
qed

section \<open>A service that answers\<close>

text \<open>
  A reachable service: the client for some secrets can be made, \<open>WhoAmI\<close> always names the same user, the
  tenant is known, creating a volume that exists fails with the documented error, a volume that exists is
  found by its name, and a quota can be set. None of these calls touches the node's files, and a directory
  that stands on the node can be examined.
\<close>

definition answers :: "('w \<Rightarrow> 'v) \<Rightarrow> ('w, 'a) io \<Rightarrow> 'a \<Rightarrow> bool" where
  "answers view m a \<longleftrightarrow> (\<forall>w. \<exists>w'. m w = (Ok a, w') \<and> view w' = view w)"

definition api_up ::
  "('w \<Rightarrow> string \<times> string \<Rightarrow> string option) \<Rightarrow> ('w \<Rightarrow> string \<Rightarrow> node option) \<Rightarrow> (string \<Rightarrow> string) \<Rightarrow>
     WhoAmIResponse \<Rightarrow> string \<Rightarrow> 'w QuobyteApi \<Rightarrow> bool" where
  "api_up vols view tid user t api \<longleftrightarrow>
     answers view (q_WhoAmI api) user \<and> answers view (q_GetTenantUUID api t) (tid t) \<and>
     (\<forall>r w u. vols w (vr_Name r, vr_TenantId r) = Some u \<longrightarrow>
        (\<exists>e w'. q_CreateVolume api r w = (Err e, w') \<and> Contains (Error e) ''ENTITY_EXISTS_ALREADY'' \<and> view w' = view w)) \<and>
     (\<forall>n t w u. vols w (n, t) = Some u \<longrightarrow>
        (\<exists>w'. q_ResolveVolumeNameToUUID api n t w = (Ok u, w') \<and> view w' = view w)) \<and>
     (\<forall>u c. answers view (q_SetVolumeQuota api u c) ())"

definition service_up ::
  "('w \<Rightarrow> string \<times> string \<Rightarrow> string option) \<Rightarrow> ('w \<Rightarrow> string \<Rightarrow> node option) \<Rightarrow> (string \<Rightarrow> string) \<Rightarrow>
     WhoAmIResponse \<Rightarrow> string \<Rightarrow> gomap \<Rightarrow> 'w QuobyteDriver \<Rightarrow> bool" where
  "service_up vols view tid user t secrets d \<longleftrightarrow>
     (\<forall>w. \<exists>api w'. new_client d secrets w = (Ok api, w') \<and> view w' = view w) \<and>
     (\<forall>w api w'. new_client d secrets w = (Ok api, w') \<longrightarrow> api_up vols view tid user t api)"

definition stat_answers :: "('w \<Rightarrow> string \<Rightarrow> node option) \<Rightarrow> 'w Mounter \<Rightarrow> bool" where
  "stat_answers view mnt \<longleftrightarrow>
     (\<forall>p w m. view w p = Some (DirNode m) \<longrightarrow> (\<exists>info w'. m_Stat mnt p w = (Ok info, w')))"

lemma answersD: "answers view m a \<Longrightarrow> \<exists>w'. m w = (Ok a, w') \<and> view w' = view w"
  unfolding answers_def by blast

lemma api_upD:
  assumes "api_up vols view tid user t api"
  shows "answers view (q_WhoAmI api) user" and "answers view (q_GetTenantUUID api t) (tid t)"
    and "answers view (q_SetVolumeQuota api u c) ()"
  using assms unfolding api_up_def by blast+

lemma create_or_resolve_existing:
  assumes "api_contract vols tid api" and "api_up vols view tid user t api"
    and "vols w (vr_Name r, vr_TenantId r) = Some u"
  shows "\<exists>w'. create_or_resolve api r w = (Ok u, w') \<and> vols w' = vols w \<and> view w' = view w"
proof -
  obtain e w1 where run: "q_CreateVolume api r w = (Err e, w1)" and e: "Contains (Error e) ''ENTITY_EXISTS_ALREADY''"
    and v1: "view w1 = view w"
    using assms(2,3) unfolding api_up_def by blast
  have vols1: "vols w1 = vols w" using api_contract_create [OF assms(1) run] by simp
  then have "vols w1 (vr_Name r, vr_TenantId r) = Some u" using assms(3) by simp
  then obtain w2 where res: "q_ResolveVolumeNameToUUID api (vr_Name r) (vr_TenantId r) w1 = (Ok u, w2)"
    and v2: "view w2 = view w1"
    using assms(2) unfolding api_up_def by blast
  have "vols w2 = vols w1" using api_contract_resolve [OF assms(1) res] by blast
  then show ?thesis using create_or_resolve_run(2) [OF run] e res v1 v2 vols1 by auto
qed

lemma exists_already: "Contains ''ENTITY_EXISTS_ALREADY/POSIX_ERROR_NONE'' ''ENTITY_EXISTS_ALREADY''"
  unfolding Contains_iff by (intro exI [of _ "[]"] exI [of _ "''/POSIX_ERROR_NONE''"]) simp

lemma sample_service_up:
  "service_up volumes files (\<lambda>t. t @ ''-id'') \<lparr>UserName = ''admin'', PrimaryGroup = ''staff''\<rparr> t secrets (sample_driver (Ok ()))"
  using exists_already
  by (auto simp: service_up_def api_up_def answers_def sample_driver_def sample_api_def logged_def return_io_def)

lemma sample_stat_answers: "stat_answers files (mounter (sample_driver (Ok ())))"
  by (auto simp: stat_answers_def sample_driver_def sample_mounter_def)

end
