(* ===== verification/Snapshots.thy ===== *)
theory Snapshots
  imports Handler_Contracts "HOL-Library.Signed_Division"
begin

text \<open>
  \<open>driver/controller.go\<close>, snapshots: \<open>CreateSnapshot\<close>, \<open>DeleteSnapshot\<close> and \<open>ListSnapshots\<close>. A snapshot id is
  \<open>tenant|volume|name\<close>, a handle of three parts. The properties relate the three: which snapshot an
  id returned by one call means to the others.
\<close>

definition pinnedKey :: string where "pinnedKey = ''pinned''"

section \<open>The operations\<close>

definition requested_pinned :: "gomap \<Rightarrow> bool outcome" where
  "requested_pinned params =
     (case map_of params pinnedKey of
        Some pinned \<Rightarrow>
          (case ParseBool pinned of
             Ok pinnedVal \<Rightarrow> Ok pinnedVal
           | Err err \<Rightarrow> Err (Errorf ''VolumeSnapshotClass.Parameters.pinned must be true/false. Configured value %s is invalid.'' [pinned])
           | Panic p \<Rightarrow> Panic p)
      | None \<Rightarrow> Ok False)"

text \<open>The seconds of the wall clock, \<open>time.Now().Unix()\<close>, are a function of the world.\<close>

definition snapshot_response ::
  "('w \<Rightarrow> int64) \<Rightarrow> CreateSnapshotReq \<Rightarrow> string \<Rightarrow> string \<Rightarrow> ('w, Snapshot) io" where
  "snapshot_response now req tenantUUID volUUID = (\<lambda>w.
     (Ok \<lparr>SnapshotId = tenantUUID @ VOLUME_HANDLE_PART_SEPARATOR @ volUUID @ VOLUME_HANDLE_PART_SEPARATOR @ cs_Name req,
          SourceVolumeId = cs_SourceVolumeId req, CreationTime = now w, ReadyToUse = True\<rparr>, w))"

definition CreateSnapshot :: "('w \<Rightarrow> int64) \<Rightarrow> 'w QuobyteDriver \<Rightarrow> CreateSnapshotReq \<Rightarrow> ('w, Snapshot) io" where
  "CreateSnapshot now d req =
     bind_io (lift_io (requested_pinned (cs_Parameters req))) (\<lambda>isPinned.
     let volumeId = cs_SourceVolumeId req;
         volParts = Split volumeId VOLUME_HANDLE_PART_SEPARATOR
     in if length volParts < 2
        then throw_io (Errorf ''given volumeId %s is not of the form <Tenant>%s<Volume>'' [volumeId, VOLUME_HANDLE_PART_SEPARATOR])
        else
          bind_io (new_client d (cs_Secrets req)) (\<lambda>quobyteClient.
          bind_io (lift_io (slice_at volParts 1)) (\<lambda>volume.
          bind_io (lift_io (slice_at volParts 0)) (\<lambda>tenant.
          bind_io (q_GetVolumeUUID quobyteClient volume tenant) (\<lambda>volUUID.
          bind_io (lift_io (slice_at volParts 0)) (\<lambda>tenant'.
          bind_io (q_GetTenantUUID quobyteClient tenant') (\<lambda>tenantUUID.
          bind_io (try_io (q_CreateSnapshot quobyteClient
                     \<lparr>qs_VolumeUuid = volUUID, qs_Name = cs_Name req, qs_Pinned = isPinned\<rparr>)) (\<lambda>resp.
          case resp of
            Inl err \<Rightarrow>
              if \<not> Contains (Error err) ''ENTITY_EXISTS_ALREADY/POSIX_ERROR_NONE'' then throw_io err
              else snapshot_response now req tenantUUID volUUID
          | Inr _ \<Rightarrow> snapshot_response now req tenantUUID volUUID))))))))"

text \<open>Behind the check of the number of parts every look-up is in range.\<close>

lemma CreateSnapshot_guarded:
  "CreateSnapshot now d req =
     bind_io (lift_io (requested_pinned (cs_Parameters req))) (\<lambda>isPinned.
     let volumeId = cs_SourceVolumeId req;
         volParts = Split volumeId VOLUME_HANDLE_PART_SEPARATOR
     in if length volParts < 2
        then throw_io (Errorf ''given volumeId %s is not of the form <Tenant>%s<Volume>'' [volumeId, VOLUME_HANDLE_PART_SEPARATOR])
        else
          bind_io (new_client d (cs_Secrets req)) (\<lambda>quobyteClient.
          bind_io (q_GetVolumeUUID quobyteClient (volParts ! 1) (volParts ! 0)) (\<lambda>volUUID.
          bind_io (q_GetTenantUUID quobyteClient (volParts ! 0)) (\<lambda>tenantUUID.
          bind_io (try_io (q_CreateSnapshot quobyteClient
                     \<lparr>qs_VolumeUuid = volUUID, qs_Name = cs_Name req, qs_Pinned = isPinned\<rparr>)) (\<lambda>resp.
          case resp of
            Inl err \<Rightarrow>
              if \<not> Contains (Error err) ''ENTITY_EXISTS_ALREADY/POSIX_ERROR_NONE'' then throw_io err
              else snapshot_response now req tenantUUID volUUID
          | Inr _ \<Rightarrow> snapshot_response now req tenantUUID volUUID)))))"
  unfolding CreateSnapshot_def Let_def
  by (intro arg_cong [where f = "bind_io (lift_io (requested_pinned (cs_Parameters req)))"] ext)
    (auto simp: slice_at_within simp del: Split_char)

text \<open>The part that \<open>DeleteSnapshot\<close> and \<open>ListSnapshots\<close> have in common: the id's parts and what they resolve to.\<close>

definition open_snapshot ::
  "'w QuobyteDriver \<Rightarrow> SnapshotIdRequest \<Rightarrow> ('w, 'w QuobyteApi \<times> string list \<times> string) io" where
  "open_snapshot d req =
     (let snapshotID = sr_SnapshotId req;
          snapshotParts = Split snapshotID VOLUME_HANDLE_PART_SEPARATOR
      in if length snapshotParts < 3
         then throw_io (Errorf (''invalid snapshot UID: %s. VolumeSnapshotRef.uid must be of form '<tenant>%s<volume>%s<snapshot-name>'' @ [CHR 0x27])
                [snapshotID, VOLUME_HANDLE_PART_SEPARATOR, VOLUME_HANDLE_PART_SEPARATOR])
         else
           bind_io (new_client d (sr_Secrets req)) (\<lambda>quobyteClient.
           bind_io (lift_io (slice_at snapshotParts 0)) (\<lambda>tenant.
           bind_io (q_GetTenantUUID quobyteClient tenant) (\<lambda>tenantUUID.
           bind_io (lift_io (slice_at snapshotParts 1)) (\<lambda>volume.
           bind_io (q_GetVolumeUUID quobyteClient volume tenantUUID) (\<lambda>volUUID.
           return_io (quobyteClient, snapshotParts, volUUID)))))))"

lemma open_snapshot_guarded:
  "open_snapshot d req =
     (let snapshotID = sr_SnapshotId req;
          snapshotParts = Split snapshotID VOLUME_HANDLE_PART_SEPARATOR
      in if length snapshotParts < 3
         then throw_io (Errorf (''invalid snapshot UID: %s. VolumeSnapshotRef.uid must be of form '<tenant>%s<volume>%s<snapshot-name>'' @ [CHR 0x27])
                [snapshotID, VOLUME_HANDLE_PART_SEPARATOR, VOLUME_HANDLE_PART_SEPARATOR])
         else
           bind_io (new_client d (sr_Secrets req)) (\<lambda>quobyteClient.
           bind_io (q_GetTenantUUID quobyteClient (snapshotParts ! 0)) (\<lambda>tenantUUID.
           bind_io (q_GetVolumeUUID quobyteClient (snapshotParts ! 1) tenantUUID) (\<lambda>volUUID.
           return_io (quobyteClient, snapshotParts, volUUID)))))"
  unfolding open_snapshot_def Let_def
  by (auto simp: slice_at_within simp del: Split_char return_io_eval)

text \<open>The parts that are handed on are at least three.\<close>

lemma open_snapshot_parts:
  assumes "open_snapshot d req w = (Ok (api, parts, volUUID), w')"
  shows "2 < length parts"
  using assms by (auto simp: open_snapshot_guarded Let_def bind_io_Ok not_less simp del: Split_char split: if_splits)

definition DeleteSnapshot :: "'w QuobyteDriver \<Rightarrow> SnapshotIdRequest \<Rightarrow> ('w, unit) io" where
  "DeleteSnapshot d req =
     bind_io (open_snapshot d req) (\<lambda>(quobyteClient, snapshotParts, volUUID).
     bind_io (lift_io (slice_at snapshotParts 2)) (\<lambda>name.
       q_DeleteSnapshot quobyteClient volUUID name))"

lemma bind_io_cong_run:
  assumes "\<And>a w'. m w = (Ok a, w') \<Longrightarrow> f a w' = g a w'"
  shows "bind_io m f w = bind_io m g w"
  using assms by (auto simp: bind_io_def split: prod.splits outcome.splits)

lemma DeleteSnapshot_guarded:
  "DeleteSnapshot d req =
     bind_io (open_snapshot d req) (\<lambda>(quobyteClient, snapshotParts, volUUID).
       q_DeleteSnapshot quobyteClient volUUID (snapshotParts ! 2))"
  unfolding DeleteSnapshot_def
  by (intro ext bind_io_cong_run) (auto dest!: open_snapshot_parts simp: slice_at_within)

text \<open>\<open>entry.Timestamp / 1000\<close> on \<open>int64\<close> truncates towards zero.\<close>

definition list_entry :: "string list \<Rightarrow> SnapshotEntry \<Rightarrow> Snapshot outcome" where
  "list_entry snapshotParts entry =
     bind_outcome (slice_at snapshotParts 0) (\<lambda>tenant.
     bind_outcome (slice_at snapshotParts 1) (\<lambda>volume.
     Ok \<lparr>SnapshotId = tenant @ VOLUME_HANDLE_PART_SEPARATOR @ volume @ VOLUME_HANDLE_PART_SEPARATOR @ se_Name entry,
         SourceVolumeId = se_VolumeUuid entry,
         CreationTime = word_of_int (sint (se_Timestamp entry) sdiv 1000),
         ReadyToUse = True\<rparr>))"

fun list_entries :: "string list \<Rightarrow> SnapshotEntry list \<Rightarrow> Snapshot list outcome" where
  "list_entries snapshotParts [] = Ok []"
| "list_entries snapshotParts (entry # rest) =
     bind_outcome (list_entry snapshotParts entry) (\<lambda>s.
     bind_outcome (list_entries snapshotParts rest) (\<lambda>ss. Ok (s # ss)))"

definition ListSnapshots :: "'w QuobyteDriver \<Rightarrow> SnapshotIdRequest \<Rightarrow> ('w, Snapshot list) io" where
  "ListSnapshots d req =
     bind_io (open_snapshot d req) (\<lambda>(quobyteClient, snapshotParts, volUUID).
     bind_io (q_ListSnapshots quobyteClient volUUID) (\<lambda>listResp.
     lift_io (list_entries snapshotParts listResp)))"

definition listed :: "string list \<Rightarrow> SnapshotEntry \<Rightarrow> Snapshot" where
  "listed snapshotParts entry =
     \<lparr>SnapshotId = snapshotParts ! 0 @ VOLUME_HANDLE_PART_SEPARATOR @ snapshotParts ! 1 @ VOLUME_HANDLE_PART_SEPARATOR @ se_Name entry,
      SourceVolumeId = se_VolumeUuid entry,
      CreationTime = word_of_int (sint (se_Timestamp entry) sdiv 1000),
      ReadyToUse = True\<rparr>"

lemma list_entries_within: "1 < length parts \<Longrightarrow> list_entries parts es = Ok (map (listed parts) es)"
  by (induction es) (auto simp: list_entry_def listed_def slice_at_within)

lemma ListSnapshots_guarded:
  "ListSnapshots d req =
     bind_io (open_snapshot d req) (\<lambda>(quobyteClient, snapshotParts, volUUID).
     bind_io (q_ListSnapshots quobyteClient volUUID) (\<lambda>listResp.
     return_io (map (listed snapshotParts) listResp)))"
  unfolding ListSnapshots_def
  by (intro ext bind_io_cong_run) (auto dest!: open_snapshot_parts simp: list_entries_within lift_io_def return_io_def
      intro!: bind_io_cong_run)

section \<open>Ids\<close>

lemma requested_pinned_no_panic [simp]: "requested_pinned params \<noteq> Panic p"
  by (auto simp: requested_pinned_def split: option.splits outcome.splits)

lemma requested_pinned_Ok:
  "requested_pinned params = Ok b \<longleftrightarrow>
     (case map_of params pinnedKey of None \<Rightarrow> \<not> b
      | Some v \<Rightarrow> (b \<and> v \<in> {''1'', ''t'', ''T'', ''TRUE'', ''true'', ''True''}) \<or>
                  (\<not> b \<and> v \<in> {''0'', ''f'', ''F'', ''FALSE'', ''false'', ''False''}))"
  unfolding requested_pinned_def ParseBool_def by (cases "map_of params pinnedKey") auto

lemma snapshot_response_handle:
  "snapshot_response now req t v w = (Ok s, w') \<longleftrightarrow>
     s = \<lparr>SnapshotId = volume_handle [t, v, cs_Name req], SourceVolumeId = cs_SourceVolumeId req,
          CreationTime = now w, ReadyToUse = True\<rparr> \<and> w' = w"
  by (auto simp: snapshot_response_def volume_handle_simps)

lemma CreateSnapshot_Ok:
  assumes "CreateSnapshot now d req w = (Ok s, w')"
  obtains api isPinned t v volUUID tenantUUID w1 w2 w3 r
  where "requested_pinned (cs_Parameters req) = Ok isPinned"
    and "\<exists>rest. Split (cs_SourceVolumeId req) VOLUME_HANDLE_PART_SEPARATOR = t # v # rest"
    and "new_client d (cs_Secrets req) w = (Ok api, w1)" and "q_GetVolumeUUID api v t w1 = (Ok volUUID, w2)"
    and "q_GetTenantUUID api t w2 = (Ok tenantUUID, w3)"
    and "q_CreateSnapshot api \<lparr>qs_VolumeUuid = volUUID, qs_Name = cs_Name req, qs_Pinned = isPinned\<rparr> w3 = (r, w')"
    and "r = Ok () \<or> (\<exists>e. r = Err e \<and> Contains (Error e) ''ENTITY_EXISTS_ALREADY/POSIX_ERROR_NONE'')"
    and "s = \<lparr>SnapshotId = volume_handle [tenantUUID, volUUID, cs_Name req], SourceVolumeId = cs_SourceVolumeId req,
              CreationTime = now w', ReadyToUse = True\<rparr>"
proof -
  let ?parts = "Split (cs_SourceVolumeId req) VOLUME_HANDLE_PART_SEPARATOR"
  from assms obtain isPinned where p: "requested_pinned (cs_Parameters req) = Ok isPinned"
    by (cases "requested_pinned (cs_Parameters req)") (simp_all add: CreateSnapshot_guarded)
  with assms have len: "\<not> length ?parts < 2" by (auto simp: CreateSnapshot_guarded)
  then obtain t v rest where parts: "?parts = t # v # rest"
    by (cases ?parts; cases "tl ?parts") auto
  from assms p len obtain api w1 volUUID w2 tenantUUID w3 resp w4 where
    c: "new_client d (cs_Secrets req) w = (Ok api, w1)" and u: "q_GetVolumeUUID api v t w1 = (Ok volUUID, w2)"
    and n: "q_GetTenantUUID api t w2 = (Ok tenantUUID, w3)"
    and r: "try_io (q_CreateSnapshot api \<lparr>qs_VolumeUuid = volUUID, qs_Name = cs_Name req, qs_Pinned = isPinned\<rparr>) w3 = (Ok resp, w4)"
    and s: "(case resp of Inl err \<Rightarrow> if \<not> Contains (Error err) ''ENTITY_EXISTS_ALREADY/POSIX_ERROR_NONE'' then throw_io err
              else snapshot_response now req tenantUUID volUUID
          | Inr _ \<Rightarrow> snapshot_response now req tenantUUID volUUID) w4 = (Ok s, w')"
    by (simp add: CreateSnapshot_guarded Let_def parts bind_io_Ok) blast
  from s have fin: "snapshot_response now req tenantUUID volUUID w4 = (Ok s, w')"
    and e: "\<And>err. resp = Inl err \<Longrightarrow> Contains (Error err) ''ENTITY_EXISTS_ALREADY/POSIX_ERROR_NONE''"
    by (auto split: sum.splits if_splits)
  from fin have w4: "w4 = w'" by (simp add: snapshot_response_handle)
  from r obtain r' where r': "q_CreateSnapshot api \<lparr>qs_VolumeUuid = volUUID, qs_Name = cs_Name req, qs_Pinned = isPinned\<rparr> w3 = (r', w')"
    and ok: "r' = Ok () \<or> (\<exists>e. r' = Err e \<and> Contains (Error e) ''ENTITY_EXISTS_ALREADY/POSIX_ERROR_NONE'')"
    unfolding try_io_Ok w4 using e by auto
  show thesis
    by (rule that [OF p _ c u n r' ok]) (use parts fin w4 in \<open>simp_all add: snapshot_response_handle\<close>)
qed

lemma open_snapshot_Ok:
  assumes "open_snapshot d req w = (Ok (api, parts, volUUID), w')"
  obtains t v n rest w1 tenantUUID w2 where "Split (sr_SnapshotId req) VOLUME_HANDLE_PART_SEPARATOR = parts"
    and "parts = t # v # n # rest" and "new_client d (sr_Secrets req) w = (Ok api, w1)"
    and "q_GetTenantUUID api t w1 = (Ok tenantUUID, w2)" and "q_GetVolumeUUID api v tenantUUID w2 = (Ok volUUID, w')"
proof -
  let ?parts = "Split (sr_SnapshotId req) VOLUME_HANDLE_PART_SEPARATOR"
  from assms have len: "\<not> length ?parts < 3" by (auto simp: open_snapshot_guarded Let_def)
  then obtain t v n rest where parts: "?parts = t # v # n # rest"
    by (cases ?parts; cases "tl ?parts"; cases "tl (tl ?parts)") auto
  from assms len show thesis
    by (auto simp: open_snapshot_guarded Let_def bind_io_Ok parts intro: that)
qed

section \<open>What the service promises about identifiers\<close>

text \<open>
  A tenant or a volume may be named by its name or by its UUID; both resolve to the UUID.
\<close>

definition uuid_contract :: "(string \<Rightarrow> string) \<Rightarrow> (string \<Rightarrow> string \<Rightarrow> string) \<Rightarrow> 'w QuobyteDriver \<Rightarrow> bool" where
  "uuid_contract tid vid d \<longleftrightarrow>
     (\<forall>t. tid (tid t) = tid t) \<and> (\<forall>v t. vid (vid v t) (tid t) = vid v t) \<and>
     (\<forall>secrets w api w'. new_client d secrets w = (Ok api, w') \<longrightarrow>
        (\<forall>t w u w'. q_GetTenantUUID api t w = (Ok u, w') \<longrightarrow> u = tid t) \<and>
        (\<forall>v t w u w'. q_GetVolumeUUID api v t w = (Ok u, w') \<longrightarrow> u = vid v t))"

lemma uuid_contractD:
  assumes "uuid_contract tid vid d" and "new_client d secrets w0 = (Ok api, w1)"
  shows "q_GetTenantUUID api t w = (Ok u, w') \<Longrightarrow> u = tid t"
    and "q_GetVolumeUUID api v t w = (Ok u, w') \<Longrightarrow> u = vid v t"
    and "tid (tid t) = tid t" and "vid (vid v t) (tid t) = vid v t"
  using assms unfolding uuid_contract_def by blast+

text \<open>The sample service with identity resolution, for the witnesses.\<close>

definition plain_id :: "string \<Rightarrow> string" where
  "plain_id t = takeWhile (\<lambda>c. c \<noteq> CHR ''|'') t"

lemma plain_id_free [simp]: "CHR ''|'' \<notin> set (plain_id t)"
  unfolding plain_id_def using set_takeWhileD by fastforce

lemma plain_id_idem [simp]: "plain_id (plain_id t) = plain_id t"
  by (simp add: plain_id_def)

definition resolving_driver :: "sample QuobyteDriver" where
  "resolving_driver =
     (sample_driver (Ok ()))\<lparr>NewQuobyteApiClient := (\<lambda>url secrets. return_io ((sample_api (Ok ()))
        \<lparr>q_GetTenantUUID := (\<lambda>t. return_io (plain_id t)), q_GetVolumeUUID := (\<lambda>v t. return_io (plain_id v))\<rparr>))\<rparr>"

lemma resolving_uuid_contract: "uuid_contract plain_id (\<lambda>v t. plain_id v) resolving_driver"
  unfolding uuid_contract_def by (auto simp: resolving_driver_def)

definition sample_snapshot :: "string \<Rightarrow> CreateSnapshotReq" where
  "sample_snapshot name =
     \<lparr>cs_SourceVolumeId = ''t|v'', cs_Name = name, cs_Secrets = [(''user'', ''u'')], cs_Parameters = [(''pinned'', ''true'')]\<rparr>"

lemma sample_snapshot_run:
  "CreateSnapshot (\<lambda>_. 7) resolving_driver (sample_snapshot ''s1'') empty_world =
     (Ok \<lparr>SnapshotId = ''t|v|s1'', SourceVolumeId = ''t|v'', CreationTime = 7, ReadyToUse = True\<rparr>,
      empty_world\<lparr>log := [''snapshot s1'']\<rparr>)"
  by (simp add: CreateSnapshot_guarded requested_pinned_def ParseBool_def sample_snapshot_def pinnedKey_def
      VOLUME_HANDLE_PART_SEPARATOR_def resolving_driver_def sample_defs bind_io_def try_io_def snapshot_response_def Let_def plain_id_def)

section \<open>Properties\<close>

text \<open>
  The documented behaviour of snapshots, on a view of the world that gives the pairs of a volume's
  identifier and a snapshot's name that exist: creating a snapshot that exists fails with the documented
  error and changes nothing, and a success adds it.
\<close>

definition snapshot_contract :: "('w \<Rightarrow> (string \<times> string) set) \<Rightarrow> 'w QuobyteDriver \<Rightarrow> bool" where
  "snapshot_contract snaps d \<longleftrightarrow>
     (\<forall>secrets w api w1 r w2 res w3. new_client d secrets w = (Ok api, w1) \<longrightarrow> q_CreateSnapshot api r w2 = (res, w3) \<longrightarrow>
        (if (qs_VolumeUuid r, qs_Name r) \<in> snaps w2
         then (\<exists>e. res = Err e \<and> Contains (Error e) ''ENTITY_EXISTS_ALREADY/POSIX_ERROR_NONE'') \<and> snaps w3 = snaps w2
         else (res = Ok () \<and> snaps w3 = insert (qs_VolumeUuid r, qs_Name r) (snaps w2)) \<or>
              (\<exists>e. res = Err e \<and> \<not> Contains (Error e) ''ENTITY_EXISTS_ALREADY/POSIX_ERROR_NONE'' \<and> snaps w3 = snaps w2)))"

text \<open>A reachable service, that knows a tenant and a volume by the names or UUIDs given.\<close>

definition snapshot_service_up ::
  "('w \<Rightarrow> (string \<times> string) set) \<Rightarrow> string \<Rightarrow> string \<Rightarrow> string \<Rightarrow> string \<Rightarrow> gomap \<Rightarrow> 'w QuobyteDriver \<Rightarrow> bool" where
  "snapshot_service_up snaps t tenantUUID v volUUID secrets d \<longleftrightarrow>
     (\<forall>w. \<exists>api w'. new_client d secrets w = (Ok api, w') \<and> snaps w' = snaps w) \<and>
     (\<forall>w api w'. new_client d secrets w = (Ok api, w') \<longrightarrow>
        answers snaps (q_GetVolumeUUID api v t) volUUID \<and> answers snaps (q_GetTenantUUID api t) tenantUUID)"

lemma CreateSnapshot_existing:
  assumes "snapshot_contract snaps d" and "snapshot_service_up snaps t tenantUUID v volUUID (cs_Secrets req) d"
    and "Split (cs_SourceVolumeId req) VOLUME_HANDLE_PART_SEPARATOR = t # v # rest"
    and "requested_pinned (cs_Parameters req) = Ok isPinned" and "(volUUID, cs_Name req) \<in> snaps w"
  shows "\<exists>w'. CreateSnapshot now d req w =
     (Ok \<lparr>SnapshotId = volume_handle [tenantUUID, volUUID, cs_Name req], SourceVolumeId = cs_SourceVolumeId req,
           CreationTime = now w', ReadyToUse = True\<rparr>, w') \<and> snaps w' = snaps w"
proof -
  let ?r = "\<lparr>qs_VolumeUuid = volUUID, qs_Name = cs_Name req, qs_Pinned = isPinned\<rparr>"
  obtain api wa where c: "new_client d (cs_Secrets req) w = (Ok api, wa)" and s1: "snaps wa = snaps w"
    using assms(2) unfolding snapshot_service_up_def by blast
  have "answers snaps (q_GetVolumeUUID api v t) volUUID" and "answers snaps (q_GetTenantUUID api t) tenantUUID"
    using assms(2) c unfolding snapshot_service_up_def by blast+
  then obtain wb wc where u: "q_GetVolumeUUID api v t wa = (Ok volUUID, wb)" and s2: "snaps wb = snaps wa"
    and n: "q_GetTenantUUID api t wb = (Ok tenantUUID, wc)" and s3: "snaps wc = snaps wb"
    by (meson answersD)
  have there: "(qs_VolumeUuid ?r, qs_Name ?r) \<in> snaps wc" using assms(5) s1 s2 s3 by simp
  obtain res wd where cr: "q_CreateSnapshot api ?r wc = (res, wd)" by (cases "q_CreateSnapshot api ?r wc")
  have "(\<exists>e. res = Err e \<and> Contains (Error e) ''ENTITY_EXISTS_ALREADY/POSIX_ERROR_NONE'') \<and> snaps wd = snaps wc"
    by (rule assms(1) [unfolded snapshot_contract_def, rule_format, OF c cr, unfolded if_P [OF there]])
  then obtain e where e: "res = Err e" "Contains (Error e) ''ENTITY_EXISTS_ALREADY/POSIX_ERROR_NONE''" and s4: "snaps wd = snaps wc"
    by blast
  show ?thesis
    using c u n cr e s1 s2 s3 s4
    by (intro exI [of _ wd]) (simp add: CreateSnapshot_guarded Let_def assms(3,4) bind_io_step snapshot_response_handle)
qed

text \<open>
  C21 (creating a snapshot is idempotent): on a reachable service that keeps the documented behaviour
  of snapshots, after a request has succeeded the snapshot of that name exists on the resolved source
  volume, and the same request succeeds again at any later moment at which the snapshots of the first
  moment still exist: it returns the same snapshot id and source volume and changes no snapshot.
\<close>

theorem CreateSnapshot_idempotent:
  assumes "snapshot_contract snaps d" and "snapshot_service_up snaps t tenantUUID v volUUID (cs_Secrets req) d"
    and "Split (cs_SourceVolumeId req) VOLUME_HANDLE_PART_SEPARATOR = t # v # rest"
    and "CreateSnapshot now d req w1 = (Ok s1, w1')" and "snaps w1' \<subseteq> snaps w2"
  shows "SnapshotId s1 = volume_handle [tenantUUID, volUUID, cs_Name req] \<and> SourceVolumeId s1 = cs_SourceVolumeId req \<and>
     (volUUID, cs_Name req) \<in> snaps w1' \<and>
     (\<exists>s2 w2'. CreateSnapshot now d req w2 = (Ok s2, w2') \<and> SnapshotId s2 = SnapshotId s1 \<and>
        SourceVolumeId s2 = SourceVolumeId s1 \<and> snaps w2' = snaps w2)"
proof -
  obtain api isPinned t' v' volUUID' tenantUUID' wa wb wc r where pin: "requested_pinned (cs_Parameters req) = Ok isPinned"
    and parts: "\<exists>rest. Split (cs_SourceVolumeId req) VOLUME_HANDLE_PART_SEPARATOR = t' # v' # rest"
    and c: "new_client d (cs_Secrets req) w1 = (Ok api, wa)" and u: "q_GetVolumeUUID api v' t' wa = (Ok volUUID', wb)"
    and n: "q_GetTenantUUID api t' wb = (Ok tenantUUID', wc)"
    and cr: "q_CreateSnapshot api \<lparr>qs_VolumeUuid = volUUID', qs_Name = cs_Name req, qs_Pinned = isPinned\<rparr> wc = (r, w1')"
    and ok: "r = Ok () \<or> (\<exists>e. r = Err e \<and> Contains (Error e) ''ENTITY_EXISTS_ALREADY/POSIX_ERROR_NONE'')"
    and s: "s1 = \<lparr>SnapshotId = volume_handle [tenantUUID', volUUID', cs_Name req], SourceVolumeId = cs_SourceVolumeId req,
              CreationTime = now w1', ReadyToUse = True\<rparr>"
    by (rule CreateSnapshot_Ok [OF assms(4)]) (rule that)
  have tv: "t' = t" "v' = v" using parts assms(3) by auto
  have "answers snaps (q_GetVolumeUUID api v t) volUUID" and "answers snaps (q_GetTenantUUID api t) tenantUUID"
    using assms(2) c unfolding snapshot_service_up_def by blast+
  then have ids: "volUUID' = volUUID" "tenantUUID' = tenantUUID"
    using u n answersD unfolding tv by (metis Pair_inject outcome.inject(1))+
  have made: "(volUUID, cs_Name req) \<in> snaps w1'"
    using assms(1) [unfolded snapshot_contract_def, rule_format, OF c cr] ok ids by (auto split: if_splits)
  with assms(5) have "(volUUID, cs_Name req) \<in> snaps w2" by blast
  from CreateSnapshot_existing [OF assms(1-3) pin this] made show ?thesis unfolding s ids by fastforce
qed

text \<open>A service that keeps the snapshots it is asked for, in the sample world's table of volumes.\<close>

definition sample_snaps :: "sample \<Rightarrow> (string \<times> string) set" where
  "sample_snaps w = {(v, n). volumes w (n, v) \<noteq> None}"

definition keeping_driver :: "sample QuobyteDriver" where
  "keeping_driver =
     resolving_driver\<lparr>NewQuobyteApiClient := (\<lambda>url secrets. return_io ((sample_api (Ok ()))
        \<lparr>q_GetTenantUUID := (\<lambda>t. return_io (plain_id t)), q_GetVolumeUUID := (\<lambda>v t. return_io (plain_id v)),
         q_CreateSnapshot := (\<lambda>r w.
           if volumes w (qs_Name r, qs_VolumeUuid r) = None
           then (Ok (), w\<lparr>volumes := (volumes w)((qs_Name r, qs_VolumeUuid r) \<mapsto> ''snapshot'')\<rparr>)
           else (Err (ErrorString ''ENTITY_EXISTS_ALREADY/POSIX_ERROR_NONE''), w))\<rparr>))\<rparr>"

lemma snapshot_exists_already:
  "Contains ''ENTITY_EXISTS_ALREADY/POSIX_ERROR_NONE'' ''ENTITY_EXISTS_ALREADY/POSIX_ERROR_NONE''"
  unfolding Contains_iff by (intro exI [of _ "[]"]) simp

lemma keeping_driver_contract:
  "snapshot_contract sample_snaps keeping_driver"
  "snapshot_service_up sample_snaps ''t'' ''t'' ''v'' ''v'' secrets keeping_driver"
  using snapshot_exists_already
  by (auto simp: snapshot_contract_def snapshot_service_up_def answers_def keeping_driver_def resolving_driver_def
      sample_snaps_def plain_id_def return_io_def split: if_splits)

theorem CreateSnapshot_idempotent_witness:
  "\<exists>s w1 s2 w2. CreateSnapshot (\<lambda>_. 7) keeping_driver (sample_snapshot ''s1'') empty_world = (Ok s, w1) \<and>
     CreateSnapshot (\<lambda>_. 7) keeping_driver (sample_snapshot ''s1'') w1 = (Ok s2, w2) \<and>
     SnapshotId s2 = ''t|v|s1'' \<and> sample_snaps w2 = {(''v'', ''s1'')}"
proof -
  let ?s = "\<lparr>SnapshotId = ''t|v|s1'', SourceVolumeId = ''t|v'', CreationTime = 7, ReadyToUse = True\<rparr>"
  let ?w = "empty_world\<lparr>volumes := [(''s1'', ''v'') \<mapsto> ''snapshot'']\<rparr>"
  have first: "CreateSnapshot (\<lambda>_. 7) keeping_driver (sample_snapshot ''s1'') empty_world = (Ok ?s, ?w)"
    by (simp add: CreateSnapshot_guarded requested_pinned_def ParseBool_def sample_snapshot_def pinnedKey_def
      VOLUME_HANDLE_PART_SEPARATOR_def keeping_driver_def resolving_driver_def sample_defs bind_io_def try_io_def
      snapshot_response_def Let_def plain_id_def)
  have parts: "Split (cs_SourceVolumeId (sample_snapshot ''s1'')) VOLUME_HANDLE_PART_SEPARATOR = [''t'', ''v'']"
    by (simp add: sample_snapshot_def VOLUME_HANDLE_PART_SEPARATOR_def)
  have "sample_snaps ?w = {(''v'', ''s1'')}" by (auto simp: sample_snaps_def empty_world_def split: if_splits)
  with CreateSnapshot_idempotent [OF keeping_driver_contract parts first order.refl] first show ?thesis by auto
qed

text \<open>
  C12 (the snapshot created is the snapshot deleted): on a service that resolves names and UUIDs
  consistently, when deleting under the id a creation returned succeeds, the deletion's calls are the
  client of its secrets, the look-up of the tenant and of the volume that the creation's own calls had
  found for its source handle, and the deletion of the snapshot of the requested name on that volume,
  on which the creation had asked for it.
\<close>

theorem snapshot_roundtrip:
  assumes "uuid_contract tid vid d" and "CreateSnapshot now d req w = (Ok s, w')"
    and "DeleteSnapshot d \<lparr>sr_SnapshotId = SnapshotId s, sr_Secrets = secrets\<rparr> w2 = (Ok (), w2')"
    and "CHR ''|'' \<notin> set (cs_Name req)" and "\<And>t. CHR ''|'' \<notin> set (tid t)" and "\<And>v t. CHR ''|'' \<notin> set (vid v t)"
  shows "\<exists>t v rest a u isPinned r api wa wb wc api' wd we wf.
     Split (cs_SourceVolumeId req) VOLUME_HANDLE_PART_SEPARATOR = t # v # rest \<and>
     new_client d (cs_Secrets req) w = (Ok api, wa) \<and> q_GetVolumeUUID api v t wa = (Ok u, wb) \<and>
     q_GetTenantUUID api t wb = (Ok a, wc) \<and> requested_pinned (cs_Parameters req) = Ok isPinned \<and>
     q_CreateSnapshot api \<lparr>qs_VolumeUuid = u, qs_Name = cs_Name req, qs_Pinned = isPinned\<rparr> wc = (r, w') \<and>
     new_client d secrets w2 = (Ok api', wd) \<and> q_GetTenantUUID api' a wd = (Ok a, we) \<and>
     q_GetVolumeUUID api' u a we = (Ok u, wf) \<and> q_DeleteSnapshot api' u (cs_Name req) wf = (Ok (), w2')"
proof -
  obtain api isPinned t v volUUID tenantUUID w1 w2a w3 r where pin: "requested_pinned (cs_Parameters req) = Ok isPinned"
    and src: "\<exists>rest. Split (cs_SourceVolumeId req) VOLUME_HANDLE_PART_SEPARATOR = t # v # rest"
    and c: "new_client d (cs_Secrets req) w = (Ok api, w1)"
    and u: "q_GetVolumeUUID api v t w1 = (Ok volUUID, w2a)" and n: "q_GetTenantUUID api t w2a = (Ok tenantUUID, w3)"
    and cr: "q_CreateSnapshot api \<lparr>qs_VolumeUuid = volUUID, qs_Name = cs_Name req, qs_Pinned = isPinned\<rparr> w3 = (r, w')"
    and s: "s = \<lparr>SnapshotId = volume_handle [tenantUUID, volUUID, cs_Name req], SourceVolumeId = cs_SourceVolumeId req,
              CreationTime = now w', ReadyToUse = True\<rparr>"
    by (rule CreateSnapshot_Ok [OF assms(2)]) (rule that)
  have un: "volUUID = vid v t" "tenantUUID = tid t"
    using uuid_contractD(1,2) [OF assms(1) c] n u by blast+
  have parts: "Split (SnapshotId s) VOLUME_HANDLE_PART_SEPARATOR = [tenantUUID, volUUID, cs_Name req]"
    unfolding s Snapshot.simps using assms(4-6) un by (intro split_handle) auto
  from assms(3) obtain api' ps volUUID' w4 where o: "open_snapshot d \<lparr>sr_SnapshotId = SnapshotId s, sr_Secrets = secrets\<rparr> w2 = (Ok (api', ps, volUUID'), w4)"
    and del: "q_DeleteSnapshot api' volUUID' (ps ! 2) w4 = (Ok (), w2')"
    by (auto simp: DeleteSnapshot_guarded bind_io_Ok)
  obtain t' v' nm rest w5 tenantUUID' w6 where ps: "Split (SnapshotId s) VOLUME_HANDLE_PART_SEPARATOR = ps" "ps = t' # v' # nm # rest"
    and c': "new_client d secrets w2 = (Ok api', w5)" and n': "q_GetTenantUUID api' t' w5 = (Ok tenantUUID', w6)"
    and u': "q_GetVolumeUUID api' v' tenantUUID' w6 = (Ok volUUID', w4)"
    by (rule open_snapshot_Ok [OF o]) (simp add: that)
  have ids: "t' = tenantUUID" "v' = volUUID" "ps ! 2 = cs_Name req" using ps parts by simp_all
  have ten: "tenantUUID' = tenantUUID"
    using uuid_contractD(1) [OF assms(1) c' n'] uuid_contractD(3) [OF assms(1) c] ids(1) un(2) by simp
  have "volUUID' = vid v' tenantUUID'" by (rule uuid_contractD(2) [OF assms(1) c' u'])
  also have "\<dots> = volUUID"
    unfolding ids ten un using uuid_contractD(4) [OF assms(1) c] by simp
  finally have vol: "volUUID' = volUUID" .
  from src obtain rest' where "Split (cs_SourceVolumeId req) VOLUME_HANDLE_PART_SEPARATOR = t # v # rest'" ..
  then show ?thesis
    using c u n pin cr c' n' [unfolded ids(1) ten] u' [unfolded ids(2) ten vol] del [unfolded ids(3) vol] by blast
qed

theorem snapshot_roundtrip_witness:
  "\<exists>s w w2 w3. CreateSnapshot (\<lambda>_. 7) resolving_driver (sample_snapshot ''s1'') empty_world = (Ok s, w) \<and>
     DeleteSnapshot resolving_driver \<lparr>sr_SnapshotId = SnapshotId s, sr_Secrets = [(''user'', ''u'')]\<rparr> w = (Ok (), w2) \<and>
     (\<exists>api wd u. new_client resolving_driver [(''user'', ''u'')] w = (Ok api, wd) \<and> q_DeleteSnapshot api u ''s1'' w3 = (Ok (), w2))"
proof -
  let ?s = "\<lparr>SnapshotId = ''t|v|s1'', SourceVolumeId = ''t|v'', CreationTime = 7, ReadyToUse = True\<rparr>"
  let ?w = "empty_world\<lparr>log := [''snapshot s1'']\<rparr>" and ?w2 = "empty_world\<lparr>log := [''snapshot s1'', ''unsnapshot s1'']\<rparr>"
  have del: "DeleteSnapshot resolving_driver \<lparr>sr_SnapshotId = SnapshotId ?s, sr_Secrets = [(''user'', ''u'')]\<rparr> ?w = (Ok (), ?w2)"
    by (simp add: DeleteSnapshot_guarded open_snapshot_guarded VOLUME_HANDLE_PART_SEPARATOR_def resolving_driver_def
        sample_defs bind_io_def Let_def numeral_2_eq_2)
  have name: "cs_Name (sample_snapshot ''s1'') = ''s1''" by (simp add: sample_snapshot_def)
  have "CHR ''|'' \<notin> set (cs_Name (sample_snapshot ''s1''))" by (simp add: name)
  from snapshot_roundtrip [OF resolving_uuid_contract sample_snapshot_run del this plain_id_free plain_id_free]
  have "\<exists>api wd w3 u. new_client resolving_driver [(''user'', ''u'')] ?w = (Ok api, wd) \<and> q_DeleteSnapshot api u ''s1'' w3 = (Ok (), ?w2)"
    unfolding name by blast
  with sample_snapshot_run del show ?thesis by blast
qed

text \<open>
  (which snapshots are pinned): a successful creation is one call to create the snapshot of the requested
  name on the volume the client of the request's secrets found for the source handle. It asks for a
  pinned snapshot exactly when the class parameter \<open>pinned\<close> is one of Go's spellings of true; and a class
  parameter that is neither a spelling of true nor of false is refused before any call.
\<close>

theorem CreateSnapshot_pinned:
  "(\<forall>s w w'. CreateSnapshot now d req w = (Ok s, w') \<longrightarrow>
      (\<exists>api w1 v t u w2 a w3 r. new_client d (cs_Secrets req) w = (Ok api, w1) \<and> q_GetVolumeUUID api v t w1 = (Ok u, w2) \<and>
         q_GetTenantUUID api t w2 = (Ok a, w3) \<and> q_CreateSnapshot api \<lparr>qs_VolumeUuid = u, qs_Name = cs_Name req,
           qs_Pinned = (\<exists>v. map_of (cs_Parameters req) pinnedKey = Some v \<and> v \<in> {''1'', ''t'', ''T'', ''TRUE'', ''true'', ''True''})\<rparr> w3 = (r, w'))) \<and>
   ((\<exists>v. map_of (cs_Parameters req) pinnedKey = Some v \<and>
        v \<notin> {''1'', ''t'', ''T'', ''TRUE'', ''true'', ''True'', ''0'', ''f'', ''F'', ''FALSE'', ''false'', ''False''}) \<longrightarrow>
      (\<exists>e. CreateSnapshot now d req = throw_io e))"
proof (intro conjI allI impI)
  fix s w w' assume run: "CreateSnapshot now d req w = (Ok s, w')"
  let ?true = "\<exists>v. map_of (cs_Parameters req) pinnedKey = Some v \<and> v \<in> {''1'', ''t'', ''T'', ''TRUE'', ''true'', ''True''}"
  obtain api isPinned t v u a w1 w2 w3 r where p: "requested_pinned (cs_Parameters req) = Ok isPinned"
    and calls: "new_client d (cs_Secrets req) w = (Ok api, w1)" "q_GetVolumeUUID api v t w1 = (Ok u, w2)"
      "q_GetTenantUUID api t w2 = (Ok a, w3)"
    and cr: "q_CreateSnapshot api \<lparr>qs_VolumeUuid = u, qs_Name = cs_Name req, qs_Pinned = isPinned\<rparr> w3 = (r, w')"
    by (rule CreateSnapshot_Ok [OF run]) (rule that)
  have "isPinned = ?true"
    using p unfolding requested_pinned_Ok by (cases "map_of (cs_Parameters req) pinnedKey") auto
  with calls cr show "\<exists>api w1 v t u w2 a w3 r. new_client d (cs_Secrets req) w = (Ok api, w1) \<and> q_GetVolumeUUID api v t w1 = (Ok u, w2) \<and>
      q_GetTenantUUID api t w2 = (Ok a, w3) \<and>
      q_CreateSnapshot api \<lparr>qs_VolumeUuid = u, qs_Name = cs_Name req, qs_Pinned = ?true\<rparr> w3 = (r, w')"
    by blast
next
  assume "\<exists>v. map_of (cs_Parameters req) pinnedKey = Some v \<and>
        v \<notin> {''1'', ''t'', ''T'', ''TRUE'', ''true'', ''True'', ''0'', ''f'', ''F'', ''FALSE'', ''false'', ''False''}"
  then show "\<exists>e. CreateSnapshot now d req = throw_io e"
    by (auto simp: CreateSnapshot_guarded requested_pinned_def ParseBool_def simp del: throw_io_eval)
qed

theorem CreateSnapshot_pinned_witness:
  "\<exists>e. CreateSnapshot (\<lambda>_. 7) resolving_driver ((sample_snapshot ''s1'')\<lparr>cs_Parameters := [(''pinned'', ''yes'')]\<rparr>) = throw_io e"
  by (rule CreateSnapshot_pinned [THEN conjunct2, THEN mp]) (simp add: pinnedKey_def)

text \<open>
  (what a listing contains): a listing under the id of a snapshot has one entry for each snapshot
  of the id's volume that the service reports, in its order; an entry has the requested id exactly
  when its snapshot has the name in the id; and for a time stamp of milliseconds after the epoch its
  creation time is the last full second.
\<close>

theorem ListSnapshots_entries:
  assumes "ListSnapshots d \<lparr>sr_SnapshotId = volume_handle [t, v, n], sr_Secrets = secrets\<rparr> w = (Ok es, w')"
    and "CHR ''|'' \<notin> set t" and "CHR ''|'' \<notin> set v" and "CHR ''|'' \<notin> set n"
  shows "\<exists>api wa a wb u w1 ls. new_client d secrets w = (Ok api, wa) \<and> q_GetTenantUUID api t wa = (Ok a, wb) \<and>
     q_GetVolumeUUID api v a wb = (Ok u, w1) \<and> q_ListSnapshots api u w1 = (Ok ls, w') \<and> length es = length ls \<and>
     (\<forall>i < length ls.
        (SnapshotId (es ! i) = volume_handle [t, v, n] \<longleftrightarrow> se_Name (ls ! i) = n) \<and>
        (0 \<le> sint (se_Timestamp (ls ! i)) \<longrightarrow>
           sint (CreationTime (es ! i)) = sint (se_Timestamp (ls ! i)) div 1000))"
proof -
  have parts: "Split (volume_handle [t, v, n]) VOLUME_HANDLE_PART_SEPARATOR = [t, v, n]"
    using assms(2-4) by (intro split_handle) auto
  from assms(1) obtain api ps u w1 ls where
    o: "open_snapshot d \<lparr>sr_SnapshotId = volume_handle [t, v, n], sr_Secrets = secrets\<rparr> w = (Ok (api, ps, u), w1)"
    and l: "q_ListSnapshots api u w1 = (Ok ls, w')" and es: "es = map (listed ps) ls"
    by (auto simp: ListSnapshots_guarded bind_io_Ok)
  obtain wa a wb where calls: "new_client d secrets w = (Ok api, wa)" "q_GetTenantUUID api t wa = (Ok a, wb)"
    "q_GetVolumeUUID api v a wb = (Ok u, w1)" and ps: "ps = [t, v, n]"
    by (rule open_snapshot_Ok [OF o]) (use parts that in simp)
  have id: "SnapshotId (listed ps e) = volume_handle [t, v, n] \<longleftrightarrow> se_Name e = n" for e
    by (simp add: ps listed_def volume_handle_simps)
  have sec: "sint (CreationTime (listed ps e)) = sint (se_Timestamp e) div 1000" if "0 \<le> sint (se_Timestamp e)" for e
  proof -
    let ?q = "sint (se_Timestamp e) div 1000"
    have "sint (se_Timestamp e) < 2 ^ 63"
      using sint_lt [of "se_Timestamp e"] by simp
    then have "0 \<le> ?q" and "?q < 2 ^ 63" using that by auto
    then have "sint (word_of_int ?q :: int64) = ?q"
      by (simp add: signed_of_int signed_take_bit_int_eq_self)
    then show ?thesis using that by (simp add: listed_def signed_divide_int_def sgn_if)
  qed
  show ?thesis
    using calls l id sec unfolding es by (intro exI conjI) (assumption | simp)+
qed

lemma sample_list_run:
  "ListSnapshots resolving_driver \<lparr>sr_SnapshotId = volume_handle [''t'', ''v'', ''snap2''], sr_Secrets = [(''user'', ''u'')]\<rparr> empty_world =
     (Ok [\<lparr>SnapshotId = ''t|v|snap1'', SourceVolumeId = ''v'', CreationTime = word_of_int (sint (1500 :: int64) sdiv 1000), ReadyToUse = True\<rparr>,
          \<lparr>SnapshotId = ''t|v|snap2'', SourceVolumeId = ''v'', CreationTime = word_of_int (sint (2500 :: int64) sdiv 1000), ReadyToUse = True\<rparr>],
      empty_world)"
  by (simp add: ListSnapshots_guarded open_snapshot_guarded VOLUME_HANDLE_PART_SEPARATOR_def volume_handle_def resolving_driver_def
      sample_defs bind_io_def Let_def plain_id_def listed_def)

theorem ListSnapshots_entries_witness:
  "\<exists>es w. ListSnapshots resolving_driver \<lparr>sr_SnapshotId = volume_handle [''t'', ''v'', ''snap2''], sr_Secrets = [(''user'', ''u'')]\<rparr> empty_world = (Ok es, w) \<and>
     (\<exists>ls. q_ListSnapshots (sample_api (Ok ())) ''v'' empty_world = (Ok ls, w) \<and> length es = length ls)"
proof -
  have "\<exists>es w ls. ListSnapshots resolving_driver \<lparr>sr_SnapshotId = volume_handle [''t'', ''v'', ''snap2''], sr_Secrets = [(''user'', ''u'')]\<rparr> empty_world = (Ok es, w) \<and>
      q_ListSnapshots (sample_api (Ok ())) ''v'' empty_world = (Ok ls, w) \<and> length es = length ls"
    using sample_list_run ListSnapshots_entries [OF sample_list_run]
    by (auto simp: resolving_driver_def sample_api_def return_io_def plain_id_def)
  then show ?thesis by blast
qed

text \<open>
  (a listing is not restricted to the snapshot asked for): the response does not depend on the
  snapshot's name in the id, so it has all the snapshots of the volume, whichever was asked for.
\<close>

theorem ListSnapshots_ignores_name:
  assumes "CHR ''|'' \<notin> set t" and "CHR ''|'' \<notin> set v" and "CHR ''|'' \<notin> set n" and "CHR ''|'' \<notin> set n'"
  shows "ListSnapshots d \<lparr>sr_SnapshotId = volume_handle [t, v, n], sr_Secrets = secrets\<rparr> =
     ListSnapshots d \<lparr>sr_SnapshotId = volume_handle [t, v, n'], sr_Secrets = secrets\<rparr>"
proof -
  have parts: "Split (volume_handle [t, v, x]) VOLUME_HANDLE_PART_SEPARATOR = [t, v, x]" if "CHR ''|'' \<notin> set x" for x
    using assms(1,2) that by (intro split_handle) auto
  show ?thesis
    unfolding ListSnapshots_guarded open_snapshot_guarded SnapshotIdRequest.simps Let_def parts [OF assms(3)] parts [OF assms(4)]
    by (rule ext) (simp add: bind_io_def listed_def split: prod.splits outcome.splits)
qed

theorem ListSnapshots_ignores_name_witness:
  "\<exists>s rest. ListSnapshots resolving_driver \<lparr>sr_SnapshotId = volume_handle [''t'', ''v'', ''other''], sr_Secrets = [(''user'', ''u'')]\<rparr> empty_world
       = (Ok (s # rest), empty_world) \<and> SnapshotId s = ''t|v|snap1''"
  by (subst ListSnapshots_ignores_name [where n' = "''snap2''"]) (simp_all add: sample_list_run)

end
