(* ===== verification/Volume_Create.thy ===== *)
theory Volume_Create
  imports Handler_Contracts
begin

text \<open>
  What \<open>CreateVolume\<close> guarantees: what it refuses without a call, that the order of the parameters is
  immaterial, which tenant it uses, that a repeated request gives the same handle, what a claim in a
  shared volume gets, and two behaviours that lose data.
\<close>

section \<open>The preparation\<close>

lemma prepare_volume_Ok:
  "prepare_volume d req params s w = (Ok (api, st, r), w') \<longleftrightarrow>
     (\<exists>w1 user w2 r0. new_client d (cv_Secrets req) w = (Ok api, w1) \<and> q_WhoAmI api w1 = (Ok user, w2) \<and>
        set_params s params (initial_state s (cv_Name req) user) = Ok st \<and>
        vr_RootGroupId (volRequest st) \<noteq> [] \<and> choose_tenant d params (volRequest st) = Ok r0 \<and>
        resolve_tenant api r0 w2 = (Ok r, w'))"
  unfolding prepare_volume_def bind_io_Ok wrap_io_Ok guard_Ok lift_io_eval return_io_eval by auto

lemma choose_tenant_Ok:
  "choose_tenant d params r = Ok r0 \<longleftrightarrow>
     (if vr_TenantId r = [] \<and> UseK8SNamespaceAsQuobyteTenant d
      then \<exists>ns. map_of params pvcNamespaceKey = Some ns \<and> r0 = r\<lparr>vr_TenantId := ns\<rparr>
      else r0 = r)"
  by (auto simp: choose_tenant_def split: option.splits)

definition tenant_id :: "(string \<Rightarrow> string) \<Rightarrow> string \<Rightarrow> string" where
  "tenant_id tid t = (if t = [] then [] else tid t)"

lemma resolve_tenant_contract:
  assumes "api_contract vols tid api" and "resolve_tenant api r0 w = (Ok r, w')"
  shows "r = r0\<lparr>vr_TenantId := tenant_id tid (vr_TenantId r0)\<rparr>" and "vols w' = vols w"
  using assms(2) api_contract_others(2,3) [OF assms(1)]
  by (auto simp: resolve_tenant_def tenant_id_def bind_io_Ok split: if_splits)

text \<open>The tenant a request is for: the StorageClass one after the loop, or the claim's namespace.\<close>

definition wanted_tenant :: "'w QuobyteDriver \<Rightarrow> gomap \<Rightarrow> string \<Rightarrow> string" where
  "wanted_tenant d params t =
     (if t = [] \<and> UseK8SNamespaceAsQuobyteTenant d then map_get params pvcNamespaceKey else t)"

lemma prepare_volume_contract:
  assumes "service_contract vols tid d" and "prepare_volume d req params s w = (Ok (api, st, r), w')"
  obtains user where "api_contract vols tid api" and "vols w' = vols w"
    and "set_params s params (initial_state s (cv_Name req) user) = Ok st"
    and "r = volRequest st\<lparr>vr_TenantId := tenant_id tid (wanted_tenant d params (vr_TenantId (volRequest st)))\<rparr>"
proof -
  from assms(2) obtain w1 user w2 r0 where c: "new_client d (cv_Secrets req) w = (Ok api, w1)"
    and u: "q_WhoAmI api w1 = (Ok user, w2)"
    and st: "set_params s params (initial_state s (cv_Name req) user) = Ok st"
    and t: "choose_tenant d params (volRequest st) = Ok r0" and r: "resolve_tenant api r0 w2 = (Ok r, w')"
    unfolding prepare_volume_Ok by blast
  from assms(1) c have api: "api_contract vols tid api" and v1: "vols w1 = vols w"
    unfolding service_contract_def by blast+
  have v: "vols w' = vols w"
    using v1 api_contract_others(1) [OF api u] resolve_tenant_contract(2) [OF api r] by simp
  have "r0 = volRequest st\<lparr>vr_TenantId := wanted_tenant d params (vr_TenantId (volRequest st))\<rparr>"
    using t by (auto simp: choose_tenant_Ok wanted_tenant_def map_get_def split: if_splits)
  then have "r = volRequest st\<lparr>vr_TenantId := tenant_id tid (wanted_tenant d params (vr_TenantId (volRequest st)))\<rparr>"
    unfolding resolve_tenant_contract(1) [OF api r] by simp
  with that api v st show thesis by blast
qed

section \<open>A successful creation\<close>

lemma make_subdirectory_Ok:
  assumes "make_subdirectory d st r u name w = (Ok h, w')"
  shows "h = volume_handle [vr_TenantId r, u, name] \<and>
     (\<exists>r'. DirectoryMaker_Mkdir (mounter d) (Join [clientMountPoint d, u, name]) r' w = (Ok (), w'))"
  using assms by (auto simp: make_subdirectory_def volume_handle_simps Let_def bind_io_Ok)

lemma apply_quota_Ok:
  "apply_quota api u cap w = (Ok x, w') \<longleftrightarrow> q_SetVolumeQuota api u cap w = (Ok (), w')"
  by (cases "q_SetVolumeQuota api u cap w", cases "fst (q_SetVolumeQuota api u cap w)")
    (auto simp: apply_quota_def bind_io_Ok)

lemma finish_volume_keeps:
  assumes "api_contract vols tid api" and "mounter_keeps_volumes vols (mounter d)"
    and "finish_volume d api s st r cap name u w = (Ok vol, w')"
  shows "vols w' = vols w"
proof (cases s)
  case True
  with assms(3) obtain r' where run: "DirectoryMaker_Mkdir (mounter d) (Join [clientMountPoint d, u, name]) r' w = (Ok (), w')"
    by (auto simp: finish_volume_def bind_io_Ok dest: make_subdirectory_Ok)
  show ?thesis
    using keepsD [OF keeps_DirectoryMaker [OF assms(2)] run] by simp
next
  case False
  with assms(3) show ?thesis
    by (auto simp: finish_volume_def bind_io_Ok apply_quota_Ok split: if_splits
        dest: api_contract_others(4) [OF assms(1)])
qed

text \<open>The parts of a successful call for a dynamic volume.\<close>

lemma CreateVolume_OkE:
  assumes "createSnapshotResponse req = Ok None" and "CreateVolume d (Some req) w = (Ok vol, w')"
  obtains capacity params s api st r u w1 w2 where "validateCreateVolumeRequest (Some req) = Ok ()"
    and "cv_CapacityRange req = Some capacity" and "cv_Parameters req = Some params"
    and "s = (map_of params SharedVolumeNameKey \<noteq> None)"
    and "prepare_volume d req params s w = (Ok (api, st, r), w1)"
    and "create_or_resolve api r w1 = (Ok u, w2)"
    and "finish_volume d api s st r capacity (cv_Name req) u w2 = (Ok vol, w')"
proof -
  have v: "validateCreateVolumeRequest (Some req) = Ok ()"
    using validate_cases [of "Some req"] assms(2) by (auto simp: CreateVolume_invalid)
  obtain capacity params where c: "cv_CapacityRange req = Some capacity" and p: "cv_Parameters req = Some params"
    using validateE [OF v] by blast
  let ?s = "map_of params SharedVolumeNameKey \<noteq> None"
  from assms(2) obtain api st r w1 u w2 where "prepare_volume d req params ?s w = (Ok (api, st, r), w1)"
    and "create_or_resolve api r w1 = (Ok u, w2)"
    and "finish_volume d api ?s st r capacity (cv_Name req) u w2 = (Ok vol, w')"
    unfolding CreateVolume_dynamic [OF v assms(1) c p refl] by (auto simp: bind_io_Ok)
  with that v c p show thesis by blast
qed

lemma CreateVolume_contract:
  assumes "service_contract vols tid d" and "createSnapshotResponse req = Ok None"
    and "CreateVolume d (Some req) w = (Ok vol, w')"
  obtains capacity params s st user t u where "cv_CapacityRange req = Some capacity"
    and "cv_Parameters req = Some params" and "s = (map_of params SharedVolumeNameKey \<noteq> None)"
    and "set_params s params (initial_state s (cv_Name req) user) = Ok st"
    and "t = tenant_id tid (wanted_tenant d params (vr_TenantId (volRequest st)))"
    and "vols w' (vr_Name (volRequest st), t) = Some u"
    and "\<And>k x. vols w k = Some x \<Longrightarrow> vols w' k = Some x"
    and "vol = \<lparr>VolumeId = volume_handle (if s then [t, u, cv_Name req] else [t, u]),
           CapacityBytes = capacity, ContentSource = None, VolumeContext = []\<rparr>"
proof -
  obtain capacity params s api st r u w1 w2 where c: "cv_CapacityRange req = Some capacity"
    and p: "cv_Parameters req = Some params" and s: "s = (map_of params SharedVolumeNameKey \<noteq> None)"
    and prep: "prepare_volume d req params s w = (Ok (api, st, r), w1)"
    and cr: "create_or_resolve api r w1 = (Ok u, w2)"
    and fin: "finish_volume d api s st r capacity (cv_Name req) u w2 = (Ok vol, w')"
    using CreateVolume_OkE [OF assms(2,3)] by metis
  obtain user where api: "api_contract vols tid api" and v1: "vols w1 = vols w"
    and st: "set_params s params (initial_state s (cv_Name req) user) = Ok st"
    and r: "r = volRequest st\<lparr>vr_TenantId := tenant_id tid (wanted_tenant d params (vr_TenantId (volRequest st)))\<rparr>"
    using prepare_volume_contract [OF assms(1) prep] by metis
  have "mounter_keeps_volumes vols (mounter d)" using assms(1) by (simp add: service_contract_def)
  then have v': "vols w' = vols w2" using finish_volume_keeps [OF api _ fin] by blast
  have "vols w2 (vr_Name r, vr_TenantId r) = Some u" and "\<And>k x. vols w1 k = Some x \<Longrightarrow> vols w2 k = Some x"
    using create_or_resolve_volumes [OF api cr] by blast+
  then show thesis
    using that [OF c p s st refl] finish_volume_Ok [OF fin] unfolding v' v1 r by simp
qed

section \<open>The volume a request asks for\<close>

text \<open>
  Read off the request alone: the name is the last value under \<open>sharedVolumeName\<close>, in any case, or else the
  claim's; the tenant is the last value under \<open>quobyteTenant\<close>, in any case, or else, where the driver maps
  namespaces, the claim's namespace; and a tenant is known by its identifier.
\<close>

definition requested_name :: "CreateVolumeRequest \<Rightarrow> gomap \<Rightarrow> string" where
  "requested_name req params = param_or params ''sharedvolumename'' (cv_Name req)"

definition requested_tenant :: "'w QuobyteDriver \<Rightarrow> gomap \<Rightarrow> string" where
  "requested_tenant d params = wanted_tenant d params (param_or params ''quobytetenant'' [])"

definition requested_volume ::
  "(string \<Rightarrow> string) \<Rightarrow> 'w QuobyteDriver \<Rightarrow> CreateVolumeRequest \<Rightarrow> gomap \<Rightarrow> string \<times> string" where
  "requested_volume tid d req params = (requested_name req params, tenant_id tid (requested_tenant d params))"

lemma set_params_initial:
  assumes "set_params s params (initial_state s (cv_Name req) user) = Ok st"
  shows "vr_Name (volRequest st) = requested_name req params"
    and "wanted_tenant d params (vr_TenantId (volRequest st)) = requested_tenant d params"
  using set_params_requested [OF assms] by (simp_all add: requested_name_def requested_tenant_def initial_state_def)

lemma choose_tenant_requested:
  assumes "set_params s params (initial_state s (cv_Name req) user) = Ok st"
    and "choose_tenant d params (volRequest st) = Ok r0"
  shows "vr_TenantId r0 = requested_tenant d params" and "vr_Name r0 = requested_name req params"
    and "param_or params ''quobytetenant'' [] = [] \<and> UseK8SNamespaceAsQuobyteTenant d \<Longrightarrow>
      map_of params pvcNamespaceKey \<noteq> None"
  using assms(2) set_params_requested [OF assms(1)] set_params_initial [OF assms(1)]
  by (auto simp: choose_tenant_Ok wanted_tenant_def map_get_def initial_state_def
      simp flip: set_params_initial(2) [OF assms(1)] split: if_splits)

text \<open>A successful creation leaves the volume the request asks for, and its handle names that volume.\<close>

lemma CreateVolume_pinned:
  assumes "service_contract vols tid d" and "createSnapshotResponse req = Ok None"
    and "CreateVolume d (Some req) w = (Ok vol, w')" and "cv_Parameters req = Some params"
    and "s = (map_of params SharedVolumeNameKey \<noteq> None)" and "t = tenant_id tid (requested_tenant d params)"
  obtains u c where "vols w' (requested_volume tid d req params) = Some u" and "cv_CapacityRange req = Some c"
    and "vol = \<lparr>VolumeId = volume_handle (if s then [t, u, cv_Name req] else [t, u]),
           CapacityBytes = c, ContentSource = None, VolumeContext = []\<rparr>"
proof -
  obtain c ps s' st user t' u where p: "cv_CapacityRange req = Some c" "cv_Parameters req = Some ps"
    "s' = (map_of ps SharedVolumeNameKey \<noteq> None)"
    and st: "set_params s' ps (initial_state s' (cv_Name req) user) = Ok st"
    and t': "t' = tenant_id tid (wanted_tenant d ps (vr_TenantId (volRequest st)))"
    and u: "vols w' (vr_Name (volRequest st), t') = Some u"
    and vol: "vol = \<lparr>VolumeId = volume_handle (if s' then [t', u, cv_Name req] else [t', u]),
           CapacityBytes = c, ContentSource = None, VolumeContext = []\<rparr>"
    by (rule CreateVolume_contract [OF assms(1-3)]) (rule that)
  have same: "ps = params" "s' = s" using p assms(4,5) by simp_all
  have "t' = t" using t' assms(6) set_params_initial(2) [OF st, of d] same by simp
  moreover have "(vr_Name (volRequest st), t) = requested_volume tid d req params"
    using set_params_initial(1) [OF st] assms(6) same by (simp add: requested_volume_def)
  ultimately show thesis using that p(1) u vol same by simp
qed

section \<open>Repeating a request\<close>

lemma prepare_volume_up:
  assumes "service_contract vols tid d"
    and "service_up vols view tid user (requested_tenant d params) (cv_Secrets req) d"
    and "prepare_volume d req params s w = (Ok (api, st, r), w1)"
  shows "\<exists>api' w3. prepare_volume d req params s w2 = (Ok (api', st, r), w3) \<and> vols w3 = vols w2 \<and> view w3 = view w2 \<and>
     api_contract vols tid api' \<and> api_up vols view tid user (requested_tenant d params) api'"
proof -
  let ?t = "requested_tenant d params"
  from assms(3) obtain wa user' wb r0 where c: "new_client d (cv_Secrets req) w = (Ok api, wa)"
    and who: "q_WhoAmI api wa = (Ok user', wb)"
    and st: "set_params s params (initial_state s (cv_Name req) user') = Ok st"
    and group: "vr_RootGroupId (volRequest st) \<noteq> []" and t: "choose_tenant d params (volRequest st) = Ok r0"
    and r: "resolve_tenant api r0 wb = (Ok r, w1)"
    unfolding prepare_volume_Ok by blast
  have "api_contract vols tid api" using assms(1) c unfolding service_contract_def by blast
  note r = resolve_tenant_contract(1) [OF this r]
  have t0: "vr_TenantId r0 = ?t" by (rule choose_tenant_requested(1) [OF st t])
  have "api_up vols view tid user ?t api" using assms(2) c unfolding service_up_def by blast
  with who have user: "user' = user" using answersD [OF api_upD(1), of vols view tid user ?t api wa] by auto
  obtain api' wc where c': "new_client d (cv_Secrets req) w2 = (Ok api', wc)" and v1: "view wc = view w2"
    using assms(2) unfolding service_up_def by blast
  have con: "api_contract vols tid api'" and k1: "vols wc = vols w2"
    using assms(1) c' unfolding service_contract_def by blast+
  have up: "api_up vols view tid user ?t api'" using assms(2) c' unfolding service_up_def by blast
  obtain wd where who': "q_WhoAmI api' wc = (Ok user, wd)" and v2: "view wd = view wc"
    using answersD [OF api_upD(1) [OF up]] by blast
  have k2: "vols wd = vols wc" using api_contract_others(1) [OF con who'] .
  obtain we where ten: "q_GetTenantUUID api' ?t wd = (Ok (tid ?t), we)" and v3: "view we = view wd"
    using answersD [OF api_upD(2) [OF up]] by blast
  have k3: "vols we = vols wd" using api_contract_others(2) [OF con ten] .
  let ?w = "if ?t = [] then wd else we"
  have "resolve_tenant api' r0 wd = (Ok r, ?w)"
    using ten t0 unfolding r by (auto simp: resolve_tenant_def tenant_id_def)
  then have "prepare_volume d req params s w2 = (Ok (api', st, r), ?w)"
    unfolding prepare_volume_Ok using c' who' st [unfolded user] group t by blast
  then show ?thesis using con up v1 v2 v3 k1 k2 k3 by (intro exI [of _ api'] exI [of _ ?w]) simp
qed

lemma finish_volume_up:
  assumes "api_up vols view tid user t api" and "dir_contract view (mounter d)" and "stat_answers view (mounter d)"
    and "s \<Longrightarrow> view w (Join [clientMountPoint d, u, name]) = Some (DirNode m)"
  shows "\<exists>w'. finish_volume d api s st r capacity name u w =
     (Ok \<lparr>VolumeId = volume_handle (if s then [vr_TenantId r, u, name] else [vr_TenantId r, u]),
          CapacityBytes = capacity, ContentSource = None, VolumeContext = []\<rparr>, w') \<and> view w' = view w"
proof (cases s)
  case True
  let ?p = "Join [clientMountPoint d, u, name]"
  from assms(3,4) True obtain info w1 where st: "m_Stat (mounter d) ?p w = (Ok info, w1)"
    unfolding stat_answers_def by blast
  have run: "DirectoryMaker_Mkdir (mounter d) ?p r' w = (Ok (), w1)" for r'
    by (rule dmaker.accepted [OF assms(2) assms(4) st]) (rule True)
  have "view w1 = view w" by (rule dmaker.untouched [OF assms(2) assms(4) run]) (rule True)
  then show ?thesis
    using True run by (simp add: finish_volume_def make_subdirectory_def volume_handle_simps)
next
  case False
  obtain w1 where quota: "q_SetVolumeQuota api u capacity w = (Ok (), w1)" and v: "view w1 = view w"
    using answersD [OF api_upD(3) [OF assms(1)]] by blast
  then have "apply_quota api u capacity w = (Ok (), w1)" by (simp add: apply_quota_Ok)
  then show ?thesis
    using False v by (cases "createQuota st") (simp_all add: finish_volume_def volume_handle_simps)
qed

section \<open>Properties\<close>

text \<open>
  C1 (idempotency): on a reachable service that keeps the documented behaviour of volumes, when a
  request for a dynamic volume has succeeded, the same request succeeds again at any later moment
  at which the volumes and the directories of the first moment still exist. It returns the same
  response, and so the same volume handle, and creates no volume and no directory.
\<close>

theorem CreateVolume_idempotent:
  assumes "service_contract vols tid d" and "dir_contract view (mounter d)" and "stat_answers view (mounter d)"
    and "createSnapshotResponse req = Ok None" and "cv_Parameters req = Some params"
    and "service_up vols view tid user (requested_tenant d params) (cv_Secrets req) d"
    and "CreateVolume d (Some req) w = (Ok v1, w1)"
    and "\<And>k u. vols w1 k = Some u \<Longrightarrow> vols w2 k = Some u"
    and "\<And>p m. view w1 p = Some (DirNode m) \<Longrightarrow> \<exists>m'. view w2 p = Some (DirNode m')"
  shows "\<exists>w3. CreateVolume d (Some req) w2 = (Ok v1, w3) \<and> vols w3 = vols w2 \<and> view w3 = view w2"
proof -
  obtain c ps s api st r u wa wb where v: "validateCreateVolumeRequest (Some req) = Ok ()"
    and cap: "cv_CapacityRange req = Some c" and "cv_Parameters req = Some ps"
    and "s = (map_of ps SharedVolumeNameKey \<noteq> None)" and "prepare_volume d req ps s w = (Ok (api, st, r), wa)"
    and cr: "create_or_resolve api r wa = (Ok u, wb)"
    and fin: "finish_volume d api s st r c (cv_Name req) u wb = (Ok v1, w1)"
    by (rule CreateVolume_OkE [OF assms(4,7)]) (rule that)
  with assms(5) have s: "s = (map_of params SharedVolumeNameKey \<noteq> None)"
    and prep: "prepare_volume d req params s w = (Ok (api, st, r), wa)" by simp_all
  have con: "api_contract vols tid api" by (rule prepare_volume_contract [OF assms(1) prep])
  have "vols w1 = vols wb"
    using finish_volume_keeps [OF con _ fin] assms(1) unfolding service_contract_def by blast
  then have "vols w2 (vr_Name r, vr_TenantId r) = Some u"
    using create_or_resolve_volumes [OF con cr] assms(8) by metis
  moreover obtain api' wc where again: "prepare_volume d req params s w2 = (Ok (api', st, r), wc)"
    and k1: "vols wc = vols w2" and v1: "view wc = view w2" and con': "api_contract vols tid api'"
    and up: "api_up vols view tid user (requested_tenant d params) api'"
    using prepare_volume_up [OF assms(1,6) prep] by blast
  ultimately obtain wd where cr': "create_or_resolve api' r wc = (Ok u, wd)"
    and k2: "vols wd = vols wc" and v2: "view wd = view wc"
    using create_or_resolve_existing [OF con' up] by metis
  have "\<exists>m. view wd (Join [clientMountPoint d, u, cv_Name req]) = Some (DirNode m)" if s
  proof -
    from fin that obtain r' where "DirectoryMaker_Mkdir (mounter d) (Join [clientMountPoint d, u, cv_Name req]) r' wb = (Ok (), w1)"
      by (auto simp: finish_volume_def bind_io_Ok dest: make_subdirectory_Ok)
    from dmaker.made [OF assms(2) this] assms(9) show ?thesis unfolding v2 v1 by blast
  qed
  then obtain m where "s \<Longrightarrow> view wd (Join [clientMountPoint d, u, cv_Name req]) = Some (DirNode m)" by blast
  from finish_volume_up [OF up assms(2,3) this] finish_volume_Ok [OF fin] obtain we where
    fin': "finish_volume d api' s st r c (cv_Name req) u wd = (Ok v1, we)" and v3: "view we = view wd" by metis
  have "vols we = vols wd"
    using finish_volume_keeps [OF con' _ fin'] assms(1) unfolding service_contract_def by blast
  then show ?thesis
    using again cr' fin' k1 k2 v1 v2 v3 unfolding CreateVolume_dynamic [OF v assms(4) cap assms(5) s]
    by (intro exI [of _ we]) simp
qed

text \<open>Concrete requests for the witnesses, on the sample service.\<close>

definition sample_create :: "string \<Rightarrow> gomap \<Rightarrow> CreateVolumeRequest" where
  "sample_create name params =
     \<lparr>cv_Name = name, cv_CapacityRange = Some 1000, cv_VolumeCapabilities = None,
      cv_Parameters = Some params, cv_Secrets = [(''user'', ''u''), (''password'', ''p'')],
      cv_VolumeContentSource = None\<rparr>"

lemma lower_keys:
  "ToLower ''quobyteTenant'' = ''quobytetenant''" "ToLower ''sharedVolumeName'' = ''sharedvolumename''"
  "ToLower ''SharedVolumeName'' = ''sharedvolumename''" "ToLower ''createQuota'' = ''createquota''"
  "ToLower ''true'' = ''true''" "ToLower ''user'' = ''user''"
  by code_simp+

lemmas run_create = CreateVolume_def validateCreateVolumeRequest_def createSnapshotResponse_def
  prepare_volume_def create_or_resolve_def finish_volume_def initial_state_def
  choose_tenant_def resolve_tenant_def apply_quota_def set_param_def sample_create_def
  lower_keys DefaultCreateQuota_def SharedVolumeNameKey_def VOLUME_HANDLE_PART_SEPARATOR_def exists_already
  bind_io_def try_io_def wrap_io_def Let_def

lemma sample_create_dynamic: "createSnapshotResponse (sample_create name params) = Ok None"
  by (simp add: createSnapshotResponse_def sample_create_def)

theorem CreateVolume_idempotent_witness:
  "\<exists>w1 w3. CreateVolume (sample_driver (Ok ())) (Some (sample_create ''pv'' [(''quobyteTenant'', ''t'')])) empty_world
       = (Ok \<lparr>VolumeId = ''t-id|v-pv'', CapacityBytes = 1000, ContentSource = None, VolumeContext = []\<rparr>, w1) \<and>
     CreateVolume (sample_driver (Ok ())) (Some (sample_create ''pv'' [(''quobyteTenant'', ''t'')])) w1
       = (Ok \<lparr>VolumeId = ''t-id|v-pv'', CapacityBytes = 1000, ContentSource = None, VolumeContext = []\<rparr>, w3) \<and>
     volumes w3 = [(''pv'', ''t-id'') \<mapsto> ''v-pv'']"
proof -
  let ?d = "sample_driver (Ok ())" and ?req = "sample_create ''pv'' [(''quobyteTenant'', ''t'')]"
  obtain w1 where first: "CreateVolume ?d (Some ?req) empty_world
       = (Ok \<lparr>VolumeId = ''t-id|v-pv'', CapacityBytes = 1000, ContentSource = None, VolumeContext = []\<rparr>, w1)"
    and made: "volumes w1 = [(''pv'', ''t-id'') \<mapsto> ''v-pv'']"
    by (simp add: run_create sample_defs)
  have c: "dir_contract files (mounter ?d)" by (simp add: sample_driver_def sample_dir_contract)
  have p: "cv_Parameters ?req = Some [(''quobyteTenant'', ''t'')]" by (simp add: sample_create_def)
  have "\<exists>w3. CreateVolume ?d (Some ?req) w1
       = (Ok \<lparr>VolumeId = ''t-id|v-pv'', CapacityBytes = 1000, ContentSource = None, VolumeContext = []\<rparr>, w3) \<and>
     volumes w3 = volumes w1 \<and> files w3 = files w1"
    by (rule CreateVolume_idempotent [OF sample_service_contract c sample_stat_answers sample_create_dynamic p
          sample_service_up first]) simp_all
  with first made show ?thesis by auto
qed

lemma prepare_volume_perm:
  assumes "mset ps = mset qs" and "distinct_keys ps" and "map_of ps = map_of qs"
    and "cv_Secrets req' = cv_Secrets req" and "cv_Name req' = cv_Name req"
  shows "prepare_volume d req ps s w = prepare_volume d req' qs s w \<or>
     (\<exists>e e' w'. prepare_volume d req ps s w = (Err e, w') \<and> prepare_volume d req' qs s w = (Err e', w'))"
proof -
  have tenant: "choose_tenant d ps = choose_tenant d qs"
    by (rule ext) (simp add: choose_tenant_def assms(3))
  note loop = set_params_perm_cases [OF assms(1,2)]
  obtain x w1 where client: "new_client d (cv_Secrets req) w = (x, w1)" by (cases "new_client d (cv_Secrets req) w")
  show ?thesis
  proof (cases x)
    case (Ok api)
    obtain y w2 where who: "q_WhoAmI api w1 = (y, w2)" by (cases "q_WhoAmI api w1")
    show ?thesis
    proof (cases y)
      case user: (Ok user)
      from loop [of s "initial_state s (cv_Name req) user"] show ?thesis
        using client Ok who user unfolding prepare_volume_def assms(4,5) tenant
        by (elim disjE exE conjE) (simp_all add: bind_io_step wrap_io_def)
    qed (use client Ok who in \<open>simp_all add: prepare_volume_def assms(4,5) bind_io_step wrap_io_def\<close>)
  qed (use client in \<open>simp_all add: prepare_volume_def assms(4,5) bind_io_step\<close>)
qed

text \<open>
  C20 (the order of the parameters is immaterial): Go visits the parameter map in an arbitrary order.
  When no two parameter keys are equal up to case, two requests that differ in that order only have
  the same response and the same effect, except that where both are refused with an error, at the
  same point of the call and so with the same effect, the texts of the errors may differ: when
  several parameters are malformed, the first one visited is reported.
\<close>

theorem CreateVolume_parameter_order:
  assumes "mset ps = mset qs" and "distinct_keys ps"
  shows "CreateVolume d (Some (req\<lparr>cv_Parameters := Some ps\<rparr>)) w = CreateVolume d (Some (req\<lparr>cv_Parameters := Some qs\<rparr>)) w \<or>
     (\<exists>e e' w'. CreateVolume d (Some (req\<lparr>cv_Parameters := Some ps\<rparr>)) w = (Err e, w') \<and>
        CreateVolume d (Some (req\<lparr>cv_Parameters := Some qs\<rparr>)) w = (Err e', w'))"
proof -
  let ?p = "req\<lparr>cv_Parameters := Some ps\<rparr>" and ?q = "req\<lparr>cv_Parameters := Some qs\<rparr>"
  have dist: "distinct (map fst ps)"
    using assms(2) unfolding distinct_keys_def by (metis distinct_map map_map)
  moreover have "distinct (map fst qs)"
    using dist assms(1) by (metis mset_eq_imp_distinct_iff mset_map)
  ultimately have maps: "map_of ps = map_of qs"
    using assms(1) by (metis map_of_eqI map_of_inject_set set_mset_mset)
  have same: "validateCreateVolumeRequest (Some ?p) = validateCreateVolumeRequest (Some ?q)"
    "createSnapshotResponse ?p = createSnapshotResponse ?q"
    by (simp_all add: validateCreateVolumeRequest_def createSnapshotResponse_def cong: option.case_cong if_cong)
  show ?thesis
  proof (cases "validateCreateVolumeRequest (Some ?q) = Ok () \<and> createSnapshotResponse ?q = Ok None")
    case True
    then have q: "validateCreateVolumeRequest (Some ?q) = Ok ()" "createSnapshotResponse ?q = Ok None"
      by simp_all
    obtain c where c: "cv_CapacityRange req = Some c" using validate_SomeD(1) [OF q(1)] by auto
    have cp: "cv_CapacityRange ?p = Some c" "cv_CapacityRange ?q = Some c"
      and pp: "cv_Parameters ?p = Some ps" "cv_Parameters ?q = Some qs"
      and names: "cv_Name ?p = cv_Name ?q" "cv_Secrets ?q = cv_Secrets ?p" "cv_Name ?q = cv_Name ?p"
      using c by simp_all
    have p: "validateCreateVolumeRequest (Some ?p) = Ok ()" "createSnapshotResponse ?p = Ok None"
      unfolding same by (rule q)+
    note dp = CreateVolume_dynamic [OF p cp(1) pp(1) refl, of d]
      and dq = CreateVolume_dynamic [OF q cp(2) pp(2) refl, of d]
    show ?thesis
      using prepare_volume_perm [OF assms maps names(2,3), of d "map_of qs SharedVolumeNameKey \<noteq> None" w]
      unfolding dp dq maps names(1) by (elim disjE exE conjE) (simp_all add: bind_io_def [of "prepare_volume _ _ _ _"])
  next
    case False
    then have "CreateVolume d (Some ?p) w = CreateVolume d (Some ?q) w"
      using validate_cases [of "Some ?q"]
      by (cases "createSnapshotResponse ?q") (auto simp: CreateVolume_def same split: option.splits)
    then show ?thesis ..
  qed
qed

theorem CreateVolume_parameter_order_witness:
  "\<exists>w'. CreateVolume (sample_driver (Ok ())) (Some (sample_create ''pv'' [(''createQuota'', ''true''), (''quobyteTenant'', ''t'')])) empty_world
     = (Ok \<lparr>VolumeId = ''t-id|v-pv'', CapacityBytes = 1000, ContentSource = None, VolumeContext = []\<rparr>, w')"
proof -
  let ?d = "sample_driver (Ok ())" and ?r = "sample_create ''pv'' []"
  let ?ps = "[(''createQuota'', ''true''), (''quobyteTenant'', ''t'')]"
    and ?qs = "[(''quobyteTenant'', ''t''), (''createQuota'', ''true'')]"
  obtain w' where run: "CreateVolume ?d (Some (?r\<lparr>cv_Parameters := Some ?qs\<rparr>)) empty_world
     = (Ok \<lparr>VolumeId = ''t-id|v-pv'', CapacityBytes = 1000, ContentSource = None, VolumeContext = []\<rparr>, w')"
    by (simp add: run_create sample_defs)
  have m: "mset ?ps = mset ?qs" by (simp add: add_mset_commute)
  have k: "distinct_keys ?ps" by (simp add: distinct_keys_def lower_keys)
  have "CreateVolume ?d (Some (?r\<lparr>cv_Parameters := Some ?ps\<rparr>)) empty_world
     = (Ok \<lparr>VolumeId = ''t-id|v-pv'', CapacityBytes = 1000, ContentSource = None, VolumeContext = []\<rparr>, w')"
    using CreateVolume_parameter_order [OF m k, of ?d ?r empty_world] run by simp
  then show ?thesis by (simp add: sample_create_def)
qed

text \<open>
  (invalid requests reach nothing): \<open>CreateVolume\<close> refuses a missing request, capacity or
  parameter map, an empty secret, and any request for a block volume, in that case with an error
  and without one call to the service or the node; every other request passes the validation.
\<close>

theorem CreateVolume_refuses_invalid:
  "(\<exists>e. validateCreateVolumeRequest mreq = Err e \<and> (\<forall>d. CreateVolume d mreq = throw_io e)) \<longleftrightarrow>
   (case mreq of
      None \<Rightarrow> True
    | Some req \<Rightarrow> cv_CapacityRange req = None \<or> cv_Parameters req = None \<or> cv_Secrets req = [] \<or>
        (case cv_VolumeCapabilities req of None \<Rightarrow> False | Some caps \<Rightarrow> BlockVolume \<in> set caps))"
proof -
  have "(\<exists>e. validateCreateVolumeRequest mreq = Err e \<and> (\<forall>d. CreateVolume d mreq = throw_io e)) \<longleftrightarrow>
      validateCreateVolumeRequest mreq \<noteq> Ok ()"
    using validate_cases [of mreq] CreateVolume_invalid by fastforce
  also have "\<dots> \<longleftrightarrow> (case mreq of
      None \<Rightarrow> True
    | Some req \<Rightarrow> cv_CapacityRange req = None \<or> cv_Parameters req = None \<or> cv_Secrets req = [] \<or>
        (case cv_VolumeCapabilities req of None \<Rightarrow> False | Some caps \<Rightarrow> BlockVolume \<in> set caps))"
    unfolding validate_Ok_iff by (auto split: option.splits)
  finally show ?thesis .
qed

text \<open>
  C27 (which tenant): a successful creation of a dynamic volume asks the service, with the client of
  the request's secrets, for the identifier of the tenant that the StorageClass parameters name, or
  otherwise, with namespace mapping enabled, of the claim's namespace, which must then be among the
  parameters; with neither it asks for none. The volume is created or found in the tenant of that
  identifier, and the handle starts with it.
\<close>

theorem CreateVolume_tenant:
  assumes "createSnapshotResponse req = Ok None" and "CreateVolume d (Some req) w = (Ok vol, w')"
    and "cv_Parameters req = Some params" and "named = param_or params ''quobytetenant'' []"
    and "mapped = (named = [] \<and> UseK8SNamespaceAsQuobyteTenant d)"
    and "wanted = (if mapped then map_get params pvcNamespaceKey else named)"
  shows "(mapped \<longrightarrow> map_of params pvcNamespaceKey \<noteq> None) \<and>
     (\<exists>api w1 user w2 t w3 r u w4.
        new_client d (cv_Secrets req) w = (Ok api, w1) \<and> q_WhoAmI api w1 = (Ok user, w2) \<and>
        (if wanted = [] then t = [] \<and> w3 = w2 else q_GetTenantUUID api wanted w2 = (Ok t, w3)) \<and>
        vr_TenantId r = t \<and> vr_Name r = param_or params ''sharedvolumename'' (cv_Name req) \<and>
        create_or_resolve api r w3 = (Ok u, w4) \<and>
        VolumeId vol = volume_handle
          (if map_of params SharedVolumeNameKey = None then [t, u] else [t, u, cv_Name req]))"
proof -
  obtain c ps s api st r u w3 w4 where "cv_Parameters req = Some ps"
    and s: "s = (map_of ps SharedVolumeNameKey \<noteq> None)" and "prepare_volume d req ps s w = (Ok (api, st, r), w3)"
    and cr: "create_or_resolve api r w3 = (Ok u, w4)"
    and fin: "finish_volume d api s st r c (cv_Name req) u w4 = (Ok vol, w')"
    by (rule CreateVolume_OkE [OF assms(1,2)]) (rule that)
  with assms(3) have ps: "ps = params" and prep: "prepare_volume d req params s w = (Ok (api, st, r), w3)" by simp_all
  obtain w1 user w2 r0 where client: "new_client d (cv_Secrets req) w = (Ok api, w1)" "q_WhoAmI api w1 = (Ok user, w2)"
    and st: "set_params s params (initial_state s (cv_Name req) user) = Ok st"
    and t: "choose_tenant d params (volRequest st) = Ok r0" and r: "resolve_tenant api r0 w2 = (Ok r, w3)"
    using prep unfolding prepare_volume_Ok by blast
  have w: "vr_TenantId r0 = wanted"
    using choose_tenant_requested(1) [OF st t] assms(4-6) by (simp add: requested_tenant_def wanted_tenant_def)
  have "mapped \<longrightarrow> map_of params pvcNamespaceKey \<noteq> None"
    using choose_tenant_requested(3) [OF st t] assms(4,5) by blast
  moreover have "if wanted = [] then vr_TenantId r = [] \<and> w3 = w2 else q_GetTenantUUID api wanted w2 = (Ok (vr_TenantId r), w3)"
    and "vr_Name r = vr_Name r0"
    using r w by (auto simp: resolve_tenant_def bind_io_Ok split: if_splits)
  moreover have "vr_Name r0 = param_or params ''sharedvolumename'' (cv_Name req)"
    using choose_tenant_requested(2) [OF st t] by (simp add: requested_name_def)
  moreover have "VolumeId vol = volume_handle
      (if map_of params SharedVolumeNameKey = None then [vr_TenantId r, u] else [vr_TenantId r, u, cv_Name req])"
    using finish_volume_Ok [OF fin] s ps by simp
  ultimately show ?thesis using client cr by (intro conjI exI) (assumption | simp)+
qed

theorem CreateVolume_tenant_witness:
  "\<exists>vol w'. CreateVolume (sample_driver (Ok ())\<lparr>UseK8SNamespaceAsQuobyteTenant := True\<rparr>)
       (Some (sample_create ''pv'' [(pvcNamespaceKey, ''ns'')])) empty_world = (Ok vol, w') \<and>
     (\<exists>w2 t w3 u. q_GetTenantUUID (sample_api (Ok ())) ''ns'' w2 = (Ok t, w3) \<and> VolumeId vol = volume_handle [t, u])"
proof -
  let ?d = "sample_driver (Ok ())\<lparr>UseK8SNamespaceAsQuobyteTenant := True\<rparr>"
  let ?p = "[(pvcNamespaceKey, ''ns'')]"
  have k: "ToLower ''csi.storage.k8s.io/pvc/namespace'' = ''csi.storage.k8s.io/pvc/namespace''"
    by code_simp
  obtain vol w' where run: "CreateVolume ?d (Some (sample_create ''pv'' ?p)) empty_world = (Ok vol, w')"
    by (simp add: run_create sample_defs k pvcNamespaceKey_def)
  have p: "cv_Parameters (sample_create ''pv'' ?p) = Some ?p" by (simp add: sample_create_def)
  have n: "[] = param_or ?p ''quobytetenant'' []" by (simp add: param_or_Cons k pvcNamespaceKey_def)
  have m: "True = ([] = ([] :: string) \<and> UseK8SNamespaceAsQuobyteTenant ?d)" by simp
  have x: "''ns'' = (if True then map_get ?p pvcNamespaceKey else [])" by (simp add: map_get_def)
  have one: "map_of ?p SharedVolumeNameKey = None" by (simp add: SharedVolumeNameKey_def pvcNamespaceKey_def)
  have api: "new_client ?d secrets w1 = (Ok api, w2) \<Longrightarrow> api = sample_api (Ok ())" for secrets w1 api w2
    by (simp add: sample_driver_def return_io_def)
  have "\<exists>w2 t w3 u. q_GetTenantUUID (sample_api (Ok ())) ''ns'' w2 = (Ok t, w3) \<and> VolumeId vol = volume_handle [t, u]"
    using CreateVolume_tenant [OF sample_create_dynamic run p n m x] unfolding one if_P [OF refl]
    by (auto dest!: api [unfolded sample_driver_def] simp: sample_driver_def)
  with run show ?thesis by blast
qed

lemma shared_claim_directory:
  assumes "dir_contract view (mounter d)" and "createSnapshotResponse req = Ok None"
    and "CreateVolume d (Some req) w = (Ok vol, w')"
    and "cv_Parameters req = Some params" and "map_of params SharedVolumeNameKey \<noteq> None"
  shows "\<exists>t u w1 dir. VolumeId vol = volume_handle [t, u, cv_Name req] \<and>
     view w' (Join [clientMountPoint d, u, cv_Name req]) = Some (DirNode dir) \<and>
     (\<forall>p m. view w1 p = Some (DirNode m) \<longrightarrow> (\<exists>m'. view w' p = Some (DirNode m'))) \<and>
     (\<exists>api st r w0. prepare_volume d req params True w = (Ok (api, st, r), w0) \<and>
        create_or_resolve api r w0 = (Ok u, w1) \<and> t = vr_TenantId r)"
proof -
  obtain capacity ps s api st r u w1 w2 where p: "cv_Parameters req = Some ps"
    and s: "s = (map_of ps SharedVolumeNameKey \<noteq> None)"
    and prep: "prepare_volume d req ps s w = (Ok (api, st, r), w1)"
    and cr: "create_or_resolve api r w1 = (Ok u, w2)"
    and fin: "finish_volume d api s st r capacity (cv_Name req) u w2 = (Ok vol, w')"
    by (rule CreateVolume_OkE [OF assms(2,3)]) (rule that)
  from p assms(4) have ps: "ps = params" by simp
  with s assms(5) have True: "s = True" by simp
  obtain h where "make_subdirectory d st r u (cv_Name req) w2 = (Ok h, w')"
    using fin unfolding True finish_volume_def by (auto simp: bind_io_Ok)
  note sub = conjunct2 [OF make_subdirectory_Ok [OF this]]
  obtain r' where run: "DirectoryMaker_Mkdir (mounter d) (Join [clientMountPoint d, u, cv_Name req]) r' w2 = (Ok (), w')"
    using sub by (elim exE) (rule that)
  obtain dir where dir: "view w' (Join [clientMountPoint d, u, cv_Name req]) = Some (DirNode dir)"
    using dmaker.made [OF assms(1) run] by (elim exE) (rule that)
  have keep: "\<forall>p m. view w2 p = Some (DirNode m) \<longrightarrow> (\<exists>m'. view w' p = Some (DirNode m'))"
    by (intro allI impI) (rule dmaker.mkdir_keeps_directories [OF assms(1) run])
  have "VolumeId vol = volume_handle [vr_TenantId r, u, cv_Name req]"
    using finish_volume_Ok [OF fin] True by simp
  moreover have "prepare_volume d req params True w = (Ok (api, st, r), w1)"
    using prep unfolding ps True .
  ultimately show ?thesis
    using dir keep cr by (intro exI conjI) (assumption | rule refl)+
qed

text \<open>
  C6 (a claim in a shared volume): when a request whose parameters have the key \<open>sharedVolumeName\<close>
  succeeds, its handle names the tenant, the shared volume and the claim, in the last world a
  directory stands at the claim's path below the shared volume under the client's mount point, and
  every directory that stood before the directory was made still stands.
\<close>

theorem shared_claim_has_directory:
  assumes "dir_contract view (mounter d)" and "createSnapshotResponse req = Ok None"
    and "CreateVolume d (Some req) w = (Ok vol, w')"
    and "cv_Parameters req = Some params" and "map_of params SharedVolumeNameKey \<noteq> None"
  shows "\<exists>t u w1 dir. VolumeId vol = volume_handle [t, u, cv_Name req] \<and>
     view w' (Join [clientMountPoint d, u, cv_Name req]) = Some (DirNode dir) \<and>
     (\<forall>p m. view w1 p = Some (DirNode m) \<longrightarrow> (\<exists>m'. view w' p = Some (DirNode m'))) \<and>
     (\<exists>api st r w0. prepare_volume d req params True w = (Ok (api, st, r), w0) \<and>
        create_or_resolve api r w0 = (Ok u, w1) \<and> t = vr_TenantId r)"
  using assms by (rule shared_claim_directory)

definition sample_shared :: gomap where
  "sample_shared = [(''quobyteTenant'', ''t''), (''sharedVolumeName'', ''sv'')]"

lemma directory_mode_1700: "directory_mode 1700 = Ok 960"
  by (simp add: directory_mode_def Itoa_def decimal.simps digit_char_def ParseUint_def digit_val_def)

lemma Join_sample: "Join [''/mnt'', ''v-sv'', ''pvc-1''] = ''/mnt/v-sv/pvc-1''"
  using Join_abs_path [of "[''mnt'']" "[''v-sv'', ''pvc-1'']"] by (simp add: simple_name_def)

theorem shared_claim_has_directory_witness:
  "\<exists>vol w'. CreateVolume (sample_driver (Ok ())) (Some (sample_create ''pvc-1'' sample_shared)) empty_world = (Ok vol, w') \<and>
     (\<exists>t u dir. VolumeId vol = volume_handle [t, u, ''pvc-1''] \<and> files w' (Join [''/mnt'', u, ''pvc-1'']) = Some (DirNode dir))"
proof -
  let ?req = "sample_create ''pvc-1'' sample_shared"
  have c: "dir_contract files (mounter (sample_driver (Ok ())))"
    by (simp add: sample_driver_def sample_dir_contract)
  obtain vol w' where run: "CreateVolume (sample_driver (Ok ())) (Some ?req) empty_world = (Ok vol, w')"
    by (simp add: run_create run_mkdir make_subdirectory_def sample_shared_def sample_defs Join_sample
        DefaultPVCAccessModeInsideSharedVolume_def directory_mode_1700)
  have p: "cv_Parameters ?req = Some sample_shared" and k: "map_of sample_shared SharedVolumeNameKey \<noteq> None"
    by (simp_all add: sample_create_def sample_shared_def SharedVolumeNameKey_def)
  show ?thesis
    using run shared_claim_has_directory [where view = files, OF c sample_create_dynamic run p k]
    by (auto simp: sample_create_def sample_driver_def)
qed


text \<open>
  C38 (a failed quota deletes the volume): when a request with \<open>createQuota\<close> meets a volume that
  exists already and the quota cannot be set, the call deletes that volume and returns the error
  of the quota: it does not tell a volume it has just created from one that holds data.
\<close>

theorem quota_failure_deletes_existing_volume:
  assumes "validateCreateVolumeRequest (Some req) = Ok ()" and "createSnapshotResponse req = Ok None"
    and "cv_CapacityRange req = Some capacity" and "cv_Parameters req = Some params"
    and "map_of params SharedVolumeNameKey = None"
    and "prepare_volume d req params False w = (Ok (api, st, r), w1)" and "createQuota st"
    and "q_CreateVolume api r w1 = (Err e, w2)" and "Contains (Error e) ''ENTITY_EXISTS_ALREADY''"
    and "q_ResolveVolumeNameToUUID api (vr_Name r) (vr_TenantId r) w2 = (Ok u, w3)"
    and "q_SetVolumeQuota api u capacity w3 = (Err qe, w4)"
    and "q_DeleteVolumeByResolvingNamesToUUID api u [] w4 = (res, w5)" and "\<And>p. res \<noteq> Panic p"
  shows "CreateVolume d (Some req) w = (Err qe, w5)"
proof -
  have cr: "create_or_resolve api r w1 = (Ok u, w3)"
    using assms(8-10) by (simp add: create_or_resolve_run)
  have del: "\<exists>x. try_io (q_DeleteVolumeByResolvingNamesToUUID api u []) w4 = (Ok x, w5)"
    using assms(12,13) by (cases res) auto
  then have "apply_quota api u capacity w3 = (Err qe, w5)"
    using assms(11) by (auto simp: apply_quota_def)
  then have "finish_volume d api False st r capacity (cv_Name req) u w3 = (Err qe, w5)"
    using assms(7) by (simp add: finish_volume_def)
  with cr assms(6) show ?thesis
    by (simp add: CreateVolume_dynamic [OF assms(1-4) refl] assms(5))
qed

theorem quota_failure_deletes_existing_volume_witness:
  "\<exists>w'. CreateVolume (sample_driver (Err (ErrorString ''no space'')))
       (Some (sample_create ''pv'' [(''quobyteTenant'', ''t''), (''createQuota'', ''true'')]))
       (empty_world\<lparr>volumes := [(''pv'', ''t-id'') \<mapsto> ''v-old'']\<rparr>) = (Err (ErrorString ''no space''), w') \<and>
     log w' = [''quota v-old'', ''delete v-old'']"
proof -
  let ?d = "sample_driver (Err (ErrorString ''no space''))"
  let ?params = "[(''quobyteTenant'', ''t''), (''createQuota'', ''true'')]"
  let ?req = "sample_create ''pv'' ?params"
  let ?w = "empty_world\<lparr>volumes := [(''pv'', ''t-id'') \<mapsto> ''v-old'']\<rparr>"
  obtain st r where prep: "prepare_volume ?d ?req ?params False ?w = (Ok (sample_api (Err (ErrorString ''no space'')), st, r), ?w)"
    and st: "createQuota st" and r: "vr_Name r = ''pv''" "vr_TenantId r = ''t-id''"
    by (simp add: run_create sample_defs)
  have "CreateVolume ?d (Some ?req) ?w = (Err (ErrorString ''no space''), ?w\<lparr>log := [''quota v-old'', ''delete v-old'']\<rparr>)"
    by (rule quota_failure_deletes_existing_volume [OF _ sample_create_dynamic _ _ _ prep st,
          where e = "ErrorString ''ENTITY_EXISTS_ALREADY/POSIX_ERROR_NONE''" and ?w2.0 = ?w and u = "''v-old''" and ?w3.0 = ?w
            and ?w4.0 = "?w\<lparr>log := [''quota v-old'']\<rparr>" and res = "Ok ()" and capacity = 1000])
      (simp_all add: run_create sample_defs r)
  then show ?thesis by simp
qed

text \<open>
  C8 (two claims, two handles): on a service whose volume identifiers are unique, and when a shared
  volume is configured with the key exactly as the driver reads it, two successful requests for
  claims of different names get different handles, even when they share one volume.
\<close>

theorem claims_have_distinct_handles:
  assumes "service_contract vols tid d"
    and "createSnapshotResponse req1 = Ok None" and "createSnapshotResponse req2 = Ok None"
    and "CreateVolume d (Some req1) w = (Ok v1, w1)"
    and "\<And>k u. vols w1 k = Some u \<Longrightarrow> vols w2 k = Some u"
    and "CreateVolume d (Some req2) w2 = (Ok v2, w3)"
    and "cv_Name req1 \<noteq> cv_Name req2" and "CHR ''|'' \<notin> set (cv_Name req1)" and "CHR ''|'' \<notin> set (cv_Name req2)"
    and "\<And>ps kv. cv_Parameters req1 = Some ps \<or> cv_Parameters req2 = Some ps \<Longrightarrow> kv \<in> set ps \<Longrightarrow>
           ToLower (fst kv) = ''sharedvolumename'' \<Longrightarrow> fst kv = SharedVolumeNameKey"
    and "\<And>k k' u. vols w3 k = Some u \<Longrightarrow> vols w3 k' = Some u \<Longrightarrow> k = k'"
    and "\<And>n t u. vols w3 (n, t) = Some u \<Longrightarrow> CHR ''|'' \<notin> set t \<and> CHR ''|'' \<notin> set u"
  shows "VolumeId v1 \<noteq> VolumeId v2"
proof -
  have name: "vr_Name (volRequest st) = cv_Name req"
    if "set_params False ps (initial_state False (cv_Name req) user) = Ok st"
      and "map_of ps SharedVolumeNameKey = None" and "cv_Parameters req1 = Some ps \<or> cv_Parameters req2 = Some ps"
    for req ps user st
  proof -
    have "\<forall>kv \<in> set ps. ToLower (fst kv) \<noteq> ''sharedvolumename''"
      using that(2) assms(10) [OF that(3)] by (metis map_of_eq_None_iff image_eqI)
    from set_params_Name_keep [OF that(1) this] show ?thesis by (simp add: initial_state_def)
  qed
  obtain c1 p1 s1 st1 user1 t1 u1 where a: "cv_Parameters req1 = Some p1" "s1 = (map_of p1 SharedVolumeNameKey \<noteq> None)"
    "set_params s1 p1 (initial_state s1 (cv_Name req1) user1) = Ok st1"
    and u1: "vols w1 (vr_Name (volRequest st1), t1) = Some u1"
    and v1: "v1 = \<lparr>VolumeId = volume_handle (if s1 then [t1, u1, cv_Name req1] else [t1, u1]),
           CapacityBytes = c1, ContentSource = None, VolumeContext = []\<rparr>"
    by (rule CreateVolume_contract [OF assms(1,2,4)]) (rule that)
  obtain c2 p2 s2 st2 user2 t2 u2 where b: "cv_Parameters req2 = Some p2" "s2 = (map_of p2 SharedVolumeNameKey \<noteq> None)"
    "set_params s2 p2 (initial_state s2 (cv_Name req2) user2) = Ok st2"
    and u2: "vols w3 (vr_Name (volRequest st2), t2) = Some u2"
    and keep: "\<And>k x. vols w2 k = Some x \<Longrightarrow> vols w3 k = Some x"
    and v2: "v2 = \<lparr>VolumeId = volume_handle (if s2 then [t2, u2, cv_Name req2] else [t2, u2]),
           CapacityBytes = c2, ContentSource = None, VolumeContext = []\<rparr>"
    by (rule CreateVolume_contract [OF assms(1,3,6)]) (rule that)
  note u1' = keep [OF assms(5) [OF u1]]
  have free: "CHR ''|'' \<notin> set t1" "CHR ''|'' \<notin> set u1" "CHR ''|'' \<notin> set t2" "CHR ''|'' \<notin> set u2"
    using assms(12) [OF u1'] assms(12) [OF u2] by simp_all
  have parts: "Split (VolumeId v1) VOLUME_HANDLE_PART_SEPARATOR = (if s1 then [t1, u1, cv_Name req1] else [t1, u1])"
    "Split (VolumeId v2) VOLUME_HANDLE_PART_SEPARATOR = (if s2 then [t2, u2, cv_Name req2] else [t2, u2])"
    unfolding v1 v2 Volume.simps using free assms(8,9) by (subst split_handle; auto split: if_splits)+
  show ?thesis
  proof
    assume "VolumeId v1 = VolumeId v2"
    with parts have eq: "(if s1 then [t1, u1, cv_Name req1] else [t1, u1]) = (if s2 then [t2, u2, cv_Name req2] else [t2, u2])"
      by simp
    with assms(7) have s: "\<not> s1" "\<not> s2" and u: "u1 = u2" by (auto split: if_splits)
    have "vr_Name (volRequest st1) = vr_Name (volRequest st2)"
      using assms(11) [OF u1' u2 [folded u]] by simp
    with name [of p1 req1 user1 st1] name [of p2 req2 user2 st2] a b s assms(7) show False by simp
  qed
qed


theorem claims_have_distinct_handles_witness:
  "\<exists>v1 w1 v2 w2. CreateVolume (sample_driver (Ok ())) (Some (sample_create ''pvc-1'' sample_shared)) empty_world = (Ok v1, w1) \<and>
     CreateVolume (sample_driver (Ok ())) (Some (sample_create ''pvc-2'' sample_shared)) w1 = (Ok v2, w2) \<and>
     VolumeId v1 \<noteq> VolumeId v2"
proof -
  have j: "Join [''/mnt'', ''v-sv'', ''pvc-2''] = ''/mnt/v-sv/pvc-2''"
    using Join_abs_path [of "[''mnt'']" "[''v-sv'', ''pvc-2'']"] by (simp add: simple_name_def)
  obtain v1 w1 where one: "CreateVolume (sample_driver (Ok ())) (Some (sample_create ''pvc-1'' sample_shared)) empty_world = (Ok v1, w1)"
    and vols: "volumes w1 = [(''sv'', ''t-id'') \<mapsto> ''v-sv'']" and f: "files w1 ''/mnt/v-sv/pvc-2'' = None"
    by (simp add: run_create run_mkdir make_subdirectory_def sample_shared_def sample_defs Join_sample
        DefaultPVCAccessModeInsideSharedVolume_def directory_mode_1700)
  obtain v2 w2 where two: "CreateVolume (sample_driver (Ok ())) (Some (sample_create ''pvc-2'' sample_shared)) w1 = (Ok v2, w2)"
    and vols': "volumes w2 = [(''sv'', ''t-id'') \<mapsto> ''v-sv'']"
    using vols f by (simp add: run_create run_mkdir make_subdirectory_def sample_shared_def sample_defs j
        DefaultPVCAccessModeInsideSharedVolume_def directory_mode_1700)
  have "VolumeId v1 \<noteq> VolumeId v2"
    by (rule claims_have_distinct_handles [OF sample_service_contract sample_create_dynamic sample_create_dynamic one _ two])
      (auto simp: sample_create_def sample_shared_def SharedVolumeNameKey_def lower_keys vols' split: if_splits)
  with one two show ?thesis by simp
qed

text \<open>
  C39 (a key in another case shares the volume): the parameter loop accepts the shared volume's name
  under a key in any case, but only the exact key makes the volume a shared one. Under a key in another
  case, the requests of any two claims get one and the same handle, that of the whole volume.
\<close>

theorem miscased_key_shares_volume:
  assumes "service_contract vols tid d"
    and "createSnapshotResponse req1 = Ok None" and "createSnapshotResponse req2 = Ok None"
    and "CreateVolume d (Some req1) w = (Ok v1, w1)"
    and "\<And>k u. vols w1 k = Some u \<Longrightarrow> vols w2 k = Some u"
    and "CreateVolume d (Some req2) w2 = (Ok v2, w3)"
    and "cv_Parameters req1 = Some ps" and "cv_Parameters req2 = Some ps" and "distinct_keys ps"
    and "kv \<in> set ps" and "ToLower (fst kv) = ''sharedvolumename''" and "fst kv \<noteq> SharedVolumeNameKey"
  shows "VolumeId v1 = VolumeId v2 \<and> (\<exists>t u. VolumeId v1 = volume_handle [t, u])"
proof -
  have none: "map_of ps SharedVolumeNameKey = None"
  proof (rule ccontr)
    assume "map_of ps SharedVolumeNameKey \<noteq> None"
    then obtain kv' where kv': "kv' \<in> set ps" "fst kv' = SharedVolumeNameKey"
      by (metis map_of_SomeD fst_conv not_None_eq)
    then have "ToLower (fst kv') = ToLower (fst kv)"
      using assms(11) lower_keys(2) by (simp add: SharedVolumeNameKey_def)
    then have "kv' = kv"
      using assms(9) kv'(1) assms(10) unfolding distinct_keys_def distinct_map inj_on_def by simp
    with kv'(2) assms(12) show False by simp
  qed
  obtain c1 p1 s1 st1 user1 t1 u1 where a: "cv_Parameters req1 = Some p1" "s1 = (map_of p1 SharedVolumeNameKey \<noteq> None)"
    "set_params s1 p1 (initial_state s1 (cv_Name req1) user1) = Ok st1"
    "t1 = tenant_id tid (wanted_tenant d p1 (vr_TenantId (volRequest st1)))"
    and u1: "vols w1 (vr_Name (volRequest st1), t1) = Some u1"
    and v1: "v1 = \<lparr>VolumeId = volume_handle (if s1 then [t1, u1, cv_Name req1] else [t1, u1]),
           CapacityBytes = c1, ContentSource = None, VolumeContext = []\<rparr>"
    by (rule CreateVolume_contract [OF assms(1,2,4)]) (rule that)
  obtain c2 p2 s2 st2 user2 t2 u2 where b: "cv_Parameters req2 = Some p2" "s2 = (map_of p2 SharedVolumeNameKey \<noteq> None)"
    "set_params s2 p2 (initial_state s2 (cv_Name req2) user2) = Ok st2"
    "t2 = tenant_id tid (wanted_tenant d p2 (vr_TenantId (volRequest st2)))"
    and u2: "vols w3 (vr_Name (volRequest st2), t2) = Some u2"
    and keep: "\<And>k x. vols w2 k = Some x \<Longrightarrow> vols w3 k = Some x"
    and v2: "v2 = \<lparr>VolumeId = volume_handle (if s2 then [t2, u2, cv_Name req2] else [t2, u2]),
           CapacityBytes = c2, ContentSource = None, VolumeContext = []\<rparr>"
    by (rule CreateVolume_contract [OF assms(1,3,6)]) (rule that)
  have p: "p1 = ps" "p2 = ps" "\<not> s1" "\<not> s2" using a b assms(7,8) none by simp_all
  have n: "vr_Name (volRequest st1) = snd kv" "vr_Name (volRequest st2) = snd kv"
    using set_params_Name [OF _ assms(10,11,9)] a(3) b(3) p by simp_all
  have "s2 = s1" using p by simp
  then have "same_target vr_TenantId st1 st2"
    using set_params_target [OF a(3) b(3) [unfolded p(2) p(1) [symmetric] \<open>s2 = s1\<close>], of vr_TenantId]
    by (simp add: same_target_def initial_state_def)
  then have "t2 = t1" using a(4) b(4) p by (simp add: same_target_def)
  moreover have "vols w3 (snd kv, t1) = Some u1"
    using keep [OF assms(5) [OF u1]] n by simp
  then have "u2 = u1" using u2 n \<open>t2 = t1\<close> by simp
  ultimately show ?thesis using v1 v2 p by auto
qed

theorem miscased_key_shares_volume_witness:
  "\<exists>v1 w1 v2 w2. CreateVolume (sample_driver (Ok ())) (Some (sample_create ''pvc-1'' [(''SharedVolumeName'', ''sv'')])) empty_world = (Ok v1, w1) \<and>
     CreateVolume (sample_driver (Ok ())) (Some (sample_create ''pvc-2'' [(''SharedVolumeName'', ''sv'')])) w1 = (Ok v2, w2) \<and>
     VolumeId v1 = VolumeId v2"
proof -
  let ?ps = "[(''SharedVolumeName'', ''sv'')]"
  obtain v1 w1 where one: "CreateVolume (sample_driver (Ok ())) (Some (sample_create ''pvc-1'' ?ps)) empty_world = (Ok v1, w1)"
    and vols: "volumes w1 = [(''sv'', []) \<mapsto> ''v-sv'']"
    by (simp add: run_create sample_defs)
  obtain v2 w2 where two: "CreateVolume (sample_driver (Ok ())) (Some (sample_create ''pvc-2'' ?ps)) w1 = (Ok v2, w2)"
    using vols by (simp add: run_create sample_defs)
  have "VolumeId v1 = VolumeId v2 \<and> (\<exists>t u. VolumeId v1 = volume_handle [t, u])"
    by (rule miscased_key_shares_volume [OF sample_service_contract sample_create_dynamic sample_create_dynamic one _ two,
          where ps = ?ps and kv = "(''SharedVolumeName'', ''sv'')"])
      (simp_all add: sample_create_def distinct_keys_def lower_keys SharedVolumeNameKey_def)
  with one two show ?thesis by simp
qed

end
