(* ===== verification/Node.thy ===== *)
theory Node
  imports Snapshots Volume_Create
begin

text \<open>
  \<open>driver/node.go\<close>: publishing a volume (a bind mount of a path below the client's mount point),
  unpublishing it, and the volume statistics. The properties say what exactly is mounted for the
  handles the controller returns.
\<close>

definition xAttrKey :: string where "xAttrKey = ''quobyte.access_key''"
definition snapshotsDir :: string where "snapshotsDir = ''.snapshots''"
definition accessKeyContextHandleSeparator :: string where "accessKeyContextHandleSeparator = ''@''"

text \<open>The octal literal 0750.\<close>

definition mountPathDefaultPermissions :: FileMode where "mountPathDefaultPermissions = 488"

section \<open>Publishing\<close>

definition mayGetVolumeHandleFromSnapshotContext :: "NodePublishVolumeRequest \<Rightarrow> (string \<times> string) outcome" where
  "mayGetVolumeHandleFromSnapshotContext req =
     (if \<not> HasPrefix (np_VolumeId req) SnapshotVolumeHandlePrefix then Ok (np_VolumeId req, [])
      else (case np_VolumeContext req of
        None \<Rightarrow> Err (Errorf ''volume context should not empty for snapshot'' [])
      | Some volumeContext \<Rightarrow>
          (case map_of volumeContext SnapshotIDKey of
             None \<Rightarrow> Err (Errorf ''%s key is not found in the volume context'' [SnapshotIDKey])
           | Some snapshotHandle \<Rightarrow>
               (let snapshotParts = Split snapshotHandle VOLUME_HANDLE_PART_SEPARATOR
                in if length snapshotParts < 3 then Err (getInvalidSnapshotIdError snapshotHandle)
                   else
                     bind_outcome (slice_at snapshotParts 2) (\<lambda>snapshotName.
                     if length snapshotParts = 4
                     then
                       bind_outcome (slice_at snapshotParts 0) (\<lambda>tenant.
                       bind_outcome (slice_at snapshotParts 1) (\<lambda>volume.
                       bind_outcome (slice_at snapshotParts 3) (\<lambda>subDirectory.
                       Ok (tenant @ VOLUME_HANDLE_PART_SEPARATOR @ volume
                             @ VOLUME_HANDLE_PART_SEPARATOR @ subDirectory, snapshotName))))
                     else
                       bind_outcome (slice_at snapshotParts 0) (\<lambda>tenant.
                       bind_outcome (slice_at snapshotParts 1) (\<lambda>volume.
                       Ok (tenant @ VOLUME_HANDLE_PART_SEPARATOR @ volume, snapshotName))))))))"

text \<open>Behind the check of the number of parts every look-up is in range.\<close>

lemma mayGetVolumeHandle_guarded:
  "mayGetVolumeHandleFromSnapshotContext req =
     (if \<not> HasPrefix (np_VolumeId req) SnapshotVolumeHandlePrefix then Ok (np_VolumeId req, [])
      else (case np_VolumeContext req of
        None \<Rightarrow> Err (Errorf ''volume context should not empty for snapshot'' [])
      | Some volumeContext \<Rightarrow>
          (case map_of volumeContext SnapshotIDKey of
             None \<Rightarrow> Err (Errorf ''%s key is not found in the volume context'' [SnapshotIDKey])
           | Some snapshotHandle \<Rightarrow>
               (let snapshotParts = Split snapshotHandle VOLUME_HANDLE_PART_SEPARATOR
                in if length snapshotParts < 3 then Err (getInvalidSnapshotIdError snapshotHandle)
                   else if length snapshotParts = 4
                   then Ok (snapshotParts ! 0 @ VOLUME_HANDLE_PART_SEPARATOR @ snapshotParts ! 1
                              @ VOLUME_HANDLE_PART_SEPARATOR @ snapshotParts ! 3, snapshotParts ! 2)
                   else Ok (snapshotParts ! 0 @ VOLUME_HANDLE_PART_SEPARATOR @ snapshotParts ! 1, snapshotParts ! 2)))))"
  unfolding mayGetVolumeHandleFromSnapshotContext_def Let_def
  by (auto simp: slice_at_within simp del: Split_char split: option.splits)

definition formMountPath :: "string \<Rightarrow> string \<Rightarrow> string \<Rightarrow> string \<Rightarrow> string \<Rightarrow> string" where
  "formMountPath clientMount volumeUUID accessKeyHandle snapshotName subDirectory =
     (let volumeUUID = (if 0 < length accessKeyHandle
            then accessKeyHandle @ accessKeyContextHandleSeparator @ volumeUUID else volumeUUID);
          mountPath = Sprintf ''%s/%s'' [clientMount, volumeUUID];
          mountPath = (if 0 < length snapshotName
            then Sprintf ''%s/%s/%s'' [mountPath, snapshotsDir, snapshotName] else mountPath);
          mountPath = (if 0 < length subDirectory
            then Sprintf ''%s/%s'' [mountPath, subDirectory] else mountPath)
      in mountPath)"

definition getMountOptions :: "NodePublishVolumeRequest \<Rightarrow> string list" where
  "getMountOptions req =
     (case np_VolumeCapability req of
        None \<Rightarrow> []
      | Some volCap \<Rightarrow> (case GetMount volCap of None \<Rightarrow> [] | Some mountFlags \<Rightarrow> mountFlags))"

definition processVolumeHandle :: "string \<Rightarrow> (string \<times> string \<times> string) outcome" where
  "processVolumeHandle volumeHandle =
     (let fragments = Split volumeHandle VOLUME_HANDLE_PART_SEPARATOR
      in if length fragments < 2
         then Err (Errorf ''given volumeHandle '%s' is not in the format <TENANT_NAME/TENANT_UUID>%s<VOL_NAME/VOL_UUID>''
                [volumeHandle, VOLUME_HANDLE_PART_SEPARATOR])
         else if length fragments = 2 then
           bind_outcome (slice_at fragments 0) (\<lambda>tenant.
           bind_outcome (slice_at fragments 1) (\<lambda>volume.
           Ok (tenant, volume, [])))
         else
           bind_outcome (slice_at fragments 0) (\<lambda>tenant.
           bind_outcome (slice_at fragments 1) (\<lambda>volume.
           bind_outcome (slice_at fragments 2) (\<lambda>subDirectory.
           Ok (tenant, volume, subDirectory)))))"

lemma processVolumeHandle_guarded:
  "processVolumeHandle volumeHandle =
     (let fragments = Split volumeHandle VOLUME_HANDLE_PART_SEPARATOR
      in if length fragments < 2
         then Err (Errorf ''given volumeHandle '%s' is not in the format <TENANT_NAME/TENANT_UUID>%s<VOL_NAME/VOL_UUID>''
                [volumeHandle, VOLUME_HANDLE_PART_SEPARATOR])
         else if length fragments = 2 then Ok (fragments ! 0, fragments ! 1, [])
         else Ok (fragments ! 0, fragments ! 1, fragments ! 2))"
  unfolding processVolumeHandle_def Let_def
  by (auto simp: slice_at_within simp del: Split_char)

text \<open>Without API credentials in the secret, the volume of the handle is taken to be a UUID.\<close>

definition resolve_volume :: "'w QuobyteDriver \<Rightarrow> gomap \<Rightarrow> string \<Rightarrow> string \<Rightarrow> ('w, string) io" where
  "resolve_volume d secrets volume tenant =
     (if length secrets = 0 \<or> \<not> hasApiCredentials secrets then return_io volume
      else bind_io (new_client d secrets) (\<lambda>quobyteClient. q_GetVolumeUUID quobyteClient volume tenant))"

definition set_access_key :: "'w QuobyteDriver \<Rightarrow> gomap \<Rightarrow> ('w, string) io" where
  "set_access_key d secrets =
     bind_io (m_CreateAccessKeyContextHandle (mounter d)) (\<lambda>accessKeyHandle.
     case map_of secrets accessKeyID of
       None \<Rightarrow> throw_io (Errorf (''Mount secret should have '%s: <YOUR_ACCESS_KEY_ID>'' @ [CHR 0x27]) [accessKeyID])
     | Some keyID \<Rightarrow>
         (case map_of secrets accessKeySecret of
            None \<Rightarrow> throw_io (Errorf (''Mount secret should have '%s: <YOUR_ACCESS_KEY_SECRET>'' @ [CHR 0x27]) [accessKeySecret])
          | Some keySecret \<Rightarrow>
              bind_io (m_SetXAttr (mounter d) xAttrKey (getAccessKeyValStr keyID keySecret accessKeyHandle)
                         (clientMountPoint d)) (\<lambda>_.
              return_io accessKeyHandle)))"

definition NodePublishVolume :: "'w QuobyteDriver \<Rightarrow> NodePublishVolumeRequest \<Rightarrow> ('w, unit) io" where
  "NodePublishVolume d req =
     (let targetPath = np_TargetPath req; secrets = np_Secrets req
      in if length targetPath = 0 then throw_io (Errorf ''given target mount path is empty'' [])
         else
           bind_io (m_Mkdirs (mounter d) targetPath mountPathDefaultPermissions) (\<lambda>_.
           bind_io (lift_io (mayGetVolumeHandleFromSnapshotContext req)) (\<lambda>(volumeHandle, snapshotName).
           bind_io (lift_io (processVolumeHandle volumeHandle)) (\<lambda>(tenant, volume, subDirectory).
           bind_io (resolve_volume d secrets volume tenant) (\<lambda>volumeUUID.
           let options = getMountOptions req
           in if 0 < length options
              then throw_io (Errorf ''Mount options are not supported by Quobyte CSI Driver but provided %d options'' [Itoa (int (length options))])
              else
                bind_io (if IsQuobyteAccessKeyMountsEnabled d then set_access_key d secrets else return_io [])
                  (\<lambda>accessKeyHandle.
                let mountPath = formMountPath (clientMountPoint d) volumeUUID accessKeyHandle snapshotName subDirectory
                in Mount mountPath targetPath (mounter d)))))))"

definition NodeUnpublishVolume :: "'w QuobyteDriver \<Rightarrow> string \<Rightarrow> ('w, unit) io" where
  "NodeUnpublishVolume d target =
     (if length target = 0 then throw_io (Errorf ''target path for unmount is empty'' [])
      else Unmount target (mounter d))"

section \<open>Information and statistics\<close>

datatype NodeCapability = STAGE_UNSTAGE_VOLUME | GET_VOLUME_STATS | NODE_EXPAND_VOLUME

definition NodeGetCapabilities :: "NodeCapability list" where
  "NodeGetCapabilities = [GET_VOLUME_STATS]"

definition Unimplemented :: "string \<Rightarrow> go_error" where
  "Unimplemented name = StatusError ''Unimplemented'' (name @ '': Not implemented by Quobyte CSI'')"

definition NodeStageVolume :: "('w, unit) io" where "NodeStageVolume = throw_io (Unimplemented ''NodeStageVolume'')"
definition NodeUnstageVolume :: "('w, unit) io" where "NodeUnstageVolume = throw_io (Unimplemented ''NodeUnstageVolume'')"
definition NodeExpandVolume :: "('w, unit) io" where "NodeExpandVolume = throw_io (Unimplemented ''NodeExpandVolume'')"

definition NodeGetInfo :: "'w QuobyteDriver \<Rightarrow> ('w, string) io" where
  "NodeGetInfo d = return_io (NodeName d)"

datatype UsageUnit = BYTES | INODES

record VolumeUsage =
  Unit :: UsageUnit
  Used :: int64
  Available :: int64
  Total :: int64

text \<open>\<open>int64(x)\<close> of a \<open>uint64\<close> is the same word, read as signed.\<close>

definition volume_usage :: "Statfs \<Rightarrow> VolumeUsage list" where
  "volume_usage statfs =
     [\<lparr>Unit = BYTES, Used = (Blocks statfs - Bfree statfs) * Bsize statfs,
       Available = Bavail statfs * Bsize statfs, Total = Blocks statfs * Bsize statfs\<rparr>,
      \<lparr>Unit = INODES, Used = Files statfs - Ffree statfs, Available = Ffree statfs, Total = Files statfs\<rparr>]"

definition NodeGetVolumeStats :: "'w QuobyteDriver \<Rightarrow> string \<Rightarrow> ('w, VolumeUsage list) io" where
  "NodeGetVolumeStats d volumePath =
     (if \<not> enabledVolumeMetrics d
      then throw_io (Errorf ''volume/PVC metrics export is disabled for the Quobyte CSI Driver %s'' [drv_Name d])
      else if length volumePath \<le> 0 then throw_io (Errorf ''volume path must not be empty'' [])
      else bind_io (m_Statfs (mounter d) volumePath) (\<lambda>statfs. return_io (volume_usage statfs)))"

section \<open>Mount paths\<close>

lemma formMountPath_eq:
  "formMountPath mnt u h n s =
     mnt @ ''/'' @ (if h = [] then u else h @ ''@'' @ u) @
       (if n = [] then [] else ''/.snapshots/'' @ n) @ (if s = [] then [] else ''/'' @ s)"
  by (simp add: formMountPath_def Let_def accessKeyContextHandleSeparator_def snapshotsDir_def)

lemma formMountPath_plain:
  assumes "s \<noteq> []"
  shows "formMountPath (abs_path cs) u [] [] s = abs_path (cs @ [u, s])"
  using assms by (simp add: formMountPath_eq)

lemma processVolumeHandle_handle:
  assumes "CHR ''|'' \<notin> set t" and "CHR ''|'' \<notin> set v"
  shows "processVolumeHandle (volume_handle [t, v]) = Ok (t, v, [])"
    and "CHR ''|'' \<notin> set s \<Longrightarrow> processVolumeHandle (volume_handle [t, v, s]) = Ok (t, v, s)"
proof -
  have "Split (volume_handle [t, v]) VOLUME_HANDLE_PART_SEPARATOR = [t, v]"
    using assms by (intro split_handle) auto
  then show "processVolumeHandle (volume_handle [t, v]) = Ok (t, v, [])"
    by (simp add: processVolumeHandle_guarded)
  assume "CHR ''|'' \<notin> set s"
  then have "Split (volume_handle [t, v, s]) VOLUME_HANDLE_PART_SEPARATOR = [t, v, s]"
    using assms by (intro split_handle) auto
  then show "processVolumeHandle (volume_handle [t, v, s]) = Ok (t, v, s)"
    by (simp add: processVolumeHandle_guarded numeral_2_eq_2)
qed

lemma processVolumeHandle_no_panic [simp]: "processVolumeHandle h \<noteq> Panic p"
  by (simp add: processVolumeHandle_guarded Let_def)

lemma mayGetVolumeHandle_no_panic [simp]: "mayGetVolumeHandleFromSnapshotContext req \<noteq> Panic p"
  by (simp add: mayGetVolumeHandle_guarded Let_def split: option.splits)

lemma mayGetVolumeHandle_snapshot:
  assumes "HasPrefix (np_VolumeId req) SnapshotVolumeHandlePrefix" and "np_VolumeContext req = Some ctx"
    and "map_of ctx SnapshotIDKey = Some (volume_handle (t # v # n # rest))"
    and "\<And>p. p \<in> {t, v, n} \<union> set rest \<Longrightarrow> CHR ''|'' \<notin> set p" and "length rest \<le> 1"
  shows "mayGetVolumeHandleFromSnapshotContext req = Ok (volume_handle (t # v # rest), n)"
proof -
  have "Split (volume_handle (t # v # n # rest)) VOLUME_HANDLE_PART_SEPARATOR = t # v # n # rest"
    using assms(4) by (intro split_handle) auto
  with assms(1-3,5) show ?thesis
    by (cases rest) (simp_all add: mayGetVolumeHandle_guarded Let_def volume_handle_simps
        numeral_2_eq_2 numeral_3_eq_3)
qed

text \<open>The calls of a successful publication, the last of which mounts.\<close>

lemma NodePublishVolume_Ok:
  assumes "NodePublishVolume d req w = (Ok x, w')"
  obtains h n t v s u key w1 w2 w3 where "m_Mkdirs (mounter d) (np_TargetPath req) mountPathDefaultPermissions w = (Ok (), w1)"
    and "mayGetVolumeHandleFromSnapshotContext req = Ok (h, n)" and "processVolumeHandle h = Ok (t, v, s)"
    and "resolve_volume d (np_Secrets req) v t w1 = (Ok u, w2)" and "getMountOptions req = []"
    and "(if IsQuobyteAccessKeyMountsEnabled d then set_access_key d (np_Secrets req) else return_io []) w2 = (Ok key, w3)"
    and "m_Mount (mounter d) (formMountPath (clientMountPoint d) u key n s) (np_TargetPath req) w3 = (Ok (), w')"
proof -
  let ?key = "if IsQuobyteAccessKeyMountsEnabled d then set_access_key d (np_Secrets req) else return_io []"
  from assms obtain w1 h n where m: "m_Mkdirs (mounter d) (np_TargetPath req) mountPathDefaultPermissions w = (Ok (), w1)"
    and h: "mayGetVolumeHandleFromSnapshotContext req = Ok (h, n)"
    and rest: "bind_io (lift_io (processVolumeHandle h)) (\<lambda>(tenant, volume, subDirectory).
           bind_io (resolve_volume d (np_Secrets req) volume tenant) (\<lambda>volumeUUID.
           if 0 < length (getMountOptions req)
              then throw_io (Errorf ''Mount options are not supported by Quobyte CSI Driver but provided %d options'' [Itoa (int (length (getMountOptions req)))])
              else bind_io ?key (\<lambda>accessKeyHandle.
                Mount (formMountPath (clientMountPoint d) volumeUUID accessKeyHandle n subDirectory) (np_TargetPath req) (mounter d)))) w1 = (Ok x, w')"
    unfolding NodePublishVolume_def Let_def guard_Ok bind_io_Ok [of "m_Mkdirs _ _ _"]
      bind_io_Ok [of "lift_io (mayGetVolumeHandleFromSnapshotContext _)"] by fastforce
  obtain t v s where p: "processVolumeHandle h = Ok (t, v, s)"
    using rest by (cases "processVolumeHandle h") auto
  from rest obtain u w2 where r: "resolve_volume d (np_Secrets req) v t w1 = (Ok u, w2)"
    and g: "(if 0 < length (getMountOptions req)
              then throw_io (Errorf ''Mount options are not supported by Quobyte CSI Driver but provided %d options'' [Itoa (int (length (getMountOptions req)))])
              else bind_io ?key (\<lambda>accessKeyHandle.
                Mount (formMountPath (clientMountPoint d) u accessKeyHandle n s) (np_TargetPath req) (mounter d))) w2 = (Ok x, w')"
    unfolding p bind_io_lift_Ok prod.case bind_io_Ok [of "resolve_volume _ _ _ _"] by blast
  from g have o: "getMountOptions req = []" and fin: "bind_io ?key (\<lambda>accessKeyHandle.
       Mount (formMountPath (clientMountPoint d) u accessKeyHandle n s) (np_TargetPath req) (mounter d)) w2 = (Ok x, w')"
    unfolding guard_Ok by simp_all
  from fin obtain key w3 where "?key w2 = (Ok key, w3)"
    and "m_Mount (mounter d) (formMountPath (clientMountPoint d) u key n s) (np_TargetPath req) w3 = (Ok (), w')"
    unfolding bind_io_Ok Mount_eq by auto
  with m h p r o show thesis by (rule that)
qed

text \<open>A handle of three parts that contain no separator is the handle of these parts only.\<close>

lemma handle3_unique:
  assumes "volume_handle [t, u, n] = volume_handle [a, b, c]"
    and "CHR ''|'' \<notin> set a" and "CHR ''|'' \<notin> set b" and "CHR ''|'' \<notin> set c"
  shows "t = a \<and> u = b \<and> n = c"
proof -
  let ?s = "split_char (CHR ''|'')"
  have "?s (volume_handle [t, u, n]) = ?s t @ ?s u @ ?s n"
    by (simp add: volume_handle_def split_char_append)
  moreover have "?s (volume_handle [a, b, c]) = [a, b, c]"
    using assms(2-4) by (simp add: volume_handle_def split_char_append split_char_free)
  ultimately have eq: "?s t @ ?s u @ ?s n = [a, b, c]" using assms(1) by simp
  obtain p ps q qs r rs where s: "?s t = p # ps" "?s u = q # qs" "?s n = r # rs"
    by (metis list.exhaust split_char_nonempty)
  from eq have "?s t = [a]" "?s u = [b]" "?s n = [c]"
    unfolding s by (cases ps; cases qs; cases rs; auto)+
  then show ?thesis
    using join_split_char [of "CHR ''|''"] by (metis join_char.simps(2))
qed

section \<open>Properties of publishing\<close>

text \<open>A request to publish without mount options, for the witnesses.\<close>

definition sample_publish :: "string \<Rightarrow> gomap option \<Rightarrow> gomap \<Rightarrow> NodePublishVolumeRequest" where
  "sample_publish handle ctx secrets =
     \<lparr>np_VolumeId = handle, np_TargetPath = ''/pod'', np_VolumeCapability = None, np_Secrets = secrets, np_VolumeContext = ctx\<rparr>"

lemmas run_publish = NodePublishVolume_def sample_publish_def Mount_eq resolve_volume_def
  mayGetVolumeHandle_guarded processVolumeHandle_guarded getMountOptions_def formMountPath_eq
  set_access_key_def HasPrefix_def SnapshotVolumeHandlePrefix_def VOLUME_HANDLE_PART_SEPARATOR_def
  bind_io_def Let_def numeral_2_eq_2 numeral_3_eq_3

text \<open>
  C7 (a claim gets its directory): when creating a claim in a shared volume has succeeded on the
  controller and publishing its handle succeeds on a node with the same client mount point and without access keys, the path
  mounted on the pod's target is one where the creation left a directory.
\<close>

theorem published_directory_was_made:
  assumes "dir_contract view (mounter d)" and "createSnapshotResponse req = Ok None"
    and "CreateVolume d (Some req) w = (Ok vol, w')" and "cv_Parameters req = Some params"
    and "map_of params SharedVolumeNameKey \<noteq> None"
    and "NodePublishVolume nd preq w1 = (Ok (), w2)" and "np_VolumeId preq = VolumeId vol"
    and "\<not> IsQuobyteAccessKeyMountsEnabled nd" and "clientMountPoint nd = clientMountPoint d"
    and "clientMountPoint d = abs_path cs" and "cs \<noteq> []" and "\<forall>c \<in> set cs. simple_name c"
    and "simple_name (cv_Name req)" and "CHR ''|'' \<notin> set (cv_Name req)"
    and "\<And>t u. VolumeId vol = volume_handle [t, u, cv_Name req] \<Longrightarrow>
           CHR ''|'' \<notin> set t \<and> CHR ''|'' \<notin> set u \<and> simple_name u \<and> \<not> HasPrefix t SnapshotVolumeHandlePrefix"
    and "\<And>t u x w3 w4. VolumeId vol = volume_handle [t, u, cv_Name req] \<Longrightarrow>
           resolve_volume nd (np_Secrets preq) u t w3 = (Ok x, w4) \<Longrightarrow> x = u"
  shows "\<exists>source w3 dir. m_Mount (mounter nd) source (np_TargetPath preq) w3 = (Ok (), w2) \<and>
     view w' source = Some (DirNode dir)"
proof -
  let ?n = "cv_Name req"
  obtain t u dir where id: "VolumeId vol = volume_handle [t, u, ?n]"
    and dir: "view w' (Join [clientMountPoint d, u, ?n]) = Some (DirNode dir)"
    using shared_claim_directory [OF assms(1-5)] by (elim exE conjE) (rule that)
  note ok = assms(15) [OF id]
  have p: "processVolumeHandle (VolumeId vol) = Ok (t, u, ?n)"
    unfolding id using ok assms(14) by (intro processVolumeHandle_handle) auto
  obtain h sn t' v s x key w3 w4 w5 where h: "mayGetVolumeHandleFromSnapshotContext preq = Ok (h, sn)"
    and p': "processVolumeHandle h = Ok (t', v, s)" and r: "resolve_volume nd (np_Secrets preq) v t' w3 = (Ok x, w4)"
    and k: "(if IsQuobyteAccessKeyMountsEnabled nd then set_access_key nd (np_Secrets preq) else return_io []) w4 = (Ok key, w5)"
    and m: "m_Mount (mounter nd) (formMountPath (clientMountPoint nd) x key sn s) (np_TargetPath preq) w5 = (Ok (), w2)"
    by (rule NodePublishVolume_Ok [OF assms(6)]) (rule that)
  have "\<not> HasPrefix (VolumeId vol) SnapshotVolumeHandlePrefix"
    unfolding id using ok HasPrefix_handle [OF snapshot_prefix_free] by simp
  then have "h = VolumeId vol" "sn = []"
    using h assms(7) by (simp_all add: mayGetVolumeHandle_guarded)
  with p p' have parts: "t' = t" "v = u" "s = ?n" by simp_all
  have x: "x = u" using assms(16) [OF id] r unfolding parts by blast
  have key: "key = []" using k assms(8) by simp
  have "formMountPath (clientMountPoint nd) x key sn s = Join [clientMountPoint d, u, ?n]"
    unfolding x key \<open>sn = []\<close> parts assms(9,10)
    using formMountPath_plain [of ?n cs u] Join_abs_path [of cs "[u, ?n]"] assms(11-13) ok simple_nameD(1) [OF assms(13)]
    by simp
  with m dir show ?thesis by (intro exI conjI) simp_all
qed

theorem published_directory_was_made_witness:
  "\<exists>vol w1 w2 source w3 dir.
     CreateVolume (sample_driver (Ok ())) (Some (sample_create ''pvc-1'' sample_shared)) empty_world = (Ok vol, w1) \<and>
     NodePublishVolume (sample_driver (Ok ())) (sample_publish (VolumeId vol) None []) w1 = (Ok (), w2) \<and>
     m_Mount (mounter (sample_driver (Ok ()))) source ''/pod'' w3 = (Ok (), w2) \<and> files w1 source = Some (DirNode dir)"
proof -
  let ?d = "sample_driver (Ok ())" and ?req = "sample_create ''pvc-1'' sample_shared"
  have c: "dir_contract files (mounter ?d)" by (simp add: sample_driver_def sample_dir_contract)
  obtain vol w1 where run: "CreateVolume ?d (Some ?req) empty_world = (Ok vol, w1)" and id: "VolumeId vol = ''t-id|v-sv|pvc-1''"
    by (simp add: run_create run_mkdir make_subdirectory_def sample_shared_def sample_defs Join_sample
        DefaultPVCAccessModeInsideSharedVolume_def directory_mode_1700)
  let ?p = "sample_publish (VolumeId vol) None []"
  obtain w2 where pub: "NodePublishVolume ?d ?p w1 = (Ok (), w2)"
    by (simp add: run_publish sample_defs id)
  have handle: "t = ''t-id'' \<and> u = ''v-sv''" if "VolumeId vol = volume_handle [t, u, cv_Name ?req]" for t u
    using handle3_unique [of t u "''pvc-1''" "''t-id''" "''v-sv''" "''pvc-1''"] that unfolding id
    by (simp add: volume_handle_def sample_create_def)
  have "\<exists>source w3 dir. m_Mount (mounter ?d) source (np_TargetPath ?p) w3 = (Ok (), w2) \<and> files w1 source = Some (DirNode dir)"
    by (rule published_directory_was_made [where view = files and cs = "[''mnt'']", OF c sample_create_dynamic run _ _ pub])
      (auto simp: sample_create_def sample_shared_def SharedVolumeNameKey_def sample_publish_def sample_driver_def
        simple_name_def HasPrefix_def SnapshotVolumeHandlePrefix_def resolve_volume_def
        dest!: handle [unfolded sample_create_def CreateVolumeRequest.simps])
  then obtain source w3 dir where "m_Mount (mounter ?d) source (np_TargetPath ?p) w3 = (Ok (), w2)" "files w1 source = Some (DirNode dir)"
    by (elim exE conjE)
  then show ?thesis
    using run pub by (intro exI conjI) (assumption | simp add: sample_publish_def)+
qed

text \<open>
  C24 (a volume from a snapshot shows the snapshot): when a creation from a snapshot id has succeeded
  and publishing the volume it returned, with its volume context, succeeds without access keys, the
  path mounted lies in the snapshot directory of the snapshot's own volume: it is
  \<open>mount point/volume/.snapshots/name\<close>, with the sub-directory appended for an id of four parts.
\<close>

theorem snapshot_volume_published:
  assumes "CreateVolume d (Some req) w = (Ok vol, w')"
    and "cv_VolumeContentSource req = Some (SourceSnapshot (volume_handle (t # v # n # rest)))"
    and "\<And>p. p \<in> {t, v, n} \<union> set rest \<Longrightarrow> CHR ''|'' \<notin> set p \<and> p \<noteq> []" and "length rest \<le> 1"
    and "NodePublishVolume nd preq w1 = (Ok (), w2)" and "np_VolumeId preq = VolumeId vol"
    and "np_VolumeContext preq = Some (VolumeContext vol)" and "\<not> IsQuobyteAccessKeyMountsEnabled nd"
  shows "\<exists>u w3 w4 w5. resolve_volume nd (np_Secrets preq) v t w3 = (Ok u, w4) \<and>
     m_Mount (mounter nd) (clientMountPoint nd @ ''/'' @ u @ ''/.snapshots/'' @ n @ concat (map (\<lambda>s. ''/'' @ s) rest))
       (np_TargetPath preq) w5 = (Ok (), w2)"
proof -
  let ?i = "volume_handle (t # v # n # rest)"
  have valid: "validateCreateVolumeRequest (Some req) = Ok ()"
    using validate_cases [of "Some req"] assms(1) by (auto simp: CreateVolume_invalid)
  obtain c where c: "cv_CapacityRange req = Some c" using validate_SomeD(1) [OF valid] by blast
  have parts: "Split ?i VOLUME_HANDLE_PART_SEPARATOR = t # v # n # rest"
    using assms(3) by (intro split_handle) auto
  have "createSnapshotResponse req = Ok (Some \<lparr>VolumeId = SnapshotVolumeHandlePrefix @ cv_Name req, CapacityBytes = c,
      ContentSource = Some (SourceSnapshot ?i), VolumeContext = [(SnapshotIDKey, ?i)]\<rparr>)"
    unfolding createSnapshotResponse_cases [OF c] assms(2) by (simp add: parts)
  then have vol: "vol = \<lparr>VolumeId = SnapshotVolumeHandlePrefix @ cv_Name req, CapacityBytes = c,
      ContentSource = Some (SourceSnapshot ?i), VolumeContext = [(SnapshotIDKey, ?i)]\<rparr>"
    using assms(1) by (simp add: CreateVolume_def valid)
  have h: "mayGetVolumeHandleFromSnapshotContext preq = Ok (volume_handle (t # v # rest), n)"
    by (rule mayGetVolumeHandle_snapshot [OF _ assms(7)]) (use assms(3,4,6) vol in auto)
  have p: "processVolumeHandle (volume_handle (t # v # rest)) = Ok (t, v, concat rest)"
    using assms(3,4) processVolumeHandle_handle [of t v] by (cases rest) auto
  obtain h' sn t' v' s u key w3 w4 w5 where h': "mayGetVolumeHandleFromSnapshotContext preq = Ok (h', sn)"
    and p': "processVolumeHandle h' = Ok (t', v', s)" and r: "resolve_volume nd (np_Secrets preq) v' t' w3 = (Ok u, w4)"
    and k: "(if IsQuobyteAccessKeyMountsEnabled nd then set_access_key nd (np_Secrets preq) else return_io []) w4 = (Ok key, w5)"
    and m: "m_Mount (mounter nd) (formMountPath (clientMountPoint nd) u key sn s) (np_TargetPath preq) w5 = (Ok (), w2)"
    by (rule NodePublishVolume_Ok [OF assms(5)]) (rule that)
  have eq: "t' = t" "v' = v" "s = concat rest" "sn = n" "key = []"
    using h h' p p' k assms(8) by auto
  have path: "formMountPath (clientMountPoint nd) u key sn s =
      clientMountPoint nd @ ''/'' @ u @ ''/.snapshots/'' @ n @ concat (map (\<lambda>s. ''/'' @ s) rest)"
    unfolding eq formMountPath_eq using assms(3,4) by (cases rest) auto
  show ?thesis using r m unfolding eq(1,2) path by (intro exI conjI) assumption+
qed

theorem snapshot_volume_published_witness:
  "\<exists>vol w' w2 w5. CreateVolume (sample_driver (Ok ()))
       (Some ((sample_create ''clone'' [])\<lparr>cv_VolumeContentSource := Some (SourceSnapshot (volume_handle [''t'', ''v'', ''snap'', ''dir'']))\<rparr>)) empty_world = (Ok vol, w') \<and>
     NodePublishVolume (sample_driver (Ok ())) (sample_publish (VolumeId vol) (Some (VolumeContext vol)) []) w' = (Ok (), w2) \<and>
     m_Mount (mounter (sample_driver (Ok ()))) ''/mnt/v/.snapshots/snap/dir'' ''/pod'' w5 = (Ok (), w2)"
proof -
  let ?d = "sample_driver (Ok ())" and ?i = "volume_handle [''t'', ''v'', ''snap'', ''dir'']"
  let ?req = "(sample_create ''clone'' [])\<lparr>cv_VolumeContentSource := Some (SourceSnapshot ?i)\<rparr>"
  let ?vol = "\<lparr>VolumeId = SnapshotVolumeHandlePrefix @ ''clone'', CapacityBytes = 1000,
      ContentSource = Some (SourceSnapshot ?i), VolumeContext = [(SnapshotIDKey, ?i)]\<rparr>"
  let ?p = "sample_publish (VolumeId ?vol) (Some (VolumeContext ?vol)) []"
  have run: "CreateVolume ?d (Some ?req) empty_world = (Ok ?vol, empty_world)"
    by (simp add: run_create volume_handle_def)
  obtain w2 where pub: "NodePublishVolume ?d ?p empty_world = (Ok (), w2)"
    by (simp add: run_publish sample_defs volume_handle_def)
  have src: "cv_VolumeContentSource ?req = Some (SourceSnapshot ?i)" by simp
  have "\<exists>u w3 w4 w5. resolve_volume ?d (np_Secrets ?p) ''v'' ''t'' w3 = (Ok u, w4) \<and>
     m_Mount (mounter ?d) (clientMountPoint ?d @ ''/'' @ u @ ''/.snapshots/'' @ ''snap'' @ concat (map (\<lambda>s. ''/'' @ s) [''dir'']))
       (np_TargetPath ?p) w5 = (Ok (), w2)"
    by (rule snapshot_volume_published [OF run src _ _ pub]) (auto simp: sample_publish_def sample_driver_def)
  then obtain w5 where "m_Mount (mounter ?d) ''/mnt/v/.snapshots/snap/dir'' ''/pod'' w5 = (Ok (), w2)"
    by (auto simp: resolve_volume_def sample_publish_def sample_driver_def)
  with run pub show ?thesis
    by - (rule exI [of _ ?vol], rule exI [of _ empty_world], rule exI [of _ w2], rule exI [of _ w5], intro conjI)
qed

text \<open>
  C23 (the access key is attached first): with access-key mounts enabled, a successful publication has
  made a context handle, attached the secret's key with that handle to the client's mount point, and
  then mounted the path that begins with this handle, in this order and from both key fields of the secret.
\<close>

theorem access_key_before_mount:
  assumes "NodePublishVolume d req w = (Ok (), w')" and "IsQuobyteAccessKeyMountsEnabled d"
  shows "\<exists>handle key_id key_secret u n s w1 w2 w3.
     map_of (np_Secrets req) accessKeyID = Some key_id \<and> map_of (np_Secrets req) accessKeySecret = Some key_secret \<and>
     m_CreateAccessKeyContextHandle (mounter d) w1 = (Ok handle, w2) \<and>
     m_SetXAttr (mounter d) ''quobyte.access_key'' (getAccessKeyValStr key_id key_secret handle) (clientMountPoint d) w2 = (Ok (), w3) \<and>
     m_Mount (mounter d) (formMountPath (clientMountPoint d) u handle n s) (np_TargetPath req) w3 = (Ok (), w') \<and>
     (handle \<noteq> [] \<longrightarrow> prefix (clientMountPoint d @ ''/'' @ handle @ ''@'' @ u) (formMountPath (clientMountPoint d) u handle n s))"
proof -
  obtain h n t v s u key w1 w2 w3 where k: "(if IsQuobyteAccessKeyMountsEnabled d then set_access_key d (np_Secrets req) else return_io []) w2 = (Ok key, w3)"
    and m: "m_Mount (mounter d) (formMountPath (clientMountPoint d) u key n s) (np_TargetPath req) w3 = (Ok (), w')"
    by (rule NodePublishVolume_Ok [OF assms(1)]) (rule that)
  from k assms(2) obtain handle w4 where hd: "m_CreateAccessKeyContextHandle (mounter d) w2 = (Ok handle, w4)"
    and rest: "(case map_of (np_Secrets req) accessKeyID of
       None \<Rightarrow> throw_io (Errorf (''Mount secret should have '%s: <YOUR_ACCESS_KEY_ID>'' @ [CHR 0x27]) [accessKeyID])
     | Some keyID \<Rightarrow>
         (case map_of (np_Secrets req) accessKeySecret of
            None \<Rightarrow> throw_io (Errorf (''Mount secret should have '%s: <YOUR_ACCESS_KEY_SECRET>'' @ [CHR 0x27]) [accessKeySecret])
          | Some keySecret \<Rightarrow>
              bind_io (m_SetXAttr (mounter d) xAttrKey (getAccessKeyValStr keyID keySecret handle)
                         (clientMountPoint d)) (\<lambda>_. return_io handle))) w4 = (Ok key, w3)"
    unfolding set_access_key_def by (auto simp: bind_io_Ok)
  obtain key_id key_secret where s: "map_of (np_Secrets req) accessKeyID = Some key_id" "map_of (np_Secrets req) accessKeySecret = Some key_secret"
    using rest by (auto split: option.splits)
  with rest have x: "m_SetXAttr (mounter d) ''quobyte.access_key'' (getAccessKeyValStr key_id key_secret handle) (clientMountPoint d) w4 = (Ok (), w3)"
    and key: "key = handle" by (auto simp: bind_io_Ok xAttrKey_def)
  have "handle \<noteq> [] \<longrightarrow> prefix (clientMountPoint d @ ''/'' @ handle @ ''@'' @ u) (formMountPath (clientMountPoint d) u handle n s)"
    by (simp add: formMountPath_eq)
  with s hd x m show ?thesis unfolding key by (intro exI conjI) assumption+
qed

theorem access_key_before_mount_witness:
  "\<exists>w' w3 u n s. NodePublishVolume ((sample_driver (Ok ()))\<lparr>IsQuobyteAccessKeyMountsEnabled := True\<rparr>)
       (sample_publish ''t|v'' None [(''accessKeyId'', ''id''), (''accessKeySecret'', ''key'')]) empty_world = (Ok (), w') \<and>
     m_Mount (sample_mounter [''admin'']) (formMountPath ''/mnt'' u ''handle'' n s) ''/pod'' w3 = (Ok (), w')"
proof -
  let ?d = "(sample_driver (Ok ()))\<lparr>IsQuobyteAccessKeyMountsEnabled := True\<rparr>"
  let ?p = "sample_publish ''t|v'' None [(''accessKeyId'', ''id''), (''accessKeySecret'', ''key'')]"
  obtain w' where run: "NodePublishVolume ?d ?p empty_world = (Ok (), w')"
    by (simp add: run_publish sample_defs hasApiCredentials_def hasApiAccessKeyIdAndSecret_def hasApiUserAndPassword_def secret_keys)
  obtain handle u n s w1 w2 w3 where "m_CreateAccessKeyContextHandle (mounter ?d) w1 = (Ok handle, w2)"
    and "m_Mount (mounter ?d) (formMountPath (clientMountPoint ?d) u handle n s) (np_TargetPath ?p) w3 = (Ok (), w')"
    using access_key_before_mount [OF run] by (simp del: prefix_def) blast
  with run show ?thesis by (simp add: sample_defs sample_publish_def) blast
qed

definition mount_parts :: "string \<Rightarrow> string \<Rightarrow> string \<Rightarrow> string list" where
  "mount_parts u n s = u # (if n = [] then [] else [''.snapshots'', n]) @ (if s = [] then [] else [s])"

lemma mount_parts_some: "mount_parts u n s \<noteq> []"
  by (simp add: mount_parts_def)

lemma mount_parts_free:
  assumes "CHR ''/'' \<notin> set u" and "CHR ''/'' \<notin> set n" and "CHR ''/'' \<notin> set s" and "x \<in> set (mount_parts u n s)"
  shows "CHR ''/'' \<notin> set x"
  using assms by (auto simp: mount_parts_def split: if_splits)

lemma mount_parts_inj: "mount_parts u1 n1 s1 = mount_parts u2 n2 s2 \<Longrightarrow> u1 = u2 \<and> n1 = n2 \<and> s1 = s2"
  unfolding mount_parts_def by (simp split: if_splits)

text \<open>
  (mount paths do not collide): for names without a slash, two publications without access keys
  below one mount point mount the same path only if volume, snapshot and sub-directory agree.
\<close>

theorem formMountPath_inj:
  assumes "formMountPath mnt u1 [] n1 s1 = formMountPath mnt u2 [] n2 s2"
    and "\<And>x. x \<in> {u1, n1, s1, u2, n2, s2} \<Longrightarrow> CHR ''/'' \<notin> set x"
  shows "u1 = u2 \<and> n1 = n2 \<and> s1 = s2"
proof -
  have path: "formMountPath mnt u [] n s = mnt @ ''/'' @ join_char (CHR ''/'') (mount_parts u n s)" for u n s
    by (simp add: formMountPath_eq mount_parts_def)
  have free: "CHR ''/'' \<notin> set u1" "CHR ''/'' \<notin> set n1" "CHR ''/'' \<notin> set s1"
    "CHR ''/'' \<notin> set u2" "CHR ''/'' \<notin> set n2" "CHR ''/'' \<notin> set s2"
    by (rule assms(2), simp)+
  have "join_char (CHR ''/'') (mount_parts u1 n1 s1) = join_char (CHR ''/'') (mount_parts u2 n2 s2)"
    using assms(1) unfolding path by simp
  note joined = this
  have "mount_parts u1 n1 s1 = mount_parts u2 n2 s2"
    by (rule path_text.join_inj [OF mount_parts_some mount_parts_some _ _ joined])
      (erule mount_parts_free [OF free(1-3)] mount_parts_free [OF free(4-6)])+
  then show ?thesis by (rule mount_parts_inj)
qed

theorem formMountPath_inj_witness:
  "formMountPath ''/mnt'' ''v'' [] ''s'' [] \<noteq> formMountPath ''/mnt'' ''v'' [] [] ''s''"
proof
  assume "formMountPath ''/mnt'' ''v'' [] ''s'' [] = formMountPath ''/mnt'' ''v'' [] [] ''s''"
  then have "''v'' = ''v'' \<and> ''s'' = [] \<and> [] = ''s''" by (rule formMountPath_inj) auto
  then show False by simp
qed

text \<open>
  C22 (only the last call mounts): for any property of the world that every call of a publication but
  the mount itself keeps, a publication either keeps it, or made one mount call, its last, on the
  request's target, and returned that call's outcome. A publication with mount options keeps it.
\<close>

theorem failed_publish_mounts_nothing:
  fixes d :: "'w QuobyteDriver"
  assumes "\<And>p m. keeps I (m_Mkdirs (mounter d) p m)" and "keeps I (m_CreateAccessKeyContextHandle (mounter d))"
    and "\<And>k v p. keeps I (m_SetXAttr (mounter d) k v p)" and "\<And>s. keeps I (new_client d s)"
    and "\<And>s w0 api w1 v t. new_client d s w0 = (Ok api, w1) \<Longrightarrow> keeps I (q_GetVolumeUUID api v t)"
    and "NodePublishVolume d req w = (r, w')" and "I w"
  shows "I w' \<or> (\<exists>source w1. getMountOptions req = [] \<and> I w1 \<and> m_Mount (mounter d) source (np_TargetPath req) w1 = (r, w'))"
proof -
  define opts where "opts = getMountOptions req"
  define fin where "fin = (\<lambda>(r :: unit outcome) w'. I w' \<or> (\<exists>source w1. opts = [] \<and> I w1 \<and>
     m_Mount (mounter d) source (np_TargetPath req) w1 = (r, w')))"
  define last_mounts where "last_mounts = (\<lambda>m. \<forall>w r w'. I w \<longrightarrow> m w = (r, w') \<longrightarrow> fin r w')"
  have step: "last_mounts (bind_io m f)" if "keeps I m" and "\<And>a. last_mounts (f a)" for m :: "('w, 'b) io" and f
    unfolding last_mounts_def
  proof (intro allI impI)
    fix w r w' assume "I w" and run: "bind_io m f w = (r, w')"
    obtain s w1 where m: "m w = (s, w1)" by (cases "m w")
    with that(1) \<open>I w\<close> have "I w1" by (auto intro: keepsD)
    with that(2) run m show "fin r w'"
      by (cases s) (auto simp: last_mounts_def fin_def)
  qed
  have key: "keeps I (set_access_key d s)" for s
    unfolding set_access_key_def using assms(2,3) by (auto intro!: keeps_rules split: option.splits)
  have vol: "keeps I (resolve_volume d s v t)" for s v t
    unfolding resolve_volume_def using keeps_bind_run [OF assms(4) assms(5)] by (auto intro!: keeps_rules)
  have throw: "last_mounts (throw_io e)" for e
    by (simp add: last_mounts_def fin_def)
  have mount: "opts = [] \<Longrightarrow> last_mounts (Mount source (np_TargetPath req) (mounter d))" for source
    unfolding Mount_eq by (auto simp: last_mounts_def fin_def)
  have "last_mounts (NodePublishVolume d req)"
    unfolding NodePublishVolume_def Let_def opts_def [symmetric]
    by (auto intro!: step throw mount assms(1) keeps_lift keeps_return vol key split: prod.splits)
  with assms(6,7) show ?thesis unfolding last_mounts_def fin_def opts_def by blast
qed

definition log_mounts_driver :: "sample QuobyteDriver" where
  "log_mounts_driver = (sample_driver (Ok ()))\<lparr>mounter := (sample_mounter [''admin''])\<lparr>m_SetXAttr := (\<lambda>k v p. return_io ())\<rparr>\<rparr>"

theorem failed_publish_mounts_nothing_witness:
  "\<exists>r w'. NodePublishVolume log_mounts_driver ((sample_publish ''t|v'' None [])\<lparr>np_VolumeCapability := Some (MountVolume [''ro''])\<rparr>) empty_world = (r, w') \<and>
     log w' = []"
proof -
  let ?p = "(sample_publish ''t|v'' None [])\<lparr>np_VolumeCapability := Some (MountVolume [''ro''])\<rparr>"
  obtain r w' where run: "NodePublishVolume log_mounts_driver ?p empty_world = (r, w')" by fastforce
  have o: "getMountOptions ?p \<noteq> []" by (simp add: getMountOptions_def)
  have "log w' = [] \<or> (\<exists>source w1. getMountOptions ?p = [] \<and> log w1 = [] \<and>
      m_Mount (mounter log_mounts_driver) source (np_TargetPath ?p) w1 = (r, w'))"
    by (rule failed_publish_mounts_nothing [OF _ _ _ _ _ run])
      (auto simp: log_mounts_driver_def sample_driver_def sample_mounter_def sample_api_def empty_world_def keeps_def return_io_def)
  with o run show ?thesis by auto
qed

section \<open>Statistics\<close>

lemma sint_in_range: "0 \<le> x \<Longrightarrow> x < 2 ^ 63 \<Longrightarrow> sint (word_of_int x :: int64) = x"
  by (simp add: signed_of_int signed_take_bit_int_eq_self)



end
