(* ===== verification/Volume_Lifecycle.thy ===== *)
theory Volume_Lifecycle
  imports Volume_Create
begin

text \<open>
  Deletion and expansion: which requests \<open>DeleteVolume\<close> refuses without a call, what it does with the
  handles \<open>CreateVolume\<close> returns, what stands where after a directory of a shared volume has been
  marked, and what \<open>ControllerExpandVolume\<close> does for each kind of handle.
\<close>

section \<open>What the system promises about renaming\<close>

text \<open>
  \<open>os.Rename\<close> moves what stands at the old path, and what stands below it, to the new path and below
  it. It fails with an \<open>*os.LinkError\<close>, changes nothing when it fails, and reports \<open>ENOENT\<close> only where
  nothing stands at the old path (the two paths of the driver have the same parent).
\<close>

definition at_or_below :: "string \<Rightarrow> string \<Rightarrow> bool" where
  "at_or_below d p \<longleftrightarrow> p = d \<or> prefix (d @ ''/'') p"

definition moved :: "('w \<Rightarrow> string \<Rightarrow> node option) \<Rightarrow> string \<Rightarrow> string \<Rightarrow> 'w \<Rightarrow> 'w \<Rightarrow> bool" where
  "moved view old new w w' \<longleftrightarrow>
     view w old \<noteq> None \<and> view w' new = view w old \<and> (old \<noteq> new \<longrightarrow> view w' old = None) \<and>
     (\<forall>p. \<not> at_or_below old p \<longrightarrow> \<not> at_or_below new p \<longrightarrow> view w' p = view w p)"

definition rename_contract :: "('w \<Rightarrow> string \<Rightarrow> node option) \<Rightarrow> 'w Mounter \<Rightarrow> bool" where
  "rename_contract view mnt \<longleftrightarrow>
     (\<forall>old new w r w'. m_Rename mnt old new w = (r, w') \<longrightarrow>
        (r = Ok () \<and> moved view old new w w') \<or>
        (\<exists>opn e. r = Err (LinkError opn old new e) \<and> view w' = view w \<and>
           (is_errno ENOENT e \<longrightarrow> view w old = None)))"

lemma sample_rename_contract: "rename_contract files (sample_mounter known)"
  unfolding rename_contract_def moved_def
  by (auto simp: sample_mounter_def no_entry_def at_or_below_def split: option.splits)

lemma mark_for_deletion_Ok:
  assumes "rename_contract view (mounter d)" and "mark_for_deletion d vol dir w = (Ok x, w')"
    and "old = Join [clientMountPoint d, vol, dir]"
    and "new = Join [clientMountPoint d, vol, delete_marker (drv_Name d) dir]"
  shows "view w old = None \<and> view w' = view w \<or> moved view old new w w'"
proof -
  obtain r w1 where run: "m_Rename (mounter d) old new w = (r, w1)"
    by (cases "m_Rename (mounter d) old new w")
  then consider "r = Ok ()" "moved view old new w w1"
    | opn e where "r = Err (LinkError opn old new e)" "view w1 = view w" "is_errno ENOENT e \<longrightarrow> view w old = None"
    using assms(1) unfolding rename_contract_def by blast
  then show ?thesis
  proof cases
    case 1
    with assms(2) run show ?thesis
      by (simp add: mark_for_deletion_def assms(3,4) [symmetric])
  next
    case 2
    with assms(2) run show ?thesis
      by (simp add: mark_for_deletion_def assms(3,4) [symmetric] split: if_splits)
  qed
qed

section \<open>The handles of the driver\<close>

text \<open>What \<open>DeleteVolume\<close> does with a handle of two or three parts.\<close>

lemma DeleteVolume_handle:
  assumes "\<And>p. p \<in> {t, v} \<union> set rest \<Longrightarrow> CHR ''|'' \<notin> set p" and "\<not> HasPrefix t SnapshotVolumeHandlePrefix"
    and "secrets \<noteq> []" and "length rest \<le> 1"
  shows "DeleteVolume d \<lparr>dv_VolumeId = volume_handle (t # v # rest), dv_Secrets = secrets\<rparr> =
     bind_io (new_client d secrets) (\<lambda>api.
       case rest of
         [] \<Rightarrow> q_EraseVolumeByResolvingNamesToUUID api v t (ImmediateErase d)
       | dir # _ \<Rightarrow>
           if UseDeleteFilesTask d
           then wrap_io (\<lambda>err. Errorf ''could not delete subdirectory of the shared volume due to %s'' [Error err])
                  (q_CreateTask api (delete_files_task v dir))
           else mark_for_deletion d v dir)"
proof -
  let ?h = "volume_handle (t # v # rest)"
  have parts: "Split ?h VOLUME_HANDLE_PART_SEPARATOR = t # v # rest"
    using assms(1) by (intro split_handle) auto
  have "\<not> HasPrefix ?h SnapshotVolumeHandlePrefix"
    using assms(2) HasPrefix_handle [OF snapshot_prefix_free] by simp
  moreover have "?h \<noteq> []" using length_volume_handle [of "v # rest" t] by auto
  ultimately show ?thesis
    using assms(3,4) unfolding DeleteVolume_guarded Let_def DeleteVolumeRequest.simps parts
    by (cases rest; cases "UseDeleteFilesTask d") (simp_all add: numeral_2_eq_2)
qed

section \<open>Properties\<close>

text \<open>
  (a snapshot volume is a dummy): when a request names a snapshot with a well-formed id, creating
  its volume makes no call and returns the request's capacity with the snapshot id in the volume
  context, and deleting the volume under the returned handle makes no call either, whatever the
  secrets and on any driver.
\<close>

theorem snapshot_volume_is_dummy:
  assumes "validateCreateVolumeRequest (Some req) = Ok ()" and "cv_VolumeContentSource req = Some (SourceSnapshot i)"
    and "3 \<le> length (Split i VOLUME_HANDLE_PART_SEPARATOR)"
  shows "\<exists>vol. CreateVolume d (Some req) = return_io vol \<and> Some (CapacityBytes vol) = cv_CapacityRange req \<and>
     map_of (VolumeContext vol) SnapshotIDKey = Some i \<and>
     (\<forall>d' secrets. DeleteVolume d' \<lparr>dv_VolumeId = VolumeId vol, dv_Secrets = secrets\<rparr> = return_io ())"
proof -
  obtain c where c: "cv_CapacityRange req = Some c" using validate_SomeD(1) [OF assms(1)] by blast
  let ?vol = "\<lparr>VolumeId = SnapshotVolumeHandlePrefix @ cv_Name req, CapacityBytes = c,
    ContentSource = Some (SourceSnapshot i), VolumeContext = [(SnapshotIDKey, i)]\<rparr>"
  have "createSnapshotResponse req = Ok (Some ?vol)"
    using assms(2,3) by (simp add: createSnapshotResponse_cases [OF c])
  then have "CreateVolume d (Some req) = return_io ?vol"
    unfolding CreateVolume_def by (simp only: assms(1) bind_io_lift_Ok option.case)
  moreover have "DeleteVolume d' \<lparr>dv_VolumeId = VolumeId ?vol, dv_Secrets = secrets\<rparr> = return_io ()"
    for d' :: "'b QuobyteDriver" and secrets
    by (simp add: DeleteVolume_guarded Let_def) (simp add: SnapshotVolumeHandlePrefix_def)
  ultimately show ?thesis
    by (intro exI [of _ ?vol] conjI) (simp_all add: c)
qed

theorem snapshot_volume_is_dummy_witness:
  "\<exists>vol. CreateVolume (sample_driver (Ok ()))
       (Some ((sample_create ''clone'' [])\<lparr>cv_VolumeContentSource := Some (SourceSnapshot ''t|v|snap'')\<rparr>)) = return_io vol \<and>
     CapacityBytes vol = 1000"
proof -
  let ?req = "(sample_create ''clone'' [])\<lparr>cv_VolumeContentSource := Some (SourceSnapshot ''t|v|snap'')\<rparr>"
  have v: "validateCreateVolumeRequest (Some ?req) = Ok ()"
    by (simp add: validateCreateVolumeRequest_def sample_create_def)
  have "cv_VolumeContentSource ?req = Some (SourceSnapshot ''t|v|snap'')" by simp
  moreover have "3 \<le> length (Split ''t|v|snap'' VOLUME_HANDLE_PART_SEPARATOR)"
    by (simp add: VOLUME_HANDLE_PART_SEPARATOR_def)
  ultimately obtain vol where run: "CreateVolume (sample_driver (Ok ())) (Some ?req) = return_io vol"
    and "Some (CapacityBytes vol) = cv_CapacityRange ?req"
    using snapshot_volume_is_dummy [OF v] by blast
  then have "CapacityBytes vol = 1000" by (simp add: sample_create_def)
  with run show ?thesis by (intro exI conjI)
qed

lemma DeleteVolume_cases:
  "if HasPrefix (dv_VolumeId req) SnapshotVolumeHandlePrefix then DeleteVolume d req = return_io ()
   else if dv_Secrets req = [] \<or> count_list (dv_VolumeId req) (CHR ''|'') \<notin> {1, 2}
   then \<exists>e. DeleteVolume d req = throw_io e
   else \<exists>f. DeleteVolume d req = bind_io (new_client d (dv_Secrets req)) f"
proof -
  have n: "length (Split (dv_VolumeId req) VOLUME_HANDLE_PART_SEPARATOR) = Suc (count_list (dv_VolumeId req) (CHR ''|''))"
    by (simp add: VOLUME_HANDLE_PART_SEPARATOR_def length_split_char)
  show ?thesis
    by (cases "dv_VolumeId req = []") (auto simp: DeleteVolume_guarded Let_def n HasPrefix_def SnapshotVolumeHandlePrefix_def)
qed

text \<open>
  (what is refused before any call): an empty handle, a handle without two or three parts, and a
  missing secret are errors that involve neither the service nor the node, unless the handle is that of
  a snapshot volume, which succeeds without a call; for every other request the client is made first.
\<close>

theorem DeleteVolume_refuses_malformed:
  "if HasPrefix (dv_VolumeId req) SnapshotVolumeHandlePrefix then DeleteVolume d req = return_io ()
   else if dv_Secrets req = [] \<or> count_list (dv_VolumeId req) (CHR ''|'') \<notin> {1, 2}
   then \<exists>e. DeleteVolume d req = throw_io e
   else \<exists>f. DeleteVolume d req = bind_io (new_client d (dv_Secrets req)) f"
  by (rule DeleteVolume_cases)

text \<open>
  C10 (what is created is what is deleted): on a service that keeps the documented behaviour of
  volumes and whose identifiers can stand in a handle, the service holds, after a successful
  creation, the volume the request asks for by name and tenant, and deleting the returned handle
  makes the client and then erases that very volume in that tenant or, for a claim in a shared
  volume, removes the claim's directory of that volume and nothing else.
\<close>

theorem created_volume_is_deleted:
  assumes "service_contract vols tid d" and "createSnapshotResponse req = Ok None"
    and "CreateVolume d (Some req) w = (Ok vol, w')" and "cv_Parameters req = Some params"
    and "CHR ''|'' \<notin> set (cv_Name req)" and "secrets \<noteq> []"
    and "\<And>n t u. vols w' (n, t) = Some u \<Longrightarrow>
           CHR ''|'' \<notin> set t \<and> CHR ''|'' \<notin> set u \<and> \<not> HasPrefix t SnapshotVolumeHandlePrefix"
  shows "\<exists>n t u. (n, t) = requested_volume tid d req params \<and> vols w' (n, t) = Some u \<and>
     DeleteVolume d \<lparr>dv_VolumeId = VolumeId vol, dv_Secrets = secrets\<rparr> =
       bind_io (new_client d secrets) (\<lambda>api.
         if map_of params SharedVolumeNameKey = None
         then q_EraseVolumeByResolvingNamesToUUID api u t (ImmediateErase d)
         else if UseDeleteFilesTask d
         then wrap_io (\<lambda>err. Errorf ''could not delete subdirectory of the shared volume due to %s'' [Error err])
                (q_CreateTask api (delete_files_task u (cv_Name req)))
         else mark_for_deletion d u (cv_Name req))"
proof -
  let ?s = "map_of params SharedVolumeNameKey \<noteq> None"
  obtain n t where rv: "(n, t) = requested_volume tid d req params" by (metis surj_pair)
  then have t: "t = tenant_id tid (requested_tenant d params)" by (simp add: requested_volume_def)
  obtain u c where u: "vols w' (n, t) = Some u"
    and vol: "vol = \<lparr>VolumeId = volume_handle (if ?s then [t, u, cv_Name req] else [t, u]),
           CapacityBytes = c, ContentSource = None, VolumeContext = []\<rparr>"
    unfolding rv by (rule CreateVolume_pinned [OF assms(1-4) refl t])
  note ok = assms(7) [OF u]
  let ?rest = "if ?s then [cv_Name req] else []"
  have id: "VolumeId vol = volume_handle (t # u # ?rest)" unfolding vol by simp
  have "DeleteVolume d \<lparr>dv_VolumeId = VolumeId vol, dv_Secrets = secrets\<rparr> =
     bind_io (new_client d secrets) (\<lambda>api.
       case ?rest of
         [] \<Rightarrow> q_EraseVolumeByResolvingNamesToUUID api u t (ImmediateErase d)
       | dir # _ \<Rightarrow>
           if UseDeleteFilesTask d
           then wrap_io (\<lambda>err. Errorf ''could not delete subdirectory of the shared volume due to %s'' [Error err])
                  (q_CreateTask api (delete_files_task u dir))
           else mark_for_deletion d u dir)"
    unfolding id by (rule DeleteVolume_handle) (use ok assms(5,6) in \<open>auto split: if_splits\<close>)
  then show ?thesis
    using rv u by - (rule exI [of _ n], rule exI [of _ t], rule exI [of _ u], cases ?s; clarsimp)
qed

lemma sample_requested:
  "requested_volume (\<lambda>t. t @ ''-id'') (sample_driver (Ok ())) (sample_create ''pv'' [(''quobyteTenant'', ''t'')])
     [(''quobyteTenant'', ''t'')] = (''pv'', ''t-id'')"
  by (simp add: requested_volume_def requested_name_def requested_tenant_def wanted_tenant_def tenant_id_def
      param_or_Cons lower_keys sample_create_def sample_driver_def)

theorem created_volume_is_deleted_witness:
  "\<exists>vol w1 w2. CreateVolume (sample_driver (Ok ())) (Some (sample_create ''pv'' [(''quobyteTenant'', ''t'')])) empty_world = (Ok vol, w1) \<and>
     DeleteVolume (sample_driver (Ok ())) \<lparr>dv_VolumeId = VolumeId vol, dv_Secrets = [(''user'', ''u'')]\<rparr> w1 = (Ok (), w2) \<and>
     log w2 = [''erase v-pv'']"
proof -
  let ?d = "sample_driver (Ok ())" and ?req = "sample_create ''pv'' [(''quobyteTenant'', ''t'')]" and ?s = "[(''user'', ''u'')]"
  obtain vol w1 where run: "CreateVolume ?d (Some ?req) empty_world = (Ok vol, w1)"
    and vols: "volumes w1 = [(''pv'', ''t-id'') \<mapsto> ''v-pv'']" and l: "log w1 = []"
    by (simp add: run_create sample_defs)
  have p: "cv_Parameters ?req = Some [(''quobyteTenant'', ''t'')]" by (simp add: sample_create_def)
  have "\<exists>n t u. (n, t) = requested_volume (\<lambda>t. t @ ''-id'') ?d ?req [(''quobyteTenant'', ''t'')] \<and> volumes w1 (n, t) = Some u \<and>
     DeleteVolume ?d \<lparr>dv_VolumeId = VolumeId vol, dv_Secrets = ?s\<rparr> =
       bind_io (new_client ?d ?s) (\<lambda>api.
         if map_of [(''quobyteTenant'', ''t'')] SharedVolumeNameKey = None
         then q_EraseVolumeByResolvingNamesToUUID api u t (ImmediateErase ?d)
         else if UseDeleteFilesTask ?d
         then wrap_io (\<lambda>err. Errorf ''could not delete subdirectory of the shared volume due to %s'' [Error err])
                (q_CreateTask api (delete_files_task u (cv_Name ?req)))
         else mark_for_deletion ?d u (cv_Name ?req))"
    by (rule created_volume_is_deleted [OF sample_service_contract sample_create_dynamic run p])
      (auto simp: vols sample_create_def HasPrefix_def SnapshotVolumeHandlePrefix_def split: if_splits)
  then have del: "DeleteVolume ?d \<lparr>dv_VolumeId = VolumeId vol, dv_Secrets = ?s\<rparr> =
       bind_io (new_client ?d ?s) (\<lambda>api. q_EraseVolumeByResolvingNamesToUUID api ''v-pv'' ''t-id'' False)"
    unfolding sample_requested by (auto simp: vols SharedVolumeNameKey_def sample_driver_def)
  have "DeleteVolume ?d \<lparr>dv_VolumeId = VolumeId vol, dv_Secrets = ?s\<rparr> w1 = (Ok (), w1\<lparr>log := [''erase v-pv'']\<rparr>)"
    unfolding del by (simp add: sample_defs l)
  with run show ?thesis
    by (intro exI [of _ vol] exI [of _ w1] exI [of _ "w1\<lparr>log := [''erase v-pv'']\<rparr>"]) simp
qed

lemma DeleteVolume_marks:
  assumes "rename_contract view (mounter d)" and "\<not> UseDeleteFilesTask d"
    and "\<And>p. p \<in> {t, v, dir} \<Longrightarrow> CHR ''|'' \<notin> set p" and "\<not> HasPrefix t SnapshotVolumeHandlePrefix"
    and "\<And>w r w'. new_client d secrets w = (r, w') \<Longrightarrow> view w' = view w"
    and "DeleteVolume d \<lparr>dv_VolumeId = volume_handle [t, v, dir], dv_Secrets = secrets\<rparr> w = (Ok (), w')"
    and "old = Join [clientMountPoint d, v, dir]"
    and "new = Join [clientMountPoint d, v, delete_marker (drv_Name d) dir]" and "old \<noteq> new"
  shows "view w' old = None \<and> (\<forall>n. view w old = Some n \<longrightarrow> view w' new = Some n) \<and>
     (\<forall>p. \<not> at_or_below old p \<longrightarrow> \<not> at_or_below new p \<longrightarrow> view w' p = view w p) \<and> (view w old = None \<longrightarrow> view w' = view w)"
proof -
  have sec: "secrets \<noteq> []"
    using assms(6) DeleteVolume_cases [of "\<lparr>dv_VolumeId = volume_handle [t, v, dir], dv_Secrets = secrets\<rparr>" d]
      HasPrefix_handle [OF snapshot_prefix_free, of "[v, dir]" t] assms(4) by auto
  have "DeleteVolume d \<lparr>dv_VolumeId = volume_handle [t, v, dir], dv_Secrets = secrets\<rparr> =
     bind_io (new_client d secrets) (\<lambda>api. mark_for_deletion d v dir)"
    by (subst DeleteVolume_handle [where rest = "[dir]", OF _ assms(4) sec]) (use assms(2,3) in auto)
  with assms(6) obtain api w1 where c: "new_client d secrets w = (Ok api, w1)"
    and m: "mark_for_deletion d v dir w1 = (Ok (), w')" by (auto simp: bind_io_Ok)
  have "view w1 = view w" by (rule assms(5) [OF c])
  with mark_for_deletion_Ok [OF assms(1) m assms(7,8)] assms(9) show ?thesis by (auto simp: moved_def)
qed

text \<open>
  C26 (a deleted directory is marked): without the delete-files task, when deleting the directory of a
  claim succeeds, nothing stands at the claim's path any more; if the directory stood there, it is
  now at the path with the driver's deletion marker, and everything outside these two is as before; if not, as on a
  repeated call, the file system is unchanged.
\<close>

theorem deleted_directory_is_marked:
  assumes "rename_contract view (mounter d)" and "\<not> UseDeleteFilesTask d"
    and "\<And>p. p \<in> {t, v, dir} \<Longrightarrow> CHR ''|'' \<notin> set p" and "\<not> HasPrefix t SnapshotVolumeHandlePrefix"
    and "\<And>w r w'. new_client d secrets w = (r, w') \<Longrightarrow> view w' = view w"
    and "DeleteVolume d \<lparr>dv_VolumeId = volume_handle [t, v, dir], dv_Secrets = secrets\<rparr> w = (Ok (), w')"
    and "old = Join [clientMountPoint d, v, dir]"
    and "new = Join [clientMountPoint d, v, delete_marker (drv_Name d) dir]" and "old \<noteq> new"
  shows "view w' old = None \<and> (\<forall>n. view w old = Some n \<longrightarrow> view w' new = Some n) \<and>
     (\<forall>p. \<not> at_or_below old p \<longrightarrow> \<not> at_or_below new p \<longrightarrow> view w' p = view w p) \<and> (view w old = None \<longrightarrow> view w' = view w)"
  using assms by (rule DeleteVolume_marks)

lemma Join_marked: "Join [''/mnt'', ''v'', ''csi_delete_pvc-1''] = ''/mnt/v/csi_delete_pvc-1''"
  "Join [''/mnt'', ''v'', ''pvc-1''] = ''/mnt/v/pvc-1''"
  using Join_abs_path [of "[''mnt'']" "[''v'', ''csi_delete_pvc-1'']"] Join_abs_path [of "[''mnt'']" "[''v'', ''pvc-1'']"]
  by (simp_all add: simple_name_def)

lemma delete_marker_csi: "delete_marker ''csi'' dir = ''csi_delete_'' @ dir"
  by (simp add: delete_marker_def DELETE_MARKER_FORMAT_def)

theorem deleted_directory_is_marked_witness:
  "\<exists>w'. DeleteVolume (sample_driver (Ok ())) \<lparr>dv_VolumeId = ''t|v|pvc-1'', dv_Secrets = [(''user'', ''u'')]\<rparr>
       (empty_world\<lparr>files := [''/mnt/v/pvc-1'' \<mapsto> FileNode]\<rparr>) = (Ok (), w') \<and>
     files w' ''/mnt/v/pvc-1'' = None \<and> files w' ''/mnt/v/csi_delete_pvc-1'' = Some FileNode"
proof -
  let ?d = "sample_driver (Ok ())" and ?s = "[(''user'', ''u'')]"
  let ?w = "empty_world\<lparr>files := [''/mnt/v/pvc-1'' \<mapsto> FileNode]\<rparr>"
  have h: "volume_handle [''t'', ''v'', ''pvc-1''] = ''t|v|pvc-1''" by (simp add: volume_handle_def)
  have c: "rename_contract files (mounter ?d)" by (simp add: sample_driver_def sample_rename_contract)
  obtain w' where run: "DeleteVolume ?d \<lparr>dv_VolumeId = volume_handle [''t'', ''v'', ''pvc-1''], dv_Secrets = ?s\<rparr> ?w = (Ok (), w')"
    by (simp add: h DeleteVolume_guarded VOLUME_HANDLE_PART_SEPARATOR_def HasPrefix_def SnapshotVolumeHandlePrefix_def
        mark_for_deletion_def sample_defs Join_marked delete_marker_csi bind_io_def try_io_def numeral_2_eq_2 Let_def)
  have "files w' ''/mnt/v/pvc-1'' = None \<and> (\<forall>n. files ?w ''/mnt/v/pvc-1'' = Some n \<longrightarrow> files w' ''/mnt/v/csi_delete_pvc-1'' = Some n) \<and>
     (\<forall>p. \<not> at_or_below ''/mnt/v/pvc-1'' p \<longrightarrow> \<not> at_or_below ''/mnt/v/csi_delete_pvc-1'' p \<longrightarrow> files w' p = files ?w p) \<and>
     (files ?w ''/mnt/v/pvc-1'' = None \<longrightarrow> files w' = files ?w)"
    by (rule deleted_directory_is_marked [where view = files, OF c _ _ _ _ run])
      (auto simp: sample_driver_def HasPrefix_def SnapshotVolumeHandlePrefix_def Join_marked delete_marker_csi return_io_def)
  with run show ?thesis by (simp add: h)
qed

text \<open>
  (an empty directory part deletes the volume's files): a handle whose third part is empty is
  accepted, and with the delete-files task the service is asked to delete from the root of the volume.
\<close>

theorem empty_directory_part_deletes_root:
  assumes "CHR ''|'' \<notin> set t" and "CHR ''|'' \<notin> set v" and "\<not> HasPrefix t SnapshotVolumeHandlePrefix"
    and "secrets \<noteq> []" and "UseDeleteFilesTask d"
  shows "DeleteVolume d \<lparr>dv_VolumeId = t @ ''|'' @ v @ ''|'', dv_Secrets = secrets\<rparr> =
     bind_io (new_client d secrets) (\<lambda>api.
       wrap_io (\<lambda>err. Errorf ''could not delete subdirectory of the shared volume due to %s'' [Error err])
         (q_CreateTask api \<lparr>RestrictToVolumes = [v], task_type = DELETE_FILES_IN_VOLUMES,
            DirectoryPath = ''/'', RunAsUser = True\<rparr>))"
proof -
  have h: "t @ ''|'' @ v @ ''|'' = volume_handle [t, v, []]" by (simp add: volume_handle_def)
  show ?thesis
    unfolding h by (subst DeleteVolume_handle [where rest = "[[]]", OF _ assms(3,4)])
      (use assms(1,2,5) in \<open>auto simp: delete_files_task_def\<close>)
qed

theorem empty_directory_part_deletes_root_witness:
  "\<exists>w'. DeleteVolume ((sample_driver (Ok ()))\<lparr>UseDeleteFilesTask := True\<rparr>)
       \<lparr>dv_VolumeId = ''t'' @ ''|'' @ ''v'' @ ''|'', dv_Secrets = [(''user'', ''u'')]\<rparr> empty_world = (Ok (), w') \<and>
     log w' = [''task /'']"
  by (subst empty_directory_part_deletes_root)
    (simp_all add: HasPrefix_def SnapshotVolumeHandlePrefix_def sample_defs)

text \<open>The service resolves the identifier of one of its volumes to itself.\<close>

definition volume_uuid_contract :: "('w \<Rightarrow> string \<times> string \<Rightarrow> string option) \<Rightarrow> 'w QuobyteDriver \<Rightarrow> bool" where
  "volume_uuid_contract vols d \<longleftrightarrow>
     (\<forall>s w api w1 n t u w2 x w3. new_client d s w = (Ok api, w1) \<longrightarrow> vols w2 (n, t) = Some u \<longrightarrow>
        q_GetVolumeUUID api u t w2 = (Ok x, w3) \<longrightarrow> x = u)"

lemma sample_volume_uuid_contract: "volume_uuid_contract volumes (sample_driver q)"
  by (auto simp: volume_uuid_contract_def sample_driver_def sample_api_def return_io_def)

text \<open>
  C37 (expanding what was created): on a service that keeps the documented behaviour of volumes, the
  service holds, after a successful creation, the volume the request asks for by name and tenant.
  Expanding the returned handle succeeds without a call for a claim in a shared volume. For any other
  claim, wherever that volume still exists and the expansion succeeds, it reports the requested
  capacity and its calls are the client, the look-up of that volume and the setting of the quota of
  that volume to the requested capacity, which succeeded.
\<close>

theorem expand_created_volume:
  assumes "service_contract vols tid d" and "volume_uuid_contract vols d" and "createSnapshotResponse req = Ok None"
    and "CreateVolume d (Some req) w = (Ok vol, w')" and "cv_Parameters req = Some params"
    and "CHR ''|'' \<notin> set (cv_Name req)" and "secrets \<noteq> []"
    and "\<And>n t u. vols w' (n, t) = Some u \<Longrightarrow> CHR ''|'' \<notin> set t \<and> CHR ''|'' \<notin> set u"
  shows "\<exists>n t u. (n, t) = requested_volume tid d req params \<and> vols w' (n, t) = Some u \<and>
     (if map_of params SharedVolumeNameKey \<noteq> None
      then ControllerExpandVolume d \<lparr>ev_VolumeId = VolumeId vol, ev_CapacityRange = Some capacity, ev_Secrets = secrets\<rparr>
             = return_io capacity
      else \<forall>w2 c w5. vols w2 (n, t) = Some u \<longrightarrow>
        (ControllerExpandVolume d \<lparr>ev_VolumeId = VolumeId vol, ev_CapacityRange = Some capacity, ev_Secrets = secrets\<rparr> w2
           = (Ok c, w5) \<longleftrightarrow>
         c = capacity \<and> (\<exists>api w3 w4. new_client d secrets w2 = (Ok api, w3) \<and> q_GetVolumeUUID api u t w3 = (Ok u, w4) \<and>
            q_SetVolumeQuota api u capacity w4 = (Ok (), w5))))"
proof -
  let ?s = "map_of params SharedVolumeNameKey \<noteq> None"
  obtain n t where rv: "(n, t) = requested_volume tid d req params" by (metis surj_pair)
  then have t: "t = tenant_id tid (requested_tenant d params)" by (simp add: requested_volume_def)
  obtain u c where u: "vols w' (n, t) = Some u"
    and vol: "vol = \<lparr>VolumeId = volume_handle (if ?s then [t, u, cv_Name req] else [t, u]),
           CapacityBytes = c, ContentSource = None, VolumeContext = []\<rparr>"
    unfolding rv by (rule CreateVolume_pinned [OF assms(1,3-5) refl t])
  let ?x = "\<lparr>ev_VolumeId = VolumeId vol, ev_CapacityRange = Some capacity, ev_Secrets = secrets\<rparr>"
  have parts: "Split (VolumeId vol) VOLUME_HANDLE_PART_SEPARATOR = (if ?s then [t, u, cv_Name req] else [t, u])"
    unfolding vol Volume.simps using assms(6) assms(8) [OF u] by (subst split_handle) (auto split: if_splits)
  show ?thesis
  proof (cases ?s)
    case True
    then have "ControllerExpandVolume d ?x = return_io capacity"
      by (simp add: ControllerExpandVolume_def expandVolume_guarded parts del: return_io_eval)
    with rv u show ?thesis unfolding if_P [OF True] by blast
  next
    case False
    have "ControllerExpandVolume d ?x w2 = (Ok c, w5) \<longleftrightarrow>
         c = capacity \<and> (\<exists>api w3 w4. new_client d secrets w2 = (Ok api, w3) \<and> q_GetVolumeUUID api u t w3 = (Ok u, w4) \<and>
            q_SetVolumeQuota api u capacity w4 = (Ok (), w5))" if still: "vols w2 (n, t) = Some u" for w2 c w5
    proof -
      have id: "x = u" if "new_client d secrets w2 = (Ok api, w3)" and "q_GetVolumeUUID api u t w3 = (Ok x, w4)" for api w3 x w4
      proof -
        have "vols w3 = vols w2" using assms(1) that(1) unfolding service_contract_def by blast
        with still have "vols w3 (n, t) = Some u" by simp
        with assms(2) that show ?thesis unfolding volume_uuid_contract_def by blast
      qed
      show ?thesis
        using False assms(7) by (auto simp: ControllerExpandVolume_def expandVolume_guarded parts bind_io_Ok dest: id)
    qed
    with rv u show ?thesis unfolding if_not_P [OF False] by blast
  qed
qed

theorem expand_created_volume_witness:
  "\<exists>vol w1 w2. CreateVolume (sample_driver (Ok ())) (Some (sample_create ''pv'' [(''quobyteTenant'', ''t'')])) empty_world = (Ok vol, w1) \<and>
     ControllerExpandVolume (sample_driver (Ok ()))
       \<lparr>ev_VolumeId = VolumeId vol, ev_CapacityRange = Some 5000, ev_Secrets = [(''user'', ''u'')]\<rparr> w1 = (Ok 5000, w2) \<and>
     log w2 = [''quota v-pv'']"
proof -
  let ?d = "sample_driver (Ok ())" and ?req = "sample_create ''pv'' [(''quobyteTenant'', ''t'')]" and ?s = "[(''user'', ''u'')]"
  obtain vol w1 where run: "CreateVolume ?d (Some ?req) empty_world = (Ok vol, w1)"
    and vols: "volumes w1 = [(''pv'', ''t-id'') \<mapsto> ''v-pv'']" and l: "log w1 = []"
    by (simp add: run_create sample_defs)
  have p: "cv_Parameters ?req = Some [(''quobyteTenant'', ''t'')]" by (simp add: sample_create_def)
  let ?x = "\<lparr>ev_VolumeId = VolumeId vol, ev_CapacityRange = Some 5000, ev_Secrets = ?s\<rparr>"
  have ok: "\<And>n t u. volumes w1 (n, t) = Some u \<Longrightarrow> CHR ''|'' \<notin> set t \<and> CHR ''|'' \<notin> set u"
    by (auto simp: vols split: if_splits)
  have name: "CHR ''|'' \<notin> set (cv_Name ?req)" by (simp add: sample_create_def)
  have none: "(map_of [(''quobyteTenant'', ''t'')] SharedVolumeNameKey \<noteq> None) = False" by (simp add: SharedVolumeNameKey_def)
  have "\<forall>w2 c w5. volumes w2 (''pv'', ''t-id'') = Some ''v-pv'' \<longrightarrow> (ControllerExpandVolume ?d ?x w2 = (Ok c, w5) \<longleftrightarrow>
      c = 5000 \<and> (\<exists>api w3 w4. new_client ?d ?s w2 = (Ok api, w3) \<and> q_GetVolumeUUID api ''v-pv'' ''t-id'' w3 = (Ok ''v-pv'', w4) \<and>
         q_SetVolumeQuota api ''v-pv'' 5000 w4 = (Ok (), w5)))"
    using expand_created_volume [OF sample_service_contract sample_volume_uuid_contract sample_create_dynamic run p name _ ok, where secrets = ?s and capacity = 5000]
    unfolding sample_requested none if_False by (auto simp: vols)
  moreover have "volumes w1 (''pv'', ''t-id'') = Some ''v-pv''" by (simp add: vols)
  ultimately have "ControllerExpandVolume ?d ?x w1 = (Ok 5000, w1\<lparr>log := [''quota v-pv'']\<rparr>)"
    by (simp add: sample_defs l return_io_def)
  with run show ?thesis
    by (intro exI [of _ vol] exI [of _ w1] exI [of _ "w1\<lparr>log := [''quota v-pv'']\<rparr>"]) simp
qed

end
