(* ===== verification/Services.thy ===== *)
theory Services
  imports Node Volume_Lifecycle
begin

text \<open>
  The remaining calls of the three CSI services (\<open>driver/identity.go\<close> and the calls of
  \<open>driver/controller.go\<close> that do nothing or are not implemented), and the server's dispatch: a
  request of any service to its handler, with the interceptor of \<open>Run\<close>. The property is that no
  request makes the driver panic.
\<close>

section \<open>The identity service\<close>

datatype PluginCapability = CONTROLLER_SERVICE | VOLUME_EXPANSION_ONLINE

definition GetPluginInfo :: "'w QuobyteDriver \<Rightarrow> ('w, string \<times> string) io" where
  "GetPluginInfo d = return_io (drv_Name d, drv_Version d)"

definition GetPluginCapabilities :: "('w, PluginCapability list) io" where
  "GetPluginCapabilities = return_io [CONTROLLER_SERVICE, VOLUME_EXPANSION_ONLINE]"

definition Probe :: "('w, unit) io" where
  "Probe = return_io ()"

section \<open>The other calls of the controller\<close>

datatype ControllerCapability =
    CREATE_DELETE_VOLUME | PUBLISH_UNPUBLISH_VOLUME | LIST_VOLUMES | GET_CAPACITY
  | CREATE_DELETE_SNAPSHOT | LIST_SNAPSHOTS | EXPAND_VOLUME | MODIFY_VOLUME

definition ControllerPublishVolume :: "('w, unit) io" where "ControllerPublishVolume = return_io ()"
definition ControllerGetVolume :: "('w, unit) io" where "ControllerGetVolume = return_io ()"
definition ControllerUnpublishVolume :: "('w, unit) io" where "ControllerUnpublishVolume = return_io ()"

definition ValidateVolumeCapabilities :: "('w, unit) io" where
  "ValidateVolumeCapabilities = throw_io (Unimplemented ''ValidateVolumeCapabilities'')"
definition ListVolumes :: "('w, unit) io" where "ListVolumes = throw_io (Unimplemented ''ListVolumes'')"
definition GetCapacity :: "('w, unit) io" where "GetCapacity = throw_io (Unimplemented ''GetCapacity'')"
definition ControllerModifyVolume :: "('w, unit) io" where
  "ControllerModifyVolume = throw_io (Unimplemented ''ControllerModifyVolume'')"

text \<open>The loop appends one capability after the other.\<close>

fun append_caps :: "ControllerCapability list \<Rightarrow> ControllerCapability list \<Rightarrow> ControllerCapability list" where
  "append_caps caps [] = caps"
| "append_caps caps (c # cs) = append_caps (caps @ [c]) cs"

definition ControllerGetCapabilities :: "('w, ControllerCapability list) io" where
  "ControllerGetCapabilities =
     return_io (append_caps [] [CREATE_DELETE_VOLUME, EXPAND_VOLUME, CREATE_DELETE_SNAPSHOT, LIST_SNAPSHOTS])"

section \<open>Dispatch\<close>

datatype csi_request =
    CallCreateVolume "CreateVolumeRequest option" | CallDeleteVolume DeleteVolumeRequest
  | CallControllerPublishVolume | CallControllerUnpublishVolume | CallControllerGetVolume
  | CallValidateVolumeCapabilities | CallListVolumes | CallGetCapacity | CallControllerGetCapabilities
  | CallCreateSnapshot CreateSnapshotReq | CallDeleteSnapshot SnapshotIdRequest | CallListSnapshots SnapshotIdRequest
  | CallControllerExpandVolume ControllerExpandVolumeRequest | CallControllerModifyVolume
  | CallNodePublishVolume NodePublishVolumeRequest | CallNodeUnpublishVolume string
  | CallNodeGetCapabilities | CallNodeStageVolume | CallNodeUnstageVolume | CallNodeGetInfo
  | CallNodeExpandVolume | CallNodeGetVolumeStats string
  | CallGetPluginInfo | CallGetPluginCapabilities | CallProbe

datatype csi_response =
    NoContent | OfVolume Volume | OfSnapshot Snapshot | OfSnapshots "Snapshot list" | OfCapacity int64
  | OfControllerCapabilities "ControllerCapability list" | OfNodeCapabilities "NodeCapability list"
  | OfNodeId string | OfUsage "VolumeUsage list" | OfPluginInfo "string \<times> string"
  | OfPluginCapabilities "PluginCapability list"

text \<open>The response of a handler as a response of the server.\<close>

definition respond :: "('a \<Rightarrow> csi_response) \<Rightarrow> ('w, 'a) io \<Rightarrow> ('w, csi_response) io" where
  "respond f m = bind_io m (\<lambda>a. return_io (f a))"

text \<open>The methods that registering the driver for the three services makes reachable.\<close>

fun dispatch :: "('w \<Rightarrow> int64) \<Rightarrow> 'w QuobyteDriver \<Rightarrow> csi_request \<Rightarrow> ('w, csi_response) io" where
  "dispatch now d (CallCreateVolume req) = respond OfVolume (CreateVolume d req)"
| "dispatch now d (CallDeleteVolume req) = respond (\<lambda>_. NoContent) (DeleteVolume d req)"
| "dispatch now d CallControllerPublishVolume = respond (\<lambda>_. NoContent) ControllerPublishVolume"
| "dispatch now d CallControllerUnpublishVolume = respond (\<lambda>_. NoContent) ControllerUnpublishVolume"
| "dispatch now d CallControllerGetVolume = respond (\<lambda>_. NoContent) ControllerGetVolume"
| "dispatch now d CallValidateVolumeCapabilities = respond (\<lambda>_. NoContent) ValidateVolumeCapabilities"
| "dispatch now d CallListVolumes = respond (\<lambda>_. NoContent) ListVolumes"
| "dispatch now d CallGetCapacity = respond (\<lambda>_. NoContent) GetCapacity"
| "dispatch now d CallControllerGetCapabilities = respond OfControllerCapabilities ControllerGetCapabilities"
| "dispatch now d (CallCreateSnapshot sreq) = respond OfSnapshot (CreateSnapshot now d sreq)"
| "dispatch now d (CallDeleteSnapshot ireq) = respond (\<lambda>_. NoContent) (DeleteSnapshot d ireq)"
| "dispatch now d (CallListSnapshots ireq) = respond OfSnapshots (ListSnapshots d ireq)"
| "dispatch now d (CallControllerExpandVolume ereq) = respond OfCapacity (ControllerExpandVolume d ereq)"
| "dispatch now d CallControllerModifyVolume = respond (\<lambda>_. NoContent) ControllerModifyVolume"
| "dispatch now d (CallNodePublishVolume preq) = respond (\<lambda>_. NoContent) (NodePublishVolume d preq)"
| "dispatch now d (CallNodeUnpublishVolume target) = respond (\<lambda>_. NoContent) (NodeUnpublishVolume d target)"
| "dispatch now d CallNodeGetCapabilities = respond OfNodeCapabilities (return_io NodeGetCapabilities)"
| "dispatch now d CallNodeStageVolume = respond (\<lambda>_. NoContent) NodeStageVolume"
| "dispatch now d CallNodeUnstageVolume = respond (\<lambda>_. NoContent) NodeUnstageVolume"
| "dispatch now d CallNodeGetInfo = respond OfNodeId (NodeGetInfo d)"
| "dispatch now d CallNodeExpandVolume = respond (\<lambda>_. NoContent) NodeExpandVolume"
| "dispatch now d (CallNodeGetVolumeStats path) = respond OfUsage (NodeGetVolumeStats d path)"
| "dispatch now d CallGetPluginInfo = respond OfPluginInfo (GetPluginInfo d)"
| "dispatch now d CallGetPluginCapabilities = respond OfPluginCapabilities GetPluginCapabilities"
| "dispatch now d CallProbe = respond (\<lambda>_. NoContent) Probe"

text \<open>The interceptor hands the handler's response and error on; what it logs is not part of the model.\<close>

definition errHandler :: "('w, csi_response) io \<Rightarrow> ('w, csi_response) io" where
  "errHandler handler =
     bind_io (try_io handler) (\<lambda>r. case r of Inl err \<Rightarrow> throw_io err | Inr resp \<Rightarrow> return_io resp)"

definition serve :: "('w \<Rightarrow> int64) \<Rightarrow> 'w QuobyteDriver \<Rightarrow> csi_request \<Rightarrow> ('w, csi_response) io" where
  "serve now d req = errHandler (dispatch now d req)"

lemma errHandler_id: "errHandler m = m"
  by (rule ext) (simp add: errHandler_def bind_io_def try_io_def split: prod.splits outcome.splits)

section \<open>No handler panics\<close>

lemma quiet_api_parts:
  assumes "quiet_api api"
  shows "quiet (q_WhoAmI api)" and "quiet (q_GetTenantUUID api t)" and "quiet (q_CreateVolume api r)"
    and "quiet (q_ResolveVolumeNameToUUID api n t)" and "quiet (q_SetVolumeQuota api v c)"
    and "quiet (q_DeleteVolumeByResolvingNamesToUUID api v t)" and "quiet (q_EraseVolumeByResolvingNamesToUUID api v t i)"
    and "quiet (q_CreateTask api k)" and "quiet (q_GetVolumeUUID api v t)" and "quiet (q_CreateSnapshot api s)"
    and "quiet (q_DeleteSnapshot api v n)" and "quiet (q_ListSnapshots api v)"
  using assms by (simp_all add: quiet_api_def)

lemma quiet_mounter_parts:
  assumes "quiet_mounter mnt"
  shows "quiet (m_Mkdirs mnt p m)" and "quiet (m_Rename mnt p q)" and "quiet (m_Mount mnt p q)" and "quiet (m_Unmount mnt p)"
    and "quiet (m_Statfs mnt p)" and "quiet (m_SetXAttr mnt k v p)" and "quiet (m_CreateAccessKeyContextHandle mnt)"
  using assms by (simp_all add: quiet_mounter_def)

lemma quiet_driver_mounter: "quiet_driver d \<Longrightarrow> quiet_mounter (mounter d)"
  by (simp add: quiet_driver_def)

lemmas quiet_calls = quiet_api_parts quiet_mounter_parts [OF quiet_driver_mounter]

lemma quiet_if: "(c \<Longrightarrow> quiet a) \<Longrightarrow> (\<not> c \<Longrightarrow> quiet b) \<Longrightarrow> quiet (if c then a else b)"
  by simp

lemma choose_tenant_no_panic [simp]: "choose_tenant d params r \<noteq> Panic p"
  by (auto simp: choose_tenant_def split: option.splits)

lemma quiet_prepare_volume:
  assumes "quiet_driver d"
  shows "quiet (prepare_volume d req params s)"
  unfolding prepare_volume_def resolve_tenant_def
  by (intro quiet_new_client [OF assms] quiet_bind quiet_wrap quiet_if quiet_lift quiet_return quiet_throw quiet_calls; simp)

lemma quiet_finish_volume:
  assumes "quiet_driver d" and "quiet_api api"
  shows "quiet (finish_volume d api s st r c name u)"
  unfolding finish_volume_def apply_quota_def make_subdirectory_def Let_def
  using quiet_DirectoryMaker [OF quiet_driver_mounter [OF assms(1)]]
  by (auto intro!: quiet_rules quiet_calls assms split: sum.splits simp del: return_io_eval throw_io_eval)

lemma quiet_create_or_resolve: "quiet_api api \<Longrightarrow> quiet (create_or_resolve api r)"
  unfolding create_or_resolve_def by (auto intro!: quiet_rules quiet_calls split: sum.splits)

lemma prepare_volume_api:
  assumes "quiet_driver d" and "prepare_volume d req params s w = (Ok (api, st, r), w')"
  shows "quiet_api api"
proof -
  from assms(2) obtain w1 where "new_client d (cv_Secrets req) w = (Ok api, w1)"
    unfolding prepare_volume_Ok by (elim exE conjE) (rule that)
  with assms(1) show ?thesis unfolding quiet_driver_def by blast
qed

lemma quiet_CreateVolume:
  assumes "quiet_driver d"
  shows "quiet (CreateVolume d mreq)"
proof (cases "validateCreateVolumeRequest mreq = Ok ()")
  case False
  then show ?thesis
    using validate_cases [of mreq] by (auto simp: CreateVolume_invalid quiet_throw)
next
  case True
  then obtain req c ps where r: "mreq = Some req" and c: "cv_CapacityRange req = Some c" and p: "cv_Parameters req = Some ps"
    by (rule validateE)
  have snap: "createSnapshotResponse req \<noteq> Panic e" for e by (rule createSnapshotResponse_no_panic [OF c])
  show ?thesis
  proof (cases "createSnapshotResponse req")
    case (Ok vol)
    show ?thesis
    proof (cases vol)
      case None
      note run = CreateVolume_dynamic [OF True [unfolded r] Ok [unfolded None] c p refl, of d]
      show ?thesis
        unfolding r run
        by (rule quiet_bind_run [OF quiet_prepare_volume [OF assms]])
          (auto intro!: quiet_bind quiet_create_or_resolve quiet_finish_volume assms dest: prepare_volume_api [OF assms])
    next
      case (Some v)
      then show ?thesis using True Ok by (simp add: r CreateVolume_def quiet_def)
    qed
  next
    case (Err e)
    then show ?thesis using True by (simp add: r CreateVolume_def quiet_def)
  next
    case (Panic e)
    with snap show ?thesis by blast
  qed
qed

lemma quiet_mark: "quiet_driver d \<Longrightarrow> quiet (mark_for_deletion d v dir)"
  unfolding mark_for_deletion_def Let_def
  by (auto intro!: quiet_rules quiet_calls split: sum.splits option.splits)

lemma quiet_DeleteVolume:
  assumes "quiet_driver d"
  shows "quiet (DeleteVolume d req)"
  unfolding DeleteVolume_guarded Let_def
  by (auto intro!: quiet_throw quiet_return quiet_new_client [OF assms] quiet_wrap quiet_mark quiet_calls assms)

lemma quiet_ControllerExpandVolume:
  assumes "quiet_driver d"
  shows "quiet (ControllerExpandVolume d req)"
  unfolding ControllerExpandVolume_def expandVolume_guarded Let_def
  by (auto intro!: quiet_throw quiet_return quiet_new_client [OF assms] quiet_bind quiet_calls assms split: option.splits
      simp del: return_io_eval throw_io_eval)

lemma quiet_CreateSnapshot:
  assumes "quiet_driver d"
  shows "quiet (CreateSnapshot now d req)"
proof -
  have "quiet (snapshot_response now req t v)" for t v
    by (simp add: quiet_def snapshot_response_def)
  then show ?thesis
    unfolding CreateSnapshot_guarded Let_def
    by (auto intro!: quiet_lift quiet_throw quiet_new_client [OF assms] quiet_bind quiet_try quiet_calls assms split: sum.splits)
qed

lemma open_snapshot_api:
  assumes "quiet_driver d" and "open_snapshot d req w = (Ok (api, parts, u), w')"
  shows "quiet_api api"
proof -
  obtain w1 where "new_client d (sr_Secrets req) w = (Ok api, w1)"
    by (rule open_snapshot_Ok [OF assms(2)]) (rule that)
  with assms(1) show ?thesis unfolding quiet_driver_def by blast
qed

lemma quiet_open_snapshot:
  assumes "quiet_driver d"
  shows "quiet (open_snapshot d req)"
  unfolding open_snapshot_guarded Let_def
  by (auto intro!: quiet_throw quiet_return quiet_new_client [OF assms] quiet_bind quiet_calls assms)

lemma quiet_snapshots:
  assumes "quiet_driver d"
  shows "quiet (DeleteSnapshot d req)" and "quiet (ListSnapshots d req)"
proof -
  show "quiet (DeleteSnapshot d req)"
    unfolding DeleteSnapshot_guarded
    by (rule quiet_bind_run [OF quiet_open_snapshot [OF assms]])
      (auto intro!: quiet_calls dest: open_snapshot_api [OF assms])
  show "quiet (ListSnapshots d req)"
    unfolding ListSnapshots_guarded
    by (rule quiet_bind_run [OF quiet_open_snapshot [OF assms]])
      (auto intro!: quiet_bind quiet_return quiet_calls dest: open_snapshot_api [OF assms])
qed

lemma quiet_NodePublishVolume:
  assumes "quiet_driver d"
  shows "quiet (NodePublishVolume d req)"
proof -
  have "quiet (resolve_volume d s v t)" for s v t
    unfolding resolve_volume_def by (auto intro!: quiet_return quiet_new_client [OF assms] quiet_calls)
  moreover have "quiet (set_access_key d s)" for s
    unfolding set_access_key_def by (auto intro!: quiet_rules quiet_calls assms split: option.splits)
  ultimately show ?thesis
    unfolding NodePublishVolume_def Let_def Mount_eq
    by (auto intro!: quiet_throw quiet_return quiet_bind quiet_lift quiet_calls assms)
qed

lemma quiet_node:
  assumes "quiet_driver d"
  shows "quiet (NodeUnpublishVolume d target)" and "quiet (NodeGetVolumeStats d path)"
  unfolding NodeUnpublishVolume_def Unmount_def NodeGetVolumeStats_def
  by (auto intro!: quiet_throw quiet_return quiet_bind quiet_calls assms)

lemma quiet_respond: "quiet m \<Longrightarrow> quiet (respond f m)"
  unfolding respond_def by (intro quiet_bind quiet_return)

lemmas handlers_quiet = quiet_CreateVolume quiet_DeleteVolume quiet_ControllerExpandVolume quiet_CreateSnapshot
  quiet_snapshots quiet_NodePublishVolume quiet_node

section \<open>Properties\<close>

text \<open>
  C9 (no request panics the driver): when neither the client factory, nor a client it makes, nor the
  mounter panics, no request to any of the three services makes the driver panic, whatever
  its fields: every run-time error that the code could raise on a nil or short value is excluded by a check.
\<close>

theorem no_request_panics:
  assumes "quiet_driver d"
  shows "serve now d req w \<noteq> (Panic p, w')"
proof -
  have "quiet (dispatch now d req)"
    by (cases req)
      (simp_all add: quiet_respond handlers_quiet [OF assms] quiet_return quiet_throw ControllerPublishVolume_def
        ControllerUnpublishVolume_def ControllerGetVolume_def ValidateVolumeCapabilities_def ListVolumes_def GetCapacity_def
        ControllerGetCapabilities_def ControllerModifyVolume_def NodeStageVolume_def NodeUnstageVolume_def NodeGetInfo_def
        NodeExpandVolume_def GetPluginInfo_def GetPluginCapabilities_def Probe_def del: return_io_eval throw_io_eval)
  then show ?thesis unfolding serve_def errHandler_id by (rule quietD)
qed

theorem no_request_panics_witness:
  "\<forall>p w'. serve (\<lambda>_. 7) (sample_driver (Ok ())) (CallDeleteVolume \<lparr>dv_VolumeId = ''|'', dv_Secrets = []\<rparr>) empty_world \<noteq> (Panic p, w')"
  by (intro allI no_request_panics sample_quiet) simp

end
