(* ===== verification/Directory_Deleter.thy ===== *)
theory Directory_Deleter
  imports Volume_Lifecycle "HOL-Library.Multiset"
begin

text \<open>
  \<open>driver/shared_volume_directory_deleter.go\<close>: the background clean-up of the controller. One goroutine
  walks the shared volumes every five minutes and queues the directories that carry the deletion
  marker; \<open>parallelDeletes\<close> workers take them from the bounded channel and remove them. The
  goroutines and the channel are a step relation; opening and listing a directory is a parameter.
\<close>

section \<open>Configuration and state\<close>

text \<open>
  \<open>os.Open\<close> yields the name of the opened file; \<open>Readdirnames(0)\<close> yields the names read, also when the
  reading fails part of the way.
\<close>

record 'w deleter_config =
  dc_nodeName :: string
  dc_mountPath :: string
  dc_sharedVolumes :: "string list"
  dc_parallelDeletes :: nat
  dc_Open :: "string \<Rightarrow> ('w, unit) io"
  dc_Readdirnames :: "string \<Rightarrow> 'w \<Rightarrow> (string list \<times> go_error option) \<times> 'w"
  dc_mounter :: "'w Mounter"

text \<open>
  The walker sleeps, is about to read the next of the remaining volumes, is sending the paths found
  in one of them, or has panicked, which ends the process. A worker waits at the channel or
  works on a directory.
\<close>

datatype walker = Sleeping | Walking "string list" | Queueing "string list" "string list" | Crashed
datatype worker = Idle | Deleting string

record 'w deleter_state =
  ds_world :: 'w
  ds_walker :: walker
  ds_channel :: "string list"
  ds_workers :: "worker list"
  ds_removed :: "string list"

section \<open>The code of the goroutines\<close>

definition marker_prefix :: "string \<Rightarrow> string" where
  "marker_prefix nodeName = nodeName @ ''_delete_pvc-''"

text \<open>
  The function literal in the loop over the volumes: the paths it sends, in order. In its \<open>else\<close> branch the
  error message calls \<open>volumePath.Name()\<close> on the nil \<open>*os.File\<close> that a failed \<open>os.Open\<close> returns.
\<close>

definition scan_volume :: "'w deleter_config \<Rightarrow> string \<Rightarrow> ('w, string list) io" where
  "scan_volume cfg volume =
     (let sharedVolume = TrimSpace volume
      in if length sharedVolume = 0 then return_io []
         else
           (let path = Join [dc_mountPath cfg, sharedVolume]
            in bind_io (try_io (dc_Open cfg path)) (\<lambda>opened.
                 case opened of
                   Inr _ \<Rightarrow> (\<lambda>w. case dc_Readdirnames cfg path w of ((names, err), w') \<Rightarrow>
                     (Ok (map (\<lambda>file. Join [path, file])
                            (filter (\<lambda>file. HasPrefix file (marker_prefix (dc_nodeName cfg))) names)), w'))
                 | Inl err \<Rightarrow> panic_io nil_dereference)))"

text \<open>The body of the worker's loop: whether it calls \<open>RemoveAll\<close>, whose result it ignores.\<close>

definition accepts_directory :: "'w deleter_config \<Rightarrow> string \<Rightarrow> bool" where
  "accepts_directory cfg directory =
     (case path_Split directory of (dir, file) \<Rightarrow> HasPrefix dir (dc_mountPath cfg) \<and> HasPrefix file (dc_nodeName cfg))"

definition delete_directory :: "'w deleter_config \<Rightarrow> string \<Rightarrow> ('w, unit) io" where
  "delete_directory cfg directory =
     (if accepts_directory cfg directory
      then bind_io (try_io (m_RemoveAll (dc_mounter cfg) directory)) (\<lambda>_. return_io ())
      else return_io ())"

definition LaunchDirectoryDeleter :: "'w deleter_config \<Rightarrow> 'w \<Rightarrow> 'w deleter_state" where
  "LaunchDirectoryDeleter cfg w =
     \<lparr>ds_world = w, ds_walker = Sleeping, ds_channel = [],
      ds_workers = replicate (dc_parallelDeletes cfg) Idle, ds_removed = []\<rparr>"

section \<open>Steps\<close>

text \<open>
  The steps that move queued directories on: sending blocks while the channel is full, receiving
  while it is empty. \<open>ds_removed\<close> records the arguments of the calls of \<open>RemoveAll\<close>.
\<close>

inductive work_step :: "'w deleter_config \<Rightarrow> 'w deleter_state \<Rightarrow> 'w deleter_state \<Rightarrow> bool" for cfg where
  send: "ds_walker s = Queueing (p # ps) vs \<Longrightarrow> length (ds_channel s) < dc_parallelDeletes cfg \<Longrightarrow>
     work_step cfg s (s\<lparr>ds_walker := Queueing ps vs, ds_channel := ds_channel s @ [p]\<rparr>)"
| receive: "ds_walker s \<noteq> Crashed \<Longrightarrow> ds_channel s = p # ps \<Longrightarrow> i < length (ds_workers s) \<Longrightarrow> ds_workers s ! i = Idle \<Longrightarrow>
     work_step cfg s (s\<lparr>ds_channel := ps, ds_workers := (ds_workers s)[i := Deleting p]\<rparr>)"
| delete: "ds_walker s \<noteq> Crashed \<Longrightarrow> i < length (ds_workers s) \<Longrightarrow> ds_workers s ! i = Deleting p \<Longrightarrow>
     delete_directory cfg p (ds_world s) = (Ok (), w') \<Longrightarrow>
     work_step cfg s (s\<lparr>ds_world := w', ds_workers := (ds_workers s)[i := Idle],
       ds_removed := ds_removed s @ (if accepts_directory cfg p then [p] else [])\<rparr>)"

inductive deleter_step :: "'w deleter_config \<Rightarrow> 'w deleter_state \<Rightarrow> 'w deleter_state \<Rightarrow> bool" for cfg where
  wake: "ds_walker s = Sleeping \<Longrightarrow> deleter_step cfg s (s\<lparr>ds_walker := Walking (dc_sharedVolumes cfg)\<rparr>)"
| scan: "ds_walker s = Walking (v # vs) \<Longrightarrow> scan_volume cfg v (ds_world s) = (Ok ps, w') \<Longrightarrow>
     deleter_step cfg s (s\<lparr>ds_world := w', ds_walker := Queueing ps vs\<rparr>)"
| crash: "ds_walker s = Walking (v # vs) \<Longrightarrow> scan_volume cfg v (ds_world s) = (Panic e, w') \<Longrightarrow>
     deleter_step cfg s (s\<lparr>ds_world := w', ds_walker := Crashed\<rparr>)"
| next_volume: "ds_walker s = Queueing [] vs \<Longrightarrow> deleter_step cfg s (s\<lparr>ds_walker := Walking vs\<rparr>)"
| pass_done: "ds_walker s = Walking [] \<Longrightarrow> deleter_step cfg s (s\<lparr>ds_walker := Sleeping\<rparr>)"
| work: "work_step cfg s s' \<Longrightarrow> deleter_step cfg s s'"
| others: "ds_walker s \<noteq> Crashed \<Longrightarrow> deleter_step cfg s (s\<lparr>ds_world := w'\<rparr>)"

text \<open>The last rule is everything outside the deleter, which may change the world in any way.\<close>

inductive deleter_reachable :: "'w deleter_config \<Rightarrow> 'w deleter_state \<Rightarrow> bool" for cfg where
  launched: "deleter_reachable cfg (LaunchDirectoryDeleter cfg w)"
| stepped: "deleter_reachable cfg s \<Longrightarrow> deleter_step cfg s s' \<Longrightarrow> deleter_reachable cfg s'"

inductive_cases work_stepE: "work_step cfg s s'"
inductive_cases deleter_stepE: "deleter_step cfg s s'"

text \<open>Everything that is queued, in the channel or with a worker.\<close>

fun walker_paths :: "walker \<Rightarrow> string list" where
  "walker_paths (Queueing ps vs) = ps"
| "walker_paths _ = []"

fun worker_paths :: "worker \<Rightarrow> string list" where
  "worker_paths Idle = []"
| "worker_paths (Deleting p) = [p]"

definition working :: "worker list \<Rightarrow> string multiset" where
  "working ks = mset (concat (map worker_paths ks))"

definition pending :: "'w deleter_state \<Rightarrow> string multiset" where
  "pending s = mset (walker_paths (ds_walker s)) + mset (ds_channel s) + working (ds_workers s)"

section \<open>The marker\<close>

text \<open>
  The scheme on which the deletion of a claim and the clean-up agree: the name a directory gets, the names
  the walker looks for, and the names a worker accepts.
\<close>

locale marker_scheme =
  fixes mark :: "string \<Rightarrow> string"
    and wanted :: "string \<Rightarrow> bool"
    and accepted :: "string \<Rightarrow> bool"
    and claim :: "string \<Rightarrow> bool"
  assumes wanted_mark: "wanted (mark dir) \<longleftrightarrow> claim dir"
    and wanted_accepted: "wanted f \<Longrightarrow> accepted f"
    and mark_inj: "mark a = mark b \<Longrightarrow> a = b"
begin

lemma marked_claim: "claim dir \<Longrightarrow> wanted (mark dir) \<and> accepted (mark dir)"
  using wanted_mark wanted_accepted by blast

lemma unmarked: "\<not> claim dir \<Longrightarrow> mark dir \<notin> set (filter wanted names)"
  using wanted_mark by simp

lemma filter_marked: "filter wanted (map mark dirs) = map mark (filter claim dirs)"
  by (induction dirs) (simp_all add: wanted_mark)

end

lemma delete_marker_eq: "delete_marker n dir = n @ ''_delete_'' @ dir"
  by (simp add: delete_marker_def DELETE_MARKER_FORMAT_def)

interpretation marker: marker_scheme "delete_marker n" "\<lambda>f. HasPrefix f (marker_prefix n)"
    "\<lambda>f. HasPrefix f n" "\<lambda>dir. HasPrefix dir ''pvc-''" for n
proof
  show "HasPrefix (delete_marker n dir) (marker_prefix n) \<longleftrightarrow> HasPrefix dir ''pvc-''" for dir
    by (simp add: HasPrefix_def delete_marker_eq marker_prefix_def)
  show "HasPrefix f (marker_prefix n) \<Longrightarrow> HasPrefix f n" for f
    unfolding HasPrefix_def marker_prefix_def by (rule append_prefixD)
  show "delete_marker n a = delete_marker n b \<Longrightarrow> a = b" for a b
    by (simp add: delete_marker_eq)
qed

section \<open>What is queued\<close>

text \<open>A path the walker may send: a marked name below one of the configured volumes.\<close>

definition marked_path :: "'w deleter_config \<Rightarrow> string \<Rightarrow> bool" where
  "marked_path cfg p \<longleftrightarrow>
     (\<exists>sv file w. sv \<in> TrimSpace ` set (dc_sharedVolumes cfg) \<and> sv \<noteq> [] \<and>
        file \<in> set (fst (fst (dc_Readdirnames cfg (Join [dc_mountPath cfg, sv]) w))) \<and>
        HasPrefix file (marker_prefix (dc_nodeName cfg)) \<and> p = Join [Join [dc_mountPath cfg, sv], file])"

lemma scan_volume_marked:
  assumes "scan_volume cfg v w = (Ok ps, w')" and "v \<in> set (dc_sharedVolumes cfg)" and "p \<in> set ps"
  shows "marked_path cfg p"
proof -
  let ?path = "Join [dc_mountPath cfg, TrimSpace v]"
  have ne: "TrimSpace v \<noteq> []" using assms(1,3) by (auto simp: scan_volume_def)
  obtain w1 names err w2 where l: "dc_Readdirnames cfg ?path w1 = ((names, err), w2)"
    and ps: "ps = map (\<lambda>file. Join [?path, file]) (filter (\<lambda>file. HasPrefix file (marker_prefix (dc_nodeName cfg))) names)"
    using assms(1) ne by (auto simp: scan_volume_def Let_def bind_io_Ok try_io_Ok split: prod.splits)
  then have names: "names = fst (fst (dc_Readdirnames cfg ?path w1))" by simp
  note ps = ps [unfolded names]
  with assms(3) obtain f where "f \<in> set (fst (fst (dc_Readdirnames cfg ?path w1)))"
    "HasPrefix f (marker_prefix (dc_nodeName cfg))" "p = Join [?path, f]" by auto
  with ne assms(2) show ?thesis unfolding marked_path_def by blast
qed

fun walker_volumes :: "walker \<Rightarrow> string list" where
  "walker_volumes (Walking vs) = vs"
| "walker_volumes (Queueing ps vs) = vs"
| "walker_volumes _ = []"

definition deleter_inv :: "'w deleter_config \<Rightarrow> 'w deleter_state \<Rightarrow> bool" where
  "deleter_inv cfg s \<longleftrightarrow>
     (\<forall>p \<in># pending s + mset (ds_removed s). marked_path cfg p) \<and>
     set (walker_volumes (ds_walker s)) \<subseteq> set (dc_sharedVolumes cfg) \<and>
     length (ds_channel s) \<le> dc_parallelDeletes cfg \<and> length (ds_workers s) = dc_parallelDeletes cfg \<and>
     (\<forall>p \<in> set (ds_removed s). accepts_directory cfg p)"

lemma deleter_invD:
  assumes "deleter_inv cfg s"
  shows "\<And>p. p \<in># pending s + mset (ds_removed s) \<Longrightarrow> marked_path cfg p"
    and "set (walker_volumes (ds_walker s)) \<subseteq> set (dc_sharedVolumes cfg)"
    and "length (ds_channel s) \<le> dc_parallelDeletes cfg" and "length (ds_workers s) = dc_parallelDeletes cfg"
    and "\<And>p. p \<in> set (ds_removed s) \<Longrightarrow> accepts_directory cfg p"
  using assms by (auto simp: deleter_inv_def)

lemma working_update:
  assumes "i < length ks"
  shows "working (ks[i := k]) + mset (worker_paths (ks ! i)) = working ks + mset (worker_paths k)"
proof -
  have "ks = take i ks @ ks ! i # drop (Suc i) ks"
    using assms by (rule id_take_nth_drop)
  then have "working ks = working (take i ks) + mset (worker_paths (ks ! i)) + working (drop (Suc i) ks)"
    by (metis (no_types, lifting) add.assoc concat.simps(2) concat_append list.simps(9) map_append mset_append working_def)
  then show ?thesis
    using assms by (simp add: upd_conv_take_nth_drop) (simp add: working_def)
qed

text \<open>A step of the pipeline neither invents a path nor loses one that a worker accepts.\<close>

lemma work_step_paths:
  assumes "work_step cfg s s'"
  shows "\<exists>lost. pending s + mset (ds_removed s) = pending s' + mset (ds_removed s') + mset lost \<and>
     (\<forall>p \<in> set lost. \<not> accepts_directory cfg p)"
  using assms
proof (cases rule: work_step.cases)
  case (send p ps vs)
  then show ?thesis by (intro exI [of _ "[]"]) (simp add: pending_def)
next
  case (receive p ps i)
  then show ?thesis
    using working_update [OF receive(4), of "Deleting p"] by (intro exI [of _ "[]"]) (simp add: pending_def)
next
  case (delete i p w')
  have "working (ds_workers s) = working ((ds_workers s)[i := Idle]) + {#p#}"
    using working_update [OF delete(3), of Idle] delete(4) by simp
  then show ?thesis
    by (intro exI [of _ "if accepts_directory cfg p then [] else [p]"]) (simp add: delete(1) pending_def)
qed

lemma work_step_removed:
  assumes "work_step cfg s s'"
  shows "set (ds_removed s) \<subseteq> set (ds_removed s')"
    and "\<forall>p \<in> set (ds_removed s). accepts_directory cfg p \<Longrightarrow> \<forall>p \<in> set (ds_removed s'). accepts_directory cfg p"
  using assms by (auto elim!: work_stepE split: if_splits)

section \<open>The invariant\<close>

lemma pending_walker:
  "walker_paths k = walker_paths (ds_walker s) \<Longrightarrow> pending (s\<lparr>ds_world := w, ds_walker := k\<rparr>) = pending s"
  by (simp add: pending_def)

lemma deleter_inv_work:
  assumes "deleter_inv cfg s" and "work_step cfg s s'"
  shows "deleter_inv cfg s'"
proof -
  have "set_mset (pending s' + mset (ds_removed s')) \<subseteq> set_mset (pending s + mset (ds_removed s))"
    using work_step_paths [OF assms(2)] by (metis mset_subset_eq_add_left set_mset_mono)
  moreover have "set (walker_volumes (ds_walker s')) = set (walker_volumes (ds_walker s))"
    and "length (ds_channel s') \<le> dc_parallelDeletes cfg" and "length (ds_workers s') = length (ds_workers s)"
    using assms by (auto elim!: work_stepE simp: deleter_inv_def)
  ultimately have vols: "set (walker_volumes (ds_walker s')) \<subseteq> set (dc_sharedVolumes cfg)"
    and len: "length (ds_channel s') \<le> dc_parallelDeletes cfg" "length (ds_workers s') = dc_parallelDeletes cfg"
    and marked: "\<forall>p \<in># pending s' + mset (ds_removed s'). marked_path cfg p"
    using deleter_invD(1,2,4) [OF assms(1)] by (simp_all only: subset_iff) blast
  have "\<forall>p \<in> set (ds_removed s'). accepts_directory cfg p"
    using assms(1) work_step_removed(2) [OF assms(2)] by (simp add: deleter_inv_def)
  with vols len marked show ?thesis unfolding deleter_inv_def by (intro conjI)
qed

lemma deleter_inv_step:
  assumes "deleter_inv cfg s" and "deleter_step cfg s s'"
  shows "deleter_inv cfg s'"
  using assms(2)
proof (cases rule: deleter_step.cases)
  case (scan v vs ps w')
  have v: "v \<in> set (dc_sharedVolumes cfg)" "set vs \<subseteq> set (dc_sharedVolumes cfg)"
    using assms(1) scan(2) by (auto simp: deleter_inv_def)
  have "pending s' = pending s + mset ps"
    unfolding scan(1) using scan(2) by (simp add: pending_def)
  moreover have "\<forall>p \<in> set ps. marked_path cfg p"
    using scan_volume_marked [OF scan(3) v(1)] by blast
  ultimately show ?thesis
    using assms(1) v(2) unfolding scan(1) deleter_inv_def by auto
next
  case work
  with assms(1) show ?thesis by (rule deleter_inv_work)
qed (use assms(1) in \<open>auto simp: deleter_inv_def pending_def\<close>)

lemma deleter_inv_reachable: "deleter_reachable cfg s \<Longrightarrow> deleter_inv cfg s"
proof (induction rule: deleter_reachable.induct)
  case (launched w)
  show ?case by (simp add: deleter_inv_def pending_def working_def LaunchDirectoryDeleter_def)
next
  case (stepped s s')
  show ?case using stepped(3,2) by (rule deleter_inv_step)
qed

section \<open>Progress\<close>

definition work_measure :: "'w deleter_state \<Rightarrow> nat" where
  "work_measure s = 3 * length (walker_paths (ds_walker s)) + 2 * length (ds_channel s) + size (working (ds_workers s))"

lemma work_step_measure:
  assumes "work_step cfg s s'"
  shows "work_measure s' < work_measure s"
  using assms
proof (cases rule: work_step.cases)
  case (send p ps vs)
  then show ?thesis by (simp add: work_measure_def)
next
  case (receive p ps i)
  have "size (working ((ds_workers s)[i := Deleting p])) = size (working (ds_workers s)) + 1"
    using arg_cong [OF working_update [OF receive(4), of "Deleting p"], of size] receive(5) by simp
  then show ?thesis by (simp add: receive(1,3) work_measure_def)
next
  case (delete i p w')
  have "size (working (ds_workers s)) = size (working ((ds_workers s)[i := Idle])) + 1"
    using arg_cong [OF working_update [OF delete(3), of Idle], of size] delete(4) by simp
  then show ?thesis by (simp add: delete(1) work_measure_def)
qed

lemma work_step_wf: "wfp (\<lambda>s' s. work_step cfg s s')"
  by (rule wfp_if_convertible_to_nat [of _ work_measure]) (rule work_step_measure)

lemma delete_directory_Ok:
  assumes "quiet (m_RemoveAll (dc_mounter cfg) p)"
  shows "\<exists>w'. delete_directory cfg p w = (Ok (), w')"
proof -
  obtain r w' where r: "m_RemoveAll (dc_mounter cfg) p w = (r, w')" by (cases "m_RemoveAll (dc_mounter cfg) p w")
  with assms show ?thesis
    by (cases r) (auto simp: delete_directory_def dest: quietD)
qed

lemma work_step_enabled:
  assumes "deleter_inv cfg s" and "0 < dc_parallelDeletes cfg" and "ds_walker s \<noteq> Crashed"
    and "\<And>p. quiet (m_RemoveAll (dc_mounter cfg) p)" and "pending s \<noteq> {#}"
  shows "\<exists>s'. work_step cfg s s'"
proof (cases "\<exists>i p. i < length (ds_workers s) \<and> ds_workers s ! i = Deleting p")
  case True
  then obtain i p where i: "i < length (ds_workers s)" "ds_workers s ! i = Deleting p" by blast
  obtain w' where "delete_directory cfg p (ds_world s) = (Ok (), w')"
    using delete_directory_Ok [OF assms(4)] by blast
  from work_step.delete [OF assms(3) i this] show ?thesis by blast
next
  case False
  then have idle: "\<forall>k \<in> set (ds_workers s). k = Idle"
    by (metis in_set_conv_nth worker_paths.cases)
  then have none: "working (ds_workers s) = {#}"
    unfolding working_def using idle by (induction "ds_workers s") auto
  have w0: "0 < length (ds_workers s)" using assms(1,2) by (simp add: deleter_inv_def)
  show ?thesis
  proof (cases "ds_channel s")
    case (Cons p ps)
    have "ds_workers s ! 0 = Idle" using idle w0 by simp
    from work_step.receive [OF assms(3) Cons w0 this] show ?thesis by blast
  next
    case Nil
    with none assms(5) obtain p ps vs where "ds_walker s = Queueing (p # ps) vs"
      by (cases "ds_walker s" rule: walker_paths.cases; cases "walker_paths (ds_walker s)") (auto simp: pending_def)
    from work_step.send [OF this] Nil assms(2) show ?thesis by auto
  qed
qed

section \<open>Properties\<close>

text \<open>What \<open>Readdirnames\<close> promises: the names of directory entries.\<close>

definition entry_names :: "'w deleter_config \<Rightarrow> bool" where
  "entry_names cfg \<longleftrightarrow> (\<forall>p w. \<forall>f \<in> set (fst (fst (dc_Readdirnames cfg p w))). simple_name f)"

text \<open>The configured volumes are directory names below an absolute mount point with the components \<open>cs\<close>.\<close>

definition volumes_below :: "'w deleter_config \<Rightarrow> string list \<Rightarrow> bool" where
  "volumes_below cfg cs \<longleftrightarrow> cs \<noteq> [] \<and> (\<forall>c \<in> set cs. simple_name c) \<and> dc_mountPath cfg = abs_path cs \<and>
     (\<forall>v \<in> set (dc_sharedVolumes cfg). TrimSpace v = [] \<or> simple_name (TrimSpace v))"

lemma Join_below:
  assumes "volumes_below cfg cs" and "simple_name sv" and "simple_name f"
  shows "Join [Join [dc_mountPath cfg, sv], f] = abs_path (cs @ [sv, f])"
    and "Join [dc_mountPath cfg, sv, f] = abs_path (cs @ [sv, f])"
  using assms Join_abs_path [of cs "[sv]"] Join_abs_path [of "cs @ [sv]" "[f]"] Join_abs_path [of cs "[sv, f]"]
  by (auto simp: volumes_below_def)

lemma marked_path_below:
  assumes "entry_names cfg" and "volumes_below cfg cs" and "marked_path cfg p"
  obtains sv dir where "sv \<in> TrimSpace ` set (dc_sharedVolumes cfg)" and "HasPrefix dir ''pvc-''"
    and "simple_name sv" and "simple_name (delete_marker (dc_nodeName cfg) dir)"
    and "p = abs_path (cs @ [sv, delete_marker (dc_nodeName cfg) dir])"
proof -
  from assms(3) obtain sv f w where sv: "sv \<in> TrimSpace ` set (dc_sharedVolumes cfg)" "sv \<noteq> []"
    and f: "f \<in> set (fst (fst (dc_Readdirnames cfg (Join [dc_mountPath cfg, sv]) w)))"
    and pre: "HasPrefix f (marker_prefix (dc_nodeName cfg))" and p: "p = Join [Join [dc_mountPath cfg, sv], f]"
    unfolding marked_path_def by blast
  have simple: "simple_name sv" "simple_name f"
    using assms(1,2) sv f unfolding entry_names_def volumes_below_def by auto
  from pre obtain rest where "f = marker_prefix (dc_nodeName cfg) @ rest" by (auto simp: HasPrefix_def prefix_def)
  then have f_eq: "f = delete_marker (dc_nodeName cfg) (''pvc-'' @ rest)" by (simp add: marker_prefix_def delete_marker_eq)
  have "p = abs_path (cs @ [sv, delete_marker (dc_nodeName cfg) (''pvc-'' @ rest)])"
    unfolding p f_eq [symmetric] by (rule Join_below(1) [OF assms(2) simple])
  with sv(1) HasPrefix_append simple(1) simple(2) [unfolded f_eq] show thesis by (rule that)
qed

lemma marker_accepted:
  assumes "volumes_below cfg cs" and "HasPrefix dir ''pvc-''" and "simple_name (delete_marker (dc_nodeName cfg) dir)"
  shows "accepts_directory cfg (abs_path (cs @ [sv, delete_marker (dc_nodeName cfg) dir]))"
proof -
  have "path_Split (abs_path ((cs @ [sv]) @ [delete_marker (dc_nodeName cfg) dir])) =
      (abs_path (cs @ [sv]) @ ''/'', delete_marker (dc_nodeName cfg) dir)"
    using simple_nameD(4) [OF assms(3)] by (rule path_Split_abs_path)
  moreover have "HasPrefix (delete_marker (dc_nodeName cfg) dir) (dc_nodeName cfg)"
    using marker.marked_claim [OF assms(2)] by blast
  ultimately show ?thesis
    using assms(1) by (simp add: accepts_directory_def volumes_below_def HasPrefix_def)
qed

lemma marked_path_accepted:
  assumes "entry_names cfg" and "volumes_below cfg cs" and "marked_path cfg p"
  shows "accepts_directory cfg p"
  by (rule marked_path_below [OF assms]) (simp only: marker_accepted [OF assms(2)])

text \<open>When the pipeline has come to rest, everything that was queued has been passed to \<open>RemoveAll\<close>.\<close>

lemma drained_pipeline:
  assumes "deleter_reachable cfg s" and "entry_names cfg" and "volumes_below cfg cs"
    and "0 < dc_parallelDeletes cfg" and "ds_walker s \<noteq> Crashed" and "\<And>p. quiet (m_RemoveAll (dc_mounter cfg) p)"
    and steps: "(work_step cfg)\<^sup>*\<^sup>* s s'" and stuck: "\<nexists>s''. work_step cfg s' s''"
  shows "set_mset (pending s) \<subseteq> set (ds_removed s')"
proof -
  have "deleter_inv cfg s' \<and> ds_walker s' \<noteq> Crashed \<and> pending s + mset (ds_removed s) \<subseteq># pending s' + mset (ds_removed s')"
    using steps
  proof (induction rule: rtranclp_induct)
    case base
    show ?case using deleter_inv_reachable [OF assms(1)] assms(5) by simp
  next
    case (step y z)
    then have inv: "deleter_inv cfg y" "deleter_inv cfg z" by (auto intro: deleter_inv_work)
    obtain lost where eq: "pending y + mset (ds_removed y) = pending z + mset (ds_removed z) + mset lost"
      and lost: "\<forall>p \<in> set lost. \<not> accepts_directory cfg p" using work_step_paths [OF step(2)] by blast
    have "\<forall>p \<in># pending y + mset (ds_removed y). accepts_directory cfg p"
      using inv(1) marked_path_accepted [OF assms(2,3)] by (simp add: deleter_inv_def)
    with eq lost have "lost = []" by (cases lost) auto
    moreover have "ds_walker z \<noteq> Crashed" using step(2,3) by (auto elim!: work_stepE)
    ultimately show ?case using step(3) eq inv(2) by simp
  qed
  then have inv: "deleter_inv cfg s'" "ds_walker s' \<noteq> Crashed" and sub: "pending s + mset (ds_removed s) \<subseteq># pending s' + mset (ds_removed s')"
    by blast+
  have "pending s' = {#}"
    using work_step_enabled [OF inv(1) assms(4) inv(2) assms(6)] stuck by blast
  with sub have "pending s \<subseteq># mset (ds_removed s')"
    by (metis add_0 mset_subset_eq_add_left subset_mset.dual_order.trans)
  then show "set_mset (pending s) \<subseteq> set (ds_removed s')"
    by (metis set_mset_mono set_mset_mset)
qed

subsection \<open>A concrete run\<close>

text \<open>One shared volume with a marked directory and another one, for the witnesses.\<close>

definition sample_deleter :: "sample deleter_config" where
  "sample_deleter =
     \<lparr>dc_nodeName = ''csi'', dc_mountPath = ''/mnt'', dc_sharedVolumes = ['' sv''], dc_parallelDeletes = 2,
      dc_Open = (\<lambda>p. return_io ()), dc_Readdirnames = (\<lambda>p w. (([''data'', ''csi_delete_pvc-1''], None), w)),
      dc_mounter = sample_mounter []\<rparr>"

definition marked_sample :: string where "marked_sample = ''/mnt/sv/csi_delete_pvc-1''"

definition deleter_queued :: "sample deleter_state" where
  "deleter_queued =
     \<lparr>ds_world = empty_world, ds_walker = Queueing [marked_sample] [], ds_channel = [], ds_workers = [Idle, Idle], ds_removed = []\<rparr>"

definition deleter_done :: "sample deleter_state" where
  "deleter_done = deleter_queued
     \<lparr>ds_world := empty_world\<lparr>files := (files empty_world)(marked_sample := None)\<rparr>, ds_walker := Queueing [] [], ds_removed := [marked_sample]\<rparr>"

lemma sample_paths:
  "Join [''/mnt'', ''sv''] = ''/mnt/sv''" "Join [''/mnt/sv'', ''csi_delete_pvc-1''] = marked_sample"
  using Join_abs_path [of "[''mnt'']" "[''sv'']"] Join_abs_path [of "[''mnt'', ''sv'']" "[''csi_delete_pvc-1'']"]
  by (simp_all add: simple_name_def marked_sample_def)

lemma TrimSpace_sv: "TrimSpace '' sv'' = ''sv''"
  by code_simp

lemma path_Split_sample: "path_Split marked_sample = (''/mnt/sv/'', ''csi_delete_pvc-1'')"
  using path_Split_abs_path [of "''csi_delete_pvc-1''" "[''mnt'', ''sv'']"] by (simp add: marked_sample_def)

lemma sample_accepted: "accepts_directory sample_deleter marked_sample"
  by (simp add: accepts_directory_def path_Split_sample sample_deleter_def HasPrefix_def)

lemma sample_entry_names: "entry_names sample_deleter"
  by (simp add: entry_names_def sample_deleter_def simple_name_def)

lemma sample_volumes_below: "volumes_below sample_deleter [''mnt'']"
  by (simp add: volumes_below_def sample_deleter_def simple_name_def TrimSpace_sv)

lemma sample_deleter_queued: "deleter_reachable sample_deleter deleter_queued"
proof -
  let ?s0 = "LaunchDirectoryDeleter sample_deleter empty_world"
  have w: "ds_world ?s0 = empty_world" by (simp add: LaunchDirectoryDeleter_def)
  have "deleter_step sample_deleter ?s0 (?s0\<lparr>ds_walker := Walking (dc_sharedVolumes sample_deleter)\<rparr>)"
    by (rule deleter_step.wake) (simp add: LaunchDirectoryDeleter_def)
  then have r: "deleter_reachable sample_deleter (?s0\<lparr>ds_walker := Walking (dc_sharedVolumes sample_deleter)\<rparr>)"
    by (rule deleter_reachable.stepped [OF deleter_reachable.launched])
  have "scan_volume sample_deleter '' sv'' empty_world = (Ok [marked_sample], empty_world)"
    by (simp add: scan_volume_def TrimSpace_sv sample_deleter_def sample_paths HasPrefix_def marker_prefix_def Let_def bind_io_def try_io_def)
  then have "deleter_step sample_deleter (?s0\<lparr>ds_walker := Walking (dc_sharedVolumes sample_deleter)\<rparr>)
     (?s0\<lparr>ds_walker := Walking (dc_sharedVolumes sample_deleter), ds_world := empty_world, ds_walker := Queueing [marked_sample] []\<rparr>)"
    by (intro deleter_step.scan [where v = "'' sv''"]) (simp_all add: sample_deleter_def LaunchDirectoryDeleter_def)
  then have "deleter_reachable sample_deleter
     (?s0\<lparr>ds_walker := Walking (dc_sharedVolumes sample_deleter), ds_world := empty_world, ds_walker := Queueing [marked_sample] []\<rparr>)"
    by (rule deleter_reachable.stepped [OF r])
  then show ?thesis
    by (simp add: deleter_queued_def LaunchDirectoryDeleter_def sample_deleter_def numeral_2_eq_2)
qed

lemma sample_deleter_works: "(work_step sample_deleter)\<^sup>*\<^sup>* deleter_queued deleter_done"
proof -
  let ?s1 = "deleter_queued\<lparr>ds_walker := Queueing [] [], ds_channel := [marked_sample]\<rparr>"
  let ?s2 = "deleter_queued\<lparr>ds_walker := Queueing [] [], ds_workers := [Deleting marked_sample, Idle]\<rparr>"
  have "work_step sample_deleter deleter_queued (deleter_queued\<lparr>ds_walker := Queueing [] [], ds_channel := ds_channel deleter_queued @ [marked_sample]\<rparr>)"
    by (rule work_step.send) (simp_all add: deleter_queued_def sample_deleter_def)
  then have 1: "work_step sample_deleter deleter_queued ?s1" by (simp add: deleter_queued_def)
  have "work_step sample_deleter ?s1 (?s1\<lparr>ds_channel := [], ds_workers := (ds_workers ?s1)[0 := Deleting marked_sample]\<rparr>)"
    by (rule work_step.receive) (simp_all add: deleter_queued_def)
  then have 2: "work_step sample_deleter ?s1 ?s2" by (simp add: deleter_queued_def)
  have d: "delete_directory sample_deleter marked_sample (ds_world ?s2) =
      (Ok (), empty_world\<lparr>files := (files empty_world)(marked_sample := None)\<rparr>)"
    using sample_accepted by (simp add: delete_directory_def deleter_queued_def) (simp add: sample_deleter_def sample_mounter_def bind_io_def try_io_def)
  have "work_step sample_deleter ?s2 (?s2\<lparr>ds_world := empty_world\<lparr>files := (files empty_world)(marked_sample := None)\<rparr>,
      ds_workers := (ds_workers ?s2)[0 := Idle], ds_removed := ds_removed ?s2 @ (if accepts_directory sample_deleter marked_sample then [marked_sample] else [])\<rparr>)"
    by (rule work_step.delete [OF _ _ _ d]) (simp_all add: deleter_queued_def)
  then have 3: "work_step sample_deleter ?s2 deleter_done"
    using sample_accepted by (simp add: deleter_done_def deleter_queued_def)
  from 1 2 3 show ?thesis by (meson rtranclp.rtrancl_refl rtranclp.rtrancl_into_rtrancl)
qed

lemma sample_deleter_done: "deleter_reachable sample_deleter deleter_done"
  using sample_deleter_works
  by (induction rule: rtranclp_induct)
    (auto intro: sample_deleter_queued deleter_reachable.stepped deleter_step.work)

lemma sample_removes_quietly: "quiet (m_RemoveAll (dc_mounter sample_deleter) p)"
  by (simp add: quiet_def sample_deleter_def sample_mounter_def)

subsection \<open>The properties\<close>

text \<open>
  C5 (only marked directories are removed): in every reachable state of the deleter, whatever else
  happens in the world, every path that was passed to \<open>RemoveAll\<close> is a direct entry of one of the
  configured shared volumes, and its name is this driver's deletion marker of a claim \<open>pvc-...\<close>.
\<close>

theorem only_marked_directories_removed:
  assumes "deleter_reachable cfg s" and "entry_names cfg" and "volumes_below cfg cs" and "p \<in> set (ds_removed s)"
  shows "\<exists>sv dir. sv \<in> TrimSpace ` set (dc_sharedVolumes cfg) \<and> HasPrefix dir ''pvc-'' \<and>
     p = abs_path (cs @ [sv, delete_marker (dc_nodeName cfg) dir])"
proof -
  have "marked_path cfg p"
    using deleter_inv_reachable [OF assms(1)] assms(4) by (simp add: deleter_inv_def)
  then show ?thesis by (rule marked_path_below [OF assms(2,3)]) blast
qed

theorem only_marked_directories_removed_witness:
  "\<exists>sv dir. sv \<in> TrimSpace ` set (dc_sharedVolumes sample_deleter) \<and> HasPrefix dir ''pvc-'' \<and>
     marked_sample = abs_path ([''mnt''] @ [sv, delete_marker (dc_nodeName sample_deleter) dir])"
  by (rule only_marked_directories_removed [OF sample_deleter_done sample_entry_names sample_volumes_below])
    (simp add: deleter_done_def)

text \<open>
  (the channel is bounded): in every reachable state at most \<open>parallelDeletes\<close> directories are in
  the channel, and at most as many are being removed.
\<close>

theorem deleter_bounds:
  assumes "deleter_reachable cfg s"
  shows "length (ds_channel s) \<le> dc_parallelDeletes cfg \<and> size (working (ds_workers s)) \<le> dc_parallelDeletes cfg"
proof -
  have "size (working ks) \<le> length ks" for ks
  proof (induction ks)
    case (Cons k ks)
    then show ?case by (cases k) (simp_all add: working_def)
  qed (simp add: working_def)
  then show ?thesis
    using deleter_inv_reachable [OF assms] unfolding deleter_inv_def by metis
qed

theorem deleter_bounds_witness:
  "length (ds_channel deleter_queued) \<le> 2 \<and> size (working (ds_workers deleter_queued)) \<le> 2"
  using deleter_bounds [OF sample_deleter_queued] by (simp add: sample_deleter_def)

text \<open>
  C11 (every queued directory is removed): sending, receiving and removing cannot go on for ever, and
  whenever none of the three is possible any more in a process that has not crashed, every directory that
  was queued at the start has been passed to \<open>RemoveAll\<close>; this needs one worker at least.
\<close>

theorem queued_directories_are_removed:
  assumes "deleter_reachable cfg s" and "entry_names cfg" and "volumes_below cfg cs"
    and "0 < dc_parallelDeletes cfg" and "ds_walker s \<noteq> Crashed" and "\<And>p. quiet (m_RemoveAll (dc_mounter cfg) p)"
  shows "wfp (\<lambda>s' s. work_step cfg s s') \<and>
     (\<forall>s'. (work_step cfg)\<^sup>*\<^sup>* s s' \<longrightarrow> (\<nexists>s''. work_step cfg s' s'') \<longrightarrow> set_mset (pending s) \<subseteq> set (ds_removed s'))"
  using drained_pipeline [OF assms] work_step_wf by blast

theorem queued_directories_are_removed_witness:
  "(work_step sample_deleter)\<^sup>*\<^sup>* deleter_queued deleter_done \<and> marked_sample \<in># pending deleter_queued \<and>
   marked_sample \<in> set (ds_removed deleter_done)"
proof -
  have stuck: "\<nexists>s. work_step sample_deleter deleter_done s"
    by (auto elim!: work_stepE simp: deleter_done_def deleter_queued_def less_Suc_eq nth_Cons' split: if_splits)
  have p: "marked_sample \<in># pending deleter_queued" by (simp add: pending_def deleter_queued_def)
  have "ds_walker deleter_queued \<noteq> Crashed" and "0 < dc_parallelDeletes sample_deleter"
    by (simp_all add: deleter_queued_def sample_deleter_def)
  with queued_directories_are_removed [OF sample_deleter_queued sample_entry_names sample_volumes_below _ _ sample_removes_quietly]
  have "set_mset (pending deleter_queued) \<subseteq> set (ds_removed deleter_done)"
    using sample_deleter_works stuck by blast
  with p sample_deleter_works show ?thesis by blast
qed

text \<open>
  (other claims are never cleaned up): a directory marked for deletion whose claim's name does not
  begin with \<open>pvc-\<close> is removed in no reachable state, although the deletion of the claim has succeeded.
\<close>

theorem unprefixed_claim_never_removed:
  assumes "deleter_reachable cfg s" and "entry_names cfg" and "volumes_below cfg cs"
    and "\<not> HasPrefix dir ''pvc-''" and "CHR ''/'' \<notin> set v" and "CHR ''/'' \<notin> set (delete_marker (dc_nodeName cfg) dir)"
  shows "abs_path (cs @ [v, delete_marker (dc_nodeName cfg) dir]) \<notin> set (ds_removed s)"
proof
  assume "abs_path (cs @ [v, delete_marker (dc_nodeName cfg) dir]) \<in> set (ds_removed s)"
  then have "marked_path cfg (abs_path (cs @ [v, delete_marker (dc_nodeName cfg) dir]))"
    using deleter_invD(1) [OF deleter_inv_reachable [OF assms(1)]] by simp
  then obtain sv dir' where d: "HasPrefix dir' ''pvc-''" "simple_name sv" "simple_name (delete_marker (dc_nodeName cfg) dir')"
    and eq: "abs_path (cs @ [v, delete_marker (dc_nodeName cfg) dir]) = abs_path (cs @ [sv, delete_marker (dc_nodeName cfg) dir'])"
    by (rule marked_path_below [OF assms(2,3)])
  have "cs @ [v, delete_marker (dc_nodeName cfg) dir] = cs @ [sv, delete_marker (dc_nodeName cfg) dir']"
    by (rule abs_path_inj [OF _ _ eq]) (use assms(3,5,6) d simple_nameD(4) in \<open>auto simp: volumes_below_def\<close>)
  then have "dir = dir'" using marker.mark_inj by auto
  with d(1) assms(4) show False by simp
qed

theorem unprefixed_claim_never_removed_witness:
  "''/mnt/sv/csi_delete_mydata'' \<notin> set (ds_removed deleter_done)"
  using unprefixed_claim_never_removed [OF sample_deleter_done sample_entry_names sample_volumes_below, of "''mydata''" "''sv''"]
  by (simp add: delete_marker_eq sample_deleter_def HasPrefix_def)

text \<open>
  (a shared volume that cannot be opened ends the process): when the clean-up begins with a
  configured volume whose directory cannot be opened, the walker panics, in a state from which nothing
  of the process, and so none of its workers, goes on.
\<close>

theorem unreadable_volume_crashes:
  assumes "dc_sharedVolumes cfg = v # vs" and "TrimSpace v \<noteq> []"
    and "dc_Open cfg (Join [dc_mountPath cfg, TrimSpace v]) w = (Err e, w')"
  shows "\<exists>s. deleter_reachable cfg s \<and> ds_walker s = Crashed \<and> (\<forall>s'. \<not> deleter_step cfg s s')"
proof -
  let ?s0 = "LaunchDirectoryDeleter cfg w"
  let ?s1 = "?s0\<lparr>ds_walker := Walking (dc_sharedVolumes cfg)\<rparr>"
  let ?s2 = "?s1\<lparr>ds_world := w', ds_walker := Crashed\<rparr>"
  have "deleter_step cfg ?s0 ?s1" by (rule deleter_step.wake) (simp add: LaunchDirectoryDeleter_def)
  then have "deleter_reachable cfg ?s1" by (rule deleter_reachable.stepped [OF deleter_reachable.launched])
  moreover have "scan_volume cfg v w = (Panic nil_dereference, w')"
    using assms(2,3) by (simp add: scan_volume_def Let_def)
  then have "deleter_step cfg ?s1 ?s2"
    by (intro deleter_step.crash [where v = v and vs = vs]) (simp_all add: assms(1) LaunchDirectoryDeleter_def)
  ultimately have "deleter_reachable cfg ?s2" by (rule deleter_reachable.stepped)
  moreover have "\<not> deleter_step cfg ?s2 s'" for s'
    by (auto elim!: deleter_stepE work_stepE)
  ultimately show ?thesis by (intro exI [of _ ?s2]) simp
qed

theorem unreadable_volume_crashes_witness:
  "\<exists>s. deleter_reachable (sample_deleter\<lparr>dc_Open := (\<lambda>p. throw_io no_entry)\<rparr>) s \<and> ds_walker s = Crashed"
  using unreadable_volume_crashes [of "sample_deleter\<lparr>dc_Open := (\<lambda>p. throw_io no_entry)\<rparr>" "'' sv''" "[]" empty_world no_entry empty_world]
  by (auto simp: sample_deleter_def TrimSpace_sv)

section \<open>A deleted claim and the walk\<close>

text \<open>
  A successful deletion of a directory that stood in a shared volume leaves it under its marker, and a
  walk that lists the marker queues a path the workers accept.
\<close>

lemma deleted_claim_marked:
  assumes "rename_contract view (mounter d)" and "\<not> UseDeleteFilesTask d"
    and "\<And>p. p \<in> {t, v, dir} \<Longrightarrow> CHR ''|'' \<notin> set p" and "\<not> HasPrefix t SnapshotVolumeHandlePrefix"
    and "\<And>w r w'. new_client d secrets w = (r, w') \<Longrightarrow> view w' = view w"
    and "DeleteVolume d \<lparr>dv_VolumeId = volume_handle [t, v, dir], dv_Secrets = secrets\<rparr> w = (Ok (), w')"
    and "view w (abs_path (cs @ [v, dir])) = Some n" and "clientMountPoint d = abs_path cs" and "volumes_below cfg cs"
    and "simple_name v" and "simple_name dir" and "simple_name (delete_marker (drv_Name d) dir)"
  shows "view w' (abs_path (cs @ [v, delete_marker (drv_Name d) dir])) = Some n"
proof -
  let ?f = "delete_marker (drv_Name d) dir"
  let ?old = "abs_path (cs @ [v, dir])" and ?new = "abs_path (cs @ [v, ?f])"
  have paths: "?old = Join [clientMountPoint d, v, dir]" "?new = Join [clientMountPoint d, v, ?f]"
    using Join_below(2) [OF assms(9,10)] assms(8,9,11,12) by (simp_all add: volumes_below_def)
  have ne: "?old \<noteq> ?new"
  proof
    assume "?old = ?new"
    then have "dir = ?f" by simp
    then have "length dir = length ?f" by metis
    then show False by (simp add: delete_marker_eq)
  qed
  show ?thesis
    using DeleteVolume_marks [where view = view, OF assms(1,2) _ assms(4) _ assms(6) paths ne] assms(3,5,7) by blast
qed

lemma marked_claim_scanned:
  assumes "HasPrefix dir ''pvc-''" and "volumes_below cfg cs" and "simple_name v"
    and "simple_name (delete_marker (dc_nodeName cfg) dir)" and "TrimSpace v' = v"
    and "dc_Open cfg (abs_path (cs @ [v])) w = (Ok (), w1)"
    and "dc_Readdirnames cfg (abs_path (cs @ [v])) w1 = ((names, err), w2)"
    and "delete_marker (dc_nodeName cfg) dir \<in> set names"
  shows "\<exists>ps. scan_volume cfg v' w = (Ok ps, w2) \<and> abs_path (cs @ [v, delete_marker (dc_nodeName cfg) dir]) \<in> set ps"
proof -
  let ?f = "delete_marker (dc_nodeName cfg) dir"
  have "HasPrefix ?f (marker_prefix (dc_nodeName cfg))"
    using marker.marked_claim [OF assms(1)] by simp
  with assms(8) have listed: "?f \<in> set (filter (\<lambda>f. HasPrefix f (marker_prefix (dc_nodeName cfg))) names)"
    by simp
  have root: "Join [dc_mountPath cfg, v] = abs_path (cs @ [v])"
    using assms(2,3) Join_abs_path [of cs "[v]"] by (simp add: volumes_below_def)
  have eq: "abs_path (cs @ [v, ?f]) = Join [abs_path (cs @ [v]), ?f]"
    using Join_below(1) [OF assms(2,3,4)] root by simp
  have "abs_path (cs @ [v, ?f]) \<in> set (map (\<lambda>f. Join [abs_path (cs @ [v]), f]) (filter (\<lambda>f. HasPrefix f (marker_prefix (dc_nodeName cfg))) names))"
    unfolding set_map by (rule image_eqI [where x = ?f]) (rule eq, rule listed)
  moreover have "scan_volume cfg v' w = (Ok (map (\<lambda>f. Join [abs_path (cs @ [v]), f])
       (filter (\<lambda>f. HasPrefix f (marker_prefix (dc_nodeName cfg))) names)), w2)"
    using simple_nameD(1) [OF assms(3)] assms(5,6,7) root by (simp add: scan_volume_def Let_def)
  ultimately show ?thesis by blast
qed

end
