(* ===== verification/Go_Url.thy ===== *)
theory Go_Url
  imports Go_Path
begin

text \<open>
  \<open>url.Parse\<close> of Go's \<open>net/url\<close>, as \<open>Run\<close> and \<open>main\<close> use it: the scheme, the authority, the path and
  what is refused. A host with a bracket (an IP literal) is parsed by the parameter \<open>ip_literal\<close>. The
  fields that nobody reads (user, query, fragment, and how the path was written) are not kept, but
  their errors are.
\<close>

record URL =
  url_Scheme :: string
  url_Opaque :: string
  url_Host :: string
  url_Path :: string

datatype url_part = HostPart | PathPart | UserPart | FragmentPart

section \<open>Characters\<close>

definition code :: "char \<Rightarrow> nat" where "code c = of_char c"

definition is_letter :: "char \<Rightarrow> bool" where
  "is_letter c \<longleftrightarrow> (65 \<le> code c \<and> code c \<le> 90) \<or> (97 \<le> code c \<and> code c \<le> 122)"

definition is_digit :: "char \<Rightarrow> bool" where
  "is_digit c \<longleftrightarrow> 48 \<le> code c \<and> code c \<le> 57"

definition hex_value :: "char \<Rightarrow> nat option" where
  "hex_value c =
     (if is_digit c then Some (code c - 48)
      else if 97 \<le> code c \<and> code c \<le> 102 then Some (code c - 87)
      else if 65 \<le> code c \<and> code c \<le> 70 then Some (code c - 55)
      else None)"

text \<open>The ASCII characters a host may contain unescaped.\<close>

definition host_char :: "char \<Rightarrow> bool" where
  "host_char c \<longleftrightarrow> is_letter c \<or> is_digit c \<or> 128 \<le> code c \<or>
     c \<in> set ([CHR 0x22] @ ''!$&'()*+,;=:[]<>-_.~'')"

section \<open>Unescaping\<close>

definition EscapeError :: "string \<Rightarrow> go_error" where
  "EscapeError s = ErrorString (''invalid URL escape '' @ [CHR 0x22] @ s @ [CHR 0x22])"

definition InvalidHostError :: "string \<Rightarrow> go_error" where
  "InvalidHostError s = ErrorString (''invalid character '' @ [CHR 0x22] @ s @ [CHR 0x22] @ '' in host name'')"

fun unescape :: "url_part \<Rightarrow> string \<Rightarrow> string outcome" where
  "unescape part [] = Ok []"
| "unescape part (c # s) =
     (if c = CHR ''%'' then
        (case s of
           h1 # h2 # rest \<Rightarrow>
             (case (hex_value h1, hex_value h2) of
                (Some v1, Some v2) \<Rightarrow>
                  if part = HostPart \<and> v1 < 8 \<and> [h1, h2] \<noteq> ''25'' then Err (EscapeError [c, h1, h2])
                  else bind_outcome (unescape part rest) (\<lambda>t. Ok (char_of (16 * v1 + v2) # t))
              | _ \<Rightarrow> Err (EscapeError [c, h1, h2]))
         | _ \<Rightarrow> Err (EscapeError (c # s)))
      else if part = HostPart \<and> \<not> host_char c then Err (InvalidHostError [c])
      else bind_outcome (unescape part s) (\<lambda>t. Ok (c # t)))"

section \<open>Parsing\<close>

text \<open>\<open>strings.Cut\<close> at a character: what stands before its first occurrence, and what after it.\<close>

definition cut_at :: "char \<Rightarrow> string \<Rightarrow> string \<times> string" where
  "cut_at c s = (takeWhile (\<lambda>x. x \<noteq> c) s, drop 1 (dropWhile (\<lambda>x. x \<noteq> c) s))"

text \<open>The text from the last occurrence of a character on, or nothing.\<close>

definition from_last :: "char \<Rightarrow> string \<Rightarrow> string option" where
  "from_last c s = (if c \<in> set s then Some (c # rev (takeWhile (\<lambda>x. x \<noteq> c) (rev s))) else None)"

fun scheme_from :: "string \<Rightarrow> string \<Rightarrow> (string \<times> string) outcome" where
  "scheme_from acc [] = Ok ([], rev acc)"
| "scheme_from acc (c # s) =
     (if is_letter c then scheme_from (c # acc) s
      else if is_digit c \<or> c \<in> set ''+-.'' then
        (if acc = [] then Ok ([], c # s) else scheme_from (c # acc) s)
      else if c = CHR '':'' then
        (if acc = [] then Err (ErrorString ''missing protocol scheme'') else Ok (rev acc, s))
      else Ok ([], rev acc @ c # s))"

definition getScheme :: "string \<Rightarrow> (string \<times> string) outcome" where
  "getScheme rawURL = scheme_from [] rawURL"

definition validOptionalPort :: "string \<Rightarrow> bool" where
  "validOptionalPort port \<longleftrightarrow> port = [] \<or> (hd port = CHR '':'' \<and> list_all is_digit (tl port))"

definition parseHost :: "(string \<Rightarrow> string outcome) \<Rightarrow> string \<Rightarrow> string outcome" where
  "parseHost ip_literal host =
     (if CHR ''['' \<in> set host then ip_literal host
      else (case from_last (CHR '':'') host of
              Some colonPort \<Rightarrow>
                if \<not> validOptionalPort colonPort
                then Err (Errorf (''invalid port '' @ [CHR 0x22] @ ''%s'' @ [CHR 0x22] @ '' after host'') [colonPort])
                else unescape HostPart host
            | None \<Rightarrow> unescape HostPart host))"

definition validUserinfo :: "string \<Rightarrow> bool" where
  "validUserinfo s \<longleftrightarrow> list_all (\<lambda>c. is_letter c \<or> is_digit c \<or> c \<in> set ''-._:~!$&'()*+,;=%@'') s"

definition parseAuthority :: "(string \<Rightarrow> string outcome) \<Rightarrow> string \<Rightarrow> string outcome" where
  "parseAuthority ip_literal authority =
     (case from_last (CHR ''@'') authority of
        None \<Rightarrow> parseHost ip_literal authority
      | Some at_host \<Rightarrow>
          bind_outcome (parseHost ip_literal (tl at_host)) (\<lambda>host.
          let userinfo = take (length authority - length at_host) authority;
              parts = cut_at (CHR '':'') userinfo
          in if \<not> validUserinfo userinfo then Err (ErrorString ''net/url: invalid userinfo'')
             else bind_outcome (unescape UserPart (fst parts)) (\<lambda>_.
                  bind_outcome (unescape UserPart (snd parts)) (\<lambda>_. Ok host))))"

text \<open>The part of \<open>parse\<close> after the scheme and the query have been cut off.\<close>

definition parse_rest :: "(string \<Rightarrow> string outcome) \<Rightarrow> string \<Rightarrow> string \<Rightarrow> URL outcome" where
  "parse_rest ip_literal scheme rest =
     (if \<not> HasPrefix rest ''/'' \<and> scheme \<noteq> [] then
        Ok \<lparr>url_Scheme = scheme, url_Opaque = rest, url_Host = [], url_Path = []\<rparr>
      else if \<not> HasPrefix rest ''/'' \<and> CHR '':'' \<in> set (fst (cut_at (CHR ''/'') rest)) then
        Err (ErrorString ''first path segment in URL cannot contain colon'')
      else if (scheme \<noteq> [] \<or> \<not> HasPrefix rest ''///'') \<and> HasPrefix rest ''//'' then
        (let authority = takeWhile (\<lambda>x. x \<noteq> CHR ''/'') (drop 2 rest);
             path = dropWhile (\<lambda>x. x \<noteq> CHR ''/'') (drop 2 rest)
         in bind_outcome (parseAuthority ip_literal authority) (\<lambda>host.
            bind_outcome (unescape PathPart path) (\<lambda>p.
              Ok \<lparr>url_Scheme = scheme, url_Opaque = [], url_Host = host, url_Path = p\<rparr>)))
      else
        bind_outcome (unescape PathPart rest) (\<lambda>p.
          Ok \<lparr>url_Scheme = scheme, url_Opaque = [], url_Host = [], url_Path = p\<rparr>))"

definition parse_url :: "(string \<Rightarrow> string outcome) \<Rightarrow> string \<Rightarrow> URL outcome" where
  "parse_url ip_literal rawURL =
     (if list_ex (\<lambda>c. code c < 32 \<or> code c = 127) rawURL then
        Err (ErrorString ''net/url: invalid control character in URL'')
      else if rawURL = ''*'' then Ok \<lparr>url_Scheme = [], url_Opaque = [], url_Host = [], url_Path = ''*''\<rparr>
      else bind_outcome (getScheme rawURL) (\<lambda>(scheme, rest).
             parse_rest ip_literal (ToLower scheme) (fst (cut_at (CHR ''?'') rest))))"

definition parse_error :: "string \<Rightarrow> go_error \<Rightarrow> go_error" where
  "parse_error u err = ErrorString (''parse '' @ [CHR 0x22] @ u @ [CHR 0x22] @ '': '' @ Error err)"

definition url_Parse :: "(string \<Rightarrow> string outcome) \<Rightarrow> string \<Rightarrow> URL outcome" where
  "url_Parse ip_literal rawURL =
     (case cut_at (CHR ''#'') rawURL of (u, frag) \<Rightarrow>
        (case parse_url ip_literal u of
           Err err \<Rightarrow> Err (parse_error u err)
         | Panic p \<Rightarrow> Panic p
         | Ok url \<Rightarrow>
             (case unescape FragmentPart frag of
                Err err \<Rightarrow> Err (parse_error rawURL err)
              | Panic p \<Rightarrow> Panic p
              | Ok _ \<Rightarrow> Ok url)))"

section \<open>Plain paths\<close>

text \<open>Characters that stand for themselves in the path of a URL.\<close>

definition path_char :: "char \<Rightarrow> bool" where
  "path_char c \<longleftrightarrow> is_letter c \<or> is_digit c \<or> c \<in> set ''/-_.~''"

lemma path_char_plain:
  assumes "path_char c"
  shows "c \<noteq> CHR ''%''" and "c \<noteq> CHR ''?''" and "c \<noteq> CHR ''#''" and "\<not> (code c < 32 \<or> code c = 127)"
  using assms by (auto simp: path_char_def is_letter_def is_digit_def code_def)

lemma unescape_plain: "\<forall>c \<in> set s. path_char c \<Longrightarrow> unescape PathPart s = Ok s"
  by (induction s) (auto simp: path_char_plain(1))

lemma unescape_no_panic [simp]: "unescape part s \<noteq> Panic p"
proof -
  have "length s \<le> n \<Longrightarrow> unescape part s \<noteq> Panic p" for n
  proof (induction n arbitrary: s)
    case (Suc n)
    then show ?case by (cases s) (auto simp: bind_outcome_Panic split: list.splits option.splits if_splits)
  qed simp
  then show ?thesis by blast
qed

lemma scheme_from_no_panic [simp]: "scheme_from acc s \<noteq> Panic p"
  by (induction acc s rule: scheme_from.induct) auto

lemma parseAuthority_no_panic:
  assumes "\<And>h. ip_literal h \<noteq> Panic p"
  shows "parseAuthority ip_literal s \<noteq> Panic p"
  using assms
  by (auto simp: parseAuthority_def parseHost_def Let_def bind_outcome_Panic split: option.splits if_splits)

lemma url_Parse_no_panic:
  assumes "\<And>h. ip_literal h \<noteq> Panic p"
  shows "url_Parse ip_literal s \<noteq> Panic p"
proof -
  have "parse_rest ip_literal scheme rest \<noteq> Panic p" for scheme rest
    using parseAuthority_no_panic [OF assms] by (auto simp: parse_rest_def Let_def bind_outcome_Panic)
  then have "parse_url ip_literal u \<noteq> Panic p" for u
    by (auto simp: parse_url_def getScheme_def bind_outcome_Panic)
  then show ?thesis by (auto simp: url_Parse_def split: prod.splits outcome.splits)
qed

lemma takeWhile_free: "\<forall>x \<in> set s. x \<noteq> c \<Longrightarrow> takeWhile (\<lambda>x. x \<noteq> c) s = s"
  by (simp add: takeWhile_eq_all_conv)

lemma cut_free:
  assumes "\<forall>x \<in> set s. x \<noteq> c"
  shows "cut_at c s = (s, [])"
proof -
  have "dropWhile (\<lambda>x. x \<noteq> c) s = []" using assms by simp
  then show ?thesis unfolding cut_at_def by (simp only: takeWhile_free [OF assms] drop_Nil)
qed

text \<open>The form of the driver's default endpoint: the scheme \<open>unix\<close>, no host, an absolute path.\<close>

lemma url_Parse_unix:
  assumes "\<forall>c \<in> set p. path_char c" and "HasPrefix p ''/''"
  shows "url_Parse ip_literal (''unix://'' @ p) = Ok \<lparr>url_Scheme = ''unix'', url_Opaque = [], url_Host = [], url_Path = p\<rparr>"
proof -
  have free: "\<forall>x \<in> set p. x \<noteq> CHR ''#''" "\<forall>x \<in> set p. x \<noteq> CHR ''?''"
    using assms(1) path_char_plain(2,3) by blast+
  obtain q where p: "p = CHR ''/'' # q" using assms(2) by (auto simp: HasPrefix_def prefix_def)
  have ctl: "\<not> list_ex (\<lambda>c. code c < 32 \<or> code c = 127) (''unix://'' @ p)"
    using assms(1) path_char_plain(4) by (auto simp: list_ex_iff code_def)
  have scheme: "getScheme (''unix://'' @ p) = Ok (''unix'', ''//'' @ p)"
    by (simp add: getScheme_def is_letter_def is_digit_def code_def)
  have lower: "ToLower ''unix'' = ''unix''" by code_simp
  have "parse_rest ip_literal ''unix'' (''//'' @ p) = Ok \<lparr>url_Scheme = ''unix'', url_Opaque = [], url_Host = [], url_Path = p\<rparr>"
    using unescape_plain [OF assms(1)]
    by (simp add: parse_rest_def HasPrefix_def p parseAuthority_def from_last_def parseHost_def)
  then have "parse_url ip_literal (''unix://'' @ p) = Ok \<lparr>url_Scheme = ''unix'', url_Opaque = [], url_Host = [], url_Path = p\<rparr>"
    using ctl free(2) by (simp add: parse_url_def scheme [simplified] lower cut_free)
  moreover have "cut_at (CHR ''#'') (''unix://'' @ p) = (''unix://'' @ p, [])"
    using free(1) by (simp add: cut_free)
  ultimately show ?thesis by (simp add: url_Parse_def)
qed

end
