(* ===== verification/Driver.thy ===== *)
theory Driver
  imports Services Directory_Deleter Go_Url
begin

text \<open>
  \<open>driver/driver.go\<close> and \<open>cmd/main.go\<close>: the driver value and its text, the start of the gRPC server on a
  unix domain socket, and the program: its flags, which role starts the clean-up of shared volumes, and
  the exit code. Removing the socket file, listening and serving are parameters.
\<close>

section \<open>The driver value\<close>

text \<open>
  The fields are positional in the code. The URL is kept by its text, \<open>ApiURL.String()\<close>; the server
  field and the embedded default implementations of the services have no counterpart here. The
  production mounter is made without a node name.
\<close>

definition NewQuobyteDriver ::
  "('w, 'cl) lru_cache \<Rightarrow> ('w, 'cl) client_package \<Rightarrow> 'w os_calls \<Rightarrow> string \<Rightarrow> string \<Rightarrow> string \<Rightarrow> string \<Rightarrow> string \<Rightarrow>
   string \<Rightarrow> bool \<Rightarrow> bool \<Rightarrow> bool \<Rightarrow> int \<Rightarrow> bool \<Rightarrow> bool \<Rightarrow> 'w QuobyteDriver" where
  "NewQuobyteDriver clientCache quobyte os ep mount nodeName driverName driverVersion apiURL
     useNamespaceAsQuobyteTenant enableQuobyteAccessKeyMounts erase quobyteVersion enableVolumeMetrics useDeleteFilesTask =
     \<lparr>drv_Name = driverName, drv_Version = driverVersion, endpoint = ep, clientMountPoint = mount,
      NodeName = nodeName, ApiURL = apiURL, UseK8SNamespaceAsQuobyteTenant = useNamespaceAsQuobyteTenant,
      IsQuobyteAccessKeyMountsEnabled = enableQuobyteAccessKeyMounts, ImmediateErase = erase,
      QuobyteVersion = quobyteVersion, enabledVolumeMetrics = enableVolumeMetrics,
      UseDeleteFilesTask = useDeleteFilesTask,
      NewQuobyteApiClient = QuobyteApiClientFactory clientCache quobyte,
      mounter = LinuxMounter os []\<rparr>"

definition show_bool :: "bool \<Rightarrow> string" where
  "show_bool b = (if b then ''true'' else ''false'')"

definition driver_String :: "'w QuobyteDriver \<Rightarrow> string" where
  "driver_String d =
     Sprintf (''DriverName: %s, Version: %s, socket: %s, ClientMountPoint: %s,'' @
       ''NodeName: %s, ApiURL: %s, UseK8SNamespaceAsQuobyteTenant: %t, IsQuobyteAccessKeyMountsEnabled: %t'' @
       ''ImmediateErase: %t, QuobyteVersion: %d, EnabledVolumeMetrics: %t, UseDeleteFilesTask: %t'')
       [drv_Name d, drv_Version d, endpoint d, clientMountPoint d, NodeName d, ApiURL d,
        show_bool (UseK8SNamespaceAsQuobyteTenant d), show_bool (IsQuobyteAccessKeyMountsEnabled d),
        show_bool (ImmediateErase d), Itoa (QuobyteVersion d), show_bool (enabledVolumeMetrics d),
        show_bool (UseDeleteFilesTask d)]"

section \<open>Run\<close>

record 'w server_calls =
  sv_Remove :: "string \<Rightarrow> ('w, unit) io"
  sv_Listen :: "string \<Rightarrow> string \<Rightarrow> ('w, unit) io"
  sv_Serve :: "('w, unit) io"
  sv_Stop :: "('w, unit) io"

text \<open>\<open>os.IsNotExist\<close>, on the error or the one inside a path or link error.\<close>

fun is_not_exist :: "go_error \<Rightarrow> bool" where
  "is_not_exist (PathError opn p e) = is_errno ENOENT e"
| "is_not_exist (LinkError opn old new e) = is_errno ENOENT e"
| "is_not_exist e = is_errno ENOENT e"

definition socket_address :: "URL \<Rightarrow> string" where
  "socket_address u = (if length (url_Host u) = 0 then url_Path u else Join [url_Host u, url_Path u])"

text \<open>An error of \<open>url.Parse\<close> is logged only; the code goes on with the nil URL it returned.\<close>

definition Run :: "(string \<Rightarrow> string outcome) \<Rightarrow> 'w server_calls \<Rightarrow> 'w QuobyteDriver \<Rightarrow> ('w, unit) io" where
  "Run ip_literal srv d =
     (if length (clientMountPoint d) = 0 then
        throw_io (Errorf ''--quobyte_mount_path is required. Supplied value should match environment variable QUOBYTE_MOUNT_POINT of Quobyte client pod.'' [])
      else if length (drv_Name d) = 0 then throw_io (Errorf ''--driver_name should not be empty'' [])
      else if length (drv_Version d) = 0 then throw_io (Errorf ''--driver_version should not be empty'' [])
      else (case url_Parse ip_literal (endpoint d) of
          Err err \<Rightarrow> panic_io nil_dereference
        | Panic p \<Rightarrow> panic_io p
        | Ok u \<Rightarrow>
            let address = socket_address u
            in if url_Scheme u \<noteq> ''unix'' then
                 throw_io (Errorf ''CSI currently only supports unix domain sockets, given %s'' [url_Scheme u])
               else
                 bind_io (try_io (sv_Remove srv address)) (\<lambda>removed.
                 case (case removed of Inl err \<Rightarrow> if is_not_exist err then None else Some err | Inr _ \<Rightarrow> None) of
                   Some err \<Rightarrow>
                     throw_io (Errorf ''failed to remove unix domain socket file %s, error: %v'' [address, Error err])
                 | None \<Rightarrow>
                     bind_io (sv_Listen srv (url_Scheme u) address) (\<lambda>_. sv_Serve srv))))"

text \<open>The server field of the driver is nil until \<open>Run\<close> sets it.\<close>

definition driver_stop :: "'w server_calls option \<Rightarrow> ('w, unit) io" where
  "driver_stop server =
     (case server of None \<Rightarrow> panic_io nil_dereference | Some srv \<Rightarrow> sv_Stop srv)"

section \<open>The program\<close>

datatype DriverRole = NoRole | Node_Driver | Controller

text \<open>The value of the flag \<open>-role\<close>. Without the flag the role is the zero value \<open>NoRole\<close>.\<close>

definition parse_role :: "string \<Rightarrow> DriverRole outcome" where
  "parse_role flagValue =
     (if length flagValue = 0 then Err (Errorf ''-role is required'' [])
      else if ToLower flagValue = ''node_driver'' then Ok Node_Driver
      else if ToLower flagValue = ''controller'' then Ok Controller
      else Err (Errorf ''Unknown role value %s'' [flagValue]))"

record flags =
  f_role :: "string option"
  f_csi_socket :: string
  f_quobyte_mount_path :: string
  f_api_url :: string
  f_node_name :: string
  f_driver_name :: string
  f_driver_version :: string
  f_use_k8s_namespace_as_tenant :: bool
  f_enable_access_key_mounts :: bool
  f_enable_volume_metrics :: bool
  f_immediate_erase :: bool
  f_quobyte_version :: int
  f_shared_volumes_list :: string
  f_parallel_deletions :: int
  f_use_delete_files_task :: bool

definition default_flags :: flags where
  "default_flags =
     \<lparr>f_role = None, f_csi_socket = ''unix:///var/lib/kubelet/plugins/quobyte-csi/csi.sock'',
      f_quobyte_mount_path = ''/mnt/quobyte/mounts'', f_api_url = [], f_node_name = [], f_driver_name = [],
      f_driver_version = [], f_use_k8s_namespace_as_tenant = False, f_enable_access_key_mounts = False,
      f_enable_volume_metrics = False, f_immediate_erase = False, f_quobyte_version = 3,
      f_shared_volumes_list = [], f_parallel_deletions = 10, f_use_delete_files_task = False\<rparr>"

definition flag_role :: "flags \<Rightarrow> DriverRole outcome" where
  "flag_role fl = (case f_role fl of None \<Rightarrow> Ok NoRole | Some v \<Rightarrow> parse_role v)"

text \<open>The arguments of the call of \<open>LaunchDirectoryDeleter\<close>, when \<open>main\<close> makes it.\<close>

record cleanup =
  cl_nodeName :: string
  cl_mountPath :: string
  cl_sharedVolumes :: "string list"
  cl_parallelDeletes :: int

definition cleanup_of :: "DriverRole \<Rightarrow> flags \<Rightarrow> cleanup option" where
  "cleanup_of role fl =
     (if role = Controller \<and> \<not> f_use_delete_files_task fl then
        (let sharedVols = Split (f_shared_volumes_list fl) '',''
         in if 0 < length sharedVols \<and> 0 < f_parallel_deletions fl
            then Some \<lparr>cl_nodeName = f_driver_name fl, cl_mountPath = f_quobyte_mount_path fl,
                       cl_sharedVolumes = sharedVols, cl_parallelDeletes = f_parallel_deletions fl\<rparr>
            else None)
      else None)"

definition driver_of ::
  "('w, 'cl) lru_cache \<Rightarrow> ('w, 'cl) client_package \<Rightarrow> 'w os_calls \<Rightarrow> string \<Rightarrow> flags \<Rightarrow> 'w QuobyteDriver" where
  "driver_of clientCache quobyte os apiURL fl =
     NewQuobyteDriver clientCache quobyte os (f_csi_socket fl) (f_quobyte_mount_path fl) (f_node_name fl)
       (f_driver_name fl) (f_driver_version fl) apiURL (f_use_k8s_namespace_as_tenant fl)
       (f_enable_access_key_mounts fl) (f_immediate_erase fl) (f_quobyte_version fl)
       (f_enable_volume_metrics fl) (f_use_delete_files_task fl)"

text \<open>
  The program's result is its exit code, with the clean-up it has launched; a rejected flag ends it
  with code 2, as the \<open>flag\<close> package does. \<open>url_String\<close> is the \<open>String\<close> method of a parsed URL.
\<close>

definition main ::
  "(string \<Rightarrow> string outcome) \<Rightarrow> (URL \<Rightarrow> string) \<Rightarrow> 'w server_calls \<Rightarrow> ('w, 'cl) lru_cache \<Rightarrow>
   ('w, 'cl) client_package \<Rightarrow> 'w os_calls \<Rightarrow> flags \<Rightarrow> ('w, cleanup option \<times> nat) io" where
  "main ip_literal url_String srv clientCache quobyte os fl =
     (case flag_role fl of
        Err err \<Rightarrow> return_io (None, 2)
      | Panic p \<Rightarrow> panic_io p
      | Ok role \<Rightarrow>
          if f_quobyte_version fl \<noteq> 3 \<and> f_quobyte_version fl \<noteq> 4 then return_io (None, 1)
          else (case url_Parse ip_literal (f_api_url fl) of
              Err err \<Rightarrow> return_io (None, 1)
            | Panic p \<Rightarrow> panic_io p
            | Ok apiURL \<Rightarrow>
                let launched = cleanup_of role fl;
                    qd = driver_of clientCache quobyte os (url_String apiURL) fl
                in bind_io (try_io (Run ip_literal srv qd)) (\<lambda>r.
                     case r of Inl err \<Rightarrow> return_io (launched, 1) | Inr _ \<Rightarrow> return_io (launched, 0))))"

text \<open>The clean-up that is launched, as a configuration of the deleter on given system calls.\<close>

definition deleter_of :: "cleanup \<Rightarrow> ('w deleter_config \<Rightarrow> 'w deleter_config)" where
  "deleter_of c cfg =
     cfg\<lparr>dc_nodeName := cl_nodeName c, dc_mountPath := cl_mountPath c, dc_sharedVolumes := cl_sharedVolumes c,
         dc_parallelDeletes := nat (cl_parallelDeletes c)\<rparr>"

section \<open>Properties\<close>

text \<open>
  C35 (serving on a unix socket): for a driver with a mount point, a name and a version whose endpoint
  is \<open>unix://\<close> with an absolute path of plain characters, \<open>Run\<close> removes a stale socket at exactly this
  path, listens there, and then serves; it fails where the removal fails for another reason than
  a missing file.
\<close>

theorem Run_serves_unix_socket:
  assumes "clientMountPoint d \<noteq> []" and "drv_Name d \<noteq> []" and "drv_Version d \<noteq> []"
    and "endpoint d = ''unix://'' @ path" and "\<forall>c \<in> set path. path_char c" and "HasPrefix path ''/''"
    and "sv_Remove srv path w = (r, w1)"
  shows "Run ip_literal srv d w =
     (case r of
        Ok _ \<Rightarrow> bind_io (sv_Listen srv ''unix'' path) (\<lambda>_. sv_Serve srv) w1
      | Err e \<Rightarrow>
          if is_not_exist e then bind_io (sv_Listen srv ''unix'' path) (\<lambda>_. sv_Serve srv) w1
          else (Err (Errorf ''failed to remove unix domain socket file %s, error: %v'' [path, Error e]), w1)
      | Panic p \<Rightarrow> (Panic p, w1))"
proof -
  have u: "url_Parse ip_literal (endpoint d) = Ok \<lparr>url_Scheme = ''unix'', url_Opaque = [], url_Host = [], url_Path = path\<rparr>"
    unfolding assms(4) by (rule url_Parse_unix [OF assms(5,6)])
  show ?thesis
    using assms(1-3,7) by (cases r) (simp_all add: Run_def u socket_address_def)
qed

definition sample_server :: "sample server_calls" where
  "sample_server =
     \<lparr>sv_Remove = (\<lambda>p w. (Err (PathError ''remove'' p no_entry), w)),
      sv_Listen = (\<lambda>n p. logged (''listen '' @ p)), sv_Serve = logged ''serve'', sv_Stop = logged ''stop''\<rparr>"

theorem Run_serves_unix_socket_witness:
  "\<exists>w'. Run (\<lambda>h. Ok h) sample_server (sample_driver (Ok ())) empty_world = (Ok (), w') \<and>
     log w' = [''listen /csi.sock'', ''serve'']"
proof -
  have "clientMountPoint (sample_driver (Ok ())) \<noteq> []" and "drv_Name (sample_driver (Ok ())) \<noteq> []"
    and "drv_Version (sample_driver (Ok ())) \<noteq> []" and "endpoint (sample_driver (Ok ())) = ''unix://'' @ ''/csi.sock''"
    by (simp_all add: sample_driver_def)
  moreover have "\<forall>c \<in> set ''/csi.sock''. path_char c" and "HasPrefix ''/csi.sock'' ''/''"
    by (simp_all add: HasPrefix_def path_char_def is_letter_def is_digit_def code_def)
  moreover have "sv_Remove sample_server ''/csi.sock'' empty_world
      = (Err (PathError ''remove'' ''/csi.sock'' no_entry), empty_world)"
    by (simp add: sample_server_def)
  ultimately show ?thesis
    by (subst Run_serves_unix_socket) (assumption | simp add: sample_server_def logged_def no_entry_def empty_world_def)+
qed

text \<open>
  (a malformed endpoint crashes the process): when the other flags are given and the endpoint does
  not parse, the error is logged and the nil URL used, so that \<open>Run\<close> panics where it should fail.
\<close>

theorem Run_panics_on_malformed_endpoint:
  assumes "clientMountPoint d \<noteq> []" and "drv_Name d \<noteq> []" and "drv_Version d \<noteq> []"
    and "url_Parse ip_literal (endpoint d) = Err e"
  shows "Run ip_literal srv d = panic_io nil_dereference"
  using assms by (simp add: Run_def del: panic_io_eval)

lemma malformed_endpoint: "\<exists>e. url_Parse ip_literal ''unix:///csi%zz'' = Err e"
proof -
  have c: "cut_at (CHR ''#'') ''unix:///csi%zz'' = (''unix:///csi%zz'', [])" by (rule cut_free) simp
  have q: "cut_at (CHR ''?'') ''///csi%zz'' = (''///csi%zz'', [])" by (rule cut_free) simp
  have l: "ToLower ''unix'' = ''unix''" by code_simp
  have s: "getScheme ''unix:///csi%zz'' = Ok (''unix'', ''///csi%zz'')"
    by (simp add: getScheme_def is_letter_def is_digit_def code_def)
  have "parse_rest ip_literal ''unix'' ''///csi%zz'' = Err (EscapeError ''%zz'')"
    by (simp add: parse_rest_def HasPrefix_def parseAuthority_def from_last_def parseHost_def hex_value_def is_digit_def code_def)
  then have "parse_url ip_literal ''unix:///csi%zz'' = Err (EscapeError ''%zz'')"
    unfolding parse_url_def s by (simp add: l q code_def)
  then show ?thesis unfolding url_Parse_def c by simp
qed

theorem Run_panics_on_malformed_endpoint_witness:
  "Run (\<lambda>h. Ok h) sample_server ((sample_driver (Ok ()))\<lparr>endpoint := ''unix:///csi%zz''\<rparr>) = panic_io nil_dereference"
proof -
  obtain e where "url_Parse (\<lambda>h. Ok h) ''unix:///csi%zz'' = Err e" using malformed_endpoint by blast
  then show ?thesis
    by (intro Run_panics_on_malformed_endpoint [where e = e]) (simp_all add: sample_driver_def)
qed

text \<open>
  (when the clean-up runs): it is launched exactly for the controller role without the
  delete-files task and with a positive number of parallel deletions, whatever the list of shared volumes
  is; with the empty list its walker has one volume, the empty name, and a walk of it reads nothing.
\<close>

theorem cleanup_launched_iff:
  "(cleanup_of role fl \<noteq> None \<longleftrightarrow> role = Controller \<and> \<not> f_use_delete_files_task fl \<and> 0 < f_parallel_deletions fl) \<and>
   (f_shared_volumes_list fl = [] \<longrightarrow> cleanup_of role fl = Some c \<longrightarrow>
      cl_sharedVolumes c = [[]] \<and> (\<forall>cfg. scan_volume cfg (hd (cl_sharedVolumes c)) = return_io []))"
proof -
  have "0 < length (Split (f_shared_volumes_list fl) '','')" by (simp add: length_split_char)
  then have "cleanup_of role fl \<noteq> None \<longleftrightarrow> role = Controller \<and> \<not> f_use_delete_files_task fl \<and> 0 < f_parallel_deletions fl"
    by (simp add: cleanup_of_def Let_def)
  moreover have "scan_volume cfg [] = return_io []" for cfg :: "'a deleter_config"
    by (simp add: scan_volume_def TrimSpace_def Let_def)
  ultimately show ?thesis by (auto simp: cleanup_of_def Let_def split: if_splits)
qed

theorem cleanup_launched_iff_witness:
  "\<exists>c. cleanup_of Controller default_flags = Some c \<and> cl_sharedVolumes c = [[]]"
proof -
  have e: "f_shared_volumes_list default_flags = []" by (simp add: default_flags_def)
  obtain c where c: "cleanup_of Controller default_flags = Some c"
    using cleanup_launched_iff [of Controller default_flags] by (auto simp: default_flags_def)
  have "cl_sharedVolumes c = [[]]"
    using cleanup_launched_iff [of Controller default_flags c, THEN conjunct2, rule_format, OF e c] by (rule conjunct1)
  with c show ?thesis by blast
qed

text \<open>
  C36 (the clean-up and the deletion agree): when the program launches a clean-up, the driver it runs marks
  directories, and does so with the name and below the mount point that the clean-up looks for; the
  program then ends with code 0 or 1 and never runs a clean-up for a configuration it refuses.
\<close>

theorem main_wires_cleanup:
  assumes "main ip_literal url_String srv clientCache quobyte os fl w = (Ok (Some c, exit), w')"
  shows "\<exists>apiURL. let d = driver_of clientCache quobyte os apiURL fl
     in cl_nodeName c = drv_Name d \<and> cl_mountPath c = clientMountPoint d \<and> \<not> UseDeleteFilesTask d \<and>
        0 < dc_parallelDeletes (deleter_of c cfg) \<and> f_quobyte_version fl \<in> {3, 4} \<and> exit \<in> {0, 1} \<and>
        flag_role fl = Ok Controller"
proof -
  from assms obtain role apiURL where role: "flag_role fl = Ok role" and v: "f_quobyte_version fl \<in> {3, 4}"
    and u: "url_Parse ip_literal (f_api_url fl) = Ok apiURL"
    and run: "bind_io (try_io (Run ip_literal srv (driver_of clientCache quobyte os (url_String apiURL) fl))) (\<lambda>r.
        case r of Inl err \<Rightarrow> return_io (cleanup_of role fl, 1) | Inr _ \<Rightarrow> return_io (cleanup_of role fl, 0)) w = (Ok (Some c, exit), w')"
    unfolding main_def Let_def by (cases "flag_role fl"; cases "url_Parse ip_literal (f_api_url fl)") (auto split: if_splits)
  from run obtain r :: "go_error + unit" and w1 where
    "(case r of Inl err \<Rightarrow> return_io (cleanup_of role fl, 1) | Inr u \<Rightarrow> return_io (cleanup_of role fl, 0)) w1 = (Ok (Some c, exit), w')"
    unfolding bind_io_Ok by (elim exE conjE) (rule that, assumption)
  then have c: "cleanup_of role fl = Some c" and "exit \<in> {0, 1}"
    by (cases r; simp)+
  moreover from c have "role = Controller \<and> \<not> f_use_delete_files_task fl \<and> 0 < f_parallel_deletions fl \<and>
      cl_nodeName c = f_driver_name fl \<and> cl_mountPath c = f_quobyte_mount_path fl \<and> cl_parallelDeletes c = f_parallel_deletions fl"
    by (auto simp: cleanup_of_def Let_def split: if_splits)
  ultimately show ?thesis
    using role v by (auto simp: Let_def driver_of_def NewQuobyteDriver_def deleter_of_def)
qed

definition sample_flags :: flags where
  "sample_flags = default_flags
     \<lparr>f_role := Some ''Controller'', f_csi_socket := ''unix:///csi.sock'', f_driver_name := ''csi'',
      f_driver_version := ''1'', f_shared_volumes_list := ''v''\<rparr>"

lemma empty_api_url: "url_Parse ip_literal [] = Ok \<lparr>url_Scheme = [], url_Opaque = [], url_Host = [], url_Path = []\<rparr>"
proof -
  have "ToLower [] = []" by code_simp
  then show ?thesis
    by (simp add: url_Parse_def cut_at_def parse_url_def getScheme_def parse_rest_def HasPrefix_def)
qed

lemma sample_endpoint:
  "url_Parse ip_literal ''unix:///csi.sock''
     = Ok \<lparr>url_Scheme = ''unix'', url_Opaque = [], url_Host = [], url_Path = ''/csi.sock''\<rparr>"
  using url_Parse_unix [of "''/csi.sock''" ip_literal]
  by (simp add: HasPrefix_def path_char_def is_letter_def is_digit_def code_def)

lemma sample_main_runs:
  "\<exists>w'. main ip_literal url_String sample_server clientCache quobyte os sample_flags empty_world
     = (Ok (cleanup_of Controller sample_flags, 0), w')"
proof -
  have role: "flag_role sample_flags = Ok Controller"
  proof -
    have "ToLower ''Controller'' = ''controller''" by code_simp
    then show ?thesis by (simp add: flag_role_def sample_flags_def parse_role_def)
  qed
  have api: "f_api_url sample_flags = []" and v: "f_quobyte_version sample_flags = 3"
    by (simp_all add: sample_flags_def default_flags_def)
  have "\<exists>w'. Run ip_literal sample_server (driver_of clientCache quobyte os a sample_flags) empty_world = (Ok (), w')" for a
    by (simp add: Run_def driver_of_def NewQuobyteDriver_def sample_flags_def default_flags_def sample_endpoint
        socket_address_def sample_server_def logged_def no_entry_def bind_io_def try_io_def)
  then obtain w' where "Run ip_literal sample_server
      (driver_of clientCache quobyte os (url_String \<lparr>url_Scheme = [], url_Opaque = [], url_Host = [], url_Path = []\<rparr>) sample_flags)
      empty_world = (Ok (), w')" by blast
  then show ?thesis
    by (simp add: main_def role api v empty_api_url Let_def bind_io_def try_io_def)
qed

theorem main_wires_cleanup_witness:
  "\<forall>clientCache quobyte os. \<exists>c w'.
     main (\<lambda>h. Ok h) (\<lambda>u. url_Path u) sample_server clientCache quobyte os sample_flags empty_world = (Ok (Some c, 0), w') \<and>
     cl_nodeName c = ''csi'' \<and> cl_mountPath c = ''/mnt/quobyte/mounts'' \<and> 0 < dc_parallelDeletes (deleter_of c sample_deleter)"
proof (intro allI)
  fix clientCache :: "(sample, 'a) lru_cache" and quobyte os
  let ?m = "main (\<lambda>h. Ok h) (\<lambda>u. url_Path u) sample_server clientCache quobyte os sample_flags empty_world"
  have "cleanup_of Controller sample_flags \<noteq> None"
    by (simp add: cleanup_of_def sample_flags_def default_flags_def Let_def length_split_char)
  then obtain c w' where m: "?m = (Ok (Some c, 0), w')"
    using sample_main_runs [of "\<lambda>h. Ok h" "\<lambda>u. url_Path u" clientCache quobyte os] by auto
  have "cl_nodeName c = ''csi'' \<and> cl_mountPath c = ''/mnt/quobyte/mounts'' \<and> 0 < dc_parallelDeletes (deleter_of c sample_deleter)"
    using main_wires_cleanup [OF m, of sample_deleter]
    by (simp add: Let_def driver_of_def NewQuobyteDriver_def sample_flags_def default_flags_def)
  with m show "\<exists>c w'. ?m = (Ok (Some c, 0), w') \<and> cl_nodeName c = ''csi'' \<and> cl_mountPath c = ''/mnt/quobyte/mounts'' \<and>
     0 < dc_parallelDeletes (deleter_of c sample_deleter)"
    by blast
qed

end
