(* ===== verification/Volume_Service.thy ===== *)
theory Volume_Service
  imports Services
begin

text \<open>
  The abstract service behind the three CSI services: a map from volume names and tenants to volume
  identifiers, on which a request provisions a volume, removes one, or does nothing. The driver's
  \<open>serve\<close> refines it, one request at a time and over whole histories of requests, and so the map's
  laws (identifiers stay unique, a volume disappears only by a call that is meant for it) hold of
  the driver.
\<close>

type_synonym volume_map = "string \<times> string \<Rightarrow> string option"

section \<open>The abstract service\<close>

definition without :: "string \<Rightarrow> volume_map \<Rightarrow> volume_map" where
  "without u \<sigma> = (\<lambda>k. if \<sigma> k = Some u then None else \<sigma> k)"

text \<open>A volume may be named by its identifier, or by its name within a tenant.\<close>

definition resolved :: "(string \<Rightarrow> string) \<Rightarrow> volume_map \<Rightarrow> string \<Rightarrow> string \<Rightarrow> string \<Rightarrow> bool" where
  "resolved tid \<sigma> v t u \<longleftrightarrow> u = v \<or> \<sigma> (v, tenant_id tid t) = Some u"

text \<open>Provisioning adds a volume under a new identifier, or finds the one that is there.\<close>

definition provision :: "string \<times> string \<Rightarrow> string \<Rightarrow> volume_map \<Rightarrow> volume_map \<Rightarrow> bool" where
  "provision k u \<sigma> \<sigma>' \<longleftrightarrow>
     (\<sigma> k = Some u \<and> \<sigma>' = \<sigma>) \<or> (\<sigma> k = None \<and> u \<notin> ran \<sigma> \<and> \<sigma>' = \<sigma>(k \<mapsto> u))"

text \<open>
  Whether the parameters of a request ask for a quota: the last value under \<open>createQuota\<close>, in any case, is
  a spelling of true.
\<close>

definition the_params :: "CreateVolumeRequest \<Rightarrow> gomap" where
  "the_params req = (case cv_Parameters req of None \<Rightarrow> [] | Some ps \<Rightarrow> ps)"

definition wants_quota :: "CreateVolumeRequest \<Rightarrow> bool" where
  "wants_quota req \<longleftrightarrow>
     (case last_param (the_params req) ''createquota'' of None \<Rightarrow> False | Some v \<Rightarrow> ToLower v = ''true'')"

definition create_spec ::
  "(string \<Rightarrow> string) \<Rightarrow> CreateVolumeRequest \<Rightarrow> csi_response outcome \<Rightarrow> volume_map \<Rightarrow> volume_map \<Rightarrow> bool" where
  "create_spec tid req res \<sigma> \<sigma>' \<longleftrightarrow>
     (case res of
        Ok resp \<Rightarrow>
          (\<exists>vol. resp = OfVolume vol \<and>
             (createSnapshotResponse req = Ok (Some vol) \<and> \<sigma>' = \<sigma> \<or>
              (\<exists>t u. provision (requested_name req (the_params req), t) u \<sigma> \<sigma>' \<and>
                 VolumeId vol = volume_handle
                   (if map_of (the_params req) SharedVolumeNameKey = None then [t, u] else [t, u, cv_Name req]))))
      | _ \<Rightarrow>
          \<sigma>' = \<sigma> \<or>
          (\<exists>k u \<sigma>1. provision k u \<sigma> \<sigma>1 \<and>
             (\<sigma>' = \<sigma>1 \<or> wants_quota req \<and> (\<exists>x. resolved tid \<sigma>1 u [] x \<and> \<sigma>' = without x \<sigma>1))))"

definition delete_spec :: "(string \<Rightarrow> string) \<Rightarrow> string \<Rightarrow> volume_map \<Rightarrow> volume_map \<Rightarrow> bool" where
  "delete_spec tid handle \<sigma> \<sigma>' \<longleftrightarrow>
     \<sigma>' = \<sigma> \<or>
     (\<exists>t v u. Split handle VOLUME_HANDLE_PART_SEPARATOR = [t, v] \<and> resolved tid \<sigma> v t u \<and> \<sigma>' = without u \<sigma>)"

fun volume_spec ::
  "(string \<Rightarrow> string) \<Rightarrow> csi_request \<Rightarrow> csi_response outcome \<Rightarrow> volume_map \<Rightarrow> volume_map \<Rightarrow> bool" where
  "volume_spec tid (CallCreateVolume (Some req)) res \<sigma> \<sigma>' \<longleftrightarrow> create_spec tid req res \<sigma> \<sigma>'"
| "volume_spec tid (CallDeleteVolume dreq) res \<sigma> \<sigma>' \<longleftrightarrow> delete_spec tid (dv_VolumeId dreq) \<sigma> \<sigma>'"
| "volume_spec tid req res \<sigma> \<sigma>' \<longleftrightarrow> \<sigma>' = \<sigma>"

section \<open>What is assumed of the service and the node\<close>

text \<open>A call that changes no volume, whatever its outcome.\<close>

definition frames :: "('w \<Rightarrow> volume_map) \<Rightarrow> ('w, 'a) io \<Rightarrow> bool" where
  "frames vols m \<longleftrightarrow> (\<forall>\<sigma>. keeps (\<lambda>w. vols w = \<sigma>) m)"

definition removes :: "('w \<Rightarrow> volume_map) \<Rightarrow> (string \<Rightarrow> string) \<Rightarrow> string \<Rightarrow> string \<Rightarrow> ('w, 'a) io \<Rightarrow> bool" where
  "removes vols tid v t m \<longleftrightarrow>
     (\<forall>w res w'. m w = (res, w') \<longrightarrow>
        vols w' = vols w \<or> (\<exists>u. resolved tid (vols w) v t u \<and> vols w' = without u (vols w)))"

text \<open>
  Beyond \<open>api_contract\<close>: a created volume has a new identifier, the two calls that remove a volume
  remove at most the one they name, and the calls on tasks and snapshots change no volume.
\<close>

definition full_api_contract :: "('w \<Rightarrow> volume_map) \<Rightarrow> (string \<Rightarrow> string) \<Rightarrow> 'w QuobyteApi \<Rightarrow> bool" where
  "full_api_contract vols tid api \<longleftrightarrow> api_contract vols tid api \<and>
     (\<forall>r w u w'. q_CreateVolume api r w = (Ok u, w') \<longrightarrow> u \<notin> ran (vols w)) \<and>
     (\<forall>v t. removes vols tid v t (q_DeleteVolumeByResolvingNamesToUUID api v t)) \<and>
     (\<forall>v t i. removes vols tid v t (q_EraseVolumeByResolvingNamesToUUID api v t i)) \<and>
     (\<forall>r. frames vols (q_CreateTask api r)) \<and> (\<forall>v t. frames vols (q_GetVolumeUUID api v t)) \<and>
     (\<forall>r. frames vols (q_CreateSnapshot api r)) \<and> (\<forall>v n. frames vols (q_DeleteSnapshot api v n)) \<and>
     (\<forall>v. frames vols (q_ListSnapshots api v))"

definition mounter_frames :: "('w \<Rightarrow> volume_map) \<Rightarrow> 'w Mounter \<Rightarrow> bool" where
  "mounter_frames vols mnt \<longleftrightarrow> mounter_keeps_volumes vols mnt \<and>
     (\<forall>p m. frames vols (m_Mkdirs mnt p m)) \<and> (\<forall>p q. frames vols (m_Rename mnt p q)) \<and>
     (\<forall>p q. frames vols (m_Mount mnt p q)) \<and> (\<forall>p. frames vols (m_Unmount mnt p)) \<and>
     (\<forall>p. frames vols (m_Statfs mnt p)) \<and> (\<forall>k v p. frames vols (m_SetXAttr mnt k v p)) \<and>
     frames vols (m_CreateAccessKeyContextHandle mnt)"

definition volume_contract :: "('w \<Rightarrow> volume_map) \<Rightarrow> (string \<Rightarrow> string) \<Rightarrow> 'w QuobyteDriver \<Rightarrow> bool" where
  "volume_contract vols tid d \<longleftrightarrow> mounter_frames vols (mounter d) \<and>
     (\<forall>s. frames vols (new_client d s)) \<and>
     (\<forall>s w api w'. new_client d s w = (Ok api, w') \<longrightarrow> full_api_contract vols tid api)"

section \<open>Calls that change no volume\<close>

lemma framesD: "frames vols m \<Longrightarrow> m w = (r, w') \<Longrightarrow> vols w' = vols w"
  unfolding frames_def keeps_def by blast

lemma framesI: "(\<And>w r w'. m w = (r, w') \<Longrightarrow> vols w' = vols w) \<Longrightarrow> frames vols m"
  unfolding frames_def keeps_def by metis

lemma frames_combinators:
  "frames vols (return_io a)" "frames vols (throw_io e)" "frames vols (panic_io p)" "frames vols (lift_io r)"
  by (simp_all add: frames_def keeps_rules)

lemma frames_try: "frames vols m \<Longrightarrow> frames vols (try_io m)"
  by (simp add: frames_def keeps_rules)

lemma frames_wrap: "frames vols m \<Longrightarrow> frames vols (wrap_io f m)"
  by (simp add: frames_def keeps_rules)

lemma frames_bind: "frames vols m \<Longrightarrow> (\<And>a. frames vols (f a)) \<Longrightarrow> frames vols (bind_io m f)"
  by (simp add: frames_def keeps_rules)

lemma frames_bind_run:
  assumes "frames vols m" and "\<And>w a w'. m w = (Ok a, w') \<Longrightarrow> frames vols (f a)"
  shows "frames vols (bind_io m f)"
  using assms unfolding frames_def by (intro allI keeps_bind_run) auto

lemma frames_if: "(c \<Longrightarrow> frames vols a) \<Longrightarrow> (\<not> c \<Longrightarrow> frames vols b) \<Longrightarrow> frames vols (if c then a else b)"
  by simp

lemma volume_contractD:
  assumes "volume_contract vols tid d" and "new_client d s w = (c, w1)"
  shows "vols w1 = vols w" and "c = Ok api \<Longrightarrow> full_api_contract vols tid api"
proof -
  have "frames vols (new_client d s)" using assms(1) by (simp add: volume_contract_def)
  then show "vols w1 = vols w" using assms(2) by (rule framesD)
  have "new_client d s w = (Ok api, w') \<longrightarrow> full_api_contract vols tid api" for w'
    using assms(1) unfolding volume_contract_def by blast
  then show "c = Ok api \<Longrightarrow> full_api_contract vols tid api" using assms(2) by simp
qed

lemma frames_new_client:
  assumes "volume_contract vols tid d" and "\<And>api. full_api_contract vols tid api \<Longrightarrow> frames vols (f api)"
  shows "frames vols (bind_io (new_client d s) f)"
proof (rule frames_bind_run)
  show "frames vols (new_client d s)" using assms(1) unfolding volume_contract_def by blast
  show "frames vols (f api)" if "new_client d s w = (Ok api, w')" for w api w'
    using assms that unfolding volume_contract_def by blast
qed

lemma api_frames:
  assumes "full_api_contract vols tid api"
  shows "frames vols (q_WhoAmI api)" and "frames vols (q_GetTenantUUID api t)"
    and "frames vols (q_ResolveVolumeNameToUUID api n t)" and "frames vols (q_SetVolumeQuota api v c)"
    and "frames vols (q_CreateTask api k)" and "frames vols (q_GetVolumeUUID api v t)"
    and "frames vols (q_CreateSnapshot api s)" and "frames vols (q_DeleteSnapshot api v n)"
    and "frames vols (q_ListSnapshots api v)"
proof -
  have a: "api_contract vols tid api" using assms by (simp add: full_api_contract_def)
  note others = api_contract_others [OF a]
  show "frames vols (q_WhoAmI api)" by (rule framesI) (rule others(1))
  show "frames vols (q_GetTenantUUID api t)" by (rule framesI) (rule others(2))
  show "frames vols (q_ResolveVolumeNameToUUID api n t)"
    by (rule framesI) (rule conjunct1 [OF api_contract_resolve [OF a]])
  show "frames vols (q_SetVolumeQuota api v c)" by (rule framesI) (rule others(4))
qed (use assms in \<open>simp_all add: full_api_contract_def\<close>)

lemma mounter_frames_parts:
  assumes "volume_contract vols tid d"
  shows "frames vols (m_Mkdirs (mounter d) p m)" and "frames vols (m_Rename (mounter d) p q)"
    and "frames vols (m_Mount (mounter d) p q)" and "frames vols (m_Unmount (mounter d) p)"
    and "frames vols (m_Statfs (mounter d) p)" and "frames vols (m_SetXAttr (mounter d) k v p)"
    and "frames vols (m_CreateAccessKeyContextHandle (mounter d))"
    and "frames vols (DirectoryMaker_Mkdir (mounter d) p req)"
  using assms keeps_DirectoryMaker [of vols "mounter d"]
  by (simp_all add: volume_contract_def mounter_frames_def frames_def)

lemmas frames_calls = api_frames mounter_frames_parts

lemma frames_handlers:
  assumes "volume_contract vols tid d"
  shows "frames vols (ControllerExpandVolume d ereq)" and "frames vols (CreateSnapshot now d sreq)"
    and "frames vols (NodeUnpublishVolume d target)" and "frames vols (NodeGetVolumeStats d path)"
    and "frames vols (open_snapshot d ireq)"
proof -
  show "frames vols (ControllerExpandVolume d ereq)"
    unfolding ControllerExpandVolume_def expandVolume_guarded Let_def
    by (auto intro!: frames_combinators frames_new_client [OF assms] frames_bind frames_calls assms split: option.splits
        simp del: return_io_eval throw_io_eval)
  have "frames vols (snapshot_response now sreq t v)" for t v
    by (rule framesI) (simp add: snapshot_response_def)
  then show "frames vols (CreateSnapshot now d sreq)"
    unfolding CreateSnapshot_guarded Let_def
    by (auto intro!: frames_combinators frames_new_client [OF assms] frames_bind frames_try frames_calls assms split: sum.splits)
  show "frames vols (NodeUnpublishVolume d target)" and "frames vols (NodeGetVolumeStats d path)"
    unfolding NodeUnpublishVolume_def Unmount_def NodeGetVolumeStats_def
    by (auto intro!: frames_combinators frames_bind frames_calls assms)
  show "frames vols (open_snapshot d ireq)"
    unfolding open_snapshot_guarded Let_def
    by (auto intro!: frames_combinators frames_new_client [OF assms] frames_bind frames_calls assms)
qed

lemma open_snapshot_full_api:
  assumes "volume_contract vols tid d" and "open_snapshot d req w = (Ok (api, parts, u), w')"
  shows "full_api_contract vols tid api"
proof -
  obtain w1 where "new_client d (sr_Secrets req) w = (Ok api, w1)"
    by (rule open_snapshot_Ok [OF assms(2)]) (rule that)
  with assms(1) show ?thesis unfolding volume_contract_def by blast
qed

lemma frames_snapshots:
  assumes "volume_contract vols tid d"
  shows "frames vols (DeleteSnapshot d req)" and "frames vols (ListSnapshots d req)"
proof -
  show "frames vols (DeleteSnapshot d req)"
    unfolding DeleteSnapshot_guarded
    by (rule frames_bind_run [OF frames_handlers(5) [OF assms]])
      (auto intro!: frames_calls dest: open_snapshot_full_api [OF assms])
  show "frames vols (ListSnapshots d req)"
    unfolding ListSnapshots_guarded
    by (rule frames_bind_run [OF frames_handlers(5) [OF assms]])
      (auto intro!: frames_bind frames_combinators frames_calls dest: open_snapshot_full_api [OF assms])
qed

lemma frames_NodePublishVolume:
  assumes "volume_contract vols tid d"
  shows "frames vols (NodePublishVolume d req)"
proof -
  have "frames vols (resolve_volume d s v t)" for s v t
    unfolding resolve_volume_def by (auto intro!: frames_combinators frames_new_client [OF assms] frames_calls)
  moreover have "frames vols (set_access_key d s)" for s
    unfolding set_access_key_def
    by (auto intro!: frames_combinators frames_bind frames_calls assms split: option.splits)
  ultimately show ?thesis
    unfolding NodePublishVolume_def Let_def Mount_eq
    by (auto intro!: frames_combinators frames_bind frames_calls assms)
qed

section \<open>Deletion\<close>

lemma removesD:
  "removes vols tid v t m \<Longrightarrow> m w = (res, w') \<Longrightarrow>
     vols w' = vols w \<or> (\<exists>u. resolved tid (vols w) v t u \<and> vols w' = without u (vols w))"
  unfolding removes_def by blast

lemma frames_mark: "volume_contract vols tid d \<Longrightarrow> frames vols (mark_for_deletion d v dir)"
  unfolding mark_for_deletion_def Let_def
  by (auto intro!: frames_combinators frames_bind frames_try frames_calls split: sum.splits option.splits)

lemma some_throw: "\<exists>e. throw_io x = throw_io e"
  by (rule exI) (rule refl)

lemma DeleteVolume_two_parts:
  assumes "Split (dv_VolumeId req) VOLUME_HANDLE_PART_SEPARATOR = [t, v]"
  obtains "DeleteVolume d req = return_io ()" | e where "DeleteVolume d req = throw_io e"
    | "DeleteVolume d req = bind_io (new_client d (dv_Secrets req)) (\<lambda>api.
         q_EraseVolumeByResolvingNamesToUUID api v t (ImmediateErase d))"
proof -
  have "DeleteVolume d req = return_io () \<or> (\<exists>e. DeleteVolume d req = throw_io e) \<or>
     DeleteVolume d req = bind_io (new_client d (dv_Secrets req)) (\<lambda>api.
       q_EraseVolumeByResolvingNamesToUUID api v t (ImmediateErase d))"
    unfolding DeleteVolume_guarded Let_def assms by (simp add: some_throw del: return_io_eval throw_io_eval)
  then show thesis by (elim disjE exE) (rule that, assumption)+
qed

lemma DeleteVolume_other_parts:
  assumes "volume_contract vols tid d" and "length (Split (dv_VolumeId req) VOLUME_HANDLE_PART_SEPARATOR) \<noteq> 2"
  shows "frames vols (DeleteVolume d req)"
  unfolding DeleteVolume_guarded Let_def
  by (auto intro!: frames_combinators frames_new_client [OF assms(1)] frames_wrap frames_mark [OF assms(1)]
      frames_calls simp: assms(2) simp del: return_io_eval throw_io_eval)

lemma removes_after_client:
  assumes "volume_contract vols tid d" and "\<And>api. full_api_contract vols tid api \<Longrightarrow> removes vols tid v t (f api)"
  shows "removes vols tid v t (bind_io (new_client d s) f)"
  unfolding removes_def
proof (intro allI impI)
  fix w res w'
  assume run: "bind_io (new_client d s) f w = (res, w')"
  obtain c w1 where c: "new_client d s w = (c, w1)" by (cases "new_client d s w")
  note v = volume_contractD(1) [OF assms(1) c]
  show "vols w' = vols w \<or> (\<exists>u. resolved tid (vols w) v t u \<and> vols w' = without u (vols w))"
  proof (cases c)
    case (Ok api)
    have "removes vols tid v t (f api)"
      by (rule assms(2) [OF volume_contractD(2) [OF assms(1) c Ok]])
    moreover have "f api w1 = (res, w')" using run c Ok by simp
    ultimately show ?thesis unfolding v [symmetric] by (rule removesD)
  qed (use run c v in simp_all)
qed

lemma length_2: "length xs = 2 \<Longrightarrow> xs = [xs ! 0, xs ! 1]"
  by (cases xs; cases "tl xs") auto

lemma DeleteVolume_spec:
  assumes "volume_contract vols tid d" and "DeleteVolume d req w = (res, w')"
  shows "delete_spec tid (dv_VolumeId req) (vols w) (vols w')"
proof (cases "length (Split (dv_VolumeId req) VOLUME_HANDLE_PART_SEPARATOR) = 2")
  case False
  from framesD [OF DeleteVolume_other_parts [OF assms(1) False] assms(2)] show ?thesis
    by (simp add: delete_spec_def)
next
  case True
  then obtain t v where two: "Split (dv_VolumeId req) VOLUME_HANDLE_PART_SEPARATOR = [t, v]"
    using length_2 by blast
  have "removes vols tid v t (DeleteVolume d req)"
    using two
  proof (cases rule: DeleteVolume_two_parts [where d = d])
    case 3
    have "removes vols tid v t (q_EraseVolumeByResolvingNamesToUUID api v t i)" if "full_api_contract vols tid api" for api i
      using that unfolding full_api_contract_def by blast
    then show ?thesis unfolding 3 by (rule removes_after_client [OF assms(1)])
  qed (simp_all add: removes_def)
  from removesD [OF this assms(2)] two show ?thesis unfolding delete_spec_def by blast
qed

section \<open>Creation\<close>

lemma frames_prepare_volume:
  assumes "volume_contract vols tid d"
  shows "frames vols (prepare_volume d req params s)"
  unfolding prepare_volume_def resolve_tenant_def
  by (auto intro!: frames_combinators frames_new_client [OF assms] frames_bind frames_wrap frames_calls
      simp del: return_io_eval throw_io_eval)

lemma prepare_volume_full_api:
  assumes "volume_contract vols tid d" and "prepare_volume d req params s w = (Ok (api, st, r), w')"
  shows "full_api_contract vols tid api"
proof -
  from assms(2) obtain w1 where "new_client d (cv_Secrets req) w = (Ok api, w1)"
    unfolding prepare_volume_Ok by (elim exE conjE) (rule that)
  from volume_contractD(2) [OF assms(1) this] show ?thesis by simp
qed

lemma create_or_resolve_spec:
  assumes "full_api_contract vols tid api" and "create_or_resolve api r w = (res, w')"
  shows "(\<exists>u. res = Ok u \<and> provision (vr_Name r, vr_TenantId r) u (vols w) (vols w')) \<or> vols w' = vols w \<and> (\<forall>u. res \<noteq> Ok u)"
proof -
  have a: "api_contract vols tid api" using assms(1) by (simp add: full_api_contract_def)
  obtain c w1 where c: "q_CreateVolume api r w = (c, w1)" by (cases "q_CreateVolume api r w")
  from api_contract_create [OF a c] show ?thesis
  proof (elim disjE exE conjE)
    fix u
    assume u: "c = Ok u" "vols w (vr_Name r, vr_TenantId r) = None" "vols w1 = (vols w)((vr_Name r, vr_TenantId r) \<mapsto> u)"
    have "u \<notin> ran (vols w)"
      using assms(1) c u(1) unfolding full_api_contract_def by metis
    with u assms(2) create_or_resolve_run(1) [OF c [unfolded u(1)]] show ?thesis by (auto simp: provision_def)
  next
    fix e
    assume e: "c = Err e" "vols w1 = vols w"
    note run = create_or_resolve_run(2) [OF c [unfolded e(1)]]
    show ?thesis
    proof (cases "Contains (Error e) ''ENTITY_EXISTS_ALREADY''")
      case False
      then show ?thesis using run assms(2) e(2) by auto
    next
      case True
      then have q: "q_ResolveVolumeNameToUUID api (vr_Name r) (vr_TenantId r) w1 = (res, w')" using run assms(2) by simp
      from api_contract_resolve [OF a q] e(2) show ?thesis
        by (cases res) (auto simp: provision_def)
    qed
  qed
qed

lemma apply_quota_removes:
  assumes "full_api_contract vols tid api"
  shows "removes vols tid u [] (apply_quota api u cap)"
  unfolding removes_def
proof (intro allI impI)
  fix w res w'
  assume run: "apply_quota api u cap w = (res, w')"
  obtain q w1 where q: "q_SetVolumeQuota api u cap w = (q, w1)" by (cases "q_SetVolumeQuota api u cap w")
  have v: "vols w1 = vols w" by (rule framesD [OF api_frames(4) [OF assms] q])
  have rem: "removes vols tid u [] (q_DeleteVolumeByResolvingNamesToUUID api u [])"
    using assms by (simp add: full_api_contract_def)
  obtain x w2 where x: "q_DeleteVolumeByResolvingNamesToUUID api u [] w1 = (x, w2)"
    by (cases "q_DeleteVolumeByResolvingNamesToUUID api u [] w1")
  note after = removesD [OF rem x, unfolded v]
  show "vols w' = vols w \<or> (\<exists>y. resolved tid (vols w) u [] y \<and> vols w' = without y (vols w))"
  proof (cases q)
    case (Err e)
    have "w' = w2"
      using run q x Err by (cases x) (simp_all add: apply_quota_def)
    with after show ?thesis by simp
  qed (use run q v in \<open>auto simp: apply_quota_def\<close>)
qed

lemma finish_volume_removes:
  assumes "volume_contract vols tid d" and "full_api_contract vols tid api"
    and "finish_volume d api s st r cap name u w = (res, w')"
  shows "vols w' = vols w \<or> createQuota st \<and> (\<exists>x. resolved tid (vols w) u [] x \<and> vols w' = without x (vols w))"
proof (cases "\<not> s \<and> createQuota st")
  case True
  have "removes vols tid u [] (finish_volume d api s st r cap name u)"
    unfolding removes_def
  proof (intro allI impI)
    fix w res w'
    assume run: "finish_volume d api s st r cap name u w = (res, w')"
    obtain a w1 where a: "apply_quota api u cap w = (a, w1)" by (cases "apply_quota api u cap w")
    have "w' = w1" using run a True by (cases a) (auto simp: finish_volume_def)
    with removesD [OF apply_quota_removes [OF assms(2)] a]
    show "vols w' = vols w \<or> (\<exists>y. resolved tid (vols w) u [] y \<and> vols w' = without y (vols w))" by simp
  qed
  from removesD [OF this assms(3)] True show ?thesis by blast
next
  case False
  have "frames vols (finish_volume d api s st r cap name u)"
    unfolding finish_volume_def make_subdirectory_def Let_def
    using False by (auto intro!: frames_combinators frames_bind frames_calls assms simp del: return_io_eval throw_io_eval)
  from framesD [OF this assms(3)] show ?thesis by simp
qed

lemma create_spec_failed:
  assumes "provision k u \<sigma> \<sigma>1"
    and "\<sigma>' = \<sigma>1 \<or> wants_quota req \<and> (\<exists>x. resolved tid \<sigma>1 u [] x \<and> \<sigma>' = without x \<sigma>1)"
  shows "create_spec tid req (Err e) \<sigma> \<sigma>'" and "create_spec tid req (Panic e') \<sigma> \<sigma>'"
proof -
  have "\<exists>k u \<sigma>1. provision k u \<sigma> \<sigma>1 \<and>
     (\<sigma>' = \<sigma>1 \<or> wants_quota req \<and> (\<exists>x. resolved tid \<sigma>1 u [] x \<and> \<sigma>' = without x \<sigma>1))"
    using assms by (intro exI conjI)
  then show "create_spec tid req (Err e) \<sigma> \<sigma>'" and "create_spec tid req (Panic e') \<sigma> \<sigma>'"
    unfolding create_spec_def by (simp_all only: outcome.case simp_thms)
qed

lemma dynamic_volume_spec:
  assumes "volume_contract vols tid d" and p: "cv_Parameters req = Some params"
    and s: "s = (map_of params SharedVolumeNameKey \<noteq> None)"
    and run: "bind_io (prepare_volume d req params s) (\<lambda>(api, st, r).
       bind_io (create_or_resolve api r) (\<lambda>u. finish_volume d api s st r cap (cv_Name req) u)) w = (res, w')"
  shows "create_spec tid req (case res of Ok vol \<Rightarrow> Ok (OfVolume vol) | Err e \<Rightarrow> Err e | Panic e \<Rightarrow> Panic e) (vols w) (vols w')"
proof -
  obtain a w1 where a: "prepare_volume d req params s w = (a, w1)" by (cases "prepare_volume d req params s w")
  have v1: "vols w1 = vols w" by (rule framesD [OF frames_prepare_volume [OF assms(1)] a])
  show ?thesis
  proof (cases a)
    case (Ok x)
    obtain api st r where x: "x = (api, st, r)" by (cases x) auto
    note a = a [unfolded Ok x]
    note api = prepare_volume_full_api [OF assms(1) a]
    obtain c w2 where c: "create_or_resolve api r w1 = (c, w2)" by (cases "create_or_resolve api r w1")
    show ?thesis
    proof (cases "\<exists>u. c = Ok u")
      case False
      then have "vols w' = vols w" and "\<not> (\<exists>v. res = Ok v)"
        using create_or_resolve_spec [OF api c] run a c v1 by (cases c; auto)+
      then show ?thesis by (cases res) (auto simp: create_spec_def)
    next
      case True
      then obtain u where u: "c = Ok u" by blast
      have prov: "provision (vr_Name r, vr_TenantId r) u (vols w) (vols w2)"
        using create_or_resolve_spec [OF api c] u v1 by simp
      have fin: "finish_volume d api s st r cap (cv_Name req) u w2 = (res, w')"
        using run a c u by simp
      have quota: "createQuota st \<Longrightarrow> wants_quota req"
      proof -
        assume q: "createQuota st"
        obtain user where "set_params s params (initial_state s (cv_Name req) user) = Ok st"
          using a unfolding prepare_volume_Ok by (elim exE conjE) (rule that)
        from set_params_requested(3) [OF this] q show "wants_quota req"
          by (simp add: wants_quota_def the_params_def p initial_state_def DefaultCreateQuota_def split: option.splits)
      qed
      have name: "vr_Name r = requested_name req (the_params req)"
      proof -
        obtain user r0 w0 where "set_params s params (initial_state s (cv_Name req) user) = Ok st"
          and "choose_tenant d params (volRequest st) = Ok r0" and r: "resolve_tenant api r0 w0 = (Ok r, w1)"
          using a unfolding prepare_volume_Ok by (elim exE conjE) (rule that)
        from choose_tenant_requested(2) [OF this(1,2)] r show ?thesis
          by (auto simp: the_params_def p resolve_tenant_def bind_io_Ok split: if_splits)
      qed
      show ?thesis
      proof (cases res)
        case (Ok vol)
        have "api_contract vols tid api" using api by (simp add: full_api_contract_def)
        moreover have "mounter_keeps_volumes vols (mounter d)"
          using assms(1) by (simp add: volume_contract_def mounter_frames_def)
        ultimately have "vols w' = vols w2" by (rule finish_volume_keeps [OF _ _ fin [unfolded Ok]])
        moreover have "VolumeId vol = volume_handle
            (if map_of (the_params req) SharedVolumeNameKey = None then [vr_TenantId r, u] else [vr_TenantId r, u, cv_Name req])"
          using finish_volume_Ok [OF fin [unfolded Ok]] s by (simp add: the_params_def p)
        ultimately show ?thesis
          unfolding create_spec_def Ok outcome.case using prov [unfolded name]
          by (intro exI [of _ vol] conjI refl disjI2 exI [of _ "vr_TenantId r"] exI [of _ u]) simp_all
      next
        case (Err e)
        show ?thesis
          unfolding Err outcome.case
          by (rule create_spec_failed(1) [OF prov]) (use finish_volume_removes [OF assms(1) api fin] quota in blast)
      next
        case (Panic e)
        show ?thesis
          unfolding Panic outcome.case
          by (rule create_spec_failed(2) [OF prov]) (use finish_volume_removes [OF assms(1) api fin] quota in blast)
      qed
    qed
  qed (use run a v1 in \<open>auto simp: create_spec_def\<close>)
qed

lemma CreateVolume_spec:
  assumes "volume_contract vols tid d" and "CreateVolume d (Some req) w = (res, w')"
  shows "create_spec tid req (case res of Ok vol \<Rightarrow> Ok (OfVolume vol) | Err e \<Rightarrow> Err e | Panic e \<Rightarrow> Panic e) (vols w) (vols w')"
proof (cases "validateCreateVolumeRequest (Some req) = Ok ()")
  case False
  then obtain e where "validateCreateVolumeRequest (Some req) = Err e" using validate_cases by blast
  with assms(2) show ?thesis by (auto simp: CreateVolume_invalid create_spec_def)
next
  case True
  obtain c ps where c: "cv_CapacityRange req = Some c" and p: "cv_Parameters req = Some ps"
    using validate_SomeD(1,2) [OF True] by blast
  show ?thesis
  proof (cases "createSnapshotResponse req")
    case (Ok vol)
    show ?thesis
    proof (cases vol)
      case None
      from assms(2) show ?thesis
        unfolding CreateVolume_dynamic [OF True Ok [unfolded None] c p refl]
        by (rule dynamic_volume_spec [OF assms(1) p refl])
    next
      case (Some v)
      have "res = Ok v" and "w' = w"
        using assms(2) Ok Some True by (simp_all add: CreateVolume_def)
      with Ok Some show ?thesis by (simp add: create_spec_def)
    qed
  next
    case (Err e)
    then have "res = Err e" and "w' = w" using assms(2) True by (simp_all add: CreateVolume_def)
    then show ?thesis by (simp add: create_spec_def)
  next
    case (Panic e)
    with createSnapshotResponse_no_panic [OF c] show ?thesis by blast
  qed
qed

section \<open>Histories\<close>

text \<open>The requests of a history one after the other; an error of one does not end the server.\<close>

fun serve_all :: "('w \<Rightarrow> int64) \<Rightarrow> 'w QuobyteDriver \<Rightarrow> csi_request list \<Rightarrow> 'w \<Rightarrow> 'w" where
  "serve_all now d [] w = w"
| "serve_all now d (req # reqs) w = serve_all now d reqs (snd (serve now d req w))"

text \<open>Every identifier belongs to one name and tenant.\<close>

definition volume_inv :: "volume_map \<Rightarrow> bool" where
  "volume_inv \<sigma> \<longleftrightarrow> (\<forall>j k u. \<sigma> j = Some u \<longrightarrow> \<sigma> k = Some u \<longrightarrow> j = k)"

lemma volume_invD: "volume_inv \<sigma> \<Longrightarrow> \<sigma> j = Some u \<Longrightarrow> \<sigma> k = Some u \<Longrightarrow> j = k"
  unfolding volume_inv_def by (elim allE impE)

lemma provision_inv:
  assumes "volume_inv \<sigma>" and "provision k u \<sigma> \<sigma>'"
  shows "volume_inv \<sigma>'"
  using assms(2) unfolding provision_def
proof (elim disjE conjE)
  assume new: "u \<notin> ran \<sigma>" and \<sigma>': "\<sigma>' = \<sigma>(k \<mapsto> u)"
  show ?thesis
    unfolding volume_inv_def
  proof (intro allI impI)
    fix i j v assume "\<sigma>' i = Some v" and "\<sigma>' j = Some v"
    then show "i = j"
      using new volume_invD [OF assms(1), of i v j] ranI [of \<sigma>] by (auto simp: \<sigma>' split: if_splits)
  qed
qed (use assms(1) in simp)

lemma without_Some: "without u \<sigma> k = Some v \<longleftrightarrow> \<sigma> k = Some v \<and> v \<noteq> u"
  by (auto simp: without_def)

lemma without_inv: "volume_inv \<sigma> \<Longrightarrow> volume_inv (without u \<sigma>)"
  by (simp only: volume_inv_def without_Some) blast

lemma volume_spec_cases:
  assumes "volume_spec tid req res \<sigma> \<sigma>'"
  obtains (stay) "\<sigma>' = \<sigma>"
    | (add) k u where "provision k u \<sigma> \<sigma>'"
    | (undo) creq k u x \<sigma>1 where "req = CallCreateVolume (Some creq)" and "wants_quota creq" and "provision k u \<sigma> \<sigma>1"
        and "\<sigma>' = without x \<sigma>1"
    | (drop) dreq t v u where "req = CallDeleteVolume dreq"
        and "Split (dv_VolumeId dreq) VOLUME_HANDLE_PART_SEPARATOR = [t, v]" and "resolved tid \<sigma> v t u" and "\<sigma>' = without u \<sigma>"
proof (cases req)
  case (CallCreateVolume mreq)
  show thesis
  proof (cases mreq)
    case None
    with assms CallCreateVolume stay show thesis by simp
  next
    case (Some creq)
    with assms CallCreateVolume have "create_spec tid creq res \<sigma> \<sigma>'" by simp
    then show thesis
      unfolding create_spec_def using stay add undo CallCreateVolume Some by (auto split: outcome.splits)
  qed
next
  case (CallDeleteVolume dreq)
  with assms have "delete_spec tid (dv_VolumeId dreq) \<sigma> \<sigma>'" by simp
  then show thesis unfolding delete_spec_def using stay drop CallDeleteVolume by blast
qed (use assms stay in simp_all)

lemma volume_spec_inv: "volume_spec tid req res \<sigma> \<sigma>' \<Longrightarrow> volume_inv \<sigma> \<Longrightarrow> volume_inv \<sigma>'"
  by (erule volume_spec_cases) (auto intro: provision_inv without_inv)

lemma respond_run:
  "respond f m w = (res, w') \<Longrightarrow>
     \<exists>r. m w = (r, w') \<and> res = (case r of Ok a \<Rightarrow> Ok (f a) | Err e \<Rightarrow> Err e | Panic e \<Rightarrow> Panic e)"
  by (cases "m w"; cases "fst (m w)") (auto simp: respond_def)

lemma frames_respond: "frames vols m \<Longrightarrow> frames vols (respond f m)"
  unfolding respond_def by (intro frames_bind frames_combinators)

text \<open>The two methods that may change the volumes.\<close>

fun changes_volumes :: "csi_request \<Rightarrow> bool" where
  "changes_volumes (CallCreateVolume mreq) = True"
| "changes_volumes (CallDeleteVolume dreq) = True"
| "changes_volumes req = False"

lemma frames_dispatch:
  assumes "volume_contract vols tid d" and "\<not> changes_volumes req"
  shows "frames vols (dispatch now d req)"
  using assms(2)
  by (cases req)
    (simp_all add: frames_respond frames_handlers [OF assms(1)] frames_snapshots [OF assms(1)] frames_NodePublishVolume [OF assms(1)]
      frames_combinators ControllerPublishVolume_def ControllerUnpublishVolume_def ControllerGetVolume_def
      ValidateVolumeCapabilities_def ListVolumes_def GetCapacity_def ControllerGetCapabilities_def ControllerModifyVolume_def
      NodeStageVolume_def NodeUnstageVolume_def NodeGetInfo_def NodeExpandVolume_def GetPluginInfo_def
      GetPluginCapabilities_def Probe_def del: return_io_eval throw_io_eval)

lemma serve_volume_spec:
  assumes "volume_contract vols tid d" and "serve now d req w = (res, w')"
  shows "volume_spec tid req res (vols w) (vols w')"
proof -
  have run: "dispatch now d req w = (res, w')" using assms(2) by (simp add: serve_def errHandler_id)
  show ?thesis
  proof (cases req)
    case (CallCreateVolume mreq)
    show ?thesis
    proof (cases mreq)
      case None
      then have "w' = w"
        using run CallCreateVolume by (simp add: respond_def CreateVolume_def validateCreateVolumeRequest_def)
      with CallCreateVolume None show ?thesis by simp
    next
      case (Some creq)
      with run CallCreateVolume have "respond OfVolume (CreateVolume d (Some creq)) w = (res, w')" by simp
      from respond_run [OF this] obtain r where "CreateVolume d (Some creq) w = (r, w')"
        and "res = (case r of Ok a \<Rightarrow> Ok (OfVolume a) | Err e \<Rightarrow> Err e | Panic e \<Rightarrow> Panic e)" by blast
      with CreateVolume_spec [OF assms(1)] CallCreateVolume Some show ?thesis by simp
    qed
  next
    case (CallDeleteVolume dreq)
    with run have "respond (\<lambda>_. NoContent) (DeleteVolume d dreq) w = (res, w')" by simp
    from respond_run [OF this] obtain r where "DeleteVolume d dreq w = (r, w')" by blast
    with DeleteVolume_spec [OF assms(1)] CallDeleteVolume show ?thesis by simp
  qed (use framesD [OF frames_dispatch [OF assms(1)] run] in simp_all)
qed

section \<open>Properties\<close>

text \<open>
  C2 (the driver refines the volume service): under the documented behaviour of the Quobyte service,
  every request of any of the three services changes its volumes as the abstract service does. A
  successful creation provisions the volume of the requested name, and its handle carries that volume's
  tenant and identifier and, for a claim in a shared volume, the claim; a failed one may leave the volume provisioned, and removes one only when a quota was asked
  for; a deletion removes at most the volume its two-part handle names; and every other request changes
  none. Identifiers stay unique.
\<close>

theorem serve_refines_volume_service:
  assumes "volume_contract vols tid d" and "serve now d req w = (res, w')"
  shows "volume_spec tid req res (vols w) (vols w') \<and> (volume_inv (vols w) \<longrightarrow> volume_inv (vols w'))"
  using serve_volume_spec [OF assms] volume_spec_inv by blast

lemma volume_step_survives:
  assumes "volume_spec tid req res \<sigma> \<sigma>'" and "volume_inv \<sigma>" and "\<sigma> k = Some u"
    and "\<And>dreq t v. req = CallDeleteVolume dreq \<Longrightarrow> Split (dv_VolumeId dreq) VOLUME_HANDLE_PART_SEPARATOR = [t, v] \<Longrightarrow>
       v \<noteq> u \<and> (v, tenant_id tid t) \<noteq> k"
    and "\<And>creq. req = CallCreateVolume (Some creq) \<Longrightarrow> \<not> wants_quota creq"
  shows "\<sigma>' k = Some u"
  using assms(1)
proof (cases rule: volume_spec_cases)
  case (add j x)
  then show ?thesis using assms(3) by (auto simp: provision_def)
next
  case (drop dreq t v x)
  have "x \<noteq> u"
  proof
    assume "x = u"
    with drop(3) assms(4) [OF drop(1,2)] have "\<sigma> (v, tenant_id tid t) = Some u" by (auto simp: resolved_def)
    from volume_invD [OF assms(2) this assms(3)] assms(4) [OF drop(1,2)] show False by auto
  qed
  with drop(4) assms(3) show ?thesis by (simp add: without_Some)
qed (use assms(3,5) in auto)

text \<open>
  C4 (volumes survive): over any history of requests, whatever their order and outcomes, a volume stays
  under its name, tenant and identifier as long as no request deletes a two-part handle with its identifier or
  with its name and tenant, and no creation asks for a quota.
\<close>

theorem volumes_survive:
  assumes "volume_contract vols tid d" and "volume_inv (vols w)" and "vols w k = Some u"
    and "\<And>dreq t v. CallDeleteVolume dreq \<in> set reqs \<Longrightarrow> Split (dv_VolumeId dreq) VOLUME_HANDLE_PART_SEPARATOR = [t, v] \<Longrightarrow>
       v \<noteq> u \<and> (v, tenant_id tid t) \<noteq> k"
    and "\<And>creq. CallCreateVolume (Some creq) \<in> set reqs \<Longrightarrow> \<not> wants_quota creq"
  shows "vols (serve_all now d reqs w) k = Some u"
  using assms(2-5)
proof (induction reqs arbitrary: w)
  case (Cons req reqs)
  obtain res w' where run: "serve now d req w = (res, w')" by (cases "serve now d req w")
  note spec = serve_volume_spec [OF assms(1) run]
  have "volume_inv (vols w')" by (rule volume_spec_inv [OF spec Cons.prems(1)])
  moreover have "vols w' k = Some u"
    by (rule volume_step_survives [OF spec Cons.prems(1,2)]) (use Cons.prems(3,4) in auto)
  ultimately have "vols (serve_all now d reqs w') k = Some u"
    by (rule Cons.IH) (use Cons.prems(3,4) in auto)
  then show ?case by (simp add: run)
qed simp

section \<open>A concrete service\<close>

text \<open>The sample service with new identifiers only and an erasure that removes the volume.\<close>

definition fresh_api :: "sample QuobyteApi" where
  "fresh_api = (sample_api (Ok ()))
     \<lparr>q_CreateVolume := (\<lambda>r w.
        (case volumes w (vr_Name r, vr_TenantId r) of
           None \<Rightarrow>
             (let u = ''v-'' @ vr_Name r
              in if u \<in> ran (volumes w) then (Err (ErrorString ''no identifier left''), w)
                 else (Ok u, w\<lparr>volumes := (volumes w)((vr_Name r, vr_TenantId r) := Some u)\<rparr>))
         | Some u \<Rightarrow> (Err (ErrorString ''ENTITY_EXISTS_ALREADY/POSIX_ERROR_NONE''), w))),
      q_EraseVolumeByResolvingNamesToUUID := (\<lambda>v t i w. (Ok (), w\<lparr>volumes := without v (volumes w)\<rparr>))\<rparr>"

definition fresh_driver :: "sample QuobyteDriver" where
  "fresh_driver = (sample_driver (Ok ()))\<lparr>NewQuobyteApiClient := (\<lambda>url secrets. return_io fresh_api)\<rparr>"

lemma fresh_api_contract: "full_api_contract volumes (\<lambda>t. t @ ''-id'') fresh_api"
proof -
  have "api_contract volumes (\<lambda>t. t @ ''-id'') fresh_api"
    unfolding api_contract_def
    by (auto simp: fresh_api_def sample_api_def Let_def split: option.splits if_splits)
  then show ?thesis
    unfolding full_api_contract_def
    by (auto simp: fresh_api_def sample_api_def Let_def removes_def resolved_def logged_def intro!: framesI
        split: option.splits if_splits)
qed

lemma fresh_contract: "volume_contract volumes (\<lambda>t. t @ ''-id'') fresh_driver"
proof -
  have m: "mounter fresh_driver = sample_mounter [''admin'']" by (simp add: fresh_driver_def sample_driver_def)
  have "mounter_frames volumes (mounter fresh_driver)"
    unfolding mounter_frames_def m
    by (intro conjI allI sample_mounter_keeps_volumes framesI)
      (auto simp: sample_mounter_def logged_def split: option.splits)
  moreover have "frames volumes (new_client fresh_driver s)" for s
    by (rule framesI) (simp add: fresh_driver_def)
  moreover have "full_api_contract volumes (\<lambda>t. t @ ''-id'') api" if "new_client fresh_driver s w = (Ok api, w')" for s w api w'
    using that fresh_api_contract by (simp add: fresh_driver_def)
  ultimately show ?thesis unfolding volume_contract_def by blast
qed

theorem serve_refines_volume_service_witness:
  "\<exists>res w'. serve (\<lambda>_. 7) fresh_driver (CallDeleteVolume \<lparr>dv_VolumeId = ''t|v-a'', dv_Secrets = [(''user'', ''u'')]\<rparr>)
       (empty_world\<lparr>volumes := [(''a'', ''t-id'') \<mapsto> ''v-a'']\<rparr>) = (res, w') \<and>
     delete_spec (\<lambda>t. t @ ''-id'') ''t|v-a'' [(''a'', ''t-id'') \<mapsto> ''v-a''] (volumes w') \<and> volume_inv (volumes w')"
proof -
  let ?w = "empty_world\<lparr>volumes := [(''a'', ''t-id'') \<mapsto> ''v-a'']\<rparr>"
  let ?req = "CallDeleteVolume \<lparr>dv_VolumeId = ''t|v-a'', dv_Secrets = [(''user'', ''u'')]\<rparr>"
  obtain res w' where run: "serve (\<lambda>_. 7) fresh_driver ?req ?w = (res, w')" by (cases "serve (\<lambda>_. 7) fresh_driver ?req ?w")
  have "volume_inv (volumes ?w)" by (simp add: volume_inv_def split: if_splits)
  with serve_refines_volume_service [OF fresh_contract run] run show ?thesis
    by (intro exI conjI) (assumption | simp)+
qed

theorem volumes_survive_witness:
  "volumes (serve_all (\<lambda>_. 7) fresh_driver
       [CallCreateVolume (Some (sample_create ''b'' [(''quobyteTenant'', ''t'')])),
        CallDeleteVolume \<lparr>dv_VolumeId = ''t|v-b'', dv_Secrets = [(''user'', ''u'')]\<rparr>, CallProbe]
       (empty_world\<lparr>volumes := [(''a'', ''t-id'') \<mapsto> ''v-a'']\<rparr>)) (''a'', ''t-id'') = Some ''v-a''"
proof (rule volumes_survive [OF fresh_contract])
  have "ToLower ''quobyteTenant'' = ''quobytetenant''" by code_simp
  then show "\<not> wants_quota creq" if "CallCreateVolume (Some creq) \<in> set
      [CallCreateVolume (Some (sample_create ''b'' [(''quobyteTenant'', ''t'')])),
       CallDeleteVolume \<lparr>dv_VolumeId = ''t|v-b'', dv_Secrets = [(''user'', ''u'')]\<rparr>, CallProbe]" for creq
    using that by (simp add: wants_quota_def the_params_def sample_create_def)
qed (auto simp: volume_inv_def VOLUME_HANDLE_PART_SEPARATOR_def split: if_splits)

end
