(* ===== verification/Go_Quote.thy ===== *)
theory Go_Quote
  imports Go_Strconv
begin

text \<open>
  \<open>strconv.Quote\<close>, the rendering of \<open>%q\<close>: the text is read rune by rune as UTF-8, and what does not
  decode or does not print is escaped. Which of the runes beyond ASCII print is a table of the
  Unicode standard: the parameter \<open>isPrint\<close>.
\<close>

definition RuneError :: nat where "RuneError = 0xFFFD"

definition cont_byte :: "nat \<Rightarrow> bool" where
  "cont_byte b \<longleftrightarrow> 0x80 \<le> b \<and> b \<le> 0xBF"

text \<open>
  The range of the second byte that the first one allows, and the number of bytes: shortest forms
  only, no surrogates, nothing beyond \<open>0x10FFFF\<close>.
\<close>

definition utf8_first :: "nat \<Rightarrow> (nat \<times> nat \<times> nat) option" where
  "utf8_first b =
     (if 0xC2 \<le> b \<and> b \<le> 0xDF then Some (2, 0x80, 0xBF)
      else if b = 0xE0 then Some (3, 0xA0, 0xBF)
      else if b = 0xED then Some (3, 0x80, 0x9F)
      else if 0xE1 \<le> b \<and> b \<le> 0xEF then Some (3, 0x80, 0xBF)
      else if b = 0xF0 then Some (4, 0x90, 0xBF)
      else if b = 0xF4 then Some (4, 0x80, 0x8F)
      else if 0xF1 \<le> b \<and> b \<le> 0xF3 then Some (4, 0x80, 0xBF)
      else None)"

text \<open>The first rune of a non-empty text and its width in bytes, \<open>utf8.DecodeRuneInString\<close>.\<close>

definition DecodeRune :: "nat list \<Rightarrow> nat \<times> nat" where
  "DecodeRune bs =
     (let b0 = bs ! 0
      in if b0 < 0x80 then (b0, 1)
         else (case utf8_first b0 of
                 None \<Rightarrow> (RuneError, 1)
               | Some (width, lo, hi) \<Rightarrow>
                   if length bs < width \<or> bs ! 1 < lo \<or> hi < bs ! 1
                      \<or> (\<exists>i \<in> {2..<width}. \<not> cont_byte (bs ! i))
                   then (RuneError, 1)
                   else (fold (\<lambda>i r. r * 0x40 + bs ! i mod 0x40) [1..<width]
                           (b0 mod (if width = 2 then 0x20 else if width = 3 then 0x10 else 0x08)),
                         width)))"

definition hex_digit :: "nat \<Rightarrow> char" where
  "hex_digit d = (if d < 10 then char_of (48 + d) else char_of (87 + d))"

fun lower_hex :: "nat \<Rightarrow> nat \<Rightarrow> string" where
  "lower_hex 0 n = []"
| "lower_hex (Suc k) n = lower_hex k (n div 16) @ [hex_digit (n mod 16)]"

text \<open>\<open>strconv.IsPrint\<close>: on ASCII the bytes from space to tilde.\<close>

definition rune_prints :: "(nat \<Rightarrow> bool) \<Rightarrow> nat \<Rightarrow> bool" where
  "rune_prints isPrint r = (if r < 0x80 then 0x20 \<le> r \<and> r < 0x7F else isPrint r)"

definition escaped_rune :: "(nat \<Rightarrow> bool) \<Rightarrow> nat \<Rightarrow> string \<Rightarrow> string" where
  "escaped_rune isPrint r bytes =
     (if r = 0x22 \<or> r = 0x5C then CHR 0x5C # bytes
      else if rune_prints isPrint r then bytes
      else if r = 7 then [CHR 0x5C, CHR ''a'']
      else if r = 8 then [CHR 0x5C, CHR ''b'']
      else if r = 12 then [CHR 0x5C, CHR ''f'']
      else if r = 10 then [CHR 0x5C, CHR ''n'']
      else if r = 13 then [CHR 0x5C, CHR ''r'']
      else if r = 9 then [CHR 0x5C, CHR ''t'']
      else if r = 11 then [CHR 0x5C, CHR ''v'']
      else if r < 0x20 \<or> r = 0x7F then [CHR 0x5C, CHR ''x''] @ lower_hex 2 r
      else if r < 0x10000 then [CHR 0x5C, CHR ''u''] @ lower_hex 4 r
      else [CHR 0x5C, CHR ''U''] @ lower_hex 8 r)"

function quote_runes :: "(nat \<Rightarrow> bool) \<Rightarrow> string \<Rightarrow> string" where
  "quote_runes isPrint [] = []"
| "quote_runes isPrint (c # s) =
     (let (r, width) = DecodeRune (map of_char (c # s))
      in if width = 1 \<and> r = RuneError
         then [CHR 0x5C, CHR ''x''] @ lower_hex 2 (of_char c) @ quote_runes isPrint s
         else escaped_rune isPrint r (c # take (width - 1) s)
              @ quote_runes isPrint (drop (width - 1) s))"
  by pat_completeness auto
termination
  by (relation "measure (\<lambda>(isPrint, s). length s)") auto

definition Quote :: "(nat \<Rightarrow> bool) \<Rightarrow> string \<Rightarrow> string" where
  "Quote isPrint s = CHR 0x22 # quote_runes isPrint s @ [CHR 0x22]"

text \<open>Printing ASCII without quotes and backslashes is quoted as it stands, whatever the table.\<close>

definition plain_char :: "char \<Rightarrow> bool" where
  "plain_char c \<longleftrightarrow> (let n = of_char c :: nat in 0x20 \<le> n \<and> n < 0x7F \<and> n \<noteq> 0x22 \<and> n \<noteq> 0x5C)"

lemma quote_runes_plain: "\<forall>c \<in> set s. plain_char c \<Longrightarrow> quote_runes isPrint s = s"
  by (induction s)
    (simp_all add: DecodeRune_def plain_char_def escaped_rune_def rune_prints_def RuneError_def Let_def)

lemma Quote_plain [simp]:
  "\<forall>c \<in> set s. plain_char c \<Longrightarrow> Quote isPrint s = CHR 0x22 # s @ [CHR 0x22]"
  by (simp add: Quote_def quote_runes_plain)

end
