(* ===== verification/Test_Client.thy ===== *)
theory Test_Client
  imports Go_Quote Csi_Types
begin

text \<open>
  What the end-to-end framework (\<open>e2e-tests/framework\<close>) needs of the Quobyte API beyond the driver's
  calls: the messages it sends and reads, and \<open>*quobyte.QuobyteClient\<close> as an extension of the client
  interface of the driver by further operations. As there, the client is a parameter and nothing is
  assumed of it. A list of pointers is a list of options, \<open>None\<close> for nil.
\<close>

section \<open>Messages\<close>

record GetVolumeListRequest =
  gv_VolumeUuid :: "string list"
  gv_TenantDomain :: string

record VolumeInfo =
  vi_VolumeUuid :: string
  vi_Name :: string
  vi_TenantDomain :: string

datatype ConsumingEntity_Type = ENTITY_VOLUME | ENTITY_TENANT | ENTITY_OTHER nat
datatype Resource_Type = LOGICAL_DISK_SPACE | RESOURCE_OTHER nat

record ConsumingEntity =
  ce_Type :: ConsumingEntity_Type
  ce_Identifier :: string
  ce_DisableOversubscription :: bool

record Resource =
  rs_Type :: Resource_Type
  rs_Value :: int64

record Quota =
  qt_Consumer :: "ConsumingEntity option list"
  qt_Limits :: "Resource option list"

record GetQuotaRequest =
  gq_OnlyEntity :: "ConsumingEntity option list"
  gq_OnlyResourceType :: "Resource_Type option list"

datatype Label_EntityType = LABEL_VOLUME | LABEL_OTHER nat
datatype SubjectList_Type = SUBJECT_VOLUME | SUBJECT_OTHER nat

record SubjectList =
  sl_Type :: SubjectList_Type
  sl_SubjectId :: "string list"

record TaskInfo =
  ti_DirectoryPath :: string
  ti_Scope :: "SubjectList option list"

datatype UserRole = UNPRIVILEGED_USER | FILESYSTEM_ADMIN | ROLE_OTHER nat

record UserConfiguration =
  uc_AdminOfTenantId :: "string list"
  uc_MemberOfTenantId :: "string list"
  uc_Email :: string
  uc_PrimaryGroup :: string
  uc_Group :: "string list"
  uc_Role :: "UserRole option list"

record UpdateUserRequest =
  uu_UserName :: string
  uu_AdminOfTenantId :: "string list"
  uu_Email :: string
  uu_PrimaryGroup :: string
  uu_MemberOfGroup :: "string list"
  uu_MemberOfTenantId :: "string list"
  uu_Role :: "UserRole option"

record CreateUserRequest =
  cu_UserName :: string
  cu_Password :: string
  cu_Role :: UserRole
  cu_AdminOfTenantId :: "string list"
  cu_MemberOfTenantId :: "string list"
  cu_PrimaryGroup :: string
  cu_MemberOfGroup :: "string list"

datatype AccessKeyType = GENERAL_ACCESS_KEY | MANAGEMENT_ACCESS_KEY | DATA_ACCESS_KEY

record AccessKeyCredentials =
  ak_AccessKeyId :: string
  ak_SecretAccessKey :: string

section \<open>The client\<close>

text \<open>
  One field for each method. \<open>CreateVolume\<close>, \<open>WhoAmI\<close>, \<open>ResolveVolumeNameToUUID\<close> and \<open>GetTenantUUID\<close>
  are those of the driver's interface; \<open>DeleteVolume\<close> takes the identifier, \<open>SetTenant\<close> the name of the
  tenant to create, \<open>GetUsers\<close> the names to look up.
\<close>

record 'w QuobyteClient = "'w QuobyteApi" +
  c_GetVolumeList :: "GetVolumeListRequest \<Rightarrow> ('w, VolumeInfo option list) io"
  c_DeleteVolume :: "string \<Rightarrow> ('w, unit) io"
  c_GetQuota :: "GetQuotaRequest \<Rightarrow> ('w, Quota option list) io"
  c_SetQuota :: "Quota option list \<Rightarrow> ('w, unit) io"
  c_GetLabels :: "Label_EntityType \<Rightarrow> string \<Rightarrow> ('w, Label option list) io"
  c_GetTaskList :: "TaskType list \<Rightarrow> ('w, TaskInfo option list) io"
  c_ResolveTenantNameToUUID :: "string \<Rightarrow> ('w, string) io"
  c_SetTenant :: "string \<Rightarrow> ('w, string) io"
  c_DeleteTenant :: "string \<Rightarrow> ('w, unit) io"
  c_GetTenant :: "('w, string option list) io"
  c_GetUsers :: "string list \<Rightarrow> ('w, UserConfiguration option list) io"
  c_UpdateUser :: "UpdateUserRequest \<Rightarrow> ('w, unit) io"
  c_CreateUser :: "CreateUserRequest \<Rightarrow> ('w, unit) io"
  c_DeleteUser :: "string \<Rightarrow> ('w, unit) io"
  c_CreateAccessKeyCredentials :: "string \<Rightarrow> string \<Rightarrow> AccessKeyType \<Rightarrow> ('w, AccessKeyCredentials) io"
  c_DeleteAccessKeyCredentials :: "string \<Rightarrow> string \<Rightarrow> ('w, unit) io"

text \<open>The client as the driver sees it.\<close>

abbreviation driver_api :: "'w QuobyteClient \<Rightarrow> 'w QuobyteApi" where
  "driver_api c \<equiv> QuobyteApi.truncate c"

lemma driver_api_ops [simp]:
  "q_WhoAmI (driver_api c) = q_WhoAmI c"
  "q_CreateVolume (driver_api c) = q_CreateVolume c"
  "q_ResolveVolumeNameToUUID (driver_api c) = q_ResolveVolumeNameToUUID c"
  "q_CreateTask (driver_api c) = q_CreateTask c"
  "q_GetTenantUUID (driver_api c) = q_GetTenantUUID c"
  "q_SetVolumeQuota (driver_api c) = q_SetVolumeQuota c"
  by (simp_all add: QuobyteApi.defs)

section \<open>Loops over answers\<close>

text \<open>
  \<open>fmt.Errorf\<close> with the error of a call as its last argument, the form of every error path of the
  framework.
\<close>

definition wrapf :: "string \<Rightarrow> string list \<Rightarrow> ('w, 'a) io \<Rightarrow> ('w, 'a) io" where
  "wrapf fmt args m = wrap_io (\<lambda>err. Errorw fmt (args @ [Error err]) err) m"

lemma wrapf_Ok [io_inv]: "wrapf fmt args m w = (Ok a, w') \<longleftrightarrow> m w = (Ok a, w')"
  by (simp add: wrapf_def wrap_io_Ok)

lemma wrapf_Err [io_inv]:
  "wrapf fmt args m w = (Err e, w') \<longleftrightarrow>
     (\<exists>e0. m w = (Err e0, w') \<and> e = Errorw fmt (args @ [Error e0]) e0)"
  by (simp add: wrapf_def wrap_io_Err)

lemma wrapf_Panic [io_inv]: "wrapf fmt args m w = (Panic p, w') \<longleftrightarrow> m w = (Panic p, w')"
  by (simp add: wrapf_def wrap_io_Panic)

lemma wrapf_step [io_eval, simp]:
  "m w = (Ok a, w') \<Longrightarrow> wrapf fmt args m w = (Ok a, w')"
  "m w = (Err e, w') \<Longrightarrow> wrapf fmt args m w = (Err (Errorw fmt (args @ [Error e]) e), w')"
  "m w = (Panic p, w') \<Longrightarrow> wrapf fmt args m w = (Panic p, w')"
  by (simp_all add: wrapf_def)

lemma quiet_wrapf [quiet_rules]: "quiet m \<Longrightarrow> quiet (wrapf fmt args m)"
  unfolding wrapf_def by (rule quiet_wrap)

lemma keeps_wrapf [keeps_rules]: "keeps I m \<Longrightarrow> keeps I (wrapf fmt args m)"
  unfolding wrapf_def by (rule keeps_wrap)

text \<open>The entries that are not nil.\<close>

definition present :: "'a option list \<Rightarrow> 'a list" where
  "present xs = List.map_filter id xs"

lemma present_simps [simp]:
  "present [] = []" "present (None # xs) = present xs" "present (Some x # xs) = x # present xs"
  by (simp_all add: present_def map_filter_simps)

lemma present_append [simp]: "present (xs @ ys) = present xs @ present ys"
  by (induction xs rule: list.induct) (auto split: option.splits simp: present_def List.map_filter_def)

lemma set_present: "set (present xs) = {x. Some x \<in> set xs}"
  by (induction xs rule: list.induct) (auto simp: present_def map_filter_simps split: option.splits)

end
