(* ===== verification/Test_Volumes.thy ===== *)
theory Test_Volumes
  imports Test_Client
begin

text \<open>
  \<open>framework/volume.go\<close> and \<open>framework/task.go\<close>: how the tests make, find, inspect and remove volumes
  behind the driver's back. \<open>ip\<close> is the table of printing runes that \<open>%q\<close> needs. The functions whose
  names clash with a handler of the driver carry the name of their Go package.
\<close>

definition DefaultVolumeAccessMode :: int32 where "DefaultVolumeAccessMode = 700"
definition SharedVolumeAccessMode :: int32 where "SharedVolumeAccessMode = 1777"

section \<open>Creating\<close>

definition CreateVolumeOwnedBy ::
  "(nat \<Rightarrow> bool) \<Rightarrow> 'w QuobyteClient \<Rightarrow> string \<Rightarrow> string \<Rightarrow> int32 \<Rightarrow> string \<Rightarrow> string \<Rightarrow> ('w, string) io" where
  "CreateVolumeOwnedBy ip client name tenantID accessMode ownerUser ownerGroup =
     bind_io (try_io (q_CreateVolume client
                \<lparr>vr_Name = name, vr_TenantId = tenantID, vr_RootUserId = ownerUser,
                 vr_RootGroupId = ownerGroup, vr_AccessMode = accessMode, vr_Label = []\<rparr>)) (\<lambda>res.
       case res of
         Inr volumeUuid \<Rightarrow> return_io volumeUuid
       | Inl err \<Rightarrow>
           if \<not> Contains (Error err) ''ENTITY_EXISTS_ALREADY''
           then throw_io (Errorw ''creating volume %q in tenant %s: %w''
                  [Quote ip name, tenantID, Error err] err)
           else wrapf ''resolving already existing volume %q in tenant %s: %w'' [Quote ip name, tenantID]
                  (q_ResolveVolumeNameToUUID client name tenantID))"

definition framework_CreateVolume ::
  "(nat \<Rightarrow> bool) \<Rightarrow> 'w QuobyteClient \<Rightarrow> string \<Rightarrow> string \<Rightarrow> int32 \<Rightarrow> ('w, string) io" where
  "framework_CreateVolume ip client name tenantID accessMode =
     bind_io (wrapf ''resolving the Quobyte API user to own volume %q: %w'' [Quote ip name]
                (q_WhoAmI client)) (\<lambda>userInfo.
       CreateVolumeOwnedBy ip client name tenantID accessMode (UserName userInfo) (PrimaryGroup userInfo))"

definition CreateSharedVolume ::
  "(nat \<Rightarrow> bool) \<Rightarrow> 'w QuobyteClient \<Rightarrow> string \<Rightarrow> string \<Rightarrow> ('w, string) io" where
  "CreateSharedVolume ip client name tenantID =
     framework_CreateVolume ip client name tenantID SharedVolumeAccessMode"

section \<open>Deleting\<close>

definition framework_DeleteVolume :: "'w QuobyteClient \<Rightarrow> string \<Rightarrow> ('w, unit) io" where
  "framework_DeleteVolume client volumeUUID =
     bind_io (wrapf ''looking up volume %s: %w'' [volumeUUID]
                (c_GetVolumeList client \<lparr>gv_VolumeUuid = [volumeUUID], gv_TenantDomain = []\<rparr>)) (\<lambda>vs.
       if length vs = 0 then return_io ()
       else wrapf ''deleting volume %s: %w'' [volumeUUID] (c_DeleteVolume client volumeUUID))"

text \<open>
  \<open>errors.Join\<close> of a list without nil entries: nil for the empty list, else an error whose text
  has one line for each. Nothing looks inside the joined value.
\<close>

definition join_errors :: "go_error list \<Rightarrow> go_error option" where
  "join_errors errs =
     (if errs = [] then None else Some (ErrorString (join_char (CHR 0x0A) (List.map Error errs))))"

fun delete_listed ::
  "'w QuobyteClient \<Rightarrow> VolumeInfo option list \<Rightarrow> nat \<Rightarrow> go_error list \<Rightarrow> ('w, nat \<times> go_error list) io" where
  "delete_listed client [] deleted errs = return_io (deleted, errs)"
| "delete_listed client (None # vs) deleted errs = delete_listed client vs deleted errs"
| "delete_listed client (Some volume # vs) deleted errs =
     bind_io (try_io (framework_DeleteVolume client (vi_VolumeUuid volume))) (\<lambda>res.
       case res of
         Inl err \<Rightarrow> delete_listed client vs deleted (errs @ [err])
       | Inr _ \<Rightarrow> delete_listed client vs (deleted + 1) errs)"

text \<open>The code returns a count and an error together, so both are the value of the call.\<close>

definition DeleteVolumesInTenant :: "'w QuobyteClient \<Rightarrow> string \<Rightarrow> ('w, nat \<times> go_error option) io" where
  "DeleteVolumesInTenant client tenantID =
     bind_io (try_io (c_GetVolumeList client \<lparr>gv_VolumeUuid = [], gv_TenantDomain = tenantID\<rparr>)) (\<lambda>res.
       case res of
         Inl err \<Rightarrow> return_io (0, Some (Errorw ''listing volumes of tenant %s: %w'' [tenantID, Error err] err))
       | Inr vs \<Rightarrow>
           bind_io (delete_listed client vs 0 []) (\<lambda>(deleted, errs).
             return_io (deleted, join_errors errs)))"

section \<open>Looking up\<close>

fun tenant_of_listed ::
  "(nat \<Rightarrow> bool) \<Rightarrow> 'w QuobyteClient \<Rightarrow> string \<Rightarrow> VolumeInfo option list \<Rightarrow> ('w, string) io" where
  "tenant_of_listed ip client volumeUUID [] =
     throw_io (Errorf ''volume %s not found, so it has no tenant to report'' [volumeUUID])"
| "tenant_of_listed ip client volumeUUID (None # vs) = tenant_of_listed ip client volumeUUID vs"
| "tenant_of_listed ip client volumeUUID (Some volume # vs) =
     (if vi_VolumeUuid volume \<noteq> volumeUUID then tenant_of_listed ip client volumeUUID vs
      else bind_io (wrapf ''resolving tenant %q of volume %s: %w''
                      [Quote ip (vi_TenantDomain volume), volumeUUID]
                      (q_GetTenantUUID client (vi_TenantDomain volume))) (\<lambda>tenantID.
             if tenantID = []
             then throw_io (Errorf ''the Quobyte API reports no tenant for volume %s'' [volumeUUID])
             else return_io tenantID))"

definition TenantOfVolume :: "(nat \<Rightarrow> bool) \<Rightarrow> 'w QuobyteClient \<Rightarrow> string \<Rightarrow> ('w, string) io" where
  "TenantOfVolume ip client volumeUUID =
     bind_io (wrapf ''looking up volume %s to find its tenant: %w'' [volumeUUID]
                (c_GetVolumeList client \<lparr>gv_VolumeUuid = [volumeUUID], gv_TenantDomain = []\<rparr>)) (\<lambda>vs.
       tenant_of_listed ip client volumeUUID vs)"

definition ListVolumeNamesInTenant :: "'w QuobyteClient \<Rightarrow> string \<Rightarrow> ('w, string list) io" where
  "ListVolumeNamesInTenant client tenantID =
     bind_io (wrapf ''listing volumes of tenant %s: %w'' [tenantID]
                (c_GetVolumeList client \<lparr>gv_VolumeUuid = [], gv_TenantDomain = tenantID\<rparr>)) (\<lambda>vs.
       return_io (List.map vi_Name (present vs)))"

section \<open>Quotas and labels\<close>

fun find_limit :: "Resource option list \<Rightarrow> int64 option" where
  "find_limit [] = None"
| "find_limit (None # ls) = find_limit ls"
| "find_limit (Some limit # ls) =
     (if rs_Type limit = LOGICAL_DISK_SPACE then Some (rs_Value limit) else find_limit ls)"

fun find_quota :: "Quota option list \<Rightarrow> int64 option" where
  "find_quota [] = None"
| "find_quota (None # qs) = find_quota qs"
| "find_quota (Some quota # qs) =
     (case find_limit (qt_Limits quota) of Some v \<Rightarrow> Some v | None \<Rightarrow> find_quota qs)"

definition GetVolumeQuota :: "'w QuobyteClient \<Rightarrow> string \<Rightarrow> ('w, int64 \<times> bool) io" where
  "GetVolumeQuota client volumeUUID =
     bind_io (wrapf ''reading the quota of volume %s: %w'' [volumeUUID]
                (c_GetQuota client
                   \<lparr>gq_OnlyEntity = [Some \<lparr>ce_Type = ENTITY_VOLUME, ce_Identifier = volumeUUID,
                                            ce_DisableOversubscription = False\<rparr>],
                    gq_OnlyResourceType = [Some LOGICAL_DISK_SPACE]\<rparr>)) (\<lambda>quotas.
       case find_quota quotas of
         Some v \<Rightarrow> return_io (v, True)
       | None \<Rightarrow> return_io (0, False))"

definition CapTenantDiskSpace :: "'w QuobyteClient \<Rightarrow> string \<Rightarrow> int64 \<Rightarrow> ('w, unit) io" where
  "CapTenantDiskSpace client tenantID bytes =
     wrapf ''limiting tenant %s to %d bytes of logical disk space: %w'' [tenantID, Itoa (sint bytes)]
       (c_SetQuota client
          [Some \<lparr>qt_Consumer = [Some \<lparr>ce_Type = ENTITY_TENANT, ce_Identifier = tenantID,
                                       ce_DisableOversubscription = True\<rparr>],
                 qt_Limits = [Some \<lparr>rs_Type = LOGICAL_DISK_SPACE, rs_Value = bytes\<rparr>]\<rparr>])"

text \<open>The map the loop fills: a later label of the same name replaces an earlier one.\<close>

definition labels_map :: "Label option list \<Rightarrow> string \<Rightarrow> string option" where
  "labels_map ls = fold (\<lambda>l m. m(lb_Name l \<mapsto> lb_Value l)) (present ls) Map.empty"

definition GetVolumeLabels :: "'w QuobyteClient \<Rightarrow> string \<Rightarrow> ('w, string \<Rightarrow> string option) io" where
  "GetVolumeLabels client volumeUUID =
     bind_io (wrapf ''reading the labels of volume %s: %w'' [volumeUUID]
                (c_GetLabels client LABEL_VOLUME volumeUUID)) (\<lambda>ls. return_io (labels_map ls))"

section \<open>Tasks\<close>

fun scope_names_volume :: "SubjectList option list \<Rightarrow> string \<Rightarrow> bool" where
  "scope_names_volume [] volumeUuid = False"
| "scope_names_volume (None # ss) volumeUuid = scope_names_volume ss volumeUuid"
| "scope_names_volume (Some subject # ss) volumeUuid =
     (if sl_Type subject = SUBJECT_VOLUME \<and> volumeUuid \<in> set (sl_SubjectId subject) then True
      else scope_names_volume ss volumeUuid)"

definition taskScopedToVolume :: "TaskInfo \<Rightarrow> string \<Rightarrow> bool" where
  "taskScopedToVolume task volumeUuid = scope_names_volume (ti_Scope task) volumeUuid"

fun task_scheduled :: "TaskInfo option list \<Rightarrow> string \<Rightarrow> string \<Rightarrow> bool" where
  "task_scheduled [] volumeUuid directoryPath = False"
| "task_scheduled (None # ts) volumeUuid directoryPath = task_scheduled ts volumeUuid directoryPath"
| "task_scheduled (Some task # ts) volumeUuid directoryPath =
     (if ti_DirectoryPath task \<noteq> directoryPath then task_scheduled ts volumeUuid directoryPath
      else if taskScopedToVolume task volumeUuid then True
      else task_scheduled ts volumeUuid directoryPath)"

definition DeleteFilesTaskScheduled :: "'w QuobyteClient \<Rightarrow> string \<Rightarrow> string \<Rightarrow> ('w, bool) io" where
  "DeleteFilesTaskScheduled client volumeUuid directoryPath =
     bind_io (wrapf ''listing delete-files tasks: %w'' []
                (c_GetTaskList client [DELETE_FILES_IN_VOLUMES])) (\<lambda>tasks.
       return_io (task_scheduled tasks volumeUuid directoryPath))"

section \<open>What the loops find\<close>

lemma scope_names_volume_iff:
  "scope_names_volume ss v \<longleftrightarrow>
     (\<exists>s \<in> set (present ss). sl_Type s = SUBJECT_VOLUME \<and> v \<in> set (sl_SubjectId s))"
  by (induction ss v rule: scope_names_volume.induct) auto

lemma task_scheduled_iff:
  "task_scheduled ts v dir \<longleftrightarrow>
     (\<exists>t \<in> set (present ts). ti_DirectoryPath t = dir \<and>
        (\<exists>s \<in> set (present (ti_Scope t)). sl_Type s = SUBJECT_VOLUME \<and> v \<in> set (sl_SubjectId s)))"
  by (induction ts v dir rule: task_scheduled.induct)
    (auto simp: taskScopedToVolume_def scope_names_volume_iff)

lemma find_limit_Some:
  "find_limit ls = Some v \<Longrightarrow> \<exists>l \<in> set (present ls). rs_Type l = LOGICAL_DISK_SPACE \<and> rs_Value l = v"
  by (induction ls rule: find_limit.induct) (auto split: if_splits)

lemma find_limit_None:
  "find_limit ls = None \<longleftrightarrow> (\<forall>l \<in> set (present ls). rs_Type l \<noteq> LOGICAL_DISK_SPACE)"
  by (induction ls rule: find_limit.induct) auto

lemma find_quota_None:
  "find_quota qs = None \<longleftrightarrow>
     (\<forall>q \<in> set (present qs). \<forall>l \<in> set (present (qt_Limits q)). rs_Type l \<noteq> LOGICAL_DISK_SPACE)"
  by (induction qs rule: find_quota.induct)
    (auto simp: find_limit_None split: option.splits dest: find_limit_Some)

lemma join_errors_None [simp]: "join_errors errs = None \<longleftrightarrow> errs = []"
  by (simp add: join_errors_def)

text \<open>Every listed volume is counted: as deleted, or as an error.\<close>

lemma delete_listed_count:
  "delete_listed client vs n errs w = (Ok (m, es), w') \<Longrightarrow>
     m + length es = n + length errs + length (present vs)"
proof (induction client vs n errs arbitrary: w rule: delete_listed.induct)
  case (3 client volume vs deleted errs)
  from 3(3) obtain r w1 where r: "try_io (framework_DeleteVolume client (vi_VolumeUuid volume)) w = (Ok r, w1)"
    and rest: "(case r of Inl err \<Rightarrow> delete_listed client vs deleted (errs @ [err])
                | Inr _ \<Rightarrow> delete_listed client vs (deleted + 1) errs) w1 = (Ok (m, es), w')"
    unfolding delete_listed.simps bind_io_Ok by blast
  show ?case
  proof (cases r)
    case (Inl err)
    with rest have "delete_listed client vs deleted (errs @ [err]) w1 = (Ok (m, es), w')" by simp
    from 3(1) [OF this] show ?thesis by simp
  next
    case (Inr u)
    with rest have "delete_listed client vs (deleted + 1) errs w1 = (Ok (m, es), w')" by simp
    from 3(2) [OF this] show ?thesis by simp
  qed
qed auto

end
