(* ===== verification/Sample_Quobyte.thy ===== *)
theory Sample_Quobyte
  imports Test_Client
begin

text \<open>
  A small concrete Quobyte service with volumes, tenants, users, quotas and tasks: the instance at which
  the witnesses run the test framework, alone and together with the driver. It is not a model of the
  service.
\<close>

record accounts =
  ac_volumes :: "VolumeInfo list"
  ac_users :: "string \<Rightarrow> UserConfiguration option"
  ac_tenants :: "string list"
  ac_tasks :: "CreateTaskRequest list"
  ac_quotas :: "string \<Rightarrow> int64 option"

definition answer :: "(accounts \<Rightarrow> 'a) \<Rightarrow> (accounts, 'a) io" where
  "answer f = (\<lambda>w. (Ok (f w), w))"

definition update :: "(accounts \<Rightarrow> accounts) \<Rightarrow> (accounts, unit) io" where
  "update f = (\<lambda>w. (Ok (), f w))"

text \<open>The configuration of a user after an update.\<close>

definition updated_user :: "UpdateUserRequest \<Rightarrow> UserConfiguration" where
  "updated_user req =
     \<lparr>uc_AdminOfTenantId = uu_AdminOfTenantId req, uc_MemberOfTenantId = uu_MemberOfTenantId req,
      uc_Email = uu_Email req, uc_PrimaryGroup = uu_PrimaryGroup req, uc_Group = uu_MemberOfGroup req,
      uc_Role = (case uu_Role req of None \<Rightarrow> [] | Some r \<Rightarrow> [Some r])\<rparr>"

text \<open>A task as the API echoes it: the volumes it is restricted to are its scope.\<close>

definition task_info :: "CreateTaskRequest \<Rightarrow> TaskInfo" where
  "task_info req =
     \<lparr>ti_DirectoryPath = DirectoryPath req,
      ti_Scope = [Some \<lparr>sl_Type = SUBJECT_VOLUME, sl_SubjectId = RestrictToVolumes req\<rparr>]\<rparr>"

definition matches :: "GetVolumeListRequest \<Rightarrow> VolumeInfo \<Rightarrow> bool" where
  "matches req v \<longleftrightarrow>
     (gv_VolumeUuid req = [] \<or> vi_VolumeUuid v \<in> set (gv_VolumeUuid req)) \<and>
     (gv_TenantDomain req = [] \<or> vi_TenantDomain v = gv_TenantDomain req)"

text \<open>Identifiers of volumes and tenants are derived from their names.\<close>

definition sample_client :: "accounts QuobyteClient" where
  "sample_client =
     \<lparr>q_WhoAmI = return_io \<lparr>UserName = ''admin'', PrimaryGroup = ''staff''\<rparr>,
      q_GetTenantUUID = return_io,
      q_CreateVolume = (\<lambda>r w.
        (if \<exists>v \<in> set (ac_volumes w). vi_Name v = vr_Name r \<and> vi_TenantDomain v = vr_TenantId r
         then (Err (ErrorString ''ENTITY_EXISTS_ALREADY/POSIX_ERROR_NONE''), w)
         else (Ok (''v-'' @ vr_Name r),
               w\<lparr>ac_volumes := \<lparr>vi_VolumeUuid = ''v-'' @ vr_Name r, vi_Name = vr_Name r,
                                 vi_TenantDomain = vr_TenantId r\<rparr> # ac_volumes w\<rparr>))),
      q_ResolveVolumeNameToUUID = (\<lambda>n t. return_io (''v-'' @ n)),
      q_SetVolumeQuota = (\<lambda>v c. update (\<lambda>w. w\<lparr>ac_quotas := (ac_quotas w)(v \<mapsto> c)\<rparr>)),
      q_DeleteVolumeByResolvingNamesToUUID = (\<lambda>v t. return_io ()),
      q_EraseVolumeByResolvingNamesToUUID = (\<lambda>v t imm. return_io ()),
      q_CreateTask = (\<lambda>r. update (\<lambda>w. w\<lparr>ac_tasks := r # ac_tasks w\<rparr>)),
      q_GetVolumeUUID = (\<lambda>v t. return_io v),
      q_CreateSnapshot = (\<lambda>r. return_io ()),
      q_DeleteSnapshot = (\<lambda>v n. return_io ()),
      q_ListSnapshots = (\<lambda>v. return_io []),
      c_GetVolumeList = (\<lambda>req. answer (\<lambda>w. List.map Some (filter (matches req) (ac_volumes w)))),
      c_DeleteVolume = (\<lambda>u. update (\<lambda>w. w\<lparr>ac_volumes := filter (\<lambda>v. vi_VolumeUuid v \<noteq> u) (ac_volumes w)\<rparr>)),
      c_GetQuota = (\<lambda>req. answer (\<lambda>w.
        (case gq_OnlyEntity req of
           Some e # _ \<Rightarrow> (case ac_quotas w (ce_Identifier e) of None \<Rightarrow> []
             | Some c \<Rightarrow> [Some \<lparr>qt_Consumer = [Some e], qt_Limits = [Some \<lparr>rs_Type = LOGICAL_DISK_SPACE, rs_Value = c\<rparr>]\<rparr>])
         | _ \<Rightarrow> []))),
      c_SetQuota = (\<lambda>qs. return_io ()),
      c_GetLabels = (\<lambda>ty v. return_io []),
      c_GetTaskList = (\<lambda>tys. answer (\<lambda>w. List.map (\<lambda>r. Some (task_info r)) (ac_tasks w))),
      c_ResolveTenantNameToUUID = (\<lambda>n w.
        (if n \<in> set (ac_tenants w) then (Ok n, w) else (Err (ErrorString ''tenant not found''), w))),
      c_SetTenant = (\<lambda>n w. (Ok n, w\<lparr>ac_tenants := n # ac_tenants w\<rparr>)),
      c_DeleteTenant = (\<lambda>t. update (\<lambda>w. w\<lparr>ac_tenants := filter (\<lambda>x. x \<noteq> t) (ac_tenants w)\<rparr>)),
      c_GetTenant = answer (\<lambda>w. List.map Some (ac_tenants w)),
      c_GetUsers = (\<lambda>us. answer (\<lambda>w. List.map Some (List.map_filter (ac_users w) us))),
      c_UpdateUser = (\<lambda>req w.
        (case ac_users w (uu_UserName req) of
           None \<Rightarrow> (Err (ErrorString ''user not found''), w)
         | Some conf \<Rightarrow> (Ok (), w\<lparr>ac_users := (ac_users w)(uu_UserName req \<mapsto> updated_user req)\<rparr>))),
      c_CreateUser = (\<lambda>req. update (\<lambda>w. w\<lparr>ac_users := (ac_users w)(cu_UserName req \<mapsto>
        \<lparr>uc_AdminOfTenantId = cu_AdminOfTenantId req, uc_MemberOfTenantId = cu_MemberOfTenantId req,
         uc_Email = [], uc_PrimaryGroup = cu_PrimaryGroup req, uc_Group = cu_MemberOfGroup req,
         uc_Role = [Some (cu_Role req)]\<rparr>)\<rparr>)),
      c_DeleteUser = (\<lambda>u. update (\<lambda>w. w\<lparr>ac_users := (ac_users w)(u := None)\<rparr>)),
      c_CreateAccessKeyCredentials = (\<lambda>t u ty. return_io \<lparr>ak_AccessKeyId = ''key'', ak_SecretAccessKey = ''secret''\<rparr>),
      c_DeleteAccessKeyCredentials = (\<lambda>u k. return_io ())\<rparr>"

definition sample_accounts :: accounts where
  "sample_accounts =
     \<lparr>ac_volumes = [\<lparr>vi_VolumeUuid = ''v-a'', vi_Name = ''a'', vi_TenantDomain = ''t''\<rparr>,
                    \<lparr>vi_VolumeUuid = ''v-b'', vi_Name = ''b'', vi_TenantDomain = ''u''\<rparr>],
      ac_users = [''api'' \<mapsto> \<lparr>uc_AdminOfTenantId = [''u'', ''gone'', ''u''], uc_MemberOfTenantId = [''gone''],
        uc_Email = [], uc_PrimaryGroup = ''staff'', uc_Group = [''staff''], uc_Role = [Some FILESYSTEM_ADMIN]\<rparr>],
      ac_tenants = [''u''], ac_tasks = [], ac_quotas = (\<lambda>_. None)\<rparr>"

lemmas accounts_defs = sample_client_def answer_def update_def sample_accounts_def

text \<open>A driver that uses this service. Its node has no files, and makes nothing of the calls it gets.\<close>

definition idle_mounter :: "'w Mounter" where
  "idle_mounter =
     \<lparr>m_Mkdirs = (\<lambda>p m. return_io ()), m_Mkdir = (\<lambda>p m. return_io ()), m_Chmod = (\<lambda>p m. return_io ()),
      m_Chown = (\<lambda>p u g. return_io ()), m_Rename = (\<lambda>old new. return_io ()),
      m_Lookup = (\<lambda>u. return_io \<lparr>Uid = ''1000''\<rparr>), m_LookupGroup = (\<lambda>g. return_io \<lparr>Gid = ''1000''\<rparr>),
      m_Mount = (\<lambda>s t. return_io ()), m_Unmount = (\<lambda>t. return_io ()),
      m_Stat = (\<lambda>p. throw_io (ErrorString ''no such file'')),
      m_Statfs = (\<lambda>p. throw_io (ErrorString ''no such file'')), m_SetXAttr = (\<lambda>k v p. return_io ()),
      m_CreateAccessKeyContextHandle = return_io ''handle'', m_GetNodeName = ''node'',
      m_RemoveAll = (\<lambda>p. return_io ())\<rparr>"

definition accounts_driver :: "accounts QuobyteDriver" where
  "accounts_driver =
     \<lparr>drv_Name = ''csi'', drv_Version = ''1'', endpoint = ''unix:///csi.sock'', clientMountPoint = ''/mnt'',
      NodeName = ''node'', ApiURL = ''http://api'', UseK8SNamespaceAsQuobyteTenant = False,
      IsQuobyteAccessKeyMountsEnabled = True, ImmediateErase = False, QuobyteVersion = 3,
      enabledVolumeMetrics = True, UseDeleteFilesTask = True,
      NewQuobyteApiClient = (\<lambda>url secrets. return_io (driver_api sample_client)), mounter = idle_mounter\<rparr>"

end
