(* ===== verification/Test_Volumes_Facts.thy ===== *)
theory Test_Volumes_Facts
  imports Test_Volumes Sample_Quobyte
begin

text \<open>
  What emptying a tenant does to the volumes of the service, on a view of the world that gives the set
  of volumes. \<open>in_tenant t v\<close> says that the listing for \<open>t\<close> has the volume \<open>v\<close>.
\<close>

section \<open>What is assumed of the service\<close>

definition listing_contract ::
  "('w \<Rightarrow> VolumeInfo set) \<Rightarrow> (string \<Rightarrow> VolumeInfo \<Rightarrow> bool) \<Rightarrow> 'w QuobyteClient \<Rightarrow> bool" where
  "listing_contract vols in_tenant c \<longleftrightarrow>
     (\<forall>req w r w'. c_GetVolumeList c req w = (r, w') \<longrightarrow> vols w' = vols w) \<and>
     (\<forall>t w l w'. c_GetVolumeList c \<lparr>gv_VolumeUuid = [], gv_TenantDomain = t\<rparr> w = (Ok l, w') \<longrightarrow>
        set (present l) = {v \<in> vols w. in_tenant t v}) \<and>
     (\<forall>u w l w'. c_GetVolumeList c \<lparr>gv_VolumeUuid = [u], gv_TenantDomain = []\<rparr> w = (Ok l, w') \<longrightarrow>
        (l = [] \<longleftrightarrow> (\<forall>v \<in> vols w. vi_VolumeUuid v \<noteq> u))) \<and>
     (\<forall>u w w'. c_DeleteVolume c u w = (Ok (), w') \<longrightarrow> vols w' = {v \<in> vols w. vi_VolumeUuid v \<noteq> u}) \<and>
     (\<forall>u w e w'. c_DeleteVolume c u w = (Err e, w') \<longrightarrow> vols w' = vols w)"

lemma listing_contractD:
  assumes "listing_contract vols in_tenant c"
  shows "c_GetVolumeList c req w = (r, w') \<Longrightarrow> vols w' = vols w"
    and "c_GetVolumeList c \<lparr>gv_VolumeUuid = [], gv_TenantDomain = t\<rparr> w = (Ok l, w') \<Longrightarrow>
           set (present l) = {v \<in> vols w. in_tenant t v}"
    and "c_GetVolumeList c \<lparr>gv_VolumeUuid = [u], gv_TenantDomain = []\<rparr> w = (Ok l, w') \<Longrightarrow>
           l = [] \<longleftrightarrow> (\<forall>v \<in> vols w. vi_VolumeUuid v \<noteq> u)"
    and "c_DeleteVolume c u w = (Ok (), w') \<Longrightarrow> vols w' = {v \<in> vols w. vi_VolumeUuid v \<noteq> u}"
    and "c_DeleteVolume c u w = (Err e, w') \<Longrightarrow> vols w' = vols w"
proof -
  note c = assms [unfolded listing_contract_def]
  note c1 = conjunct1 [OF c] and c2 = conjunct1 [OF conjunct2 [OF c]]
    and c3 = conjunct1 [OF conjunct2 [OF conjunct2 [OF c]]]
    and c4 = conjunct1 [OF conjunct2 [OF conjunct2 [OF conjunct2 [OF c]]]]
    and c5 = conjunct2 [OF conjunct2 [OF conjunct2 [OF conjunct2 [OF c]]]]
  show "c_GetVolumeList c req w = (r, w') \<Longrightarrow> vols w' = vols w"
    using c1 by blast
  show "c_GetVolumeList c \<lparr>gv_VolumeUuid = [], gv_TenantDomain = t\<rparr> w = (Ok l, w') \<Longrightarrow>
           set (present l) = {v \<in> vols w. in_tenant t v}"
    using c2 by blast
  show "c_GetVolumeList c \<lparr>gv_VolumeUuid = [u], gv_TenantDomain = []\<rparr> w = (Ok l, w') \<Longrightarrow>
           l = [] \<longleftrightarrow> (\<forall>v \<in> vols w. vi_VolumeUuid v \<noteq> u)"
    using c3 by blast
  show "c_DeleteVolume c u w = (Ok (), w') \<Longrightarrow> vols w' = {v \<in> vols w. vi_VolumeUuid v \<noteq> u}"
    using c4 by blast
  show "c_DeleteVolume c u w = (Err e, w') \<Longrightarrow> vols w' = vols w"
    using c5 by blast
qed

lemma sample_listing_contract:
  "listing_contract (\<lambda>w. set (ac_volumes w)) (\<lambda>t v. t = [] \<or> vi_TenantDomain v = t) sample_client"
proof -
  have "set (present (List.map Some xs)) = set xs" for xs :: "VolumeInfo list"
    by (auto simp: set_present)
  then show ?thesis
    unfolding listing_contract_def
    by (auto simp: sample_client_def answer_def update_def matches_def filter_empty_conv)
qed

section \<open>Deleting one volume\<close>

lemma framework_DeleteVolume_Ok:
  assumes "listing_contract vols in_tenant c" and "framework_DeleteVolume c u w = (Ok (), w')"
  shows "vols w' = {v \<in> vols w. vi_VolumeUuid v \<noteq> u}"
proof -
  from assms(2) obtain l w1 where l: "c_GetVolumeList c \<lparr>gv_VolumeUuid = [u], gv_TenantDomain = []\<rparr> w = (Ok l, w1)"
    and rest: "(if length l = 0 then return_io ()
       else wrapf ''deleting volume %s: %w'' [u] (c_DeleteVolume c u)) w1 = (Ok (), w')"
    unfolding framework_DeleteVolume_def bind_io_Ok wrapf_Ok by blast
  have same: "vols w1 = vols w" using listing_contractD(1) [OF assms(1) l] .
  show ?thesis
  proof (cases "l = []")
    case True
    then have "\<forall>v \<in> vols w. vi_VolumeUuid v \<noteq> u" using listing_contractD(3) [OF assms(1) l] by simp
    with True rest same show ?thesis by auto
  next
    case False
    with rest have "c_DeleteVolume c u w1 = (Ok (), w')" by (simp add: wrapf_Ok)
    then show ?thesis using listing_contractD(4) [OF assms(1)] same by simp
  qed
qed

lemma framework_DeleteVolume_Err:
  assumes "listing_contract vols in_tenant c" and "framework_DeleteVolume c u w = (Err e, w')"
  shows "vols w' = vols w"
proof -
  obtain r w1 where l: "c_GetVolumeList c \<lparr>gv_VolumeUuid = [u], gv_TenantDomain = []\<rparr> w = (r, w1)"
    by (cases "c_GetVolumeList c \<lparr>gv_VolumeUuid = [u], gv_TenantDomain = []\<rparr> w")
  have "vols w1 = vols w" using listing_contractD(1) [OF assms(1) l] .
  moreover have "vols w' = vols w1"
    using assms(2) l listing_contractD(5) [OF assms(1)]
    by (cases r) (auto simp: framework_DeleteVolume_def wrapf_Err split: if_splits)
  ultimately show ?thesis by simp
qed

section \<open>Deleting all that is listed\<close>

text \<open>The volumes of \<open>V\<close> that are not listed in \<open>l\<close>.\<close>

definition unlisted :: "VolumeInfo option list \<Rightarrow> VolumeInfo set \<Rightarrow> VolumeInfo set" where
  "unlisted l V = {v \<in> V. vi_VolumeUuid v \<notin> vi_VolumeUuid ` set (present l)}"

lemma unlisted_simps [simp]:
  "unlisted [] V = V" "unlisted (None # l) V = unlisted l V"
  "unlisted (Some v # l) V = unlisted l {x \<in> V. vi_VolumeUuid x \<noteq> vi_VolumeUuid v}"
  by (auto simp: unlisted_def)

lemma unlisted_mono: "V \<subseteq> W \<Longrightarrow> unlisted l V \<subseteq> unlisted l W"
  by (auto simp: unlisted_def)

text \<open>
  The loop keeps what is not listed, and removes no other volume; when it collects no new error, all
  that was listed is gone.
\<close>

lemma delete_listed_Ok:
  assumes "listing_contract vols in_tenant c"
  shows "delete_listed c l n errs w = (Ok (m, es), w') \<Longrightarrow>
     vols w' \<subseteq> vols w \<and> unlisted l (vols w) \<subseteq> vols w' \<and> (\<exists>k. es = errs @ k) \<and>
     (es = errs \<longrightarrow> vols w' = unlisted l (vols w))"
proof (induction l arbitrary: n errs w)
  case Nil
  then show ?case by simp
next
  case (Cons x l)
  show ?case
  proof (cases x)
    case None
    with Cons.prems have "delete_listed c l n errs w = (Ok (m, es), w')" by simp
    from Cons.IH [OF this] None show ?thesis by simp
  next
    case (Some v)
    let ?gone = "{x \<in> vols w. vi_VolumeUuid x \<noteq> vi_VolumeUuid v}"
    obtain r w1 where d: "framework_DeleteVolume c (vi_VolumeUuid v) w = (r, w1)"
      by (cases "framework_DeleteVolume c (vi_VolumeUuid v) w")
    show ?thesis
    proof (cases r)
      case (Ok u)
      with d have w1: "vols w1 = ?gone" using framework_DeleteVolume_Ok [OF assms] by simp
      from Ok d Some Cons.prems have "delete_listed c l (n + 1) errs w1 = (Ok (m, es), w')" by simp
      from Cons.IH [OF this] w1 Some show ?thesis by auto
    next
      case (Err e)
      with d have w1: "vols w1 = vols w" using framework_DeleteVolume_Err [OF assms] by blast
      from Err d Some Cons.prems have "delete_listed c l n (errs @ [e]) w1 = (Ok (m, es), w')" by simp
      from Cons.IH [OF this] have "vols w' \<subseteq> vols w" "unlisted l (vols w) \<subseteq> vols w'" "\<exists>k. es = (errs @ [e]) @ k"
        unfolding w1 by blast+
      moreover have "unlisted l ?gone \<subseteq> unlisted l (vols w)" by (rule unlisted_mono) auto
      ultimately show ?thesis using Some by auto
    next
      case (Panic p)
      with d Some Cons.prems show ?thesis by simp
    qed
  qed
qed

section \<open>The properties\<close>

text \<open>
  C29 (emptying a tenant) The count and the error of \<open>DeleteVolumesInTenant\<close> are right: without an error no
  volume of the tenant is left and the count is the number of those listed; in any case only volumes
  of the tenant (that is, with the identifier of one) are removed.
\<close>

theorem DeleteVolumesInTenant_empties:
  assumes "listing_contract vols in_tenant c" and "DeleteVolumesInTenant c t w = (Ok (n, err), w')"
  shows "vols w' \<subseteq> vols w \<and>
     {v \<in> vols w. \<nexists>x. x \<in> vols w \<and> in_tenant t x \<and> vi_VolumeUuid x = vi_VolumeUuid v} \<subseteq> vols w' \<and>
     (err = None \<longrightarrow> {v \<in> vols w'. in_tenant t v} = {} \<and>
        (\<exists>l w1. c_GetVolumeList c \<lparr>gv_VolumeUuid = [], gv_TenantDomain = t\<rparr> w = (Ok l, w1) \<and>
           n = length (present l)))"
proof -
  let ?list = "c_GetVolumeList c \<lparr>gv_VolumeUuid = [], gv_TenantDomain = t\<rparr> w"
  obtain r w1 where l: "?list = (r, w1)" by (cases ?list)
  have w1: "vols w1 = vols w" using listing_contractD(1) [OF assms(1) l] .
  show ?thesis
  proof (cases r)
    case (Err e)
    with assms(2) l w1 show ?thesis by (auto simp: DeleteVolumesInTenant_def)
  next
    case (Panic p)
    with assms(2) l show ?thesis by (simp add: DeleteVolumesInTenant_def)
  next
    case (Ok vs)
    with assms(2) l obtain es where run: "delete_listed c vs 0 [] w1 = (Ok (n, es), w')" and err: "err = join_errors es"
      by (auto simp: DeleteVolumesInTenant_def bind_io_Ok)
    have "set (present vs) = {v \<in> vols w. in_tenant t v}"
      using listing_contractD(2) [OF assms(1)] l Ok by blast
    then have "u \<in> vi_VolumeUuid ` set (present vs) \<longleftrightarrow> (\<exists>x. x \<in> vols w \<and> in_tenant t x \<and> vi_VolumeUuid x = u)" for u
      by auto
    then have un: "unlisted vs (vols w)
        = {v \<in> vols w. \<nexists>x. x \<in> vols w \<and> in_tenant t x \<and> vi_VolumeUuid x = vi_VolumeUuid v}"
      by (simp add: unlisted_def)
    note result = delete_listed_Ok [OF assms(1) run, unfolded w1 un]
    have "n = length (present vs)" if "es = []"
      using delete_listed_count [OF run] that by simp
    with result err l Ok show ?thesis by auto
  qed
qed

theorem DeleteVolumesInTenant_empties_witness:
  "\<exists>w. DeleteVolumesInTenant sample_client ''t'' sample_accounts = (Ok (1, None), w) \<and>
     {v. v \<in> set (ac_volumes w) \<and> vi_TenantDomain v = ''t''} = {}"
proof -
  have "\<exists>w. DeleteVolumesInTenant sample_client ''t'' sample_accounts = (Ok (1, None), w)"
    by (simp add: DeleteVolumesInTenant_def framework_DeleteVolume_def accounts_defs matches_def join_errors_def
        bind_io_def try_io_def wrapf_def wrap_io_def)
  then obtain w where run: "DeleteVolumesInTenant sample_client ''t'' sample_accounts = (Ok (1, None), w)" by blast
  from DeleteVolumesInTenant_empties [OF sample_listing_contract run] run show ?thesis by auto
qed

end
