(* ===== verification/Test_Tenants.thy ===== *)
theory Test_Tenants
  imports Test_Client
begin

text \<open>
  \<open>framework/tenant.go\<close>, \<open>user.go\<close> and \<open>accesskey.go\<close>: tenants, the users the tests provision through,
  and their keys. Granting a user a tenant rewrites all of the user's tenant lists, so the lists that
  are sent have to be right: nothing that still exists is lost, nothing that is gone is sent, and no
  tenant is named twice.
\<close>

section \<open>Lists without repetition\<close>

fun distinct_from :: "string list \<Rightarrow> string list \<Rightarrow> string list" where
  "distinct_from deduplicated [] = deduplicated"
| "distinct_from deduplicated (value # values) =
     distinct_from (if value \<notin> set deduplicated then deduplicated @ [value] else deduplicated) values"

definition distinct_values :: "string list \<Rightarrow> string list" where
  "distinct_values values = distinct_from [] values"

text \<open>The set of existing tenants is a Go map to truth values; a missing key reads as false.\<close>

fun keep_from :: "(string \<Rightarrow> bool) \<Rightarrow> string list \<Rightarrow> string list \<Rightarrow> string list" where
  "keep_from existing kept [] = kept"
| "keep_from existing kept (tenantID # tenantIDs) =
     keep_from existing
       (if existing tenantID \<and> tenantID \<notin> set kept then kept @ [tenantID] else kept) tenantIDs"

definition keepExistingTenants :: "string list \<Rightarrow> (string \<Rightarrow> bool) \<Rightarrow> string list" where
  "keepExistingTenants tenantIDs existing = keep_from existing [] tenantIDs"

section \<open>Users and keys\<close>

definition CreateUser ::
  "(nat \<Rightarrow> bool) \<Rightarrow> 'w QuobyteClient \<Rightarrow> string \<Rightarrow> string \<Rightarrow> string \<Rightarrow> UserRole \<Rightarrow> string list \<Rightarrow> ('w, unit) io" where
  "CreateUser ip client userName primaryGroup password userRole adminOfTenantIDs =
     (let tenantIDs = distinct_values adminOfTenantIDs
      in wrapf ''creating user %q: %w'' [Quote ip userName]
           (c_CreateUser client
              \<lparr>cu_UserName = userName, cu_Password = password, cu_Role = userRole,
               cu_AdminOfTenantId = tenantIDs, cu_MemberOfTenantId = tenantIDs,
               cu_PrimaryGroup = primaryGroup, cu_MemberOfGroup = [primaryGroup]\<rparr>))"

definition DeleteUser :: "(nat \<Rightarrow> bool) \<Rightarrow> 'w QuobyteClient \<Rightarrow> string \<Rightarrow> ('w, unit) io" where
  "DeleteUser ip client userName =
     wrapf ''deleting user %q: %w'' [Quote ip userName] (c_DeleteUser client userName)"

text \<open>\<open>%s\<close> of a key type is the name of the constant.\<close>

fun key_type_name :: "AccessKeyType \<Rightarrow> string" where
  "key_type_name GENERAL_ACCESS_KEY = ''GENERAL_ACCESS_KEY''"
| "key_type_name MANAGEMENT_ACCESS_KEY = ''MANAGEMENT_ACCESS_KEY''"
| "key_type_name DATA_ACCESS_KEY = ''DATA_ACCESS_KEY''"

definition CreateAccessKey ::
  "(nat \<Rightarrow> bool) \<Rightarrow> 'w QuobyteClient \<Rightarrow> string \<Rightarrow> string \<Rightarrow> AccessKeyType \<Rightarrow> ('w, AccessKeyCredentials) io" where
  "CreateAccessKey ip client tenantID userName keyType =
     wrapf ''creating %s for user %q in tenant %s: %w'' [key_type_name keyType, Quote ip userName, tenantID]
       (c_CreateAccessKeyCredentials client tenantID userName keyType)"

definition DeleteAccessKey :: "(nat \<Rightarrow> bool) \<Rightarrow> 'w QuobyteClient \<Rightarrow> string \<Rightarrow> string \<Rightarrow> ('w, unit) io" where
  "DeleteAccessKey ip client userName accessKeyID' =
     wrapf ''deleting access key %s of user %q: %w'' [accessKeyID', Quote ip userName]
       (c_DeleteAccessKeyCredentials client userName accessKeyID')"

section \<open>Tenants\<close>

definition EnsureTenantExists :: "(nat \<Rightarrow> bool) \<Rightarrow> 'w QuobyteClient \<Rightarrow> string \<Rightarrow> ('w, string) io" where
  "EnsureTenantExists ip client tenantName =
     bind_io (try_io (c_ResolveTenantNameToUUID client tenantName)) (\<lambda>res.
       case res of
         Inr tenantID \<Rightarrow> return_io tenantID
       | Inl _ \<Rightarrow> wrapf ''creating tenant %q: %w'' [Quote ip tenantName] (c_SetTenant client tenantName))"

abbreviation nil_pointer :: string where
  "nil_pointer \<equiv> ''invalid memory address or nil pointer dereference''"

text \<open>A nil entry of the answer would be dereferenced.\<close>

fun tenant_set :: "string option list \<Rightarrow> (string \<Rightarrow> bool) \<Rightarrow> (string \<Rightarrow> bool) outcome" where
  "tenant_set [] tenantIDs = Ok tenantIDs"
| "tenant_set (None # ts) tenantIDs = Panic nil_pointer"
| "tenant_set (Some t # ts) tenantIDs = tenant_set ts (tenantIDs(t := True))"

definition existingTenantIDs :: "'w QuobyteClient \<Rightarrow> ('w, string \<Rightarrow> bool) io" where
  "existingTenantIDs client =
     bind_io (wrapf ''listing tenants: %w'' [] (c_GetTenant client)) (\<lambda>ts.
       lift_io (tenant_set ts (\<lambda>_. False)))"

text \<open>The role of the update is the user's first one, when there is one.\<close>

definition first_role :: "UserRole option list \<Rightarrow> UserRole option outcome" where
  "first_role roles =
     (case roles of [] \<Rightarrow> Ok None
      | r # _ \<Rightarrow> (case r of None \<Rightarrow> Panic nil_pointer | Some role \<Rightarrow> Ok (Some role)))"

definition grant_request ::
  "string \<Rightarrow> UserConfiguration \<Rightarrow> (string \<Rightarrow> bool) \<Rightarrow> string \<Rightarrow> UserRole option \<Rightarrow> UpdateUserRequest" where
  "grant_request quobyteUser user existingTenants tenantID role =
     \<lparr>uu_UserName = quobyteUser,
      uu_AdminOfTenantId = keepExistingTenants (uc_AdminOfTenantId user) existingTenants @ [tenantID],
      uu_Email = uc_Email user, uu_PrimaryGroup = uc_PrimaryGroup user,
      uu_MemberOfGroup = uc_Group user,
      uu_MemberOfTenantId = keepExistingTenants (uc_MemberOfTenantId user) existingTenants,
      uu_Role = role\<rparr>"

definition grant_tenant ::
  "(nat \<Rightarrow> bool) \<Rightarrow> 'w QuobyteClient \<Rightarrow> string \<Rightarrow> string \<Rightarrow> UserConfiguration \<Rightarrow> string \<Rightarrow> ('w, string) io" where
  "grant_tenant ip client tenantName quobyteUser user tenantID =
     bind_io (existingTenantIDs client) (\<lambda>existingTenants.
     bind_io (lift_io (first_role (uc_Role user))) (\<lambda>role.
     bind_io (wrapf ''granting user %q access to tenant %q: %w'' [Quote ip quobyteUser, Quote ip tenantName]
                (c_UpdateUser client (grant_request quobyteUser user existingTenants tenantID role))) (\<lambda>_.
     return_io tenantID)))"

definition EnsureTenant ::
  "(nat \<Rightarrow> bool) \<Rightarrow> 'w QuobyteClient \<Rightarrow> string \<Rightarrow> string \<Rightarrow> ('w, string) io" where
  "EnsureTenant ip client tenantName quobyteUser =
     bind_io (EnsureTenantExists ip client tenantName) (\<lambda>tenantID.
     bind_io (wrapf ''looking up user %q: %w'' [Quote ip quobyteUser]
                (c_GetUsers client [quobyteUser])) (\<lambda>users.
     case users of
       [] \<Rightarrow> throw_io (Errorf ''user %q not found'' [Quote ip quobyteUser])
     | None # _ \<Rightarrow> panic_io nil_pointer
     | Some user # _ \<Rightarrow>
         if tenantID \<in> set (uc_AdminOfTenantId user) then return_io tenantID
         else grant_tenant ip client tenantName quobyteUser user tenantID))"

definition framework_DeleteTenant :: "(nat \<Rightarrow> bool) \<Rightarrow> 'w QuobyteClient \<Rightarrow> string \<Rightarrow> ('w, unit) io" where
  "framework_DeleteTenant ip client tenantName =
     bind_io (try_io (c_ResolveTenantNameToUUID client tenantName)) (\<lambda>res.
       case res of
         Inl _ \<Rightarrow> return_io ()
       | Inr tenantID \<Rightarrow>
           wrapf ''deleting tenant %q (%s): %w'' [Quote ip tenantName, tenantID] (c_DeleteTenant client tenantID))"

section \<open>The lists that are sent\<close>

lemma keep_from_distinct: "distinct kept \<Longrightarrow> distinct (keep_from ex kept ts)"
  by (induction ex kept ts rule: keep_from.induct) auto

lemma set_keep_from: "set (keep_from ex kept ts) = set kept \<union> {t \<in> set ts. ex t}"
  by (induction ex kept ts rule: keep_from.induct) auto

lemma keepExistingTenants_set: "set (keepExistingTenants ts ex) = {t \<in> set ts. ex t}"
  by (simp add: keepExistingTenants_def set_keep_from)

lemma keepExistingTenants_distinct: "distinct (keepExistingTenants ts ex)"
  by (simp add: keepExistingTenants_def keep_from_distinct)

text \<open>Dropping repetitions is keeping what passes a test that always holds.\<close>

lemma distinct_from_keep: "distinct_from ds vs = keep_from (\<lambda>_. True) ds vs"
  by (induction ds vs rule: distinct_from.induct) simp_all

text \<open>The first occurrences stay, in their order: a reference definition.\<close>

lemma keep_from_order:
  "keep_from ex kept ts = kept @ rev (remdups (rev (filter (\<lambda>t. ex t \<and> t \<notin> set kept) ts)))"
proof (induction ts rule: rev_induct)
  case Nil
  show ?case by simp
next
  case (snoc t ts)
  have app: "keep_from ex k (xs @ [y]) =
      (let r = keep_from ex k xs in if ex y \<and> y \<notin> set r then r @ [y] else r)" for k xs y
    by (induction ex k xs rule: keep_from.induct) (simp_all add: Let_def)
  have mem: "t \<in> set (keep_from ex kept ts) \<longleftrightarrow> t \<in> set kept \<or> (t \<in> set ts \<and> ex t)"
    by (simp add: set_keep_from)
  show ?case
    unfolding app Let_def mem using snoc by auto
qed

lemma keepExistingTenants_order:
  "keepExistingTenants ts ex = rev (remdups (rev (filter ex ts)))"
  by (simp add: keepExistingTenants_def keep_from_order)

lemma distinct_values_order: "distinct_values vs = rev (remdups (rev vs))"
  by (simp add: distinct_values_def distinct_from_keep keep_from_order)

lemma tenant_set_Ok:
  "tenant_set ts m = Ok ex \<Longrightarrow> None \<notin> set ts \<and> (\<forall>t. ex t \<longleftrightarrow> m t \<or> Some t \<in> set ts)"
  by (induction ts m rule: tenant_set.induct) auto

end
