(* ===== verification/Test_Tenants_Facts.thy ===== *)
theory Test_Tenants_Facts
  imports Test_Tenants Sample_Quobyte
begin

text \<open>
  What granting a tenant does to the accounts of the service, on a view of the world that gives each
  user's configuration and the set of existing tenants.
\<close>

section \<open>What is assumed of the service\<close>

definition accounts_contract ::
  "('w \<Rightarrow> string \<Rightarrow> UserConfiguration option) \<Rightarrow> ('w \<Rightarrow> string set) \<Rightarrow> 'w QuobyteClient \<Rightarrow> bool" where
  "accounts_contract users tenants c \<longleftrightarrow>
     (\<forall>n w r w'. c_ResolveTenantNameToUUID c n w = (r, w') \<longrightarrow>
        users w' = users w \<and> tenants w' = tenants w \<and> (\<forall>t. r = Ok t \<longrightarrow> t \<in> tenants w)) \<and>
     (\<forall>n w r w'. c_SetTenant c n w = (r, w') \<longrightarrow>
        users w' = users w \<and> (\<forall>t. r = Ok t \<longrightarrow> tenants w' = insert t (tenants w))) \<and>
     (\<forall>w r w'. c_GetTenant c w = (r, w') \<longrightarrow>
        users w' = users w \<and> tenants w' = tenants w \<and> (\<forall>ts. r = Ok ts \<longrightarrow> set ts = Some ` tenants w)) \<and>
     (\<forall>u w r w'. c_GetUsers c [u] w = (r, w') \<longrightarrow>
        users w' = users w \<and> tenants w' = tenants w \<and>
        (\<forall>us. r = Ok us \<longrightarrow> us = (case users w u of None \<Rightarrow> [] | Some conf \<Rightarrow> [Some conf]))) \<and>
     (\<forall>req w w'. c_UpdateUser c req w = (Ok (), w') \<longrightarrow>
        tenants w' = tenants w \<and> users w' = (users w)(uu_UserName req \<mapsto> updated_user req))"

lemma accounts_contractD:
  assumes "accounts_contract users tenants c"
  shows "c_ResolveTenantNameToUUID c n w = (r1, w') \<Longrightarrow> users w' = users w \<and> tenants w' = tenants w"
    and "c_ResolveTenantNameToUUID c n w = (Ok t, w') \<Longrightarrow> t \<in> tenants w"
    and "c_SetTenant c n w = (Ok t, w') \<Longrightarrow> users w' = users w \<and> tenants w' = insert t (tenants w)"
    and "c_GetTenant c w = (Ok ts, w') \<Longrightarrow> users w' = users w \<and> tenants w' = tenants w \<and> set ts = Some ` tenants w"
    and "c_GetUsers c [u] w = (Ok us, w') \<Longrightarrow> users w' = users w \<and> tenants w' = tenants w \<and>
           us = (case users w u of None \<Rightarrow> [] | Some conf \<Rightarrow> [Some conf])"
    and "c_UpdateUser c req w = (Ok (), w') \<Longrightarrow>
           tenants w' = tenants w \<and> users w' = (users w)(uu_UserName req \<mapsto> updated_user req)"
proof -
  note c = assms [unfolded accounts_contract_def]
  note c1 = conjunct1 [OF c] and c2 = conjunct1 [OF conjunct2 [OF c]]
    and c3 = conjunct1 [OF conjunct2 [OF conjunct2 [OF c]]]
    and c4 = conjunct1 [OF conjunct2 [OF conjunct2 [OF conjunct2 [OF c]]]]
    and c5 = conjunct2 [OF conjunct2 [OF conjunct2 [OF conjunct2 [OF c]]]]
  show "c_ResolveTenantNameToUUID c n w = (r1, w') \<Longrightarrow> users w' = users w \<and> tenants w' = tenants w"
    using c1 by blast
  show "c_ResolveTenantNameToUUID c n w = (Ok t, w') \<Longrightarrow> t \<in> tenants w"
    using c1 by blast
  show "c_SetTenant c n w = (Ok t, w') \<Longrightarrow> users w' = users w \<and> tenants w' = insert t (tenants w)"
    using c2 by blast
  show "c_GetTenant c w = (Ok ts, w') \<Longrightarrow> users w' = users w \<and> tenants w' = tenants w \<and> set ts = Some ` tenants w"
    using c3 by blast
  show "c_GetUsers c [u] w = (Ok us, w') \<Longrightarrow> users w' = users w \<and> tenants w' = tenants w \<and>
           us = (case users w u of None \<Rightarrow> [] | Some conf \<Rightarrow> [Some conf])"
    using c4 by blast
  show "c_UpdateUser c req w = (Ok (), w') \<Longrightarrow>
           tenants w' = tenants w \<and> users w' = (users w)(uu_UserName req \<mapsto> updated_user req)"
    using c5 by blast
qed

lemma sample_accounts_contract: "accounts_contract ac_users (\<lambda>w. set (ac_tenants w)) sample_client"
  unfolding accounts_contract_def
  by (auto simp: sample_client_def answer_def update_def map_filter_simps split: if_splits option.splits)

section \<open>The steps\<close>

lemma EnsureTenantExists_Ok:
  assumes "accounts_contract users tenants c" and "EnsureTenantExists ip c name w = (Ok t, w')"
  shows "users w' = users w \<and> tenants w' = insert t (tenants w)"
proof -
  obtain r w1 where r: "c_ResolveTenantNameToUUID c name w = (r, w1)" by (cases "c_ResolveTenantNameToUUID c name w")
  have same: "users w1 = users w" "tenants w1 = tenants w"
    using accounts_contractD(1) [OF assms(1) r] by simp_all
  show ?thesis
  proof (cases r)
    case (Ok t')
    then have "t' \<in> tenants w" using accounts_contractD(2) [OF assms(1)] r by blast
    moreover have "t' = t" "w1 = w'" using assms(2) r Ok by (simp_all add: EnsureTenantExists_def)
    ultimately show ?thesis using same by auto
  next
    case (Err e)
    then have "c_SetTenant c name w1 = (Ok t, w')"
      using assms(2) r by (simp add: EnsureTenantExists_def wrapf_Ok)
    then show ?thesis using accounts_contractD(3) [OF assms(1)] same by simp
  next
    case (Panic p)
    with assms(2) r show ?thesis by (simp add: EnsureTenantExists_def)
  qed
qed

lemma existingTenantIDs_Ok:
  assumes "accounts_contract users tenants c" and "existingTenantIDs c w = (Ok ex, w')"
  shows "users w' = users w \<and> tenants w' = tenants w \<and> (\<forall>t. ex t \<longleftrightarrow> t \<in> tenants w)"
proof -
  from assms(2) obtain ts where "c_GetTenant c w = (Ok ts, w')" and ex: "tenant_set ts (\<lambda>_. False) = Ok ex"
    by (auto simp: existingTenantIDs_def bind_io_Ok wrapf_Ok)
  with accounts_contractD(4) [OF assms(1)]
  have "users w' = users w" "tenants w' = tenants w" "set ts = Some ` tenants w" by blast+
  with tenant_set_Ok [OF ex] show ?thesis by auto
qed

lemma grant_tenant_Ok:
  assumes "accounts_contract users tenants c" and "grant_tenant ip c name u conf t w = (Ok t', w')"
  shows "t' = t \<and> tenants w' = tenants w \<and>
     (\<exists>ex role. (\<forall>x. ex x \<longleftrightarrow> x \<in> tenants w) \<and> first_role (uc_Role conf) = Ok role \<and>
        users w' = (users w)(u \<mapsto> updated_user (grant_request u conf ex t role)))"
proof -
  from assms(2) obtain ex w1 role where ex: "existingTenantIDs c w = (Ok ex, w1)"
    and role: "first_role (uc_Role conf) = Ok role"
    and up: "c_UpdateUser c (grant_request u conf ex t role) w1 = (Ok (), w')" and t': "t' = t"
    by (auto simp: grant_tenant_def bind_io_Ok wrapf_Ok)
  from existingTenantIDs_Ok [OF assms(1) ex] accounts_contractD(6) [OF assms(1) up] role t' show ?thesis
    by (auto simp: grant_request_def)
qed

lemma EnsureTenant_Ok:
  assumes "accounts_contract users tenants c" and "EnsureTenant ip c name u w = (Ok t, w')"
  obtains conf where "users w u = Some conf" and "tenants w' = insert t (tenants w)"
    and "t \<in> set (uc_AdminOfTenantId conf) \<and> users w' = users w \<or>
      t \<notin> set (uc_AdminOfTenantId conf) \<and>
      (\<exists>ex role. (\<forall>x. ex x \<longleftrightarrow> x \<in> tenants w') \<and> first_role (uc_Role conf) = Ok role \<and>
         users w' = (users w)(u \<mapsto> updated_user (grant_request u conf ex t role)))"
proof -
  from assms(2) obtain t1 w1 us w2 where e: "EnsureTenantExists ip c name w = (Ok t1, w1)"
    and us: "c_GetUsers c [u] w1 = (Ok us, w2)"
    and rest: "(case us of
        [] \<Rightarrow> throw_io (Errorf ''user %q not found'' [Quote ip u])
      | None # _ \<Rightarrow> panic_io nil_pointer
      | Some user # _ \<Rightarrow>
         if t1 \<in> set (uc_AdminOfTenantId user) then return_io t1
         else grant_tenant ip c name u user t1) w2 = (Ok t, w')"
    unfolding EnsureTenant_def bind_io_Ok wrapf_Ok by (elim exE conjE) (rule that)
  note e' = EnsureTenantExists_Ok [OF assms(1) e]
  note us' = accounts_contractD(5) [OF assms(1) us]
  from rest us' obtain conf where conf: "users w1 u = Some conf" and "us = [Some conf]"
    by (auto split: option.splits)
  with rest have run: "(if t1 \<in> set (uc_AdminOfTenantId conf) then return_io t1
         else grant_tenant ip c name u conf t1) w2 = (Ok t, w')" by simp
  show thesis
  proof (cases "t1 \<in> set (uc_AdminOfTenantId conf)")
    case True
    with run have "t = t1" "w' = w2" by simp_all
    with that conf e' us' True show thesis by simp
  next
    case False
    with run have g: "grant_tenant ip c name u conf t1 w2 = (Ok t, w')" by simp
    from grant_tenant_Ok [OF assms(1) g] False that [of conf] conf e' us' show thesis by simp
  qed
qed

section \<open>The properties\<close>

text \<open>
  C16 (granting a tenant) After \<open>EnsureTenant\<close> succeeded the tenant exists, and no other tenant has come or
  gone. If the user was its admin already, no account has changed: tenants that are gone or named
  twice stay in the user's lists. Otherwise the tenant is added to the end of the list of those the
  user is an admin of, this list and the one of memberships keep of their entries the first occurrence
  of each tenant that exists, in their order, and drop the others; of the user's roles the first is
  kept; the e-mail address and the groups are as before; and no other account has changed.
\<close>

theorem EnsureTenant_grants:
  assumes "accounts_contract users tenants c" and "EnsureTenant ip c name u w = (Ok t, w')"
    and "first = (\<lambda>ts. rev (remdups (rev (filter (\<lambda>x. x \<in> tenants w') ts))))"
  shows "\<exists>conf. users w u = Some conf \<and> tenants w' = insert t (tenants w) \<and>
     (if t \<in> set (uc_AdminOfTenantId conf) then users w' = users w
      else users w' = (users w)(u \<mapsto>
        \<lparr>uc_AdminOfTenantId = first (uc_AdminOfTenantId conf) @ [t], uc_MemberOfTenantId = first (uc_MemberOfTenantId conf),
         uc_Email = uc_Email conf, uc_PrimaryGroup = uc_PrimaryGroup conf, uc_Group = uc_Group conf,
         uc_Role = take 1 (uc_Role conf)\<rparr>))"
proof -
  from assms(1,2) obtain conf where conf: "users w u = Some conf" and ts: "tenants w' = insert t (tenants w)"
    and cases: "t \<in> set (uc_AdminOfTenantId conf) \<and> users w' = users w \<or>
      t \<notin> set (uc_AdminOfTenantId conf) \<and>
      (\<exists>ex role. (\<forall>x. ex x \<longleftrightarrow> x \<in> tenants w') \<and> first_role (uc_Role conf) = Ok role \<and>
         users w' = (users w)(u \<mapsto> updated_user (grant_request u conf ex t role)))"
    by (rule EnsureTenant_Ok)
  from cases show ?thesis
  proof (elim disjE conjE exE)
    assume "t \<in> set (uc_AdminOfTenantId conf)" and "users w' = users w"
    with conf ts show ?thesis by auto
  next
    fix ex role
    assume t: "t \<notin> set (uc_AdminOfTenantId conf)" and ex: "\<forall>x. ex x \<longleftrightarrow> x \<in> tenants w'"
      and role: "first_role (uc_Role conf) = Ok role"
      and up: "users w' = (users w)(u \<mapsto> updated_user (grant_request u conf ex t role))"
    from ex have "ex = (\<lambda>x. x \<in> tenants w')" by auto
    then have "keepExistingTenants xs ex = first xs" for xs
      unfolding assms(3) by (simp only: keepExistingTenants_order)
    moreover have "(case role of None \<Rightarrow> [] | Some r \<Rightarrow> [Some r]) = take 1 (uc_Role conf)"
      using role by (auto simp: first_role_def split: list.splits option.splits)
    ultimately show ?thesis
      using conf ts t up by (intro exI [of _ conf]) (simp add: updated_user_def grant_request_def)
  qed
qed

lemma sample_grant:
  "\<exists>w. EnsureTenant (\<lambda>_. False) sample_client ''t'' ''api'' sample_accounts = (Ok ''t'', w) \<and>
     ac_tenants w = [''t'', ''u''] \<and>
     ac_users w ''api'' = Some \<lparr>uc_AdminOfTenantId = [''u'', ''t''], uc_MemberOfTenantId = [],
       uc_Email = [], uc_PrimaryGroup = ''staff'', uc_Group = [''staff''], uc_Role = [Some FILESYSTEM_ADMIN]\<rparr>"
  by (simp add: EnsureTenant_def EnsureTenantExists_def accounts_defs grant_tenant_def existingTenantIDs_def
      first_role_def grant_request_def keepExistingTenants_def updated_user_def map_filter_simps
      bind_io_def try_io_def wrapf_def wrap_io_def)

text \<open>The user's lists before: \<open>u, gone, u\<close> and \<open>gone\<close>.\<close>

theorem EnsureTenant_grants_witness:
  "\<exists>w. EnsureTenant (\<lambda>_. False) sample_client ''t'' ''api'' sample_accounts = (Ok ''t'', w) \<and>
     ac_users w ''api'' = Some \<lparr>uc_AdminOfTenantId = [''u'', ''t''], uc_MemberOfTenantId = [],
       uc_Email = [], uc_PrimaryGroup = ''staff'', uc_Group = [''staff''], uc_Role = [Some FILESYSTEM_ADMIN]\<rparr>"
proof -
  obtain w where run: "EnsureTenant (\<lambda>_. False) sample_client ''t'' ''api'' sample_accounts = (Ok ''t'', w)"
    and ts: "ac_tenants w = [''t'', ''u'']"
    using sample_grant by blast
  from EnsureTenant_grants [OF sample_accounts_contract run refl] ts
  have "ac_users w ''api'' = Some \<lparr>uc_AdminOfTenantId = [''u'', ''t''], uc_MemberOfTenantId = [],
       uc_Email = [], uc_PrimaryGroup = ''staff'', uc_Group = [''staff''], uc_Role = [Some FILESYSTEM_ADMIN]\<rparr>"
    by (simp add: sample_accounts_def)
  with run show ?thesis by blast
qed

text \<open>
  C32 (granting again) Once the tenant is granted, and as long as its name is resolved and the user is
  found, asking again changes no account and gives the same tenant.
\<close>

theorem EnsureTenant_idempotent:
  assumes "accounts_contract users tenants c" and "EnsureTenant ip c name u w = (Ok t, w')"
    and "c_ResolveTenantNameToUUID c name w' = (Ok t, w1)" and "c_GetUsers c [u] w1 = (Ok us, w2)"
  shows "EnsureTenant ip c name u w' = (Ok t, w2) \<and> users w2 = users w' \<and> tenants w2 = tenants w'"
proof -
  obtain conf' where conf': "users w' u = Some conf'" "t \<in> set (uc_AdminOfTenantId conf')"
    by (rule EnsureTenant_Ok [OF assms(1,2)]) (auto simp: updated_user_def grant_request_def intro: that)
  have w1: "users w1 = users w'" "tenants w1 = tenants w'"
    using accounts_contractD(1) [OF assms(1,3)] by simp_all
  have w2: "users w2 = users w1" "tenants w2 = tenants w1" and us: "us = [Some conf']"
    using accounts_contractD(5) [OF assms(1,4)] conf'(1) w1(1) by simp_all
  have "EnsureTenantExists ip c name w' = (Ok t, w1)"
    using assms(3) by (simp add: EnsureTenantExists_def)
  then have "EnsureTenant ip c name u w' = (Ok t, w2)"
    using assms(4) us conf'(2) by (simp add: EnsureTenant_def)
  with w1 w2 show ?thesis by simp
qed

theorem EnsureTenant_idempotent_witness:
  "\<exists>w w2. EnsureTenant (\<lambda>_. False) sample_client ''t'' ''api'' sample_accounts = (Ok ''t'', w) \<and>
     EnsureTenant (\<lambda>_. False) sample_client ''t'' ''api'' w = (Ok ''t'', w2) \<and> ac_users w2 = ac_users w"
proof -
  obtain w where run: "EnsureTenant (\<lambda>_. False) sample_client ''t'' ''api'' sample_accounts = (Ok ''t'', w)"
    and ts: "ac_tenants w = [''t'', ''u'']"
    using sample_grant by blast
  have resolve: "c_ResolveTenantNameToUUID sample_client ''t'' w = (Ok ''t'', w)"
    using ts by (simp add: sample_client_def)
  have "c_GetUsers sample_client [''api''] w = (Ok (List.map Some (List.map_filter (ac_users w) [''api''])), w)"
    by (simp add: sample_client_def answer_def)
  from EnsureTenant_idempotent [OF sample_accounts_contract run resolve this] run show ?thesis by blast
qed

end
