(* ===== verification/Go_Testing.thy ===== *)
theory Go_Testing
  imports Go_Strconv
begin

text \<open>
  \<open>*testing.T\<close> as the framework uses it, and \<open>framework/cleanup.go\<close>. A test is a call on the state
  below. \<open>t.Fatalf\<close> marks the test failed and ends its goroutine: this is the \<open>Err\<close> outcome here, as
  no function on a \<open>*testing.T\<close> returns a Go error. What is registered with \<open>t.Cleanup\<close> runs after
  the test in the reverse order, also after a failure or a panic, and a clean-up that panics does not
  keep the others from running.
\<close>

section \<open>The state of a test\<close>

text \<open>A clean-up works on the world and the log of the test.\<close>

type_synonym 'w test_cleanup = "('w \<times> string list, unit) io"

record 'w testing =
  t_world :: 'w
  t_failed :: bool
  t_log :: "string list"
  t_cleanups :: "(string \<times> 'w test_cleanup) list"

definition t_Fatalf :: "string \<Rightarrow> string list \<Rightarrow> ('w testing, 'a) io" where
  "t_Fatalf fmt args = (\<lambda>t.
     (Err (ErrorString (Sprintf fmt args)),
      t\<lparr>t_failed := True, t_log := t_log t @ [Sprintf fmt args]\<rparr>))"

text \<open>A call on the world from within a test.\<close>

definition in_test :: "('w, 'a) io \<Rightarrow> ('w testing, 'a) io" where
  "in_test m = (\<lambda>t. case m (t_world t) of (r, w) \<Rightarrow> (r, t\<lparr>t_world := w\<rparr>))"

text \<open>A call on the world, and \<open>t.Logf\<close>, from within a clean-up.\<close>

definition in_cleanup :: "('w, 'a) io \<Rightarrow> ('w \<times> string list, 'a) io" where
  "in_cleanup m = (\<lambda>(w, l). case m w of (r, w') \<Rightarrow> (r, (w', l)))"

definition t_Logf :: "string \<Rightarrow> string list \<Rightarrow> 'w test_cleanup" where
  "t_Logf fmt args = (\<lambda>(w, l). (Ok (), (w, l @ [Sprintf fmt args])))"

section \<open>Clean-ups\<close>

text \<open>The closure that \<open>CleanupUnlessFailed\<close> registers.\<close>

definition unless_failed :: "string \<Rightarrow> 'w test_cleanup \<Rightarrow> ('w testing, unit) io" where
  "unless_failed description fn = (\<lambda>t.
     if t_failed t
     then (Ok (), t\<lparr>t_log := t_log t
             @ [Sprintf ''test failed; leaving %s in place for debugging'' [description]]\<rparr>)
     else (case fn (t_world t, t_log t) of
             (r, (w, l)) \<Rightarrow> (r, t\<lparr>t_world := w, t_log := l\<rparr>)))"

definition CleanupUnlessFailed :: "string \<Rightarrow> 'w test_cleanup \<Rightarrow> ('w testing, unit) io" where
  "CleanupUnlessFailed description fn = (\<lambda>t.
     (Ok (), t\<lparr>t_cleanups := (description, fn) # t_cleanups t\<rparr>))"

fun run_cleanups :: "(string \<times> 'w test_cleanup) list \<Rightarrow> ('w testing, unit) io" where
  "run_cleanups [] t = (Ok (), t)"
| "run_cleanups ((description, fn) # cs) t =
     (case unless_failed description fn t of
        (r, t1) \<Rightarrow>
          (case run_cleanups cs t1 of
             (r', t2) \<Rightarrow> (case r of Panic p \<Rightarrow> (Panic p, t2) | _ \<Rightarrow> (r', t2))))"

text \<open>A whole test: the body, then the clean-ups. A panic of the body marks the test failed first.\<close>

definition run_test :: "('w testing, unit) io \<Rightarrow> ('w testing, unit) io" where
  "run_test body t =
     (case body t of
        (r, t1) \<Rightarrow>
          (let t2 = (case r of Panic p \<Rightarrow> t1\<lparr>t_failed := True\<rparr> | _ \<Rightarrow> t1)
           in case run_cleanups (t_cleanups t2) (t2\<lparr>t_cleanups := []\<rparr>) of
                (r', t3) \<Rightarrow> (case r of Panic p \<Rightarrow> (Panic p, t3) | _ \<Rightarrow> (r', t3))))"

section \<open>Running the combinators\<close>

lemma in_test_inv [io_inv]:
  "in_test m t = (r, t') \<longleftrightarrow> (\<exists>w. m (t_world t) = (r, w) \<and> t' = t\<lparr>t_world := w\<rparr>)"
  by (auto simp: in_test_def split: prod.splits)

lemma in_cleanup_inv [io_inv]:
  "in_cleanup m x = (r, y) \<longleftrightarrow> (\<exists>w. m (fst x) = (r, w) \<and> y = (w, snd x))"
  by (auto simp: in_cleanup_def split: prod.splits)

lemma in_cleanup_step [io_eval, simp]: "m w = (r, w') \<Longrightarrow> in_cleanup m (w, l) = (r, (w', l))"
  by (simp add: in_cleanup_def)

lemma in_test_step [io_eval, simp]: "m (t_world t) = (r, w) \<Longrightarrow> in_test m t = (r, t\<lparr>t_world := w\<rparr>)"
  by (simp add: in_test_def)

lemma t_Logf_run [io_eval, simp]: "t_Logf fmt args (w, l) = (Ok (), (w, l @ [Sprintf fmt args]))"
  by (simp add: t_Logf_def)

lemma t_Fatalf_run [io_eval, simp]:
  "t_Fatalf fmt args t =
     (Err (ErrorString (Sprintf fmt args)), t\<lparr>t_failed := True, t_log := t_log t @ [Sprintf fmt args]\<rparr>)"
  by (simp add: t_Fatalf_def)

lemma CleanupUnlessFailed_run [io_eval, simp]:
  "CleanupUnlessFailed description fn t = (Ok (), t\<lparr>t_cleanups := (description, fn) # t_cleanups t\<rparr>)"
  by (simp add: CleanupUnlessFailed_def)

section \<open>Failing\<close>

text \<open>A call ends a test only by failing it.\<close>

definition ends_by_failing :: "('w testing, 'a) io \<Rightarrow> bool" where
  "ends_by_failing m \<longleftrightarrow> (\<forall>t e t'. m t = (Err e, t') \<longrightarrow> t_failed t')"

lemma ends_by_failing_bind:
  "ends_by_failing m \<Longrightarrow> (\<And>a. ends_by_failing (f a)) \<Longrightarrow> ends_by_failing (bind_io m f)"
  unfolding ends_by_failing_def bind_io_Err by blast

lemma ends_by_failing_basic:
  "ends_by_failing (return_io a)" "ends_by_failing (t_Fatalf fmt args)"
  "ends_by_failing (CleanupUnlessFailed description fn)"
  by (simp_all add: ends_by_failing_def CleanupUnlessFailed_def)

lemma ends_by_failing_try: "ends_by_failing (bind_io (try_io m) f)" if "\<And>a. ends_by_failing (f a)"
  using that by (fastforce simp: ends_by_failing_def bind_io_Err try_io_Err)

text \<open>In a failed test no clean-up touches the world.\<close>

lemma run_cleanups_failed:
  "t_failed t \<Longrightarrow> run_cleanups cs t = (r, t') \<Longrightarrow> r = Ok () \<and> t_failed t' \<and> t_world t' = t_world t"
proof (induction cs t arbitrary: r t' rule: run_cleanups.induct)
  case (1 t)
  then show ?case by simp
next
  case (2 description fn cs t)
  let ?t = "t\<lparr>t_log := t_log t @ [Sprintf ''test failed; leaving %s in place for debugging'' [description]]\<rparr>"
  have u: "unless_failed description fn t = (Ok (), ?t)"
    using 2 by (simp add: unless_failed_def)
  obtain r1 t1 where rest: "run_cleanups cs ?t = (r1, t1)" by (cases "run_cleanups cs ?t")
  have "r1 = Ok () \<and> t_failed t1 \<and> t_world t1 = t_world t"
    using 2(1) [OF u [symmetric] _ rest] 2(2) by simp
  with 2(3) u rest show ?case by auto
qed

lemma run_test_failed:
  assumes "body t = (r, t1)" and "t_failed t1 \<or> (\<exists>p. r = Panic p)" and "run_test body t = (r', t')"
  shows "t_world t' = t_world t1"
proof -
  let ?t2 = "case r of Panic p \<Rightarrow> t1\<lparr>t_failed := True\<rparr> | _ \<Rightarrow> t1"
  obtain r3 t3 where run: "run_cleanups (t_cleanups ?t2) (?t2\<lparr>t_cleanups := []\<rparr>) = (r3, t3)"
    by (cases "run_cleanups (t_cleanups ?t2) (?t2\<lparr>t_cleanups := []\<rparr>)")
  have "t_failed (?t2\<lparr>t_cleanups := []\<rparr>)" using assms(2) by (auto split: outcome.splits)
  from run_cleanups_failed [OF this run] have "t_world t3 = t_world ?t2" by simp
  moreover have "t_world ?t2 = t_world t1" by (simp split: outcome.splits)
  moreover have "t' = t3"
    using assms(1,3) run by (auto simp: run_test_def Let_def split: outcome.splits)
  ultimately show ?thesis by simp
qed

end
