(* ===== verification/Kube_Objects.thy ===== *)
theory Kube_Objects
  imports Csi_Types
begin

text \<open>
  \<open>framework/resources.go\<close> and \<open>framework/storageclass.go\<close>: the Kubernetes objects the tests build.
  An object has the fields the framework writes or reads; \<open>resource.Quantity\<close> is a type of a library,
  a type variable \<open>'q\<close> here, with the operations the framework calls.
\<close>

record 'q QuantityOps =
  qn_MustParse :: "string \<Rightarrow> 'q outcome"
  qn_String :: "'q \<Rightarrow> string"
  qn_Cmp :: "'q \<Rightarrow> 'q \<Rightarrow> int"

record Secret =
  s_Name :: string
  s_Namespace :: string
  s_Type :: string
  s_Data :: gomap

record StorageClass =
  sc_Name :: string
  sc_Provisioner :: string
  sc_AllowVolumeExpansion :: "bool option"
  sc_ReclaimPolicy :: "string option"
  sc_Parameters :: "string \<Rightarrow> string option"

record 'q PersistentVolumeClaim =
  pvc_Name :: string
  pvc_Namespace :: string
  pvc_AccessModes :: "string list"
  pvc_Request :: 'q
  pvc_StorageClassName :: "string option"
  pvc_VolumeName :: string
  pvc_Phase :: string
  pvc_Capacity :: "'q option"

record 'q PersistentVolume =
  pv_Name :: string
  pv_AccessModes :: "string list"
  pv_Capacity :: 'q
  pv_ReclaimPolicy :: string
  pv_StorageClassName :: string
  pv_Driver :: string
  pv_VolumeHandle :: string
  pv_PublishSecret :: "string \<times> string"

record Container =
  ct_Name :: string
  ct_Image :: string
  ct_Command :: "string list"
  ct_VolumeMounts :: "(string \<times> string) list"

record PodSpec =
  ps_Volumes :: "(string \<times> string) list"
  ps_Containers :: "Container list"
  ps_NodeName :: string

record Pod =
  pod_Name :: string
  pod_Namespace :: string
  pod_Labels :: gomap
  pod_Spec :: PodSpec
  pod_Phase :: string
  pod_UID :: string

record Deployment =
  dp_Name :: string
  dp_Namespace :: string
  dp_Replicas :: int32
  dp_MatchLabels :: gomap
  dp_TemplateLabels :: gomap
  dp_TemplateSpec :: PodSpec

text \<open>The constants of the API, which are strings.\<close>

abbreviation ClaimBound :: string where "ClaimBound \<equiv> ''Bound''"
abbreviation PodRunning :: string where "PodRunning \<equiv> ''Running''"
abbreviation ReclaimDelete :: string where "ReclaimDelete \<equiv> ''Delete''"
abbreviation ReclaimRetain :: string where "ReclaimRetain \<equiv> ''Retain''"
abbreviation ReadWriteOnce :: string where "ReadWriteOnce \<equiv> ''ReadWriteOnce''"

section \<open>Secrets\<close>

definition TestContainerName :: string where "TestContainerName = ''test-container''"

definition NewSecret :: "string \<Rightarrow> string \<Rightarrow> string \<Rightarrow> string \<Rightarrow> Secret" where
  "NewSecret name namespace user password =
     \<lparr>s_Name = name, s_Namespace = namespace, s_Type = ''kubernetes.io/quobyte'',
      s_Data = [(''user'', user), (''password'', password)]\<rparr>"

definition NewAccessKeySecret :: "string \<Rightarrow> string \<Rightarrow> string \<Rightarrow> string \<Rightarrow> Secret" where
  "NewAccessKeySecret name namespace keyID keySecret =
     \<lparr>s_Name = name, s_Namespace = namespace, s_Type = ''kubernetes.io/quobyte'',
      s_Data = [(''accessKeyId'', keyID), (''accessKeySecret'', keySecret)]\<rparr>"

section \<open>Claims and volumes\<close>

text \<open>\<open>resource.MustParse\<close> panics on a text that is no quantity.\<close>

definition NewPVCWithAccessModes ::
  "'q QuantityOps \<Rightarrow> string \<Rightarrow> string \<Rightarrow> string \<Rightarrow> string \<Rightarrow> string list \<Rightarrow> 'q PersistentVolumeClaim outcome" where
  "NewPVCWithAccessModes qn name namespace storageClass sz accessModes =
     bind_outcome (qn_MustParse qn sz) (\<lambda>q.
       Ok \<lparr>pvc_Name = name, pvc_Namespace = namespace, pvc_AccessModes = accessModes, pvc_Request = q,
           pvc_StorageClassName = Some storageClass, pvc_VolumeName = [], pvc_Phase = [], pvc_Capacity = None\<rparr>)"

definition NewPVC ::
  "'q QuantityOps \<Rightarrow> string \<Rightarrow> string \<Rightarrow> string \<Rightarrow> string \<Rightarrow> 'q PersistentVolumeClaim outcome" where
  "NewPVC qn name namespace storageClass sz =
     NewPVCWithAccessModes qn name namespace storageClass sz [ReadWriteOnce]"

record PVOptions =
  po_Name :: string
  po_Driver :: string
  po_VolumeHandle :: string
  po_Size :: string
  po_SecretName :: string
  po_SecretNamespace :: string
  po_AccessModes :: "string list"

definition NewPreProvisionedPV :: "'q QuantityOps \<Rightarrow> PVOptions \<Rightarrow> 'q PersistentVolume outcome" where
  "NewPreProvisionedPV qn opts =
     (let accessModes = (if length (po_AccessModes opts) = 0 then [ReadWriteOnce] else po_AccessModes opts)
      in bind_outcome (qn_MustParse qn (po_Size opts)) (\<lambda>q.
           Ok \<lparr>pv_Name = po_Name opts, pv_AccessModes = accessModes, pv_Capacity = q,
               pv_ReclaimPolicy = ReclaimRetain, pv_StorageClassName = [],
               pv_Driver = po_Driver opts, pv_VolumeHandle = po_VolumeHandle opts,
               pv_PublishSecret = (po_SecretName opts, po_SecretNamespace opts)\<rparr>))"

definition NewPVCForPV ::
  "'q QuantityOps \<Rightarrow> string \<Rightarrow> string \<Rightarrow> string \<Rightarrow> string \<Rightarrow> 'q PersistentVolumeClaim outcome" where
  "NewPVCForPV qn name namespace pvName sz =
     bind_outcome (NewPVC qn name namespace [] sz) (\<lambda>pvc. Ok (pvc\<lparr>pvc_VolumeName := pvName\<rparr>))"

section \<open>Pods\<close>

definition NewPod :: "string \<Rightarrow> string \<Rightarrow> string \<Rightarrow> string \<Rightarrow> Pod" where
  "NewPod name namespace pvcName mountPath =
     \<lparr>pod_Name = name, pod_Namespace = namespace, pod_Labels = [(''app'', name)],
      pod_Spec =
        \<lparr>ps_Volumes = [(''test-storage'', pvcName)],
         ps_Containers =
           [\<lparr>ct_Name = TestContainerName, ct_Image = ''busybox'', ct_Command = [''sh'', ''-c'', ''sleep 3600''],
             ct_VolumeMounts = [(''test-storage'', mountPath)]\<rparr>],
         ps_NodeName = []\<rparr>,
      pod_Phase = [], pod_UID = []\<rparr>"

definition NewPodOnNode :: "string \<Rightarrow> string \<Rightarrow> string \<Rightarrow> string \<Rightarrow> string \<Rightarrow> Pod" where
  "NewPodOnNode name namespace pvcName mountPath nodeName =
     (let pod = NewPod name namespace pvcName mountPath
      in pod\<lparr>pod_Spec := (pod_Spec pod)\<lparr>ps_NodeName := nodeName\<rparr>\<rparr>)"

definition NewDeployment :: "string \<Rightarrow> string \<Rightarrow> string \<Rightarrow> string \<Rightarrow> Deployment" where
  "NewDeployment name namespace pvcName mountPath =
     (let pod = NewPod name namespace pvcName mountPath
      in \<lparr>dp_Name = name, dp_Namespace = namespace, dp_Replicas = 1, dp_MatchLabels = pod_Labels pod,
          dp_TemplateLabels = pod_Labels pod, dp_TemplateSpec = pod_Spec pod\<rparr>)"

section \<open>Storage classes\<close>

definition SharedVolumeNameParameter :: string where "SharedVolumeNameParameter = ''sharedVolumeName''"

record StorageClassOptions =
  so_Name :: string
  so_Provisioner :: string
  so_Tenant :: string
  so_SecretName :: string
  so_SecretNamespace :: string
  so_MountSecretName :: string
  so_MountSecretNamespace :: string
  so_SharedVolumeName :: string
  so_ExtraParameters :: gomap

definition mount_secret :: "StorageClassOptions \<Rightarrow> string \<times> string" where
  "mount_secret opts =
     (if so_MountSecretName opts = [] then (so_SecretName opts, so_SecretNamespace opts)
      else (so_MountSecretName opts, so_MountSecretNamespace opts))"

definition secret_parameters :: "StorageClassOptions \<Rightarrow> gomap" where
  "secret_parameters opts =
     [(''csi.storage.k8s.io/provisioner-secret-name'', so_SecretName opts),
      (''csi.storage.k8s.io/provisioner-secret-namespace'', so_SecretNamespace opts),
      (''csi.storage.k8s.io/controller-expand-secret-name'', so_SecretName opts),
      (''csi.storage.k8s.io/controller-expand-secret-namespace'', so_SecretNamespace opts),
      (''csi.storage.k8s.io/node-publish-secret-name'', fst (mount_secret opts)),
      (''csi.storage.k8s.io/node-publish-secret-namespace'', snd (mount_secret opts))]"

definition class_parameters :: "StorageClassOptions \<Rightarrow> string \<Rightarrow> string option" where
  "class_parameters opts =
     (let p0 = map_of ((''createQuota'', ''true'') # secret_parameters opts);
          p1 = (if so_Tenant opts \<noteq> [] then p0(''quobyteTenant'' \<mapsto> so_Tenant opts) else p0);
          p2 = (if so_SharedVolumeName opts \<noteq> []
                then p1(SharedVolumeNameParameter \<mapsto> so_SharedVolumeName opts) else p1)
      in fold (\<lambda>(name, value) p. p(name \<mapsto> value)) (so_ExtraParameters opts) p2)"

definition NewStorageClass :: "StorageClassOptions \<Rightarrow> StorageClass" where
  "NewStorageClass opts =
     \<lparr>sc_Name = so_Name opts, sc_Provisioner = so_Provisioner opts, sc_AllowVolumeExpansion = Some True,
      sc_ReclaimPolicy = Some ReclaimDelete, sc_Parameters = class_parameters opts\<rparr>"

text \<open>Extra parameters override: each key has its last value there, else the one set before.\<close>

lemma fold_upd_map:
  "fold (\<lambda>(name, value) p. p(name \<mapsto> value)) kvs p = p ++ map_of (rev kvs)"
  by (induction kvs arbitrary: p) (auto simp: fun_eq_iff map_add_def split: option.splits)

lemma class_parameters_lookup:
  assumes "distinct (List.map fst (so_ExtraParameters opts))"
  shows "class_parameters opts k =
     (case map_of (so_ExtraParameters opts) k of
        Some v \<Rightarrow> Some v
      | None \<Rightarrow>
          if k = SharedVolumeNameParameter \<and> so_SharedVolumeName opts \<noteq> [] then Some (so_SharedVolumeName opts)
          else if k = ''quobyteTenant'' \<and> so_Tenant opts \<noteq> [] then Some (so_Tenant opts)
          else map_of ((''createQuota'', ''true'') # secret_parameters opts) k)"
proof -
  have "map_of (rev (so_ExtraParameters opts)) = map_of (so_ExtraParameters opts)"
    using assms by (subst map_of_inject_set) (simp_all add: rev_map [symmetric])
  then show ?thesis
    unfolding class_parameters_def Let_def fold_upd_map
    by (auto simp: map_add_def SharedVolumeNameParameter_def simp del: map_of.simps split: option.splits)
qed

end
