(* ===== verification/Test_Waiting.thy ===== *)
theory Test_Waiting
  imports Test_Client Kube_Objects
begin

text \<open>
  \<open>framework/wait.go\<close> and \<open>framework/quobyte_client_pods.go\<close>. The Kubernetes client, the polling loop
  \<open>wait.PollUntilContextTimeout\<close> and the two error tests are of libraries: parameters. A condition that
  is polled is a closure; the variables it captures are the second component of the state it runs on.
\<close>

section \<open>The Kubernetes client\<close>

datatype Context = Background | Context nat

record ('w, 'q) Clientset =
  k_GetPVC :: "string \<Rightarrow> string \<Rightarrow> ('w, 'q PersistentVolumeClaim) io"
  k_CreatePVC :: "string \<Rightarrow> 'q PersistentVolumeClaim \<Rightarrow> ('w, unit) io"
  k_DeletePVC :: "string \<Rightarrow> string \<Rightarrow> ('w, unit) io"
  k_GetPV :: "string \<Rightarrow> ('w, 'q PersistentVolume) io"
  k_CreatePV :: "'q PersistentVolume \<Rightarrow> ('w, unit) io"
  k_DeletePV :: "string \<Rightarrow> ('w, unit) io"
  k_GetPod :: "string \<Rightarrow> string \<Rightarrow> ('w, Pod) io"
  k_ListPods :: "string \<Rightarrow> string \<Rightarrow> string \<Rightarrow> ('w, Pod list) io"
  k_CreatePod :: "string \<Rightarrow> Pod \<Rightarrow> ('w, unit) io"
  k_DeletePod :: "string \<Rightarrow> string \<Rightarrow> ('w, unit) io"
  k_GetSecret :: "string \<Rightarrow> string \<Rightarrow> ('w, Secret) io"
  k_CreateSecret :: "string \<Rightarrow> Secret \<Rightarrow> ('w, unit) io"
  k_DeleteSecret :: "string \<Rightarrow> string \<Rightarrow> ('w, unit) io"
  k_GetStorageClass :: "string \<Rightarrow> ('w, StorageClass) io"
  k_CreateStorageClass :: "StorageClass \<Rightarrow> ('w, unit) io"
  k_DeleteStorageClass :: "string \<Rightarrow> ('w, unit) io"
  k_CreateDeployment :: "string \<Rightarrow> Deployment \<Rightarrow> ('w, unit) io"
  k_DeleteDeployment :: "string \<Rightarrow> string \<Rightarrow> ('w, unit) io"
  k_ListEvents :: "string \<Rightarrow> string \<Rightarrow> ('w, string list) io"

text \<open>
  A client takes the context first; \<open>k_ListPods\<close> takes the namespace, the label and the field selector,
  \<open>k_ListEvents\<close> the namespace and the field selector, and gives the messages.
\<close>

type_synonym ('w, 'q) kube = "Context \<Rightarrow> ('w, 'q) Clientset"

type_synonym ('w, 's) poller =
  "Context \<Rightarrow> int64 \<Rightarrow> int64 \<Rightarrow> bool \<Rightarrow> (Context \<Rightarrow> ('w \<times> 's, bool) io) \<Rightarrow> ('w \<times> 's, unit) io"

section \<open>Captured variables\<close>

definition on_world :: "('w, 'a) io \<Rightarrow> ('w \<times> 's, 'a) io" where
  "on_world m = (\<lambda>(w, s). case m w of (r, w') \<Rightarrow> (r, (w', s)))"

definition capture :: "('s \<Rightarrow> 's) \<Rightarrow> ('w \<times> 's, unit) io" where
  "capture f = (\<lambda>(w, s). (Ok (), (w, f s)))"

definition captured :: "('w \<times> 's, 's) io" where
  "captured = (\<lambda>(w, s). (Ok s, (w, s)))"

definition capturing :: "'s \<Rightarrow> ('w \<times> 's, 'a) io \<Rightarrow> ('w, 'a) io" where
  "capturing s m = (\<lambda>w. case m (w, s) of (r, (w', s')) \<Rightarrow> (r, w'))"

section \<open>Waiting for a state\<close>

definition pollInterval :: int64 where "pollInterval = 5 * 1000000000"

definition bound_condition ::
  "('w, 'q) kube \<Rightarrow> string \<Rightarrow> string \<Rightarrow> Context \<Rightarrow> ('w \<times> 'q PersistentVolumeClaim option, bool) io" where
  "bound_condition kube namespace name ctx =
     bind_io (on_world (k_GetPVC (kube ctx) namespace name)) (\<lambda>pvc.
       if pvc_Phase pvc = ClaimBound then bind_io (capture (\<lambda>_. Some pvc)) (\<lambda>_. return_io True)
       else return_io False)"

definition WaitForPVCBound ::
  "('w, 'q PersistentVolumeClaim option) poller \<Rightarrow> ('w, 'q) kube \<Rightarrow> Context \<Rightarrow> string \<Rightarrow> string \<Rightarrow> int64
     \<Rightarrow> ('w, 'q PersistentVolumeClaim option) io" where
  "WaitForPVCBound poll kube ctx namespace name timeout =
     capturing None
       (bind_io (wrapf ''waiting for PVC %s/%s to be bound: %w'' [namespace, name]
                   (poll ctx pollInterval timeout True (bound_condition kube namespace name))) (\<lambda>_. captured))"

definition capacity_condition ::
  "'q QuantityOps \<Rightarrow> ('w, 'q) kube \<Rightarrow> string \<Rightarrow> string \<Rightarrow> 'q \<Rightarrow> Context
     \<Rightarrow> ('w \<times> 'q PersistentVolumeClaim option \<times> string, bool) io" where
  "capacity_condition qn kube namespace name want ctx =
     bind_io (on_world (k_GetPVC (kube ctx) namespace name)) (\<lambda>pvc.
       case pvc_Capacity pvc of
         None \<Rightarrow> bind_io (capture (\<lambda>(resized, last). (resized, ''no capacity in status''))) (\<lambda>_. return_io False)
       | Some got \<Rightarrow>
           bind_io (capture (\<lambda>(resized, last). (resized, qn_String qn got))) (\<lambda>_.
           if 0 \<le> qn_Cmp qn got want
           then bind_io (capture (\<lambda>(resized, last). (Some pvc, last))) (\<lambda>_. return_io True)
           else return_io False))"

definition WaitForPVCCapacity ::
  "'q QuantityOps \<Rightarrow> ('w, 'q PersistentVolumeClaim option \<times> string) poller \<Rightarrow> ('w, 'q) kube \<Rightarrow> Context
     \<Rightarrow> string \<Rightarrow> string \<Rightarrow> 'q \<Rightarrow> int64 \<Rightarrow> ('w, 'q PersistentVolumeClaim option) io" where
  "WaitForPVCCapacity qn poll kube ctx namespace name want timeout =
     capturing (None, [])
       (bind_io (try_io (poll ctx pollInterval timeout True (capacity_condition qn kube namespace name want))) (\<lambda>res.
        bind_io captured (\<lambda>(resized, last).
          case res of
            Inl err \<Rightarrow>
              throw_io (Errorw ''waiting for PVC %s/%s to report a capacity of at least %s (last saw %s): %w''
                [namespace, name, qn_String qn want, last, Error err] err)
          | Inr _ \<Rightarrow> return_io resized)))"

definition running_condition ::
  "('w, 'q) kube \<Rightarrow> string \<Rightarrow> string \<Rightarrow> Context \<Rightarrow> ('w \<times> Pod option, bool) io" where
  "running_condition kube namespace name ctx =
     bind_io (on_world (k_GetPod (kube ctx) namespace name)) (\<lambda>pod.
       if pod_Phase pod = PodRunning then bind_io (capture (\<lambda>_. Some pod)) (\<lambda>_. return_io True)
       else return_io False)"

definition WaitForPodRunning ::
  "('w, Pod option) poller \<Rightarrow> ('w, 'q) kube \<Rightarrow> Context \<Rightarrow> string \<Rightarrow> string \<Rightarrow> int64 \<Rightarrow> ('w, Pod option) io" where
  "WaitForPodRunning poll kube ctx namespace name timeout =
     capturing None
       (bind_io (wrapf ''waiting for pod %s/%s to be running: %w'' [namespace, name]
                   (poll ctx pollInterval timeout True (running_condition kube namespace name))) (\<lambda>_. captured))"

section \<open>Staying in a state\<close>

definition refused_condition ::
  "('w, 'q) kube \<Rightarrow> string \<Rightarrow> string \<Rightarrow> Context \<Rightarrow> ('w \<times> unit, bool) io" where
  "refused_condition kube namespace name ctx =
     bind_io (on_world (k_GetPVC (kube ctx) namespace name)) (\<lambda>pvc.
       if pvc_Phase pvc = ClaimBound
       then throw_io (Errorf ''PVC %s/%s bound to %s, but provisioning should have been refused''
              [namespace, name, pvc_VolumeName pvc])
       else return_io False)"

text \<open>\<open>wait.Interrupted\<close> is the parameter \<open>interrupted\<close>; of a nil error it is false.\<close>

definition unless_interrupted :: "(go_error \<Rightarrow> bool) \<Rightarrow> ('w, unit) io \<Rightarrow> ('w, unit) io" where
  "unless_interrupted interrupted m =
     bind_io (try_io m) (\<lambda>res.
       case res of
         Inl err \<Rightarrow> if interrupted err then return_io () else throw_io err
       | Inr _ \<Rightarrow> return_io ())"

definition EnsurePVCStaysUnbound ::
  "(go_error \<Rightarrow> bool) \<Rightarrow> ('w, unit) poller \<Rightarrow> ('w, 'q) kube \<Rightarrow> Context \<Rightarrow> string \<Rightarrow> string \<Rightarrow> int64 \<Rightarrow> ('w, unit) io" where
  "EnsurePVCStaysUnbound interrupted poll kube ctx namespace name duration =
     unless_interrupted interrupted
       (capturing () (poll ctx pollInterval duration True (refused_condition kube namespace name)))"

definition not_running_condition ::
  "('w, 'q) kube \<Rightarrow> string \<Rightarrow> string \<Rightarrow> Context \<Rightarrow> ('w \<times> unit, bool) io" where
  "not_running_condition kube namespace name ctx =
     bind_io (on_world (k_GetPod (kube ctx) namespace name)) (\<lambda>pod.
       if pod_Phase pod = PodRunning
       then throw_io (Errorf ''pod %s/%s reached Running, but its mount should have failed'' [namespace, name])
       else return_io False)"

definition EnsurePodStaysNotRunning ::
  "(go_error \<Rightarrow> bool) \<Rightarrow> ('w, unit) poller \<Rightarrow> ('w, 'q) kube \<Rightarrow> Context \<Rightarrow> string \<Rightarrow> string \<Rightarrow> int64 \<Rightarrow> ('w, unit) io" where
  "EnsurePodStaysNotRunning interrupted poll kube ctx namespace name duration =
     unless_interrupted interrupted
       (capturing () (poll ctx pollInterval duration True (not_running_condition kube namespace name)))"

section \<open>Events and pods\<close>

fun first_containing :: "string \<Rightarrow> string list \<Rightarrow> string option" where
  "first_containing substring [] = None"
| "first_containing substring (m # ms) =
     (if Contains m substring then Some m else first_containing substring ms)"

definition event_condition ::
  "('w, 'q) kube \<Rightarrow> string \<Rightarrow> string \<Rightarrow> string \<Rightarrow> Context \<Rightarrow> ('w \<times> string, bool) io" where
  "event_condition kube namespace objectName substring ctx =
     bind_io (on_world (k_ListEvents (kube ctx) namespace (''involvedObject.name='' @ objectName))) (\<lambda>events.
       case first_containing substring events of
         Some m \<Rightarrow> bind_io (capture (\<lambda>_. m)) (\<lambda>_. return_io True)
       | None \<Rightarrow> return_io False)"

definition WaitForEventMatching ::
  "(nat \<Rightarrow> bool) \<Rightarrow> ('w, string) poller \<Rightarrow> ('w, 'q) kube \<Rightarrow> Context \<Rightarrow> string \<Rightarrow> string \<Rightarrow> string \<Rightarrow> int64
     \<Rightarrow> ('w, string) io" where
  "WaitForEventMatching ip poll kube ctx namespace objectName substring timeout =
     capturing []
       (bind_io (wrapf ''waiting for an event on %s/%s mentioning %q: %w''
                   [namespace, objectName, Quote ip substring]
                   (poll ctx pollInterval timeout True (event_condition kube namespace objectName substring)))
          (\<lambda>_. captured))"

definition gone_by_uid_condition ::
  "(go_error \<Rightarrow> bool) \<Rightarrow> ('w, 'q) kube \<Rightarrow> string \<Rightarrow> string \<Rightarrow> string \<Rightarrow> Context \<Rightarrow> ('w \<times> unit, bool) io" where
  "gone_by_uid_condition isNotFound kube namespace name uid ctx =
     bind_io (try_io (on_world (k_GetPod (kube ctx) namespace name))) (\<lambda>res.
       case res of
         Inl err \<Rightarrow> if isNotFound err then return_io True else throw_io err
       | Inr pod \<Rightarrow> return_io (pod_UID pod \<noteq> uid))"

definition WaitForPodGoneByUID ::
  "(go_error \<Rightarrow> bool) \<Rightarrow> ('w, unit) poller \<Rightarrow> ('w, 'q) kube \<Rightarrow> Context \<Rightarrow> string \<Rightarrow> string \<Rightarrow> string \<Rightarrow> int64
     \<Rightarrow> ('w, unit) io" where
  "WaitForPodGoneByUID isNotFound poll kube ctx namespace name uid timeout =
     capturing ()
       (wrapf ''waiting for pod %s/%s (uid %s) to be deleted: %w'' [namespace, name, uid]
          (poll ctx pollInterval timeout True (gone_by_uid_condition isNotFound kube namespace name uid)))"

fun first_replacement :: "string \<Rightarrow> Pod list \<Rightarrow> Pod option" where
  "first_replacement excludedUID [] = None"
| "first_replacement excludedUID (pod # pods) =
     (if pod_UID pod \<noteq> excludedUID \<and> pod_Phase pod = PodRunning then Some pod
      else first_replacement excludedUID pods)"

definition replacement_condition ::
  "('w, 'q) kube \<Rightarrow> string \<Rightarrow> string \<Rightarrow> string \<Rightarrow> Context \<Rightarrow> ('w \<times> Pod option, bool) io" where
  "replacement_condition kube namespace labelSelector excludedUID ctx =
     bind_io (on_world (k_ListPods (kube ctx) namespace labelSelector [])) (\<lambda>pods.
       case first_replacement excludedUID pods of
         Some pod \<Rightarrow> bind_io (capture (\<lambda>_. Some pod)) (\<lambda>_. return_io True)
       | None \<Rightarrow> return_io False)"

definition WaitForRunningPodOtherThan ::
  "(nat \<Rightarrow> bool) \<Rightarrow> ('w, Pod option) poller \<Rightarrow> ('w, 'q) kube \<Rightarrow> Context \<Rightarrow> string \<Rightarrow> string \<Rightarrow> string \<Rightarrow> int64
     \<Rightarrow> ('w, Pod option) io" where
  "WaitForRunningPodOtherThan ip poll kube ctx namespace labelSelector excludedUID timeout =
     capturing None
       (bind_io (wrapf ''waiting for a replacement pod matching %q in %s: %w''
                   [Quote ip labelSelector, namespace]
                   (poll ctx pollInterval timeout True
                      (replacement_condition kube namespace labelSelector excludedUID))) (\<lambda>_. captured))"

definition no_pods_condition ::
  "('w, 'q) kube \<Rightarrow> string \<Rightarrow> string \<Rightarrow> Context \<Rightarrow> ('w \<times> unit, bool) io" where
  "no_pods_condition kube namespace labelSelector ctx =
     bind_io (on_world (k_ListPods (kube ctx) namespace labelSelector [])) (\<lambda>pods.
       return_io (length pods = 0))"

definition WaitForNoPodsMatching ::
  "(nat \<Rightarrow> bool) \<Rightarrow> ('w, unit) poller \<Rightarrow> ('w, 'q) kube \<Rightarrow> Context \<Rightarrow> string \<Rightarrow> string \<Rightarrow> int64 \<Rightarrow> ('w, unit) io" where
  "WaitForNoPodsMatching ip poll kube ctx namespace labelSelector timeout =
     capturing ()
       (wrapf ''waiting for pods matching %q in %s to be deleted: %w'' [Quote ip labelSelector, namespace]
          (poll ctx pollInterval timeout True (no_pods_condition kube namespace labelSelector)))"

definition QuobyteClientPodOnNode :: "('w, 'q) kube \<Rightarrow> Context \<Rightarrow> string \<Rightarrow> ('w, Pod) io" where
  "QuobyteClientPodOnNode kube ctx nodeName =
     bind_io (wrapf ''listing quobyte-client pods on node %s: %w'' [nodeName]
                (k_ListPods (kube ctx) ''kube-system'' ''role=client'' (''spec.nodeName'' @ ''='' @ nodeName))) (\<lambda>pods.
       case pods of
         [] \<Rightarrow> throw_io (Errorf ''no quobyte-client pod (%s) found on node %s'' [''role=client'', nodeName])
       | pod # _ \<Rightarrow> return_io pod)"

section \<open>Waiting for an object to go\<close>

definition gone_condition ::
  "(go_error \<Rightarrow> bool) \<Rightarrow> (Context \<Rightarrow> ('w, 'a) io) \<Rightarrow> Context \<Rightarrow> ('w \<times> unit, bool) io" where
  "gone_condition isNotFound get ctx =
     bind_io (try_io (on_world (get ctx))) (\<lambda>res.
       case res of
         Inl err \<Rightarrow> if isNotFound err then return_io True else throw_io err
       | Inr _ \<Rightarrow> return_io False)"

definition waitForGone ::
  "(go_error \<Rightarrow> bool) \<Rightarrow> ('w, unit) poller \<Rightarrow> Context \<Rightarrow> int64 \<Rightarrow> string \<Rightarrow> (Context \<Rightarrow> ('w, 'a) io) \<Rightarrow> ('w, unit) io" where
  "waitForGone isNotFound poll ctx timeout description get =
     capturing ()
       (wrapf ''waiting for %s to be deleted: %w'' [description]
          (poll ctx pollInterval timeout True (gone_condition isNotFound get)))"

definition WaitForPodDeleted ::
  "(go_error \<Rightarrow> bool) \<Rightarrow> ('w, unit) poller \<Rightarrow> ('w, 'q) kube \<Rightarrow> Context \<Rightarrow> string \<Rightarrow> string \<Rightarrow> int64 \<Rightarrow> ('w, unit) io" where
  "WaitForPodDeleted isNotFound poll kube ctx namespace name timeout =
     waitForGone isNotFound poll ctx timeout (Sprintf ''pod %s/%s'' [namespace, name])
       (\<lambda>ctx. k_GetPod (kube ctx) namespace name)"

definition WaitForPVCDeleted ::
  "(go_error \<Rightarrow> bool) \<Rightarrow> ('w, unit) poller \<Rightarrow> ('w, 'q) kube \<Rightarrow> Context \<Rightarrow> string \<Rightarrow> string \<Rightarrow> int64 \<Rightarrow> ('w, unit) io" where
  "WaitForPVCDeleted isNotFound poll kube ctx namespace name timeout =
     waitForGone isNotFound poll ctx timeout (Sprintf ''pvc %s/%s'' [namespace, name])
       (\<lambda>ctx. k_GetPVC (kube ctx) namespace name)"

definition WaitForPVDeleted ::
  "(go_error \<Rightarrow> bool) \<Rightarrow> ('w, unit) poller \<Rightarrow> ('w, 'q) kube \<Rightarrow> Context \<Rightarrow> string \<Rightarrow> int64 \<Rightarrow> ('w, unit) io" where
  "WaitForPVDeleted isNotFound poll kube ctx name timeout =
     waitForGone isNotFound poll ctx timeout (Sprintf ''pv %s'' [name]) (\<lambda>ctx. k_GetPV (kube ctx) name)"

definition WaitForStorageClassDeleted ::
  "(go_error \<Rightarrow> bool) \<Rightarrow> ('w, unit) poller \<Rightarrow> ('w, 'q) kube \<Rightarrow> Context \<Rightarrow> string \<Rightarrow> int64 \<Rightarrow> ('w, unit) io" where
  "WaitForStorageClassDeleted isNotFound poll kube ctx name timeout =
     waitForGone isNotFound poll ctx timeout (Sprintf ''storage class %s'' [name])
       (\<lambda>ctx. k_GetStorageClass (kube ctx) name)"

definition WaitForSecretDeleted ::
  "(go_error \<Rightarrow> bool) \<Rightarrow> ('w, unit) poller \<Rightarrow> ('w, 'q) kube \<Rightarrow> Context \<Rightarrow> string \<Rightarrow> string \<Rightarrow> int64 \<Rightarrow> ('w, unit) io" where
  "WaitForSecretDeleted isNotFound poll kube ctx namespace name timeout =
     waitForGone isNotFound poll ctx timeout (Sprintf ''secret %s/%s'' [namespace, name])
       (\<lambda>ctx. k_GetSecret (kube ctx) namespace name)"

section \<open>What is assumed of the polling loop\<close>

text \<open>
  \<open>polled cond atts x r y\<close>: from state \<open>x\<close> the loop makes the attempts \<open>atts\<close> (the context and the world
  of each) and ends with \<open>r\<close> in state \<open>y\<close>. An attempt that says true, fails or panics is the last
  one. Between two attempts, and before it gives up with an error \<open>interrupted\<close> recognises, time
  passes: the world may change, the captured variables do not.
\<close>

inductive polled ::
  "(go_error \<Rightarrow> bool) \<Rightarrow> (Context \<Rightarrow> ('w \<times> 's, bool) io) \<Rightarrow> (Context \<times> 'w) list \<Rightarrow> 'w \<times> 's \<Rightarrow> unit outcome \<Rightarrow> 'w \<times> 's \<Rightarrow> bool"
  for interrupted :: "go_error \<Rightarrow> bool" and cond :: "Context \<Rightarrow> ('w \<times> 's, bool) io" where
  satisfied: "cond c (w, s) = (Ok True, y) \<Longrightarrow> polled interrupted cond [(c, w)] (w, s) (Ok ()) y"
| failed: "cond c (w, s) = (Err e, y) \<Longrightarrow> polled interrupted cond [(c, w)] (w, s) (Err e) y"
| panicked: "cond c (w, s) = (Panic p, y) \<Longrightarrow> polled interrupted cond [(c, w)] (w, s) (Panic p) y"
| gave_up: "cond c (w, s) = (Ok False, (w1, s1)) \<Longrightarrow> interrupted e \<Longrightarrow>
    polled interrupted cond [(c, w)] (w, s) (Err e) (w2, s1)"
| again: "cond c (w, s) = (Ok False, (w1, s1)) \<Longrightarrow> polled interrupted cond atts (w2, s1) r y \<Longrightarrow>
    polled interrupted cond ((c, w) # atts) (w, s) r y"

text \<open>The documented behaviour with \<open>immediate = true\<close>: the first attempt is made at once.\<close>

definition poll_contract :: "(go_error \<Rightarrow> bool) \<Rightarrow> ('w, 's) poller \<Rightarrow> bool" where
  "poll_contract interrupted poll \<longleftrightarrow>
     (\<forall>ctx i d cond x r y. poll ctx i d True cond x = (r, y) \<longrightarrow> (\<exists>atts. polled interrupted cond atts x r y))"

lemma poll_contractD:
  assumes "poll_contract interrupted poll" and "poll ctx i d True cond x = (r, y)"
  obtains atts where "polled interrupted cond atts x r y"
  using assms unfolding poll_contract_def by blast

section \<open>Running the closures\<close>

lemma on_world_inv [io_inv]:
  "on_world m x = (r, y) \<longleftrightarrow> (\<exists>w. m (fst x) = (r, w) \<and> y = (w, snd x))"
  by (auto simp: on_world_def split: prod.splits)

lemma capture_inv [io_inv]: "capture f x = (r, y) \<longleftrightarrow> r = Ok () \<and> y = (fst x, f (snd x))"
  by (auto simp: capture_def split: prod.splits)

lemma captured_inv [io_inv]: "captured x = (r, y) \<longleftrightarrow> r = Ok (snd x) \<and> y = x"
  by (auto simp: captured_def split: prod.splits)

lemma capturing_inv [io_inv]: "capturing s m w = (r, w') \<longleftrightarrow> (\<exists>s'. m (w, s) = (r, (w', s')))"
  by (auto simp: capturing_def split: prod.splits)

lemmas closure_defs = on_world_def capture_def captured_def capturing_def

lemma on_world_step [io_eval, simp]: "m w = (r, w') \<Longrightarrow> on_world m (w, s) = (r, (w', s))"
  by (simp add: on_world_def)

lemma capture_step [io_eval, simp]: "capture f (w, s) = (Ok (), (w, f s))"
  by (simp add: capture_def)

lemma captured_step [io_eval, simp]: "captured (w, s) = (Ok s, (w, s))"
  by (simp add: captured_def)

lemma return_io_inv [io_inv]: "return_io a x = (r, y) \<longleftrightarrow> r = Ok a \<and> y = x"
  by (auto simp: return_io_def)

section \<open>How a loop ends\<close>

lemma polled_attempts: "polled interrupted cond atts x r y \<Longrightarrow> atts \<noteq> [] \<and> snd (hd atts) = fst x"
  by (induction rule: polled.induct) simp_all

text \<open>A loop that ends well ends with an attempt that said true.\<close>

lemma polled_Ok:
  "polled interrupted cond atts x (Ok u) y \<Longrightarrow>
     \<exists>c w s. (c, w) = List.last atts \<and> cond c (w, s) = (Ok True, y)"
proof (induction atts x "Ok u" y rule: polled.induct)
  case (again c w s w1 s1 atts w2 y)
  then have "atts \<noteq> []" using polled_attempts by blast
  with again show ?case by simp
next
  case (satisfied c w s y)
  then show ?case by (intro exI [of _ c] exI [of _ w] exI [of _ s]) simp
qed

text \<open>All attempts before the last said false.\<close>

lemma polled_before:
  "polled interrupted cond atts x r y \<Longrightarrow> (c, w) \<in> set (butlast atts) \<Longrightarrow>
     \<exists>s z. cond c (w, s) = (Ok False, z)"
proof (induction arbitrary: c w rule: polled.induct)
  case (again c0 w0 s0 w1 s1 atts w2 r y)
  then show ?case using polled_attempts [OF again.hyps(2)] by auto
qed simp_all

text \<open>A loop that ends with an error was interrupted, or its last attempt failed with this error.\<close>

lemma polled_Err:
  "polled interrupted cond atts x (Err e) y \<Longrightarrow>
     \<exists>c w s z. (c, w) = List.last atts \<and>
        (cond c (w, s) = (Err e, z) \<or> interrupted e \<and> cond c (w, s) = (Ok False, z))"
proof (induction atts x "Err e :: unit outcome" y rule: polled.induct)
  case (again c w s w1 s1 atts w2 y)
  then have "atts \<noteq> []" using polled_attempts by blast
  with again show ?case by simp
next
  case (gave_up c w s w1 s1 w2)
  then show ?case by (intro exI [of _ c] exI [of _ w] exI [of _ s] exI [of _ "(w1, s1)"]) simp
next
  case (failed c w s y)
  then show ?case by (intro exI [of _ c] exI [of _ w] exI [of _ s] exI [of _ y]) simp
qed

end
