(* ===== verification/Test_Cleanup.thy ===== *)
theory Test_Cleanup
  imports Go_Testing Test_Waiting
begin

text \<open>
  \<open>framework/apply.go\<close>: creating an object and arranging for its removal. Each function creates the
  object with the context of the test, fails the test when that did not work, and registers a clean-up
  that deletes the object and waits for it to go, with a context of its own.
\<close>

definition minute :: int64 where "minute = 60 * 1000000000"

definition secretDeleteTimeout :: int64 where "secretDeleteTimeout = minute"
definition storageClassTimeout :: int64 where "storageClassTimeout = minute"
definition pvcDeleteTimeout :: int64 where "pvcDeleteTimeout = 2 * minute"
definition pvDeleteTimeout :: int64 where "pvDeleteTimeout = 3 * minute"
definition podDeleteTimeout :: int64 where "podDeleteTimeout = 2 * minute"
definition deploymentDeleteTimeout :: int64 where "deploymentDeleteTimeout = 2 * minute"

text \<open>\<open>if err := m; err != nil { t.Logf("warning: %v", err) }\<close>\<close>

definition warn_on_error :: "('w, unit) io \<Rightarrow> 'w test_cleanup" where
  "warn_on_error m =
     bind_io (try_io (in_cleanup m)) (\<lambda>res.
       case res of Inl err \<Rightarrow> t_Logf ''warning: %v'' [Error err] | Inr _ \<Rightarrow> return_io ())"

text \<open>\<open>_ = m\<close>\<close>

definition ignore_error :: "('w, unit) io \<Rightarrow> 'w test_cleanup" where
  "ignore_error m = bind_io (try_io (in_cleanup m)) (\<lambda>_. return_io ())"

text \<open>\<open>if err := m; err != nil { t.Fatalf(fmt, args..., err) }\<close>\<close>

definition fatal_on_error :: "string \<Rightarrow> string list \<Rightarrow> ('w, 'a) io \<Rightarrow> ('w testing, 'a) io" where
  "fatal_on_error fmt args m =
     bind_io (try_io (in_test m)) (\<lambda>res.
       case res of Inl err \<Rightarrow> t_Fatalf fmt (args @ [Error err]) | Inr a \<Rightarrow> return_io a)"

lemma fatal_on_error_Ok:
  "fatal_on_error fmt args m t = (Ok a, t') \<longleftrightarrow> (\<exists>w. m (t_world t) = (Ok a, w) \<and> t' = t\<lparr>t_world := w\<rparr>)"
  by (auto simp: fatal_on_error_def bind_io_def try_io_def in_test_def split: prod.splits outcome.splits)

section \<open>The functions\<close>

text \<open>The parameters every function needs: the error test, the polling loop and the client.\<close>

record ('w, 'q) cluster_access =
  ca_isNotFound :: "go_error \<Rightarrow> bool"
  ca_poll :: "('w, unit) poller"
  ca_kube :: "('w, 'q) kube"
  ca_FormatLabelSelector :: "gomap \<Rightarrow> string"
  ca_isPrint :: "nat \<Rightarrow> bool"

definition secret_cleanup :: "('w, 'q) cluster_access \<Rightarrow> Secret \<Rightarrow> 'w test_cleanup" where
  "secret_cleanup ca s =
     bind_io (ignore_error (k_DeleteSecret (ca_kube ca Background) (s_Namespace s) (s_Name s))) (\<lambda>_.
       warn_on_error (WaitForSecretDeleted (ca_isNotFound ca) (ca_poll ca) (ca_kube ca) Background
         (s_Namespace s) (s_Name s) secretDeleteTimeout))"

definition ApplySecret :: "('w, 'q) cluster_access \<Rightarrow> Context \<Rightarrow> Secret \<Rightarrow> ('w testing, unit) io" where
  "ApplySecret ca ctx s =
     bind_io (fatal_on_error ''creating secret %s/%s: %v'' [s_Namespace s, s_Name s]
                (k_CreateSecret (ca_kube ca ctx) (s_Namespace s) s)) (\<lambda>_.
       CleanupUnlessFailed (Sprintf ''secret %s/%s'' [s_Namespace s, s_Name s]) (secret_cleanup ca s))"

definition storage_class_cleanup :: "('w, 'q) cluster_access \<Rightarrow> StorageClass \<Rightarrow> 'w test_cleanup" where
  "storage_class_cleanup ca sc =
     bind_io (ignore_error (k_DeleteStorageClass (ca_kube ca Background) (sc_Name sc))) (\<lambda>_.
       warn_on_error (WaitForStorageClassDeleted (ca_isNotFound ca) (ca_poll ca) (ca_kube ca) Background
         (sc_Name sc) storageClassTimeout))"

definition ApplyStorageClass :: "('w, 'q) cluster_access \<Rightarrow> Context \<Rightarrow> StorageClass \<Rightarrow> ('w testing, unit) io" where
  "ApplyStorageClass ca ctx sc =
     bind_io (fatal_on_error ''creating storage class %s: %v'' [sc_Name sc]
                (k_CreateStorageClass (ca_kube ca ctx) sc)) (\<lambda>_.
       CleanupUnlessFailed (Sprintf ''storage class %s'' [sc_Name sc]) (storage_class_cleanup ca sc))"

definition pv_cleanup :: "('w, 'q) cluster_access \<Rightarrow> string \<Rightarrow> 'w test_cleanup" where
  "pv_cleanup ca name =
     bind_io (ignore_error (k_DeletePV (ca_kube ca Background) name)) (\<lambda>_.
       warn_on_error (WaitForPVDeleted (ca_isNotFound ca) (ca_poll ca) (ca_kube ca) Background
         name pvDeleteTimeout))"

definition ApplyPV :: "('w, 'q) cluster_access \<Rightarrow> Context \<Rightarrow> 'q PersistentVolume \<Rightarrow> ('w testing, unit) io" where
  "ApplyPV ca ctx pv =
     bind_io (fatal_on_error ''creating pv %s: %v'' [pv_Name pv] (k_CreatePV (ca_kube ca ctx) pv)) (\<lambda>_.
       CleanupUnlessFailed (Sprintf ''pv %s'' [pv_Name pv]) (pv_cleanup ca (pv_Name pv)))"

definition pvIsReclaimedByDeletion :: "('w, 'q) cluster_access \<Rightarrow> Context \<Rightarrow> string \<Rightarrow> ('w, bool) io" where
  "pvIsReclaimedByDeletion ca ctx name =
     bind_io (try_io (k_GetPV (ca_kube ca ctx) name)) (\<lambda>res.
       case res of
         Inl _ \<Rightarrow> return_io False
       | Inr pv \<Rightarrow> return_io (pv_ReclaimPolicy pv = ReclaimDelete))"

text \<open>The name of the volume the claim is bound to, empty when the claim cannot be read.\<close>

definition bound_volume :: "('w, 'q) cluster_access \<Rightarrow> string \<Rightarrow> string \<Rightarrow> ('w, string) io" where
  "bound_volume ca namespace name =
     bind_io (try_io (k_GetPVC (ca_kube ca Background) namespace name)) (\<lambda>res.
       case res of Inl _ \<Rightarrow> return_io [] | Inr bound \<Rightarrow> return_io (pvc_VolumeName bound))"

definition pvc_cleanup :: "('w, 'q) cluster_access \<Rightarrow> string \<Rightarrow> string \<Rightarrow> 'w test_cleanup" where
  "pvc_cleanup ca namespace name =
     bind_io (in_cleanup (bound_volume ca namespace name)) (\<lambda>boundPVName.
     bind_io (ignore_error (k_DeletePVC (ca_kube ca Background) namespace name)) (\<lambda>_.
     bind_io (try_io (in_cleanup (WaitForPVCDeleted (ca_isNotFound ca) (ca_poll ca) (ca_kube ca) Background
                namespace name pvcDeleteTimeout))) (\<lambda>res.
     case res of
       Inl err \<Rightarrow> t_Logf ''warning: %v'' [Error err]
     | Inr _ \<Rightarrow>
         if boundPVName = [] then return_io ()
         else bind_io (in_cleanup (pvIsReclaimedByDeletion ca Background boundPVName)) (\<lambda>reclaimed.
              if \<not> reclaimed then return_io ()
              else warn_on_error (WaitForPVDeleted (ca_isNotFound ca) (ca_poll ca) (ca_kube ca) Background
                     boundPVName pvDeleteTimeout)))))"

definition ApplyPVC :: "('w, 'q) cluster_access \<Rightarrow> Context \<Rightarrow> 'q PersistentVolumeClaim \<Rightarrow> ('w testing, unit) io" where
  "ApplyPVC ca ctx pvc =
     bind_io (fatal_on_error ''creating pvc %s/%s: %v'' [pvc_Namespace pvc, pvc_Name pvc]
                (k_CreatePVC (ca_kube ca ctx) (pvc_Namespace pvc) pvc)) (\<lambda>_.
       CleanupUnlessFailed (Sprintf ''pvc %s/%s'' [pvc_Namespace pvc, pvc_Name pvc])
         (pvc_cleanup ca (pvc_Namespace pvc) (pvc_Name pvc)))"

definition pod_cleanup :: "('w, 'q) cluster_access \<Rightarrow> Pod \<Rightarrow> 'w test_cleanup" where
  "pod_cleanup ca pod =
     bind_io (ignore_error (k_DeletePod (ca_kube ca Background) (pod_Namespace pod) (pod_Name pod))) (\<lambda>_.
       warn_on_error (WaitForPodDeleted (ca_isNotFound ca) (ca_poll ca) (ca_kube ca) Background
         (pod_Namespace pod) (pod_Name pod) podDeleteTimeout))"

definition ApplyPod :: "('w, 'q) cluster_access \<Rightarrow> Context \<Rightarrow> Pod \<Rightarrow> ('w testing, unit) io" where
  "ApplyPod ca ctx pod =
     bind_io (fatal_on_error ''creating pod %s/%s: %v'' [pod_Namespace pod, pod_Name pod]
                (k_CreatePod (ca_kube ca ctx) (pod_Namespace pod) pod)) (\<lambda>_.
       CleanupUnlessFailed (Sprintf ''pod %s/%s'' [pod_Namespace pod, pod_Name pod]) (pod_cleanup ca pod))"

definition deployment_cleanup :: "('w, 'q) cluster_access \<Rightarrow> Deployment \<Rightarrow> 'w test_cleanup" where
  "deployment_cleanup ca dp =
     bind_io (ignore_error (k_DeleteDeployment (ca_kube ca Background) (dp_Namespace dp) (dp_Name dp))) (\<lambda>_.
       warn_on_error (WaitForNoPodsMatching (ca_isPrint ca) (ca_poll ca) (ca_kube ca) Background
         (dp_Namespace dp) (ca_FormatLabelSelector ca (dp_MatchLabels dp)) deploymentDeleteTimeout))"

definition ApplyDeployment :: "('w, 'q) cluster_access \<Rightarrow> Context \<Rightarrow> Deployment \<Rightarrow> ('w testing, unit) io" where
  "ApplyDeployment ca ctx dp =
     bind_io (fatal_on_error ''creating deployment %s/%s: %v'' [dp_Namespace dp, dp_Name dp]
                (k_CreateDeployment (ca_kube ca ctx) (dp_Namespace dp) dp)) (\<lambda>_.
       CleanupUnlessFailed (Sprintf ''deployment %s/%s'' [dp_Namespace dp, dp_Name dp])
         (deployment_cleanup ca dp))"

section \<open>A set-up as a list of objects\<close>

datatype 'q resource =
    RSecret Secret | RStorageClass StorageClass | RPV "'q PersistentVolume"
  | RPVC "'q PersistentVolumeClaim" | RPod Pod | RDeployment Deployment

fun apply_resource :: "('w, 'q) cluster_access \<Rightarrow> Context \<Rightarrow> 'q resource \<Rightarrow> ('w testing, unit) io" where
  "apply_resource ca ctx (RSecret s) = ApplySecret ca ctx s"
| "apply_resource ca ctx (RStorageClass sc) = ApplyStorageClass ca ctx sc"
| "apply_resource ca ctx (RPV pv) = ApplyPV ca ctx pv"
| "apply_resource ca ctx (RPVC pvc) = ApplyPVC ca ctx pvc"
| "apply_resource ca ctx (RPod pod) = ApplyPod ca ctx pod"
| "apply_resource ca ctx (RDeployment dp) = ApplyDeployment ca ctx dp"

fun resource_cleanup :: "('w, 'q) cluster_access \<Rightarrow> 'q resource \<Rightarrow> 'w test_cleanup" where
  "resource_cleanup ca (RSecret s) = secret_cleanup ca s"
| "resource_cleanup ca (RStorageClass sc) = storage_class_cleanup ca sc"
| "resource_cleanup ca (RPV pv) = pv_cleanup ca (pv_Name pv)"
| "resource_cleanup ca (RPVC pvc) = pvc_cleanup ca (pvc_Namespace pvc) (pvc_Name pvc)"
| "resource_cleanup ca (RPod pod) = pod_cleanup ca pod"
| "resource_cleanup ca (RDeployment dp) = deployment_cleanup ca dp"

fun apply_all :: "('w, 'q) cluster_access \<Rightarrow> Context \<Rightarrow> 'q resource list \<Rightarrow> ('w testing, unit) io" where
  "apply_all ca ctx [] = return_io ()"
| "apply_all ca ctx (r # rs) = bind_io (apply_resource ca ctx r) (\<lambda>_. apply_all ca ctx rs)"

lemmas apply_defs = ApplySecret_def ApplyStorageClass_def ApplyPV_def ApplyPVC_def ApplyPod_def
  ApplyDeployment_def

end
