(* ===== verification/Test_Config.thy ===== *)
theory Test_Config
  imports Go_Testing Csi_Types "HOL-Library.Multiset"
begin

text \<open>
  \<open>framework/config.go\<close> and what is run from a configuration: \<open>framework/upstream.go\<close>,
  \<open>quobyte_client.go\<close> and \<open>cluster.go\<close>. The environment of the process is a function \<open>env\<close> from names to
  values, empty for an unset variable, as \<open>os.Getenv\<close> gives them.
\<close>

record SharedVolumeOptions =
  sv_EnableSharedVolume :: bool
  sv_PreCreateSharedVolume :: bool
  sv_Name :: string
  sv_UseDeleteFilesTask :: bool

record Config =
  Kubeconfig :: string
  QuobyteAPIURL :: string
  QuobyteAPIUser :: string
  QuobyteAPIPassword :: string
  CSIProvisionerName :: string
  Namespace :: string
  QuobyteTenant :: string
  StorageClassName :: string
  ArtifactsDir :: string
  EnableAccessKeyMounts :: bool
  UseK8SNamespaceAsTenant :: bool
  UseSeparateMountSecret :: bool
  EnableVolumeMetrics :: bool
  EnableSnapshots :: bool
  UpstreamE2EScript :: string
  RepoRoot :: string
  SharedVolumeOpts :: SharedVolumeOptions

section \<open>Truth values in the environment\<close>

definition boolEnvWithDefault :: "(string \<Rightarrow> string) \<Rightarrow> string \<Rightarrow> bool \<Rightarrow> bool" where
  "boolEnvWithDefault env name fallback =
     (case ParseBool (env name) of Ok value \<Rightarrow> value | _ \<Rightarrow> fallback)"

definition boolEnv :: "(string \<Rightarrow> string) \<Rightarrow> string \<Rightarrow> bool" where
  "boolEnv env name = boolEnvWithDefault env name False"

section \<open>LoadConfig\<close>

definition read_config :: "(string \<Rightarrow> string) \<Rightarrow> Config" where
  "read_config env =
     \<lparr>Kubeconfig = env ''KUBECONFIG'', QuobyteAPIURL = env ''QUOBYTE_API_URL'',
      QuobyteAPIUser = env ''QUOBYTE_API_USER'', QuobyteAPIPassword = env ''QUOBYTE_API_PASSWORD'',
      CSIProvisionerName = env ''CSI_PROVISIONER_NAME'', Namespace = env ''NAMESPACE'',
      QuobyteTenant = env ''QUOBYTE_TENANT'', StorageClassName = env ''STORAGE_CLASS_NAME'',
      ArtifactsDir = env ''ARTIFACTS_DIR'',
      EnableAccessKeyMounts = boolEnv env ''ENABLE_ACCESS_KEY_MOUNTS'',
      UseK8SNamespaceAsTenant = boolEnv env ''USE_K8S_NAMESPACE_AS_TENANT'',
      UseSeparateMountSecret = boolEnv env ''USE_SEPARATE_MOUNT_SECRET'',
      EnableVolumeMetrics = boolEnvWithDefault env ''ENABLE_VOLUME_METRICS'' True,
      EnableSnapshots = boolEnv env ''ENABLE_SNAPSHOTS'',
      UpstreamE2EScript = env ''UPSTREAM_E2E_SCRIPT'', RepoRoot = env ''REPO_ROOT'',
      SharedVolumeOpts =
        \<lparr>sv_EnableSharedVolume = boolEnv env ''USE_SHARED_VOLUME'',
         sv_PreCreateSharedVolume = boolEnv env ''PRE_CREATE_SHARED_VOLUME'',
         sv_Name = env ''SHARED_VOLUME_NAME'',
         sv_UseDeleteFilesTask = boolEnvWithDefault env ''USE_DELETE_FILES_TASK'' True\<rparr>\<rparr>"

definition required_settings :: "Config \<Rightarrow> gomap" where
  "required_settings cfg =
     [(''KUBECONFIG'', Kubeconfig cfg), (''NAMESPACE'', Namespace cfg),
      (''QUOBYTE_API_URL'', QuobyteAPIURL cfg), (''QUOBYTE_API_USER'', QuobyteAPIUser cfg),
      (''QUOBYTE_API_PASSWORD'', QuobyteAPIPassword cfg), (''QUOBYTE_TENANT'', QuobyteTenant cfg),
      (''CSI_PROVISIONER_NAME'', CSIProvisionerName cfg)]"

fun require_all :: "gomap \<Rightarrow> ('w testing, unit) io" where
  "require_all [] = return_io ()"
| "require_all ((name, value) # rest) =
     (if value = [] then t_Fatalf ''required environment variable %s is not set'' [name]
      else require_all rest)"

text \<open>\<open>visit\<close> puts the map of required settings in the order in which the \<open>range\<close> loop visits it.\<close>

definition LoadConfig :: "(gomap \<Rightarrow> gomap) \<Rightarrow> (string \<Rightarrow> string) \<Rightarrow> ('w testing, Config) io" where
  "LoadConfig visit env =
     (let cfg = read_config env; sv = SharedVolumeOpts cfg
      in bind_io (require_all (visit (required_settings cfg))) (\<lambda>_.
         if sv_PreCreateSharedVolume sv \<and> \<not> sv_EnableSharedVolume sv
         then t_Fatalf ''PRE_CREATE_SHARED_VOLUME is set without USE_SHARED_VOLUME: the pre-created volume would not be used'' []
         else if UseSeparateMountSecret cfg \<and> \<not> EnableAccessKeyMounts cfg
         then t_Fatalf ''USE_SEPARATE_MOUNT_SECRET is set without ENABLE_ACCESS_KEY_MOUNTS: a separate mount secret only makes sense for access key mounts'' []
         else return_io cfg))"

section \<open>Running the upstream suite\<close>

record UpstreamE2EOptions =
  ue_StorageClassFile :: string
  ue_SnapshotClassFile :: string

definition FormatBool :: "bool \<Rightarrow> string" where
  "FormatBool b = (if b then ''true'' else ''false'')"

text \<open>
  \<open>run\<close> is the start of a process: the program, its arguments, its directory and its environment;
  \<open>environ\<close> is \<open>os.Environ()\<close>. Its output goes to the output of the test.
\<close>

definition RunUpstreamE2E ::
  "(string \<Rightarrow> string list \<Rightarrow> string \<Rightarrow> string list \<Rightarrow> ('w, unit) io) \<Rightarrow> string list \<Rightarrow> Config \<Rightarrow> UpstreamE2EOptions
     \<Rightarrow> ('w, unit) io" where
  "RunUpstreamE2E run environ cfg opts =
     (if UpstreamE2EScript cfg = []
      then throw_io (Errorf ''UPSTREAM_E2E_SCRIPT is not set; cannot run the upstream Kubernetes e2e suite'' [])
      else if RepoRoot cfg = []
      then throw_io (Errorf ''REPO_ROOT is not set; the upstream e2e script must run from the repository root'' [])
      else if ue_StorageClassFile opts = []
      then throw_io (Errorf ''no StorageClass manifest given to run the upstream Kubernetes e2e suite against'' [])
      else wrap_io (\<lambda>err. Errorw ''running upstream Kubernetes e2e suite (%s): %w'' [UpstreamE2EScript cfg, Error err] err)
             (run ''bash'' [UpstreamE2EScript cfg] (RepoRoot cfg)
                (environ @ [''KUBECONFIG='' @ Kubeconfig cfg, ''CSI_PROVISIONER_NAME='' @ CSIProvisionerName cfg,
                   ''STORAGE_CLASS='' @ ue_StorageClassFile opts, ''SNAPSHOT_CLASS='' @ ue_SnapshotClassFile opts,
                   ''ENABLE_SNAPSHOTS='' @ FormatBool (EnableSnapshots cfg)])))"

section \<open>Clients\<close>

definition framework_NewQuobyteClient :: "(string \<Rightarrow> string \<Rightarrow> string \<Rightarrow> 'c) \<Rightarrow> Config \<Rightarrow> 'c" where
  "framework_NewQuobyteClient quobyte_NewQuobyteClient cfg =
     quobyte_NewQuobyteClient (QuobyteAPIURL cfg) (QuobyteAPIUser cfg) (QuobyteAPIPassword cfg)"

definition NewClientset ::
  "(string \<Rightarrow> string \<Rightarrow> ('w, 'r) io) \<Rightarrow> ('r \<Rightarrow> ('w, 'k) io) \<Rightarrow> string \<Rightarrow> ('w, 'k \<times> 'r) io" where
  "NewClientset buildConfigFromFlags newForConfig kubeconfigPath =
     bind_io (wrap_io (\<lambda>err. Errorw ''building rest config from kubeconfig %s: %w'' [kubeconfigPath, Error err] err)
                (buildConfigFromFlags [] kubeconfigPath)) (\<lambda>restConfig.
     bind_io (wrap_io (\<lambda>err. Errorw ''building clientset: %w'' [Error err] err)
                (newForConfig restConfig)) (\<lambda>clientset.
     return_io (clientset, restConfig)))"

section \<open>When a configuration is accepted\<close>

lemma require_all_Ok: "require_all kvs t = (Ok u, t') \<longleftrightarrow> (\<forall>v \<in> snd ` set kvs. v \<noteq> []) \<and> t' = t"
  by (induction kvs) (auto split: if_splits)

lemma require_all_cases:
  "require_all kvs t = (Ok (), t) \<or>
     (\<exists>e t' name. require_all kvs t = (Err e, t') \<and> t_failed t' \<and> t_world t' = t_world t \<and>
        (name, []) \<in> set kvs \<and> t_log t' = t_log t @ [Sprintf ''required environment variable %s is not set'' [name]])"
  by (induction kvs) (auto split: if_splits simp del: Sprintf.simps)

lemma boolEnv_set:
  "boolEnv env name \<longleftrightarrow> env name \<in> {''1'', ''t'', ''T'', ''TRUE'', ''true'', ''True''}"
  "boolEnvWithDefault env name True \<longleftrightarrow> env name \<notin> {''0'', ''f'', ''F'', ''FALSE'', ''false'', ''False''}"
  by (auto simp: boolEnv_def boolEnvWithDefault_def ParseBool_def)

text \<open>
  C31 (loading the configuration) Whatever the order in which Go visits the map of required settings:
  if none of the seven required variables is empty, a shared volume that is to be created beforehand
  is enabled, and a separate mount secret comes with access-key mounts, then the configuration has in
  each field the value of the variable of that setting, a switch being on for Go's spellings of true,
  or, where the default is on, unless the variable is a spelling of false; nothing else happens.
  Otherwise the test fails before anything touched the world, and if a variable is missing, the
  failure names a missing one.
\<close>

theorem LoadConfig_spec:
  assumes "\<And>m. mset (visit m) = mset m"
    and "required = {''KUBECONFIG'', ''NAMESPACE'', ''QUOBYTE_API_URL'', ''QUOBYTE_API_USER'', ''QUOBYTE_API_PASSWORD'',
           ''QUOBYTE_TENANT'', ''CSI_PROVISIONER_NAME''}"
    and "is_on = (\<lambda>name. env name \<in> {''1'', ''t'', ''T'', ''TRUE'', ''true'', ''True''})"
    and "is_off = (\<lambda>name. env name \<in> {''0'', ''f'', ''F'', ''FALSE'', ''false'', ''False''})"
    and "missing = {name. name \<in> required \<and> env name = []}"
    and "accepted \<longleftrightarrow> missing = {} \<and> (is_on ''PRE_CREATE_SHARED_VOLUME'' \<longrightarrow> is_on ''USE_SHARED_VOLUME'') \<and>
           (is_on ''USE_SEPARATE_MOUNT_SECRET'' \<longrightarrow> is_on ''ENABLE_ACCESS_KEY_MOUNTS'')"
  shows "(accepted \<longrightarrow> LoadConfig visit env t =
       (Ok \<lparr>Kubeconfig = env ''KUBECONFIG'', QuobyteAPIURL = env ''QUOBYTE_API_URL'', QuobyteAPIUser = env ''QUOBYTE_API_USER'',
            QuobyteAPIPassword = env ''QUOBYTE_API_PASSWORD'', CSIProvisionerName = env ''CSI_PROVISIONER_NAME'',
            Namespace = env ''NAMESPACE'', QuobyteTenant = env ''QUOBYTE_TENANT'',
            StorageClassName = env ''STORAGE_CLASS_NAME'', ArtifactsDir = env ''ARTIFACTS_DIR'',
            EnableAccessKeyMounts = is_on ''ENABLE_ACCESS_KEY_MOUNTS'', UseK8SNamespaceAsTenant = is_on ''USE_K8S_NAMESPACE_AS_TENANT'',
            UseSeparateMountSecret = is_on ''USE_SEPARATE_MOUNT_SECRET'', EnableVolumeMetrics = (\<not> is_off ''ENABLE_VOLUME_METRICS''),
            EnableSnapshots = is_on ''ENABLE_SNAPSHOTS'', UpstreamE2EScript = env ''UPSTREAM_E2E_SCRIPT'', RepoRoot = env ''REPO_ROOT'',
            SharedVolumeOpts = \<lparr>sv_EnableSharedVolume = is_on ''USE_SHARED_VOLUME'',
              sv_PreCreateSharedVolume = is_on ''PRE_CREATE_SHARED_VOLUME'', sv_Name = env ''SHARED_VOLUME_NAME'',
              sv_UseDeleteFilesTask = (\<not> is_off ''USE_DELETE_FILES_TASK'')\<rparr>\<rparr>, t)) \<and>
     (\<not> accepted \<longrightarrow>
        (\<exists>e t'. LoadConfig visit env t = (Err e, t') \<and> t_failed t' \<and> t_world t' = t_world t \<and>
           (missing \<noteq> {} \<longrightarrow>
              (\<exists>name \<in> missing. t_log t' = t_log t @ [Sprintf ''required environment variable %s is not set'' [name]]))))"
proof -
  let ?cfg = "read_config env"
  let ?req = "visit (required_settings ?cfg)"
  have same: "set ?req = set (required_settings ?cfg)" using assms(1) by (metis mset_eq_setD)
  have entries: "(name, v) \<in> set (required_settings ?cfg) \<longleftrightarrow> name \<in> required \<and> v = env name" for name v
    unfolding assms(2) by (auto simp: required_settings_def read_config_def)
  then have empty: "(name, []) \<in> set ?req \<longleftrightarrow> name \<in> missing" for name
    unfolding same assms(5) by auto
  then have ok: "require_all ?req t = (Ok (), t) \<longleftrightarrow> missing = {}"
    unfolding require_all_Ok by force
  have switches: "is_on name \<longleftrightarrow> boolEnv env name" "(\<not> is_off name) \<longleftrightarrow> boolEnvWithDefault env name True" for name
    unfolding assms(3,4) boolEnv_set by simp_all
  show ?thesis
  proof (cases "missing = {}")
    case True
    then have "require_all ?req t = (Ok (), t)" using ok by simp
    with True show ?thesis
      unfolding assms(6) switches by (simp add: LoadConfig_def Let_def) (simp add: read_config_def)
  next
    case False
    then obtain e t' name where req: "require_all ?req t = (Err e, t')" and t': "t_failed t'" "t_world t' = t_world t"
      and name: "(name, []) \<in> set ?req" and l: "t_log t' = t_log t @ [Sprintf ''required environment variable %s is not set'' [name]]"
      using require_all_cases [of ?req t] ok by blast
    from req have "LoadConfig visit env t = (Err e, t')" unfolding LoadConfig_def Let_def by (rule bind_io_step)
    moreover have "name \<in> missing" using name unfolding empty .
    moreover have "\<not> accepted" using False assms(6) by simp
    ultimately show ?thesis using t' l by blast
  qed
qed

theorem LoadConfig_spec_witness:
  "(\<exists>cfg. LoadConfig rev (\<lambda>v. if v = ''USE_SHARED_VOLUME'' then ''true'' else ''x'')
       \<lparr>t_world = (), t_failed = False, t_log = [], t_cleanups = []\<rparr>
     = (Ok cfg, \<lparr>t_world = (), t_failed = False, t_log = [], t_cleanups = []\<rparr>) \<and>
     Namespace cfg = ''x'' \<and> sv_EnableSharedVolume (SharedVolumeOpts cfg)) \<and>
   (\<exists>e t'. LoadConfig rev (\<lambda>v. if v = ''QUOBYTE_TENANT'' then [] else ''x'')
       \<lparr>t_world = (), t_failed = False, t_log = [], t_cleanups = []\<rparr> = (Err e, t') \<and>
     t_log t' = [''required environment variable QUOBYTE_TENANT is not set''])"
proof -
  let ?env = "\<lambda>v :: string. if v = ''USE_SHARED_VOLUME'' then ''true'' else ''x''"
    and ?env' = "\<lambda>v :: string. if v = ''QUOBYTE_TENANT'' then [] else ''x''"
    and ?t = "\<lparr>t_world = (), t_failed = False, t_log = [], t_cleanups = []\<rparr>"
  have perm: "mset (rev m) = mset m" for m :: gomap by simp
  note spec = LoadConfig_spec [where visit = rev, OF perm refl refl refl, where t = ?t]
  let ?missing = "\<lambda>env :: string \<Rightarrow> string. {name. name \<in> {''KUBECONFIG'', ''NAMESPACE'', ''QUOBYTE_API_URL'', ''QUOBYTE_API_USER'',
    ''QUOBYTE_API_PASSWORD'', ''QUOBYTE_TENANT'', ''CSI_PROVISIONER_NAME''} \<and> env name = []}"
  have none: "{} = ?missing ?env" by auto
  have one: "{''QUOBYTE_TENANT''} = ?missing ?env'" by auto
  have "\<exists>cfg. LoadConfig rev ?env ?t = (Ok cfg, ?t) \<and> Namespace cfg = ''x'' \<and> sv_EnableSharedVolume (SharedVolumeOpts cfg)"
    using spec [OF none, where accepted = True] by simp
  moreover have "\<exists>e t'. LoadConfig rev ?env' ?t = (Err e, t') \<and>
      t_log t' = [''required environment variable QUOBYTE_TENANT is not set'']"
    using spec [OF one, where accepted = False] by auto
  ultimately show ?thesis by (rule conjI)
qed

text \<open>A switch whose default is on stays on when it is set to a text that is no truth value.\<close>

lemma unparsable_switch_keeps_default:
  "env name = ''off'' \<Longrightarrow> boolEnvWithDefault env name fallback = fallback"
  by (simp add: boolEnvWithDefault_def ParseBool_def)

lemma LoadConfig_ends_by_failing: "ends_by_failing (LoadConfig visit env)"
proof -
  have req: "ends_by_failing (require_all kvs)" for kvs :: gomap
    by (induction kvs) (auto simp: ends_by_failing_def split: if_splits)
  show ?thesis
    unfolding LoadConfig_def Let_def
    by (intro ends_by_failing_bind req) (simp add: ends_by_failing_def)
qed

end
