(* ===== verification/Test_Credentials.thy ===== *)
theory Test_Credentials
  imports Test_Cleanup Test_Config Test_Tenants
begin

text \<open>
  \<open>framework/credentials.go\<close>: the user a test provisions through and the Secret with its credentials.
  Both exist in Quobyte from the moment these functions return, and their removal is registered before
  the caller registers anything of its own. \<open>now\<close> is \<open>time.Now().UnixNano()\<close>.
\<close>

record TestUser =
  tu_Name :: string
  tu_Password :: string
  tu_PrimaryGroup :: string

definition test_user :: "Config \<Rightarrow> int64 \<Rightarrow> TestUser" where
  "test_user cfg nanos =
     (let name = Sprintf ''e2e-user-%d'' [Itoa (sint nanos)]
      in \<lparr>tu_Name = name, tu_Password = Sprintf ''e2e-pw-%d'' [Itoa (sint nanos)],
          tu_PrimaryGroup = (if EnableAccessKeyMounts cfg then name else ''root'')\<rparr>)"

definition test_role :: "Config \<Rightarrow> UserRole" where
  "test_role cfg =
     (if sv_EnableSharedVolume (SharedVolumeOpts cfg) then FILESYSTEM_ADMIN else UNPRIVILEGED_USER)"

definition CreateTestUser ::
  "(nat \<Rightarrow> bool) \<Rightarrow> ('w, int64) io \<Rightarrow> Config \<Rightarrow> 'w QuobyteClient \<Rightarrow> string list \<Rightarrow> ('w testing, TestUser) io" where
  "CreateTestUser ip now cfg client adminOfTenantIDs =
     bind_io (in_test now) (\<lambda>nanos.
     let user = test_user cfg nanos
     in bind_io (fatal_on_error ''creating the quobyte user this test provisions through: %v'' []
                   (CreateUser ip client (tu_Name user) (tu_PrimaryGroup user) (tu_Password user)
                      (test_role cfg) adminOfTenantIDs)) (\<lambda>_.
        bind_io (CleanupUnlessFailed (Sprintf ''quobyte user %s'' [tu_Name user])
                   (warn_on_error (DeleteUser ip client (tu_Name user)))) (\<lambda>_.
        return_io user)))"

definition key_cleanup :: "(nat \<Rightarrow> bool) \<Rightarrow> 'w QuobyteClient \<Rightarrow> TestUser \<Rightarrow> AccessKeyCredentials \<Rightarrow> 'w test_cleanup" where
  "key_cleanup ip client user credentials =
     warn_on_error (DeleteAccessKey ip client (tu_Name user) (ak_AccessKeyId credentials))"

definition NewCredentials ::
  "(nat \<Rightarrow> bool) \<Rightarrow> ('w, int64) io \<Rightarrow> Config \<Rightarrow> 'w QuobyteClient \<Rightarrow> string \<Rightarrow> string list
     \<Rightarrow> ('w testing, TestUser \<times> Secret) io" where
  "NewCredentials ip now cfg client name tenantIDs =
     bind_io (if length tenantIDs = 0 then return_io True
              else bind_io (lift_io (slice_at tenantIDs 0)) (\<lambda>tenantID. return_io (tenantID = []))) (\<lambda>missing.
     if missing
     then t_Fatalf ''NewCredentials needs at least one tenant: the test's user is created as an admin of it'' []
     else
       bind_io (CreateTestUser ip now cfg client tenantIDs) (\<lambda>user.
       if \<not> EnableAccessKeyMounts cfg
       then return_io (user, NewSecret name (Namespace cfg) (tu_Name user) (tu_Password user))
       else
         bind_io (lift_io (slice_at tenantIDs 0)) (\<lambda>tenantID.
         bind_io (fatal_on_error ''creating a Quobyte access key for user %q: %v'' [Quote ip (tu_Name user)]
                    (CreateAccessKey ip client tenantID (tu_Name user) GENERAL_ACCESS_KEY)) (\<lambda>credentials.
         bind_io (CleanupUnlessFailed (Sprintf ''quobyte access key %s'' [ak_AccessKeyId credentials])
                    (key_cleanup ip client user credentials)) (\<lambda>_.
         return_io (user, NewAccessKeySecret name (Namespace cfg) (ak_AccessKeyId credentials)
                            (ak_SecretAccessKey credentials)))))))"

text \<open>Behind the check for a tenant both look-ups are in range.\<close>

lemma NewCredentials_guarded:
  "NewCredentials ip now cfg client name tenantIDs =
     (if length tenantIDs = 0 \<or> tenantIDs ! 0 = []
      then t_Fatalf ''NewCredentials needs at least one tenant: the test's user is created as an admin of it'' []
      else
        bind_io (CreateTestUser ip now cfg client tenantIDs) (\<lambda>user.
        if \<not> EnableAccessKeyMounts cfg
        then return_io (user, NewSecret name (Namespace cfg) (tu_Name user) (tu_Password user))
        else
          bind_io (fatal_on_error ''creating a Quobyte access key for user %q: %v'' [Quote ip (tu_Name user)]
                     (CreateAccessKey ip client (tenantIDs ! 0) (tu_Name user) GENERAL_ACCESS_KEY)) (\<lambda>credentials.
          bind_io (CleanupUnlessFailed (Sprintf ''quobyte access key %s'' [ak_AccessKeyId credentials])
                     (key_cleanup ip client user credentials)) (\<lambda>_.
          return_io (user, NewAccessKeySecret name (Namespace cfg) (ak_AccessKeyId credentials)
                             (ak_SecretAccessKey credentials))))))"
proof (cases tenantIDs)
  case Nil
  then show ?thesis by (intro ext) (simp add: NewCredentials_def)
next
  case (Cons t ts)
  then have at: "slice_at tenantIDs 0 = Ok t" "tenantIDs ! 0 = t" "(length tenantIDs = 0) = False" by simp_all
  have no: "(False \<or> t = []) = (t = [])" by simp
  show ?thesis
    unfolding NewCredentials_def at no if_False bind_io_lift_Ok bind_io_return ..
qed

definition NewCredentialsSecret ::
  "(nat \<Rightarrow> bool) \<Rightarrow> ('w, int64) io \<Rightarrow> Config \<Rightarrow> 'w QuobyteClient \<Rightarrow> string \<Rightarrow> string list \<Rightarrow> ('w testing, Secret) io" where
  "NewCredentialsSecret ip now cfg client name tenantIDs =
     bind_io (NewCredentials ip now cfg client name tenantIDs) (\<lambda>(_, secret). return_io secret)"

section \<open>What a test gets\<close>

text \<open>The request that makes the user: its name, password and group, and the tenants once each.\<close>

definition user_request :: "Config \<Rightarrow> TestUser \<Rightarrow> string list \<Rightarrow> CreateUserRequest" where
  "user_request cfg user ids =
     \<lparr>cu_UserName = tu_Name user, cu_Password = tu_Password user, cu_Role = test_role cfg,
      cu_AdminOfTenantId = distinct_values ids, cu_MemberOfTenantId = distinct_values ids,
      cu_PrimaryGroup = tu_PrimaryGroup user, cu_MemberOfGroup = [tu_PrimaryGroup user]\<rparr>"

lemma CreateTestUser_Ok:
  assumes "CreateTestUser ip now cfg client ids t = (Ok user, t')"
  obtains nanos w1 where "now (t_world t) = (Ok nanos, w1)" and "user = test_user cfg nanos"
    and "c_CreateUser client (user_request cfg user ids) w1 = (Ok (), t_world t')"
    and "List.map snd (t_cleanups t') = warn_on_error (DeleteUser ip client (tu_Name user)) # List.map snd (t_cleanups t)"
proof -
  from assms obtain nanos t1 t2 where now: "in_test now t = (Ok nanos, t1)"
    and made: "fatal_on_error ''creating the quobyte user this test provisions through: %v'' []
           (CreateUser ip client (tu_Name (test_user cfg nanos)) (tu_PrimaryGroup (test_user cfg nanos))
              (tu_Password (test_user cfg nanos)) (test_role cfg) ids) t1 = (Ok (), t2)"
    and user: "user = test_user cfg nanos"
    and t': "t' = t2\<lparr>t_cleanups := (Sprintf ''quobyte user %s'' [tu_Name (test_user cfg nanos)],
        warn_on_error (DeleteUser ip client (tu_Name (test_user cfg nanos)))) # t_cleanups t2\<rparr>"
    unfolding CreateTestUser_def Let_def bind_io_Ok CleanupUnlessFailed_run return_io_eval
    by (elim exE conjE) (rule that, assumption, auto simp del: Sprintf.simps)
  from now obtain w1 where w1: "now (t_world t) = (Ok nanos, w1)" and t1: "t1 = t\<lparr>t_world := w1\<rparr>"
    unfolding in_test_inv by blast
  from made obtain w2 where "CreateUser ip client (tu_Name user) (tu_PrimaryGroup user) (tu_Password user) (test_role cfg) ids w1 = (Ok (), w2)"
    and t2: "t2 = t1\<lparr>t_world := w2\<rparr>"
    unfolding fatal_on_error_Ok user t1 by auto
  then have "c_CreateUser client (user_request cfg user ids) w1 = (Ok (), w2)"
    by (simp add: CreateUser_def user_request_def wrapf_Ok Let_def)
  then show thesis
    by - (rule that [OF w1 user], simp_all add: t' t2 t1 user del: Sprintf.simps)
qed

text \<open>
  The user's removal is registered first, the key's second, so that the key is revoked before the user
  goes. The Secret holds the user's password, or the key where access-key mounts are on.
\<close>

lemma NewCredentials_Ok:
  assumes "NewCredentials ip now cfg client name ids t = (Ok (user, secret), t')"
  obtains nanos w1 w2 where "ids \<noteq> []" and "ids ! 0 \<noteq> []" and "now (t_world t) = (Ok nanos, w1)"
    and "user = test_user cfg nanos" and "c_CreateUser client (user_request cfg user ids) w1 = (Ok (), w2)"
    and "if EnableAccessKeyMounts cfg
      then \<exists>credentials.
             c_CreateAccessKeyCredentials client (ids ! 0) (tu_Name user) GENERAL_ACCESS_KEY w2 = (Ok credentials, t_world t') \<and>
             secret = NewAccessKeySecret name (Namespace cfg) (ak_AccessKeyId credentials) (ak_SecretAccessKey credentials) \<and>
             List.map snd (t_cleanups t') =
               key_cleanup ip client user credentials # warn_on_error (DeleteUser ip client (tu_Name user))
               # List.map snd (t_cleanups t)
      else t_world t' = w2 \<and> secret = NewSecret name (Namespace cfg) (tu_Name user) (tu_Password user) \<and>
           List.map snd (t_cleanups t') =
             warn_on_error (DeleteUser ip client (tu_Name user)) # List.map snd (t_cleanups t)"
proof -
  have ids: "ids \<noteq> []" "ids ! 0 \<noteq> []"
    using assms by (auto simp: NewCredentials_guarded)
  then have "\<not> (length ids = 0 \<or> ids ! 0 = [])" by simp
  note run = assms [unfolded NewCredentials_guarded if_not_P [OF this]]
  from run obtain u t1 where u: "CreateTestUser ip now cfg client ids t = (Ok u, t1)"
    and rest: "(if \<not> EnableAccessKeyMounts cfg
        then return_io (u, NewSecret name (Namespace cfg) (tu_Name u) (tu_Password u))
        else
          bind_io (fatal_on_error ''creating a Quobyte access key for user %q: %v'' [Quote ip (tu_Name u)]
                     (CreateAccessKey ip client (ids ! 0) (tu_Name u) GENERAL_ACCESS_KEY)) (\<lambda>credentials.
          bind_io (CleanupUnlessFailed (Sprintf ''quobyte access key %s'' [ak_AccessKeyId credentials])
                     (key_cleanup ip client u credentials)) (\<lambda>_.
          return_io (u, NewAccessKeySecret name (Namespace cfg) (ak_AccessKeyId credentials)
                             (ak_SecretAccessKey credentials))))) t1 = (Ok (user, secret), t')"
    unfolding bind_io_Ok [of "CreateTestUser ip now cfg client ids"] by (elim exE conjE) (rule that)
  obtain nanos w1 where now: "now (t_world t) = (Ok nanos, w1)" and u': "u = test_user cfg nanos"
    and made: "c_CreateUser client (user_request cfg u ids) w1 = (Ok (), t_world t1)"
    and c1: "List.map snd (t_cleanups t1) = warn_on_error (DeleteUser ip client (tu_Name u)) # List.map snd (t_cleanups t)"
    by (rule CreateTestUser_Ok [OF u]) (rule that)
  show thesis
  proof (cases "EnableAccessKeyMounts cfg")
    case False
    with rest have eqs: "user = u" "secret = NewSecret name (Namespace cfg) (tu_Name u) (tu_Password u)" "t' = t1"
      by auto
    show thesis
      by (rule that [OF ids now u' [folded eqs(1)] made [folded eqs(1)]]) (use False eqs c1 in simp)
  next
    case True
    with rest obtain credentials where
      key: "c_CreateAccessKeyCredentials client (ids ! 0) (tu_Name u) GENERAL_ACCESS_KEY (t_world t1) = (Ok credentials, t_world t')"
      and eqs: "user = u" "secret = NewAccessKeySecret name (Namespace cfg) (ak_AccessKeyId credentials) (ak_SecretAccessKey credentials)"
      and c2: "List.map snd (t_cleanups t') = key_cleanup ip client u credentials # List.map snd (t_cleanups t1)"
      by (auto simp: bind_io_Ok fatal_on_error_Ok CreateAccessKey_def wrapf_Ok)
    have "\<exists>credentials.
        c_CreateAccessKeyCredentials client (ids ! 0) (tu_Name user) GENERAL_ACCESS_KEY (t_world t1) = (Ok credentials, t_world t') \<and>
        secret = NewAccessKeySecret name (Namespace cfg) (ak_AccessKeyId credentials) (ak_SecretAccessKey credentials) \<and>
        List.map snd (t_cleanups t') =
          key_cleanup ip client user credentials # warn_on_error (DeleteUser ip client (tu_Name user))
          # List.map snd (t_cleanups t)"
      using key eqs c1 c2 by (intro exI conjI) (assumption | simp)+
    with True show thesis
      by - (rule that [OF ids now u' [folded eqs(1)] made [folded eqs(1)]], simp)
  qed
qed

end
