(* ===== verification/Test_Composition.thy ===== *)
theory Test_Composition
  imports Node Volume_Lifecycle Test_Volumes_Facts Test_Tenants_Facts Test_Credentials
begin

text \<open>
  The framework and the driver together: what the tests make behind the driver's back is what the
  driver makes itself, what the driver does is what the tests see, and what the tests hand to the
  driver is accepted. The driver's client is the part of the framework's client it sees.
\<close>

section \<open>The parameters a storage class of the tests reaches the driver with\<close>

text \<open>
  The external provisioner passes the parameters of the class on, less its own, and adds what it knows of
  the claim; its own and what it adds have keys with this prefix.
\<close>

definition provisioner_prefix :: string where "provisioner_prefix = ''csi.storage.k8s.io/''"

definition passed_on :: "(string \<Rightarrow> string option) \<Rightarrow> gomap \<Rightarrow> bool" where
  "passed_on params ps \<longleftrightarrow> distinct (List.map fst ps) \<and>
     (\<forall>k. \<not> HasPrefix k provisioner_prefix \<longrightarrow> map_of ps k = params k)"

lemma lower_provisioner_key:
  assumes "HasPrefix k provisioner_prefix"
  shows "\<exists>rest. ToLower k = ''csi.'' @ rest"
proof -
  have "List.map lower_char ''csi.'' = ''csi.''" by code_simp
  then show ?thesis
    using assms unfolding HasPrefix_def provisioner_prefix_def prefix_def
    by (auto simp: ToLower_def)
qed

lemma set_param_provisioner:
  assumes "HasPrefix (fst kv) provisioner_prefix"
  shows "set_param s kv st = Ok st"
  using lower_provisioner_key [OF assms] by (auto simp: set_param_def Let_def)

text \<open>The entries of a class without extra parameters, other than those for the provisioner.\<close>

definition class_entries :: "StorageClassOptions \<Rightarrow> gomap" where
  "class_entries opts =
     [(''createQuota'', ''true''), (''quobyteTenant'', so_Tenant opts), (SharedVolumeNameKey, so_SharedVolumeName opts)]"

lemma secret_parameters_keys: "map_of (secret_parameters opts) k \<noteq> None \<Longrightarrow> HasPrefix k provisioner_prefix"
  by (auto simp: secret_parameters_def provisioner_prefix_def HasPrefix_def split: if_splits)

lemma class_parameters_entries:
  assumes "so_ExtraParameters opts = []" and "so_Tenant opts \<noteq> []" and "so_SharedVolumeName opts \<noteq> []"
    and "\<not> HasPrefix k provisioner_prefix"
  shows "class_parameters opts k = map_of (class_entries opts) k"
proof -
  have "map_of (secret_parameters opts) k = None"
    using secret_parameters_keys [of opts k] assms(4) by blast
  then show ?thesis
    using assms(1-3)
    by (simp add: class_parameters_lookup class_entries_def SharedVolumeNameKey_def SharedVolumeNameParameter_def)
qed

lemma passed_on_entries:
  assumes "passed_on (sc_Parameters (NewStorageClass opts)) ps"
    and "so_ExtraParameters opts = []" and "so_Tenant opts \<noteq> []" and "so_SharedVolumeName opts \<noteq> []"
  shows "\<And>kv. kv \<in> set ps \<Longrightarrow> HasPrefix (fst kv) provisioner_prefix \<or> kv \<in> set (class_entries opts)"
    and "set (class_entries opts) \<subseteq> set ps"
proof -
  have dist: "distinct (List.map fst ps)"
    and look: "\<And>k. \<not> HasPrefix k provisioner_prefix \<Longrightarrow> map_of ps k = map_of (class_entries opts) k"
    using assms(1) class_parameters_entries [OF assms(2-4)]
    by (simp_all add: passed_on_def NewStorageClass_def)
  show "HasPrefix (fst kv) provisioner_prefix \<or> kv \<in> set (class_entries opts)" if "kv \<in> set ps" for kv
  proof (cases "HasPrefix (fst kv) provisioner_prefix")
    case False
    have "map_of ps (fst kv) = Some (snd kv)" using dist that by simp
    then have "map_of (class_entries opts) (fst kv) = Some (snd kv)" using look [OF False] by simp
    then show ?thesis using map_of_SomeD by fastforce
  qed simp
  show "set (class_entries opts) \<subseteq> set ps"
  proof
    fix kv
    assume kv: "kv \<in> set (class_entries opts)"
    then have "\<not> HasPrefix (fst kv) provisioner_prefix"
      by (auto simp: class_entries_def HasPrefix_def provisioner_prefix_def SharedVolumeNameKey_def)
    moreover have "map_of (class_entries opts) (fst kv) = Some (snd kv)"
      using kv by (auto simp: class_entries_def SharedVolumeNameKey_def)
    ultimately have "map_of ps (fst kv) = Some (snd kv)" using look by simp
    then show "kv \<in> set ps" using map_of_SomeD by fastforce
  qed
qed

lemma set_param_class_entry:
  assumes "kv \<in> set (class_entries opts)"
  shows "\<exists>st'. set_param s kv st = Ok st' \<and> volRequest st' =
     (if fst kv = ''quobyteTenant'' then volRequest st\<lparr>vr_TenantId := so_Tenant opts\<rparr>
      else if fst kv = SharedVolumeNameKey then volRequest st\<lparr>vr_Name := so_SharedVolumeName opts\<rparr>
      else volRequest st)"
  using assms
  by (auto simp: class_entries_def SharedVolumeNameKey_def set_param_def Let_def lower_keys)

text \<open>What the loop over the parameters makes of them, in whatever order it meets them.\<close>

lemma set_params_class:
  assumes "\<And>kv. kv \<in> set ps \<Longrightarrow> HasPrefix (fst kv) provisioner_prefix \<or> kv \<in> set (class_entries opts)"
  shows "\<exists>st'. set_params s ps st = Ok st' \<and> volRequest st' =
     volRequest st
       \<lparr>vr_TenantId := (if (''quobyteTenant'', so_Tenant opts) \<in> set ps then so_Tenant opts else vr_TenantId (volRequest st)),
        vr_Name := (if (SharedVolumeNameKey, so_SharedVolumeName opts) \<in> set ps then so_SharedVolumeName opts
                    else vr_Name (volRequest st))\<rparr>"
  using assms
proof (induction ps arbitrary: st)
  case Nil
  then show ?case by simp
next
  case (Cons kv ps)
  have rest: "\<And>kv'. kv' \<in> set ps \<Longrightarrow> HasPrefix (fst kv') provisioner_prefix \<or> kv' \<in> set (class_entries opts)"
    using Cons.prems by simp
  have no: "\<not> HasPrefix ''quobyteTenant'' provisioner_prefix" "\<not> HasPrefix SharedVolumeNameKey provisioner_prefix"
    by (simp_all add: HasPrefix_def provisioner_prefix_def SharedVolumeNameKey_def)
  from Cons.prems [of kv] consider "HasPrefix (fst kv) provisioner_prefix" | "kv \<in> set (class_entries opts)"
    by auto
  then show ?case
  proof cases
    case 1
    then have "kv \<noteq> (''quobyteTenant'', so_Tenant opts)" "kv \<noteq> (SharedVolumeNameKey, so_SharedVolumeName opts)"
      using no by auto
    then show ?thesis
      using Cons.IH [OF rest, of st] set_param_provisioner [OF 1] by (auto simp: bind_outcome_Ok)
  next
    case 2
    then obtain st1 where one: "set_param s kv st = Ok st1" and r1: "volRequest st1 =
        (if fst kv = ''quobyteTenant'' then volRequest st\<lparr>vr_TenantId := so_Tenant opts\<rparr>
         else if fst kv = SharedVolumeNameKey then volRequest st\<lparr>vr_Name := so_SharedVolumeName opts\<rparr>
         else volRequest st)"
      using set_param_class_entry by blast
    from Cons.IH [OF rest, of st1] one obtain st' where run: "set_params s (kv # ps) st = Ok st'"
      and r: "volRequest st' = volRequest st1
       \<lparr>vr_TenantId := (if (''quobyteTenant'', so_Tenant opts) \<in> set ps then so_Tenant opts else vr_TenantId (volRequest st1)),
        vr_Name := (if (SharedVolumeNameKey, so_SharedVolumeName opts) \<in> set ps then so_SharedVolumeName opts
                    else vr_Name (volRequest st1))\<rparr>"
      by (auto simp: bind_outcome_Ok)
    from 2 consider "kv = (''createQuota'', ''true'')" | "kv = (''quobyteTenant'', so_Tenant opts)"
      | "kv = (SharedVolumeNameKey, so_SharedVolumeName opts)"
      by (auto simp: class_entries_def)
    then show ?thesis
      by cases (rule exI [of _ st'], rule conjI [OF run], simp add: r r1 SharedVolumeNameKey_def)+
  qed
qed

section \<open>The shared volume of a test\<close>

lemma CreateVolumeOwnedBy_Ok:
  "CreateVolumeOwnedBy ip c name tenant mode user grp w = (Ok u, w') \<longleftrightarrow>
     create_or_resolve (driver_api c)
       \<lparr>vr_Name = name, vr_TenantId = tenant, vr_RootUserId = user, vr_RootGroupId = grp,
        vr_AccessMode = mode, vr_Label = []\<rparr> w = (Ok u, w')"
  unfolding CreateVolumeOwnedBy_def create_or_resolve_def bind_io_Ok try_io_Ok
  by (auto simp: wrapf_Ok split: if_splits)

lemma CreateSharedVolume_Ok:
  assumes "q_WhoAmI c w = (Ok user, w1)"
  shows "CreateSharedVolume ip c name tenant w = (Ok u, w') \<longleftrightarrow>
     create_or_resolve (driver_api c)
       \<lparr>vr_Name = name, vr_TenantId = tenant, vr_RootUserId = UserName user, vr_RootGroupId = PrimaryGroup user,
        vr_AccessMode = SharedVolumeAccessMode, vr_Label = []\<rparr> w1 = (Ok u, w')"
  unfolding CreateSharedVolume_def framework_CreateVolume_def bind_io_Ok wrapf_Ok CreateVolumeOwnedBy_Ok
  using assms by auto

lemma prepare_shared_claim:
  assumes "new_client d (cv_Secrets req) w = (Ok (driver_api c), w1)" and "q_WhoAmI c w1 = (Ok user, w2)"
    and "PrimaryGroup user \<noteq> []" and "q_GetTenantUUID c (so_Tenant opts) w2 = (Ok tenant, w3)"
    and options: "so_ExtraParameters opts = []" "so_Tenant opts \<noteq> []" "so_SharedVolumeName opts \<noteq> []"
    and passed: "passed_on (sc_Parameters (NewStorageClass opts)) ps"
  shows "\<exists>st. prepare_volume d req ps True w = (Ok (driver_api c, st,
     \<lparr>vr_Name = so_SharedVolumeName opts, vr_TenantId = tenant, vr_RootUserId = UserName user,
      vr_RootGroupId = PrimaryGroup user, vr_AccessMode = SharedVolumeAccessMode, vr_Label = []\<rparr>), w3)"
proof -
  note entries = passed_on_entries [OF passed options]
  let ?st0 = "initial_state True (cv_Name req) user"
  obtain st where run: "set_params True ps ?st0 = Ok st" and r: "volRequest st = volRequest ?st0
       \<lparr>vr_TenantId := (if (''quobyteTenant'', so_Tenant opts) \<in> set ps then so_Tenant opts else vr_TenantId (volRequest ?st0)),
        vr_Name := (if (SharedVolumeNameKey, so_SharedVolumeName opts) \<in> set ps then so_SharedVolumeName opts
                    else vr_Name (volRequest ?st0))\<rparr>"
    using set_params_class [OF entries(1), where s = True and st = ?st0] by auto
  have "volRequest st =
      \<lparr>vr_Name = so_SharedVolumeName opts, vr_TenantId = so_Tenant opts, vr_RootUserId = UserName user,
       vr_RootGroupId = PrimaryGroup user, vr_AccessMode = SharedVolumeAccessMode, vr_Label = []\<rparr>"
    using entries(2) unfolding r
    by (simp add: class_entries_def initial_state_def accessMode_def DefaultSharedVolumeAccessModes_def
        SharedVolumeAccessMode_def)
  then show ?thesis
    using assms(1-4) options(2) run
    by (intro exI [of _ st]) (auto simp: prepare_volume_Ok choose_tenant_Ok resolve_tenant_def bind_io_Ok)
qed


definition sample_options :: StorageClassOptions where
  "sample_options =
     \<lparr>so_Name = ''k'', so_Provisioner = ''csi'', so_Tenant = ''u'', so_SecretName = ''s'', so_SecretNamespace = ''ns'',
      so_MountSecretName = [], so_MountSecretNamespace = [], so_SharedVolumeName = ''sv'', so_ExtraParameters = []\<rparr>"

definition sample_passed :: gomap where
  "sample_passed = [(''sharedVolumeName'', ''sv''), (''csi.storage.k8s.io/pvc/name'', ''c''),
     (''createQuota'', ''true''), (''quobyteTenant'', ''u'')]"

lemma sample_passed_on: "passed_on (sc_Parameters (NewStorageClass sample_options)) sample_passed"
proof -
  have "map_of sample_passed k = class_parameters sample_options k" if "\<not> HasPrefix k provisioner_prefix" for k
  proof -
    have "k \<noteq> ''csi.storage.k8s.io/pvc/name''" using that by (auto simp: HasPrefix_def provisioner_prefix_def)
    moreover have "class_parameters sample_options k = map_of (class_entries sample_options) k"
      by (rule class_parameters_entries) (use that in \<open>simp_all add: sample_options_def\<close>)
    ultimately show ?thesis
      by (simp add: class_entries_def sample_passed_def SharedVolumeNameKey_def sample_options_def)
  qed
  then show ?thesis by (simp add: passed_on_def NewStorageClass_def) (simp add: sample_passed_def)
qed


section \<open>The tasks of the driver\<close>

text \<open>
  On a view of the world that gives the tasks the service knows: a task that was created is known,
  and a listing of the tasks of a type echoes the known ones of this type.
\<close>

definition echoes :: "TaskInfo \<Rightarrow> CreateTaskRequest \<Rightarrow> bool" where
  "echoes t r \<longleftrightarrow> ti_DirectoryPath t = DirectoryPath r \<and>
     (\<forall>v. taskScopedToVolume t v \<longleftrightarrow> v \<in> set (RestrictToVolumes r))"

definition task_contract :: "('w \<Rightarrow> CreateTaskRequest set) \<Rightarrow> 'w QuobyteClient \<Rightarrow> bool" where
  "task_contract tasks c \<longleftrightarrow>
     (\<forall>r w w'. q_CreateTask c r w = (Ok (), w') \<longrightarrow> r \<in> tasks w') \<and>
     (\<forall>ty w ts w'. c_GetTaskList c [ty] w = (Ok ts, w') \<longrightarrow>
        (\<forall>r \<in> tasks w. task_type r = ty \<longrightarrow> (\<exists>t \<in> set (present ts). echoes t r)) \<and>
        (\<forall>t \<in> set (present ts). \<exists>r \<in> tasks w. task_type r = ty \<and> echoes t r))"

lemma task_contractD:
  assumes "task_contract tasks c"
  shows "q_CreateTask c r w = (Ok (), w') \<Longrightarrow> r \<in> tasks w'"
    and "c_GetTaskList c [ty] w = (Ok ts, w') \<Longrightarrow> r \<in> tasks w \<Longrightarrow> task_type r = ty \<Longrightarrow> \<exists>t \<in> set (present ts). echoes t r"
    and "c_GetTaskList c [ty] w = (Ok ts, w') \<Longrightarrow> t \<in> set (present ts) \<Longrightarrow> \<exists>r \<in> tasks w. task_type r = ty \<and> echoes t r"
  using conjunct1 [OF assms [unfolded task_contract_def]] conjunct2 [OF assms [unfolded task_contract_def]]
  by blast+

lemma task_scheduled_scoped:
  "task_scheduled ts v dir \<longleftrightarrow> (\<exists>t \<in> set (present ts). ti_DirectoryPath t = dir \<and> taskScopedToVolume t v)"
  by (simp add: task_scheduled_iff taskScopedToVolume_def scope_names_volume_iff)

lemma DeleteFilesTaskScheduled_iff:
  assumes "task_contract tasks c" and "DeleteFilesTaskScheduled c v dir w = (Ok b, w')"
  shows "b \<longleftrightarrow> (\<exists>r \<in> tasks w. task_type r = DELETE_FILES_IN_VOLUMES \<and> DirectoryPath r = dir \<and> v \<in> set (RestrictToVolumes r))"
proof -
  from assms(2) obtain ts where ts: "c_GetTaskList c [DELETE_FILES_IN_VOLUMES] w = (Ok ts, w')"
    and b: "b \<longleftrightarrow> task_scheduled ts v dir"
    unfolding DeleteFilesTaskScheduled_def bind_io_Ok wrapf_Ok by auto
  show ?thesis
    unfolding b task_scheduled_scoped
    using task_contractD(2) [OF assms(1) ts] task_contractD(3) [OF assms(1) ts] unfolding echoes_def by metis
qed

lemma DeleteVolume_creates_task:
  assumes "\<And>p. p \<in> {t, v, dir} \<Longrightarrow> CHR ''|'' \<notin> set p" and "\<not> HasPrefix t SnapshotVolumeHandlePrefix"
    and "UseDeleteFilesTask d"
    and "DeleteVolume d \<lparr>dv_VolumeId = volume_handle [t, v, dir], dv_Secrets = secrets\<rparr> w = (Ok (), w')"
  shows "\<exists>api w1. new_client d secrets w = (Ok api, w1) \<and> q_CreateTask api (delete_files_task v dir) w1 = (Ok (), w')"
proof -
  have "secrets \<noteq> []"
  proof
    assume s: "secrets = []"
    have "\<not> HasPrefix (volume_handle [t, v, dir]) SnapshotVolumeHandlePrefix"
      using assms(2) HasPrefix_handle [OF snapshot_prefix_free] by simp
    with s DeleteVolume_cases [of "\<lparr>dv_VolumeId = volume_handle [t, v, dir], dv_Secrets = secrets\<rparr>" d]
    obtain e where "DeleteVolume d \<lparr>dv_VolumeId = volume_handle [t, v, dir], dv_Secrets = secrets\<rparr> = throw_io e"
      by auto
    with assms(4) show False by simp
  qed
  then have "DeleteVolume d \<lparr>dv_VolumeId = volume_handle (t # v # [dir]), dv_Secrets = secrets\<rparr> =
     bind_io (new_client d secrets) (\<lambda>api. case [dir] of
         [] \<Rightarrow> q_EraseVolumeByResolvingNamesToUUID api v t (ImmediateErase d)
       | dir # _ \<Rightarrow>
           if UseDeleteFilesTask d
           then wrap_io (\<lambda>err. Errorf ''could not delete subdirectory of the shared volume due to %s'' [Error err])
                  (q_CreateTask api (delete_files_task v dir))
           else mark_for_deletion d v dir)"
    by (intro DeleteVolume_handle) (use assms(1,2) in auto)
  with assms(3,4) show ?thesis by (auto simp: bind_io_Ok wrap_io_Ok)
qed


lemma sample_task_contract: "task_contract (\<lambda>w. set (ac_tasks w)) sample_client"
proof -
  have "task_type r = ty" for r :: CreateTaskRequest and ty by (cases "task_type r"; cases ty) simp
  moreover have "echoes (task_info r) r" for r
    by (simp add: echoes_def task_info_def taskScopedToVolume_def)
  ultimately show ?thesis
    unfolding task_contract_def
    by (auto simp: sample_client_def answer_def update_def set_present)
qed


section \<open>The credentials of a test\<close>

text \<open>
  C30 (the Secret is accepted) A test's user is created under its name with its password, as an admin of
  the given tenants. From the Secret \<open>NewCredentials\<close> builds the driver takes the access key the service
  then issued for that user where access-key mounts are on, for its calls as for the mount, and the
  name and password of the user otherwise. The key is removed before the user, and both after
  everything the test registers later.
\<close>

theorem NewCredentials_accepted:
  assumes "NewCredentials ip now cfg c name ids t = (Ok (user, secret), t')"
  shows "\<exists>nanos w1 w2. now (t_world t) = (Ok nanos, w1) \<and> c_CreateUser c
       \<lparr>cu_UserName = tu_Name user, cu_Password = tu_Password user, cu_Role = test_role cfg,
        cu_AdminOfTenantId = distinct_values ids, cu_MemberOfTenantId = distinct_values ids,
        cu_PrimaryGroup = tu_PrimaryGroup user, cu_MemberOfGroup = [tu_PrimaryGroup user]\<rparr> w1 = (Ok (), w2) \<and>
    (if EnableAccessKeyMounts cfg
     then \<exists>key. c_CreateAccessKeyCredentials c (ids ! 0) (tu_Name user) GENERAL_ACCESS_KEY w2 = (Ok key, t_world t') \<and>
       api_credentials (s_Data secret) = Ok (ak_AccessKeyId key, ak_SecretAccessKey key) \<and>
       (\<forall>d. set_access_key d (s_Data secret) =
          bind_io (m_CreateAccessKeyContextHandle (mounter d)) (\<lambda>h.
          bind_io (m_SetXAttr (mounter d) xAttrKey
                     (getAccessKeyValStr (ak_AccessKeyId key) (ak_SecretAccessKey key) h) (clientMountPoint d)) (\<lambda>_.
          return_io h))) \<and>
       List.map snd (t_cleanups t') =
         key_cleanup ip c user key # warn_on_error (DeleteUser ip c (tu_Name user)) # List.map snd (t_cleanups t)
     else t_world t' = w2 \<and> api_credentials (s_Data secret) = Ok (tu_Name user, tu_Password user) \<and>
       List.map snd (t_cleanups t') = warn_on_error (DeleteUser ip c (tu_Name user)) # List.map snd (t_cleanups t))"
proof -
  have key: "api_credentials (s_Data (NewAccessKeySecret n ns i s)) = Ok (i, s)"
    "set_access_key d (s_Data (NewAccessKeySecret n ns i s)) =
       bind_io (m_CreateAccessKeyContextHandle (mounter d)) (\<lambda>h.
       bind_io (m_SetXAttr (mounter d) xAttrKey (getAccessKeyValStr i s h) (clientMountPoint d)) (\<lambda>_. return_io h))"
    for n ns i s d
    by (simp_all add: NewAccessKeySecret_def api_credentials_def hasApiAccessKeyIdAndSecret_def secret_keys
        map_get_def set_access_key_def)
  have pass: "api_credentials (s_Data (NewSecret n ns u p)) = Ok (u, p)" for n ns u p
    by (simp add: NewSecret_def api_credentials_def hasApiAccessKeyIdAndSecret_def hasApiUserAndPassword_def
        secret_keys map_get_def)
  obtain nanos w1 w2 where now: "now (t_world t) = (Ok nanos, w1)"
    and user: "c_CreateUser c (user_request cfg user ids) w1 = (Ok (), w2)"
    and made: "if EnableAccessKeyMounts cfg
      then \<exists>credentials.
             c_CreateAccessKeyCredentials c (ids ! 0) (tu_Name user) GENERAL_ACCESS_KEY w2 = (Ok credentials, t_world t') \<and>
             secret = NewAccessKeySecret name (Namespace cfg) (ak_AccessKeyId credentials) (ak_SecretAccessKey credentials) \<and>
             List.map snd (t_cleanups t') =
               key_cleanup ip c user credentials # warn_on_error (DeleteUser ip c (tu_Name user)) # List.map snd (t_cleanups t)
      else t_world t' = w2 \<and> secret = NewSecret name (Namespace cfg) (tu_Name user) (tu_Password user) \<and>
           List.map snd (t_cleanups t') = warn_on_error (DeleteUser ip c (tu_Name user)) # List.map snd (t_cleanups t)"
    by (rule NewCredentials_Ok [OF assms]) (rule that)
  show ?thesis
  proof (intro exI conjI)
    show "now (t_world t) = (Ok nanos, w1)" by (rule now)
    show "c_CreateUser c \<lparr>cu_UserName = tu_Name user, cu_Password = tu_Password user, cu_Role = test_role cfg,
        cu_AdminOfTenantId = distinct_values ids, cu_MemberOfTenantId = distinct_values ids,
        cu_PrimaryGroup = tu_PrimaryGroup user, cu_MemberOfGroup = [tu_PrimaryGroup user]\<rparr> w1 = (Ok (), w2)"
      using user unfolding user_request_def .
    show "if EnableAccessKeyMounts cfg
     then \<exists>key. c_CreateAccessKeyCredentials c (ids ! 0) (tu_Name user) GENERAL_ACCESS_KEY w2 = (Ok key, t_world t') \<and>
       api_credentials (s_Data secret) = Ok (ak_AccessKeyId key, ak_SecretAccessKey key) \<and>
       (\<forall>d. set_access_key d (s_Data secret) =
          bind_io (m_CreateAccessKeyContextHandle (mounter d)) (\<lambda>h.
          bind_io (m_SetXAttr (mounter d) xAttrKey
                     (getAccessKeyValStr (ak_AccessKeyId key) (ak_SecretAccessKey key) h) (clientMountPoint d)) (\<lambda>_.
          return_io h))) \<and>
       List.map snd (t_cleanups t') =
         key_cleanup ip c user key # warn_on_error (DeleteUser ip c (tu_Name user)) # List.map snd (t_cleanups t)
     else t_world t' = w2 \<and> api_credentials (s_Data secret) = Ok (tu_Name user, tu_Password user) \<and>
       List.map snd (t_cleanups t') = warn_on_error (DeleteUser ip c (tu_Name user)) # List.map snd (t_cleanups t)"
    proof (cases "EnableAccessKeyMounts cfg")
      case True
      with made obtain credentials where
        issued: "c_CreateAccessKeyCredentials c (ids ! 0) (tu_Name user) GENERAL_ACCESS_KEY w2 = (Ok credentials, t_world t')"
        and secret: "secret = NewAccessKeySecret name (Namespace cfg) (ak_AccessKeyId credentials) (ak_SecretAccessKey credentials)"
        and cleanups: "List.map snd (t_cleanups t') =
           key_cleanup ip c user credentials # warn_on_error (DeleteUser ip c (tu_Name user)) # List.map snd (t_cleanups t)"
        by (simp only: if_True) (elim exE conjE, rule that)
      show ?thesis
        unfolding if_P [OF True] secret key cleanups
        by (intro exI conjI allI) (rule issued | rule refl)+
    next
      case False
      with made pass show ?thesis by simp
    qed
  qed
qed

definition sample_tester :: "accounts testing" where
  "sample_tester = \<lparr>t_world = sample_accounts, t_failed = False, t_log = [], t_cleanups = []\<rparr>"

theorem NewCredentials_accepted_witness:
  "\<exists>user secret t. NewCredentials (\<lambda>_. True) (return_io 7) (read_config (\<lambda>v. ''true'')) sample_client ''s'' [''u'']
       sample_tester = (Ok (user, secret), t) \<and>
     api_credentials (s_Data secret) = Ok (''key'', ''secret'')"
proof -
  let ?cfg = "read_config (\<lambda>v. ''true'')"
  have keys: "EnableAccessKeyMounts ?cfg"
    by (simp add: read_config_def boolEnv_def boolEnvWithDefault_def ParseBool_def)
  have issued: "c_CreateAccessKeyCredentials sample_client t u GENERAL_ACCESS_KEY w = (Ok key, w') \<Longrightarrow>
      key = \<lparr>ak_AccessKeyId = ''key'', ak_SecretAccessKey = ''secret''\<rparr>" for t u w key w'
    by (simp add: sample_client_def)
  obtain user secret t where run: "NewCredentials (\<lambda>_. True) (return_io 7) ?cfg sample_client ''s'' [''u''] sample_tester
      = (Ok (user, secret), t)"
    using keys
    by (simp add: NewCredentials_guarded CreateTestUser_def Let_def bind_io_def in_test_def fatal_on_error_def try_io_def
        CreateUser_def CreateAccessKey_def sample_client_def update_def sample_tester_def)
  from NewCredentials_accepted [OF run, unfolded if_P [OF keys]] obtain key w where
    k: "c_CreateAccessKeyCredentials sample_client ([''u''] ! 0) (tu_Name user) GENERAL_ACCESS_KEY w = (Ok key, t_world t)"
    and c: "api_credentials (s_Data secret) = Ok (ak_AccessKeyId key, ak_SecretAccessKey key)"
    by (elim exE conjE) (rule that)
  from c have "api_credentials (s_Data secret) = Ok (''key'', ''secret'')"
    unfolding issued [OF k] by simp
  with run show ?thesis by blast
qed

section \<open>Errors that are taken for answers\<close>

text \<open>
  Every error of the name resolution counts as a tenant that does not exist: the removal of a tenant
  then reports success without having tried, and \<open>EnsureTenantExists\<close> goes on to create it.
\<close>

lemma DeleteTenant_unresolved:
  "c_ResolveTenantNameToUUID c name w = (Err e, w') \<Longrightarrow> framework_DeleteTenant ip c name w = (Ok (), w')"
  by (simp add: framework_DeleteTenant_def)

lemma EnsureTenantExists_unresolved:
  "c_ResolveTenantNameToUUID c name w = (Err e, w') \<Longrightarrow>
     EnsureTenantExists ip c name w = wrapf ''creating tenant %q: %w'' [Quote ip name] (c_SetTenant c name) w'"
  by (simp add: EnsureTenantExists_def)

text \<open>A wait ends with the first error of the API server, however much of its time is left.\<close>

theorem WaitForPVCBound_first_error:
  assumes "poll_contract interrupted poll" and "\<And>c. k_GetPVC (kube c) ns name w = (Err e, w1)"
  shows "\<exists>e'. WaitForPVCBound poll kube ctx ns name timeout w = (Err e', w1)"
proof -
  let ?run = "poll ctx pollInterval timeout True (bound_condition kube ns name) (w, None)"
  obtain r y where run: "?run = (r, y)" by (cases ?run)
  with assms(1) obtain atts where p: "polled interrupted (bound_condition kube ns name) atts (w, None) r y"
    by (rule poll_contractD)
  have cond: "bound_condition kube ns name c (w, None) = (Err e, (w1, None))" for c
    using assms(2) by (simp add: bound_condition_def bind_io_def)
  from p have "r = Err e \<and> y = (w1, None)"
    by (cases rule: polled.cases) (simp_all add: cond)
  with run show ?thesis
    by (simp add: WaitForPVCBound_def capturing_def bind_io_def)
qed

section \<open>The type of a handle\<close>

text \<open>
  C19 (the type of a handle) On a service whose identifiers can stand in a handle, the handle of every
  dynamic volume has the parts the other calls expect: tenant and volume, the volume being one of
  the service's, and for a claim in a shared volume its name as the third; the node reads just these.
\<close>

theorem created_handle_well_formed:
  assumes "service_contract vols tid d" and "createSnapshotResponse req = Ok None"
    and "CreateVolume d (Some req) w = (Ok vol, w')" and "cv_Parameters req = Some params"
    and "CHR ''|'' \<notin> set (cv_Name req)"
    and "\<And>n t u. vols w' (n, t) = Some u \<Longrightarrow> CHR ''|'' \<notin> set t \<and> CHR ''|'' \<notin> set u"
  shows "\<exists>n t u s. vols w' (n, t) = Some u \<and> processVolumeHandle (VolumeId vol) = Ok (t, u, s) \<and>
     s = (if map_of params SharedVolumeNameKey = None then [] else cv_Name req) \<and>
     Split (VolumeId vol) VOLUME_HANDLE_PART_SEPARATOR =
       [t, u] @ (if map_of params SharedVolumeNameKey = None then [] else [cv_Name req])"
proof -
  obtain c ps s n t u where p: "cv_Parameters req = Some ps" and s: "s = (map_of ps SharedVolumeNameKey \<noteq> None)"
    and u: "vols w' (n, t) = Some u"
    and vol: "vol = \<lparr>VolumeId = volume_handle (if s then [t, u, cv_Name req] else [t, u]),
           CapacityBytes = c, ContentSource = None, VolumeContext = []\<rparr>"
    by (rule CreateVolume_contract [OF assms(1-3)]) (rule that)
  have free: "CHR ''|'' \<notin> set t" "CHR ''|'' \<notin> set u" using assms(6) [OF u] by simp_all
  have "Split (volume_handle [t, u]) VOLUME_HANDLE_PART_SEPARATOR = [t, u]"
    and "Split (volume_handle [t, u, cv_Name req]) VOLUME_HANDLE_PART_SEPARATOR = [t, u, cv_Name req]"
    using free assms(5) by (auto intro!: split_handle)
  note parts = this processVolumeHandle_handle(1) [OF free] processVolumeHandle_handle(2) [OF free assms(5)]
  have "ps = params" using p assms(4) by simp
  with s have shared: "map_of params SharedVolumeNameKey = None \<longleftrightarrow> \<not> s" by simp
  show ?thesis
    unfolding shared vol Volume.simps
    by (rule exI [of _ n], rule exI [of _ t], rule exI [of _ u], cases s)
      (simp_all del: Split_char add: parts u)
qed

theorem created_handle_well_formed_witness:
  "\<exists>vol w t u. CreateVolume (sample_driver (Ok ())) (Some (sample_create ''pvc-1'' sample_shared)) empty_world = (Ok vol, w) \<and>
     processVolumeHandle (VolumeId vol) = Ok (t, u, ''pvc-1'')"
proof -
  obtain vol w where run: "CreateVolume (sample_driver (Ok ())) (Some (sample_create ''pvc-1'' sample_shared)) empty_world = (Ok vol, w)"
    and vols: "volumes w = [(''sv'', ''t-id'') \<mapsto> ''v-sv'']"
    by (simp add: run_create run_mkdir make_subdirectory_def sample_shared_def sample_defs Join_sample
        DefaultPVCAccessModeInsideSharedVolume_def directory_mode_1700)
  have params: "cv_Parameters (sample_create ''pvc-1'' sample_shared) = Some sample_shared"
    and name: "CHR ''|'' \<notin> set (cv_Name (sample_create ''pvc-1'' sample_shared))"
    by (simp_all add: sample_create_def)
  have free: "CHR ''|'' \<notin> set t \<and> CHR ''|'' \<notin> set u" if "volumes w (n, t) = Some u" for n t u
    using that unfolding vols by (auto split: if_splits)
  have "\<exists>t u. processVolumeHandle (VolumeId vol) = Ok (t, u, ''pvc-1'')"
  proof -
    have "\<exists>n t u s. volumes w (n, t) = Some u \<and> processVolumeHandle (VolumeId vol) = Ok (t, u, s) \<and>
       s = (if map_of sample_shared SharedVolumeNameKey = None then [] else cv_Name (sample_create ''pvc-1'' sample_shared)) \<and>
       Split (VolumeId vol) VOLUME_HANDLE_PART_SEPARATOR = [t, u] @
         (if map_of sample_shared SharedVolumeNameKey = None then [] else [cv_Name (sample_create ''pvc-1'' sample_shared)])"
      by (rule created_handle_well_formed [OF sample_service_contract sample_create_dynamic run params name]) (rule free)
    then show ?thesis
      by (auto simp: sample_shared_def SharedVolumeNameKey_def sample_create_def)
  qed
  with run show ?thesis by blast
qed

end
