(* ===== verification/Sample_Cluster.thy ===== *)
theory Sample_Cluster
  imports Test_Waiting
begin

text \<open>
  A small concrete cluster and a polling loop that makes a fixed number of attempts: the instance at
  which the witnesses of the test framework run. In it a claim is bound when it is created, to a
  volume that is reclaimed with it, unless its storage class does not exist. It is not a model of
  Kubernetes.
\<close>

record cluster =
  cl_pvcs :: "string \<times> string \<Rightarrow> nat PersistentVolumeClaim option"
  cl_pvs :: "string \<Rightarrow> nat PersistentVolume option"
  cl_pods :: "string \<times> string \<Rightarrow> Pod option"
  cl_secrets :: "string \<times> string \<Rightarrow> Secret option"
  cl_classes :: "string \<Rightarrow> StorageClass option"
  cl_log :: "string list"

definition not_found :: go_error where "not_found = StatusError ''NotFound'' ''not found''"
definition out_of_time :: go_error where "out_of_time = StatusError ''DeadlineExceeded'' ''context deadline exceeded''"

definition sample_not_found :: "go_error \<Rightarrow> bool" where "sample_not_found e \<longleftrightarrow> e = not_found"
definition sample_interrupted :: "go_error \<Rightarrow> bool" where "sample_interrupted e \<longleftrightarrow> e = out_of_time"

definition looked_up :: "(cluster \<Rightarrow> 'a option) \<Rightarrow> (cluster, 'a) io" where
  "looked_up f = (\<lambda>w. (case f w of None \<Rightarrow> Err not_found | Some x \<Rightarrow> Ok x, w))"

definition changed :: "string \<Rightarrow> (cluster \<Rightarrow> cluster) \<Rightarrow> (cluster, unit) io" where
  "changed entry f = (\<lambda>w. (Ok (), (f w)\<lparr>cl_log := cl_log w @ [entry]\<rparr>))"

definition sample_claim :: "cluster \<Rightarrow> string \<Rightarrow> nat PersistentVolumeClaim \<Rightarrow> cluster" where
  "sample_claim w ns pvc =
     (if (case pvc_StorageClassName pvc of None \<Rightarrow> False | Some c \<Rightarrow> cl_classes w c \<noteq> None)
      then w\<lparr>cl_pvcs := (cl_pvcs w)((ns, pvc_Name pvc) :=
                  Some (pvc\<lparr>pvc_VolumeName := ''pv-'' @ pvc_Name pvc, pvc_Phase := ClaimBound,
                            pvc_Capacity := Some (pvc_Request pvc)\<rparr>)),
             cl_pvs := (cl_pvs w)(''pv-'' @ pvc_Name pvc :=
                  Some \<lparr>pv_Name = ''pv-'' @ pvc_Name pvc, pv_AccessModes = pvc_AccessModes pvc,
                        pv_Capacity = pvc_Request pvc, pv_ReclaimPolicy = ReclaimDelete,
                        pv_StorageClassName = [], pv_Driver = ''csi'', pv_VolumeHandle = ''t|v'',
                        pv_PublishSecret = ([], [])\<rparr>)\<rparr>
      else w\<lparr>cl_pvcs := (cl_pvcs w)((ns, pvc_Name pvc) := Some (pvc\<lparr>pvc_Phase := ''Pending''\<rparr>))\<rparr>)"

definition sample_kube :: "(cluster, nat) kube" where
  "sample_kube ctx =
     \<lparr>k_GetPVC = (\<lambda>ns n. looked_up (\<lambda>w. cl_pvcs w (ns, n))),
      k_CreatePVC = (\<lambda>ns pvc. changed (''create pvc '' @ pvc_Name pvc) (\<lambda>w. sample_claim w ns pvc)),
      k_DeletePVC = (\<lambda>ns n. changed (''delete pvc '' @ n)
        (\<lambda>w. w\<lparr>cl_pvcs := (cl_pvcs w)((ns, n) := None), cl_pvs := (cl_pvs w)(''pv-'' @ n := None)\<rparr>)),
      k_GetPV = (\<lambda>n. looked_up (\<lambda>w. cl_pvs w n)),
      k_CreatePV = (\<lambda>pv. changed (''create pv '' @ pv_Name pv) (\<lambda>w. w\<lparr>cl_pvs := (cl_pvs w)(pv_Name pv := Some pv)\<rparr>)),
      k_DeletePV = (\<lambda>n. changed (''delete pv '' @ n) (\<lambda>w. w\<lparr>cl_pvs := (cl_pvs w)(n := None)\<rparr>)),
      k_GetPod = (\<lambda>ns n. looked_up (\<lambda>w. cl_pods w (ns, n))),
      k_ListPods = (\<lambda>ns sel fsel. return_io []),
      k_CreatePod = (\<lambda>ns pod. changed (''create pod '' @ pod_Name pod)
        (\<lambda>w. w\<lparr>cl_pods := (cl_pods w)((ns, pod_Name pod) := Some (pod\<lparr>pod_Phase := PodRunning\<rparr>))\<rparr>)),
      k_DeletePod = (\<lambda>ns n. changed (''delete pod '' @ n) (\<lambda>w. w\<lparr>cl_pods := (cl_pods w)((ns, n) := None)\<rparr>)),
      k_GetSecret = (\<lambda>ns n. looked_up (\<lambda>w. cl_secrets w (ns, n))),
      k_CreateSecret = (\<lambda>ns s. changed (''create secret '' @ s_Name s)
        (\<lambda>w. w\<lparr>cl_secrets := (cl_secrets w)((ns, s_Name s) := Some s)\<rparr>)),
      k_DeleteSecret = (\<lambda>ns n. changed (''delete secret '' @ n) (\<lambda>w. w\<lparr>cl_secrets := (cl_secrets w)((ns, n) := None)\<rparr>)),
      k_GetStorageClass = (\<lambda>n. looked_up (\<lambda>w. cl_classes w n)),
      k_CreateStorageClass = (\<lambda>c. changed (''create class '' @ sc_Name c)
        (\<lambda>w. w\<lparr>cl_classes := (cl_classes w)(sc_Name c := Some c)\<rparr>)),
      k_DeleteStorageClass = (\<lambda>n. changed (''delete class '' @ n) (\<lambda>w. w\<lparr>cl_classes := (cl_classes w)(n := None)\<rparr>)),
      k_CreateDeployment = (\<lambda>ns d. changed (''create deployment '' @ dp_Name d) id),
      k_DeleteDeployment = (\<lambda>ns n. changed (''delete deployment '' @ n) id),
      k_ListEvents = (\<lambda>ns sel. return_io [''ProvisioningFailed: tenant not found''])\<rparr>"

definition empty_cluster :: cluster where
  "empty_cluster = \<lparr>cl_pvcs = (\<lambda>_. None), cl_pvs = (\<lambda>_. None), cl_pods = (\<lambda>_. None),
     cl_secrets = (\<lambda>_. None), cl_classes = (\<lambda>_. None), cl_log = []\<rparr>"

text \<open>A claim whose class does not exist, and the cluster in which it waits.\<close>

definition pending_claim :: "nat PersistentVolumeClaim" where
  "pending_claim = \<lparr>pvc_Name = ''c'', pvc_Namespace = ''ns'', pvc_AccessModes = [ReadWriteOnce], pvc_Request = 1,
     pvc_StorageClassName = Some ''absent'', pvc_VolumeName = [], pvc_Phase = ''Pending'', pvc_Capacity = None\<rparr>"

definition pending_cluster :: cluster where
  "pending_cluster = sample_claim empty_cluster ''ns'' pending_claim"

lemmas cluster_defs = sample_kube_def looked_up_def changed_def sample_claim_def empty_cluster_def

text \<open>The quantities of the sample are numbers written in decimal.\<close>

definition sample_quantities :: "nat QuantityOps" where
  "sample_quantities =
     \<lparr>qn_MustParse = (\<lambda>s. if digits_of 10 s then Ok (digits_val 10 0 s) else Panic ''cannot parse''),
      qn_String = decimal, qn_Cmp = (\<lambda>a b. int a - int b)\<rparr>"

section \<open>A loop with a number of attempts\<close>

fun attempts :: "nat \<Rightarrow> Context \<Rightarrow> (Context \<Rightarrow> ('w \<times> 's, bool) io) \<Rightarrow> ('w \<times> 's, unit) io" where
  "attempts 0 ctx cond x =
     (case cond ctx x of
        (Ok ok, y) \<Rightarrow> if ok then (Ok (), y) else (Err out_of_time, y)
      | (Err e, y) \<Rightarrow> (Err e, y) | (Panic p, y) \<Rightarrow> (Panic p, y))"
| "attempts (Suc n) ctx cond x =
     (case cond ctx x of
        (Ok ok, y) \<Rightarrow> if ok then (Ok (), y) else attempts n ctx cond y
      | (Err e, y) \<Rightarrow> (Err e, y) | (Panic p, y) \<Rightarrow> (Panic p, y))"

definition sample_poll :: "('w, 's) poller" where
  "sample_poll ctx interval timeout immediate cond = attempts 2 ctx cond"

lemma attempts_polled:
  "attempts n ctx cond x = (r, y) \<Longrightarrow> \<exists>atts. polled sample_interrupted cond atts x r y"
proof (induction n ctx cond x arbitrary: r y rule: attempts.induct)
  case (1 ctx cond x)
  obtain w s where x: "x = (w, s)" by (cases x)
  obtain c w1 s1 where c: "cond ctx (w, s) = (c, (w1, s1))" by (metis prod.collapse)
  from 1 c show ?case
    unfolding x by (cases c)
      (auto split: if_splits simp: sample_interrupted_def
        intro: polled.satisfied polled.failed polled.panicked polled.gave_up)
next
  case (2 n ctx cond x)
  obtain w s where x: "x = (w, s)" by (cases x)
  obtain c w1 s1 where c: "cond ctx (w, s) = (c, (w1, s1))" by (metis prod.collapse)
  show ?case
  proof (cases "c = Ok False")
    case True
    with 2(2) c x have rest: "attempts n ctx cond (w1, s1) = (r, y)" by simp
    have "\<exists>atts. polled sample_interrupted cond atts (w1, s1) r y"
      using 2(1) [OF _ _ _ rest] c True x by auto
    then obtain atts where p: "polled sample_interrupted cond atts (w1, s1) r y" by blast
    have "polled sample_interrupted cond ((ctx, w) # atts) (w, s) r y"
      by (rule polled.again [OF _ p]) (simp add: c True)
    then show ?thesis unfolding x by blast
  next
    case False
    with 2(2) c x show ?thesis
      by (cases c) (auto split: if_splits intro: polled.satisfied polled.failed polled.panicked)
  qed
qed

lemma sample_poll_contract: "poll_contract sample_interrupted sample_poll"
  unfolding poll_contract_def sample_poll_def using attempts_polled by blast

lemma sample_interrupted_texts: "\<not> sample_interrupted (ErrorString s)"
  by (simp add: sample_interrupted_def out_of_time_def)

end
