(* ===== verification/Test_Waiting_Facts.thy ===== *)
theory Test_Waiting_Facts
  imports Sample_Cluster
begin

text \<open>
  What a wait that ends well says: the functions of \<open>framework/wait.go\<close> return only what they waited
  for, seen in the last answer of the API server; and what the two functions that want a state never
  to be reached have seen when they report success.
\<close>

section \<open>The last answer\<close>

lemma waited:
  assumes "poll_contract interrupted poll"
    and "capturing s0 (bind_io (wrapf fmt args (poll ctx i d True cond)) (\<lambda>_. captured)) w = (Ok r, w')"
  shows "\<exists>c w1 s. cond c (w1, s) = (Ok True, (w', r))"
proof -
  from assms(2) obtain u where run: "poll ctx i d True cond (w, s0) = (Ok u, (w', r))"
    unfolding io_inv by auto
  with assms(1) obtain atts where "polled interrupted cond atts (w, s0) (Ok u) (w', r)"
    by (rule poll_contractD)
  from polled_Ok [OF this] show ?thesis by blast
qed

lemma waited_unit:
  assumes "poll_contract interrupted poll"
    and "capturing () (wrapf fmt args (poll ctx i d True cond)) w = (Ok u, w')"
  shows "\<exists>c w1. cond c (w1, ()) = (Ok True, (w', ()))"
proof -
  from assms(2) obtain s where run: "poll ctx i d True cond (w, ()) = (Ok u, (w', s))"
    unfolding io_inv by auto
  with assms(1) obtain atts where "polled interrupted cond atts (w, ()) (Ok u) (w', s)"
    by (rule poll_contractD)
  from polled_Ok [OF this] show ?thesis by auto
qed

section \<open>Conditions that are met\<close>

lemma bound_condition_True:
  "bound_condition kube ns name c (w, s) = (Ok True, (w', r)) \<longleftrightarrow>
     (\<exists>pvc. k_GetPVC (kube c) ns name w = (Ok pvc, w') \<and> pvc_Phase pvc = ClaimBound \<and> r = Some pvc)"
  unfolding bound_condition_def by (auto simp: io_inv split: if_splits)

lemma running_condition_True:
  "running_condition kube ns name c (w, s) = (Ok True, (w', r)) \<longleftrightarrow>
     (\<exists>pod. k_GetPod (kube c) ns name w = (Ok pod, w') \<and> pod_Phase pod = PodRunning \<and> r = Some pod)"
  unfolding running_condition_def by (auto simp: io_inv split: if_splits)

lemma capacity_condition_True:
  assumes "capacity_condition qn kube ns name want c (w, s) = (Ok True, (w', r))"
  shows "\<exists>pvc got. k_GetPVC (kube c) ns name w = (Ok pvc, w') \<and> pvc_Capacity pvc = Some got \<and>
     0 \<le> qn_Cmp qn got want \<and> fst r = Some pvc"
  using assms unfolding capacity_condition_def
  by (auto simp: io_inv split: if_splits option.splits prod.splits)

lemma first_containing_Some:
  "first_containing sub ms = Some m \<Longrightarrow> m \<in> set ms \<and> Contains m sub"
  by (induction sub ms rule: first_containing.induct) (auto split: if_splits)

lemma event_condition_True:
  assumes "event_condition kube ns obj sub c (w, s) = (Ok True, (w', r))"
  shows "\<exists>ms. k_ListEvents (kube c) ns (''involvedObject.name='' @ obj) w = (Ok ms, w') \<and>
     r \<in> set ms \<and> Contains r sub"
proof -
  from assms obtain ms where ms: "k_ListEvents (kube c) ns (''involvedObject.name='' @ obj) w = (Ok ms, w')"
    and found: "first_containing sub ms = Some r"
    unfolding event_condition_def bind_io_Ok on_world_inv
    by (elim exE conjE) (auto simp: io_inv split: option.splits)
  from first_containing_Some [OF found] ms show ?thesis by blast
qed

lemma first_replacement_Some:
  "first_replacement uid pods = Some pod \<Longrightarrow>
     pod \<in> set pods \<and> pod_UID pod \<noteq> uid \<and> pod_Phase pod = PodRunning"
  by (induction uid pods rule: first_replacement.induct) (auto split: if_splits)

lemma replacement_condition_True:
  assumes "replacement_condition kube ns sel uid c (w, s) = (Ok True, (w', r))"
  shows "\<exists>pods pod. k_ListPods (kube c) ns sel [] w = (Ok pods, w') \<and> r = Some pod \<and> pod \<in> set pods \<and>
     pod_UID pod \<noteq> uid \<and> pod_Phase pod = PodRunning"
proof -
  from assms obtain pods pod where pods: "k_ListPods (kube c) ns sel [] w = (Ok pods, w')"
    and found: "first_replacement uid pods = Some pod" and r: "r = Some pod"
    unfolding replacement_condition_def bind_io_Ok on_world_inv
    by (elim exE conjE) (auto simp: io_inv split: option.splits)
  from first_replacement_Some [OF found] pods r show ?thesis by blast
qed

lemma gone_condition_True:
  "gone_condition isNotFound get c (w, ()) = (Ok True, (w', ())) \<longleftrightarrow>
     (\<exists>e. get c w = (Err e, w') \<and> isNotFound e)"
  unfolding gone_condition_def bind_io_def try_io_def on_world_def
  by (auto split: prod.splits outcome.splits if_splits)

lemma gone_by_uid_condition_True:
  assumes "gone_by_uid_condition isNotFound kube ns name uid c (w, ()) = (Ok True, (w', ()))"
  shows "(\<exists>e. k_GetPod (kube c) ns name w = (Err e, w') \<and> isNotFound e) \<or>
     (\<exists>pod. k_GetPod (kube c) ns name w = (Ok pod, w') \<and> pod_UID pod \<noteq> uid)"
  using assms unfolding gone_by_uid_condition_def bind_io_def try_io_def on_world_def
  by (auto split: prod.splits outcome.splits if_splits)

lemma no_pods_condition_True:
  "no_pods_condition kube ns sel c (w, ()) = (Ok True, (w', ())) \<longleftrightarrow>
     k_ListPods (kube c) ns sel [] w = (Ok [], w')"
  unfolding no_pods_condition_def by (auto simp: io_inv)

section \<open>What is returned was seen\<close>

lemma WaitForPVCBound_seen:
  assumes "poll_contract interrupted poll"
    and "WaitForPVCBound poll kube ctx ns name timeout w = (Ok r, w')"
  shows "\<exists>pvc c w1. k_GetPVC (kube c) ns name w1 = (Ok pvc, w') \<and> pvc_Phase pvc = ClaimBound \<and> r = Some pvc"
  using waited [OF assms(1) assms(2) [unfolded WaitForPVCBound_def]]
  unfolding bound_condition_True by blast

lemma WaitForPodRunning_seen:
  assumes "poll_contract interrupted poll"
    and "WaitForPodRunning poll kube ctx ns name timeout w = (Ok r, w')"
  shows "\<exists>pod c w1. k_GetPod (kube c) ns name w1 = (Ok pod, w') \<and> pod_Phase pod = PodRunning \<and> r = Some pod"
  using waited [OF assms(1) assms(2) [unfolded WaitForPodRunning_def]]
  unfolding running_condition_True by blast

lemma WaitForPVCCapacity_seen:
  assumes "poll_contract interrupted poll"
    and "WaitForPVCCapacity qn poll kube ctx ns name want timeout w = (Ok r, w')"
  shows "\<exists>pvc got c w1. k_GetPVC (kube c) ns name w1 = (Ok pvc, w') \<and> pvc_Capacity pvc = Some got \<and>
     0 \<le> qn_Cmp qn got want \<and> r = Some pvc"
proof -
  from assms(2) obtain u l where
    "poll ctx pollInterval timeout True (capacity_condition qn kube ns name want) (w, (None, [])) = (Ok u, (w', (r, l)))"
    unfolding WaitForPVCCapacity_def capturing_inv bind_io_Ok try_io_Ok captured_inv
    by (elim exE disjE conjE) (auto split: prod.splits)
  with assms(1) obtain atts where
    "polled interrupted (capacity_condition qn kube ns name want) atts (w, (None, [])) (Ok u) (w', (r, l))"
    by (rule poll_contractD)
  from polled_Ok [OF this] show ?thesis using capacity_condition_True by fastforce
qed

lemma WaitForEventMatching_seen:
  assumes "poll_contract interrupted poll"
    and "WaitForEventMatching ip poll kube ctx ns obj sub timeout w = (Ok r, w')"
  shows "Contains r sub"
  using waited [OF assms(1) assms(2) [unfolded WaitForEventMatching_def]]
  by (elim exE) (drule event_condition_True, elim exE conjE, assumption)

lemma WaitForRunningPodOtherThan_seen:
  assumes "poll_contract interrupted poll"
    and "WaitForRunningPodOtherThan ip poll kube ctx ns sel uid timeout w = (Ok r, w')"
  shows "\<exists>pod. r = Some pod \<and> pod_UID pod \<noteq> uid \<and> pod_Phase pod = PodRunning"
  using waited [OF assms(1) assms(2) [unfolded WaitForRunningPodOtherThan_def]]
  by (elim exE) (drule replacement_condition_True, elim exE conjE, intro exI conjI, assumption+)

lemma WaitForPodGoneByUID_seen:
  assumes "poll_contract interrupted poll"
    and "WaitForPodGoneByUID isNotFound poll kube ctx ns name uid timeout w = (Ok u, w')"
  shows "\<exists>c w1. (\<exists>e. k_GetPod (kube c) ns name w1 = (Err e, w') \<and> isNotFound e) \<or>
     (\<exists>pod. k_GetPod (kube c) ns name w1 = (Ok pod, w') \<and> pod_UID pod \<noteq> uid)"
  using waited_unit [OF assms(1) assms(2) [unfolded WaitForPodGoneByUID_def]]
  by (elim exE) (drule gone_by_uid_condition_True, intro exI, assumption)

lemma WaitForNoPodsMatching_seen:
  assumes "poll_contract interrupted poll"
    and "WaitForNoPodsMatching ip poll kube ctx ns sel timeout w = (Ok u, w')"
  shows "\<exists>c w1. k_ListPods (kube c) ns sel [] w1 = (Ok [], w')"
  using waited_unit [OF assms(1) assms(2) [unfolded WaitForNoPodsMatching_def]]
  unfolding no_pods_condition_True .

lemma waitForGone_seen:
  assumes "poll_contract interrupted poll"
    and "waitForGone isNotFound poll ctx timeout description get w = (Ok u, w')"
  shows "\<exists>c w1 e. get c w1 = (Err e, w') \<and> isNotFound e"
  using waited_unit [OF assms(1) assms(2) [unfolded waitForGone_def]]
  unfolding gone_condition_True by blast

section \<open>Never reached\<close>

lemma refused_condition_inv:
  "refused_condition kube ns name c (w, ()) = (r, (w', ())) \<longleftrightarrow>
     (case k_GetPVC (kube c) ns name w of
        (Ok pvc, w1) \<Rightarrow> w' = w1 \<and>
          r = (if pvc_Phase pvc = ClaimBound
               then Err (Errorf ''PVC %s/%s bound to %s, but provisioning should have been refused''
                           [ns, name, pvc_VolumeName pvc])
               else Ok False)
      | (Err e, w1) \<Rightarrow> w' = w1 \<and> r = Err e
      | (Panic p, w1) \<Rightarrow> w' = w1 \<and> r = Panic p)"
  unfolding refused_condition_def
  by (auto simp: bind_io_def on_world_def split: prod.splits outcome.splits)

lemma refused_attempts:
  assumes "polled interrupted (refused_condition kube ns name) atts x r y"
    and "r = Err e" and "interrupted e" and "\<And>s. \<not> interrupted (ErrorString s)"
  shows "(\<forall>(c, w1) \<in> set atts. \<forall>pvc w2. k_GetPVC (kube c) ns name w1 = (Ok pvc, w2) \<longrightarrow> pvc_Phase pvc \<noteq> ClaimBound)
     \<and> (\<forall>(c, w1) \<in> set (butlast atts). \<exists>pvc w2. k_GetPVC (kube c) ns name w1 = (Ok pvc, w2))"
  using assms
proof (induction rule: polled.induct)
  case (satisfied c w s y)
  then show ?case by simp
next
  case (failed c w s e' y)
  then have e: "e' = e" by simp
  have "refused_condition kube ns name c (w, ()) = (Err e', (fst y, ()))" using failed(1) by (cases y) simp
  then show ?case
    using e failed.prems unfolding refused_condition_inv Errorf_def
    by (auto split: prod.splits outcome.splits if_splits)
next
  case (panicked c w s p y)
  then show ?case by simp
next
  case (gave_up c w s w1 s1 e' w2)
  have "refused_condition kube ns name c (w, ()) = (Ok False, (w1, ()))" using gave_up(1) by simp
  then show ?case
    unfolding refused_condition_inv by (auto split: prod.splits outcome.splits if_splits)
next
  case (again c w s w1 s1 atts w2 r y)
  have "refused_condition kube ns name c (w, ()) = (Ok False, (w1, ()))" using again(1) by simp
  then have "\<exists>pvc. k_GetPVC (kube c) ns name w = (Ok pvc, w1) \<and> pvc_Phase pvc \<noteq> ClaimBound"
    unfolding refused_condition_inv by (auto split: prod.splits outcome.splits if_splits)
  moreover have "atts \<noteq> []" using polled_attempts [OF again(2)] by simp
  ultimately show ?case using again.IH again.prems by auto
qed

lemma EnsurePVCStaysUnbound_Ok:
  assumes "poll_contract interrupted poll" and "\<And>s. \<not> interrupted (ErrorString s)"
    and "EnsurePVCStaysUnbound interrupted poll kube ctx ns name duration w = (Ok (), w')"
  obtains atts e where "poll ctx pollInterval duration True (refused_condition kube ns name) (w, ()) = (Err e, (w', ()))"
    and "polled interrupted (refused_condition kube ns name) atts (w, ()) (Err e) (w', ())" and "interrupted e"
proof -
  let ?run = "poll ctx pollInterval duration True (refused_condition kube ns name) (w, ())"
  obtain r y where run: "?run = (r, y)" by (cases ?run)
  with assms(1) obtain atts where p: "polled interrupted (refused_condition kube ns name) atts (w, ()) r y"
    by (rule poll_contractD)
  have "r \<noteq> Ok u" for u
  proof
    assume "r = Ok u"
    with p obtain c w1 s where "refused_condition kube ns name c (w1, s) = (Ok True, y)"
      using polled_Ok by blast
    then have "refused_condition kube ns name c (w1, ()) = (Ok True, (fst y, ()))" by (cases y) simp
    then show False
      unfolding refused_condition_inv by (auto split: prod.splits outcome.splits if_splits)
  qed
  moreover have "(\<exists>u. r = Ok u) \<or> (\<exists>e. r = Err e \<and> interrupted e)" and "fst y = w'"
    using assms(3) run
    by (auto simp: EnsurePVCStaysUnbound_def unless_interrupted_def bind_io_def try_io_def capturing_def
        split: outcome.splits prod.splits if_splits)
  ultimately obtain e where "r = Err e" and "interrupted e" and "y = (w', ())" by (cases y) auto
  with p run that show thesis by blast
qed

text \<open>
  C18 (refused claims) When \<open>EnsurePVCStaysUnbound\<close> reports success, its polling loop, over the given
  duration, ended by being interrupted. Whatever sequence of looks at the claim the loop can have
  made from the first to the last world (and there is one): the first look was made at once, every
  look but the last one gave an answer, after which the loop went on, and no answer said that the
  claim was bound.
\<close>

theorem EnsurePVCStaysUnbound_never_bound:
  assumes "poll_contract interrupted poll" and "\<And>s. \<not> interrupted (ErrorString s)"
    and "EnsurePVCStaysUnbound interrupted poll kube ctx ns name duration w = (Ok (), w')"
  shows "\<exists>e. poll ctx pollInterval duration True (refused_condition kube ns name) (w, ()) = (Err e, (w', ())) \<and>
     interrupted e \<and>
     (\<exists>atts. polled interrupted (refused_condition kube ns name) atts (w, ()) (Err e) (w', ())) \<and>
     (\<forall>atts. polled interrupted (refused_condition kube ns name) atts (w, ()) (Err e) (w', ()) \<longrightarrow>
        atts \<noteq> [] \<and> snd (hd atts) = w \<and>
        (\<forall>(c, w1) \<in> set atts. \<forall>pvc w2. k_GetPVC (kube c) ns name w1 = (Ok pvc, w2) \<longrightarrow> pvc_Phase pvc \<noteq> ClaimBound) \<and>
        (\<forall>(c, w1) \<in> set (butlast atts). \<exists>pvc w2. k_GetPVC (kube c) ns name w1 = (Ok pvc, w2)))"
proof -
  from assms obtain atts e where
    run: "poll ctx pollInterval duration True (refused_condition kube ns name) (w, ()) = (Err e, (w', ()))"
    and p: "polled interrupted (refused_condition kube ns name) atts (w, ()) (Err e) (w', ())" and e: "interrupted e"
    by (rule EnsurePVCStaysUnbound_Ok)
  have "atts \<noteq> [] \<and> snd (hd atts) = w \<and>
        (\<forall>(c, w1) \<in> set atts. \<forall>pvc w2. k_GetPVC (kube c) ns name w1 = (Ok pvc, w2) \<longrightarrow> pvc_Phase pvc \<noteq> ClaimBound) \<and>
        (\<forall>(c, w1) \<in> set (butlast atts). \<exists>pvc w2. k_GetPVC (kube c) ns name w1 = (Ok pvc, w2))"
    if "polled interrupted (refused_condition kube ns name) atts (w, ()) (Err e) (w', ())" for atts
    using refused_attempts [OF that refl e assms(2)] polled_attempts [OF that] by simp
  with run p e show ?thesis by blast
qed

theorem EnsurePVCStaysUnbound_never_bound_witness:
  "EnsurePVCStaysUnbound sample_interrupted sample_poll sample_kube Background ''ns'' ''c'' 60 pending_cluster
     = (Ok (), pending_cluster) \<and>
   k_GetPVC (sample_kube Background) ''ns'' ''c'' pending_cluster = (Ok pending_claim, pending_cluster) \<and>
   pvc_Phase pending_claim \<noteq> ClaimBound"
proof -
  have get: "k_GetPVC (sample_kube c) ''ns'' ''c'' pending_cluster = (Ok pending_claim, pending_cluster)" for c
    by (simp add: cluster_defs pending_cluster_def pending_claim_def)
  have look: "refused_condition sample_kube ''ns'' ''c'' Background (pending_cluster, ())
      = (Ok False, (pending_cluster, ()))"
    unfolding refused_condition_inv using get by (simp add: pending_claim_def)
  have run: "EnsurePVCStaysUnbound sample_interrupted sample_poll sample_kube Background ''ns'' ''c'' 60 pending_cluster
      = (Ok (), pending_cluster)"
    by (simp add: EnsurePVCStaysUnbound_def unless_interrupted_def capturing_def bind_io_def try_io_def
        sample_poll_def look numeral_2_eq_2 sample_interrupted_def)
  from EnsurePVCStaysUnbound_never_bound [OF sample_poll_contract sample_interrupted_texts run] obtain e atts
    where "polled sample_interrupted (refused_condition sample_kube ''ns'' ''c'') atts (pending_cluster, ()) (Err e) (pending_cluster, ())"
      and every: "\<And>atts. polled sample_interrupted (refused_condition sample_kube ''ns'' ''c'') atts (pending_cluster, ()) (Err e) (pending_cluster, ()) \<Longrightarrow>
        atts \<noteq> [] \<and> snd (hd atts) = pending_cluster \<and> (\<forall>(c, w1) \<in> set atts. \<forall>pvc w2.
        k_GetPVC (sample_kube c) ''ns'' ''c'' w1 = (Ok pvc, w2) \<longrightarrow> pvc_Phase pvc \<noteq> ClaimBound)"
    by blast
  from every [OF this(1)] have ne: "atts \<noteq> []" and start: "snd (hd atts) = pending_cluster"
    and never: "\<forall>(c, w1) \<in> set atts. \<forall>pvc w2. k_GetPVC (sample_kube c) ''ns'' ''c'' w1 = (Ok pvc, w2) \<longrightarrow> pvc_Phase pvc \<noteq> ClaimBound"
    by blast+
  from ne start have "(fst (hd atts), pending_cluster) \<in> set atts" by (metis hd_in_set prod.collapse)
  with never get have "pvc_Phase pending_claim \<noteq> ClaimBound" by blast
  with run get show ?thesis by blast
qed

text \<open>
  (a blind success) It also reports success when the first look fails with an error that
  \<open>wait.Interrupted\<close> recognises, as a cancelled test or a request that timed out: then the claim was
  never seen at all.
\<close>

theorem EnsurePVCStaysUnbound_blind:
  assumes "poll_contract interrupted poll" and "interrupted e"
    and "\<And>c. k_GetPVC (kube c) ns name w = (Err e, w1)"
  shows "EnsurePVCStaysUnbound interrupted poll kube ctx ns name duration w = (Ok (), w1)"
proof -
  let ?run = "poll ctx pollInterval duration True (refused_condition kube ns name) (w, ())"
  obtain r y where run: "?run = (r, y)" by (cases ?run)
  with assms(1) obtain atts where p: "polled interrupted (refused_condition kube ns name) atts (w, ()) r y"
    by (rule poll_contractD)
  have cond: "refused_condition kube ns name c (w, ()) = (Err e, (w1, ()))" for c
    unfolding refused_condition_inv using assms(3) by simp
  from p have "r = Err e \<and> y = (w1, ())"
    by (cases rule: polled.cases) (simp_all add: cond)
  with run assms(2) show ?thesis
    by (simp add: EnsurePVCStaysUnbound_def unless_interrupted_def capturing_def bind_io_def try_io_def)
qed

theorem EnsurePVCStaysUnbound_blind_witness:
  "EnsurePVCStaysUnbound sample_interrupted sample_poll
     (\<lambda>c. (sample_kube c)\<lparr>k_GetPVC := \<lambda>ns n. throw_io out_of_time\<rparr>) Background ''ns'' ''c'' 60 pending_cluster
     = (Ok (), pending_cluster)"
  by (rule EnsurePVCStaysUnbound_blind [OF sample_poll_contract])
    (simp_all add: sample_interrupted_def throw_io_def)

end
