(* ===== verification/Test_Cleanup_Facts.thy ===== *)
theory Test_Cleanup_Facts
  imports Test_Cleanup Test_Waiting_Facts
begin

text \<open>
  What the clean-ups of a test do to the cluster: in the reverse order of creation, each object seen
  gone before the next one is deleted, and nothing at all after a failure. The last section shows when
  the clean-up of a claim does not wait for the volume behind it.
\<close>

section \<open>Registering\<close>

lemma fatal_on_error_ends: "ends_by_failing (fatal_on_error fmt args m)"
  unfolding fatal_on_error_def
  by (rule ends_by_failing_try) (auto simp: ends_by_failing_def split: sum.splits)

lemma ends_apply_resource: "ends_by_failing (apply_resource ca ctx r)"
  by (cases r) (auto simp: apply_defs intro!: ends_by_failing_bind fatal_on_error_ends ends_by_failing_basic)

lemma ends_apply_all: "ends_by_failing (apply_all ca ctx rs)"
proof (induction rs)
  case Nil
  show ?case unfolding apply_all.simps by (rule ends_by_failing_basic)
next
  case (Cons r rs)
  then show ?case by (auto intro: ends_by_failing_bind ends_apply_resource)
qed

lemma apply_resource_Ok:
  assumes "apply_resource ca ctx r t = (Ok (), t')"
  shows "\<exists>description. t_cleanups t' = (description, resource_cleanup ca r) # t_cleanups t"
    and "t_failed t' = t_failed t" and "t_log t' = t_log t"
  using assms by (cases r; auto simp: apply_defs bind_io_Ok fatal_on_error_Ok)+

lemma apply_all_Ok:
  "apply_all ca ctx rs t = (Ok (), t') \<Longrightarrow>
     List.map snd (t_cleanups t') = List.map (resource_cleanup ca) (rev rs) @ List.map snd (t_cleanups t) \<and>
     t_failed t' = t_failed t \<and> t_log t' = t_log t"
proof (induction rs arbitrary: t)
  case Nil
  then show ?case by simp
next
  case (Cons r rs)
  from Cons.prems obtain t1 where r: "apply_resource ca ctx r t = (Ok (), t1)"
    and rs: "apply_all ca ctx rs t1 = (Ok (), t')"
    by (auto simp: bind_io_Ok)
  from Cons.IH [OF rs] apply_resource_Ok [OF r] show ?case by auto
qed

section \<open>Clean-ups that log nothing\<close>

text \<open>A clean-up appends to the log.\<close>

definition appends :: "('w \<times> string list, 'a) io \<Rightarrow> bool" where
  "appends m \<longleftrightarrow> (\<forall>w l r w' l'. m (w, l) = (r, (w', l')) \<longrightarrow> (\<exists>k. l' = l @ k))"

lemma appendsD: "appends m \<Longrightarrow> m (w, l) = (r, (w', l')) \<Longrightarrow> \<exists>k. l' = l @ k"
  unfolding appends_def by blast

lemma appends_basic:
  "appends (return_io a)" "appends (in_cleanup c)" "appends (t_Logf fmt args)"
  by (auto simp: appends_def in_cleanup_def split: prod.splits)

lemma appends_try: "appends m \<Longrightarrow> appends (try_io m)"
  unfolding appends_def try_io_def by (fastforce split: prod.splits outcome.splits)

lemma appends_bind:
  assumes "appends m" and "\<And>a. appends (f a)"
  shows "appends (bind_io m f)"
  unfolding appends_def
proof (intro allI impI)
  fix w l r w' l'
  assume run: "bind_io m f (w, l) = (r, (w', l'))"
  obtain s w1 l1 where m: "m (w, l) = (s, (w1, l1))" by (metis prod.collapse)
  then obtain k where k: "l1 = l @ k" using appendsD [OF assms(1)] by blast
  show "\<exists>k. l' = l @ k"
  proof (cases s)
    case (Ok a)
    with run m have "f a (w1, l1) = (r, (w', l'))" by simp
    then show ?thesis using appendsD [OF assms(2)] k by fastforce
  qed (use run m k in auto)
qed

lemma appends_warn: "appends (warn_on_error m)" "appends (ignore_error m)"
  unfolding warn_on_error_def ignore_error_def
  by (auto intro!: appends_bind appends_try appends_basic split: sum.splits)

lemma appends_resource: "appends (resource_cleanup ca r)"
  by (cases r)
    (auto simp: secret_cleanup_def storage_class_cleanup_def pv_cleanup_def pvc_cleanup_def
        pod_cleanup_def deployment_cleanup_def
      intro!: appends_bind appends_try appends_basic appends_warn split: sum.splits)

lemma warn_on_error_quiet:
  "warn_on_error m (w, l) = (Ok u, (w', l)) \<longleftrightarrow> m w = (Ok (), w')"
  by (auto simp: warn_on_error_def bind_io_def try_io_def in_cleanup_def split: prod.splits outcome.splits)

lemma ignore_error_run:
  "ignore_error m (w, l) = (r, (w', l')) \<Longrightarrow> l' = l"
  by (auto simp: ignore_error_def bind_io_def try_io_def in_cleanup_def split: prod.splits outcome.splits)

text \<open>No clean-up ends its goroutine.\<close>

definition never_Err :: "('s, 'a) io \<Rightarrow> bool" where
  "never_Err m \<longleftrightarrow> (\<forall>x e y. m x \<noteq> (Err e, y))"

lemma never_Err_rules:
  "never_Err (return_io a)" "never_Err (try_io m)" "never_Err (t_Logf fmt args)"
  "never_Err m \<Longrightarrow> (\<And>a. never_Err (f a)) \<Longrightarrow> never_Err (bind_io m f)"
  "never_Err c \<Longrightarrow> never_Err (in_cleanup c)"
  by (auto simp: never_Err_def try_io_Err bind_io_Err t_Logf_def in_cleanup_inv)

lemma never_Err_calls:
  "never_Err (warn_on_error m)" "never_Err (ignore_error m)" "never_Err (bound_volume ca ns n)"
  "never_Err (pvIsReclaimedByDeletion ca ctx v)"
  unfolding warn_on_error_def ignore_error_def bound_volume_def pvIsReclaimedByDeletion_def
  by (auto intro!: never_Err_rules split: sum.splits)

lemma resource_never_Err: "resource_cleanup ca r x \<noteq> (Err e, y)"
proof -
  have "never_Err (resource_cleanup ca r)"
    by (cases r)
      (auto simp: secret_cleanup_def storage_class_cleanup_def pv_cleanup_def pvc_cleanup_def
          pod_cleanup_def deployment_cleanup_def
        intro!: never_Err_rules never_Err_calls split: sum.splits)
  then show ?thesis unfolding never_Err_def by blast
qed

section \<open>Removed\<close>

text \<open>
  From a world on, the API server is asked about an object, at once and again after every answer that has
  it, until it answers, in the last world, that it does not know the object.
\<close>

definition awaited_gone ::
  "(go_error \<Rightarrow> bool) \<Rightarrow> ('w, 'q) cluster_access \<Rightarrow> (Context \<Rightarrow> ('w, 'a) io) \<Rightarrow> 'w \<Rightarrow> 'w \<Rightarrow> bool" where
  "awaited_gone interrupted ca get w w' \<longleftrightarrow>
     (\<exists>atts. polled interrupted (gone_condition (ca_isNotFound ca) get) atts (w, ()) (Ok ()) (w', ()) \<and>
        snd (hd atts) = w \<and>
        (\<forall>(c, w1) \<in> set (butlast atts). \<exists>object w2. get c w1 = (Ok object, w2)) \<and>
        (\<exists>c w1 e. (c, w1) = List.last atts \<and> get c w1 = (Err e, w') \<and> ca_isNotFound ca e))"

definition awaited_no_pods ::
  "(go_error \<Rightarrow> bool) \<Rightarrow> ('w, 'q) cluster_access \<Rightarrow> string \<Rightarrow> string \<Rightarrow> 'w \<Rightarrow> 'w \<Rightarrow> bool" where
  "awaited_no_pods interrupted ca ns sel w w' \<longleftrightarrow>
     (\<exists>atts. polled interrupted (no_pods_condition (ca_kube ca) ns sel) atts (w, ()) (Ok ()) (w', ()) \<and>
        snd (hd atts) = w \<and> (\<exists>c w1. (c, w1) = List.last atts \<and> k_ListPods (ca_kube ca c) ns sel [] w1 = (Ok [], w')))"

text \<open>
  How an object is removed: it is deleted, whatever the answer, and from the world of that answer on its
  disappearance is awaited. The volume a claim is bound to is read before, and awaited after the claim
  if it is reclaimed by deletion. Of a Deployment only the pods are awaited.
\<close>

definition delete_then :: "('w, unit) io \<Rightarrow> ('w \<Rightarrow> 'w \<Rightarrow> bool) \<Rightarrow> 'w \<Rightarrow> 'w \<Rightarrow> bool" where
  "delete_then delete waited w w' \<longleftrightarrow> (\<exists>res w1. delete w = (res, w1) \<and> waited w1 w')"

fun removed :: "(go_error \<Rightarrow> bool) \<Rightarrow> ('w, 'q) cluster_access \<Rightarrow> 'q resource \<Rightarrow> 'w \<Rightarrow> 'w \<Rightarrow> bool" where
  "removed i ca (RSecret s) w w' \<longleftrightarrow>
     delete_then (k_DeleteSecret (ca_kube ca Background) (s_Namespace s) (s_Name s))
       (awaited_gone i ca (\<lambda>c. k_GetSecret (ca_kube ca c) (s_Namespace s) (s_Name s))) w w'"
| "removed i ca (RStorageClass sc) w w' \<longleftrightarrow>
     delete_then (k_DeleteStorageClass (ca_kube ca Background) (sc_Name sc))
       (awaited_gone i ca (\<lambda>c. k_GetStorageClass (ca_kube ca c) (sc_Name sc))) w w'"
| "removed i ca (RPV pv) w w' \<longleftrightarrow>
     delete_then (k_DeletePV (ca_kube ca Background) (pv_Name pv))
       (awaited_gone i ca (\<lambda>c. k_GetPV (ca_kube ca c) (pv_Name pv))) w w'"
| "removed i ca (RPVC pvc) w w' \<longleftrightarrow>
     (\<exists>a v w0 w1. k_GetPVC (ca_kube ca Background) (pvc_Namespace pvc) (pvc_Name pvc) w = (a, w0) \<and>
        v = (case a of Ok bound \<Rightarrow> pvc_VolumeName bound | _ \<Rightarrow> []) \<and>
        delete_then (k_DeletePVC (ca_kube ca Background) (pvc_Namespace pvc) (pvc_Name pvc))
          (awaited_gone i ca (\<lambda>c. k_GetPVC (ca_kube ca c) (pvc_Namespace pvc) (pvc_Name pvc))) w0 w1 \<and>
        (if v = [] then w' = w1
         else \<exists>b w2. k_GetPV (ca_kube ca Background) v w1 = (b, w2) \<and>
           (if \<exists>pv. b = Ok pv \<and> pv_ReclaimPolicy pv = ReclaimDelete
            then awaited_gone i ca (\<lambda>c. k_GetPV (ca_kube ca c) v) w2 w' else w' = w2)))"
| "removed i ca (RPod pod) w w' \<longleftrightarrow>
     delete_then (k_DeletePod (ca_kube ca Background) (pod_Namespace pod) (pod_Name pod))
       (awaited_gone i ca (\<lambda>c. k_GetPod (ca_kube ca c) (pod_Namespace pod) (pod_Name pod))) w w'"
| "removed i ca (RDeployment dp) w w' \<longleftrightarrow>
     delete_then (k_DeleteDeployment (ca_kube ca Background) (dp_Namespace dp) (dp_Name dp))
       (awaited_no_pods i ca (dp_Namespace dp) (ca_FormatLabelSelector ca (dp_MatchLabels dp))) w w'"

lemma gone_condition_cases:
  "gone_condition isNotFound get c (w, ()) = (Ok b, (w', ())) \<longleftrightarrow>
     (if b then \<exists>e. get c w = (Err e, w') \<and> isNotFound e else \<exists>object. get c w = (Ok object, w'))"
  unfolding gone_condition_def bind_io_def try_io_def on_world_def
  by (auto split: prod.splits outcome.splits if_splits)

lemma waited_gone:
  assumes "poll_contract interrupted (ca_poll ca)"
    and "waitForGone (ca_isNotFound ca) (ca_poll ca) ctx timeout description get w = (Ok u, w')"
  shows "awaited_gone interrupted ca get w w'"
proof -
  let ?cond = "gone_condition (ca_isNotFound ca) get"
  from assms(2) have run: "ca_poll ca ctx pollInterval timeout True ?cond (w, ()) = (Ok (), (w', ()))"
    unfolding waitForGone_def io_inv by auto
  from assms(1) run obtain atts where p: "polled interrupted ?cond atts (w, ()) (Ok ()) (w', ())"
    by (rule poll_contractD)
  have "\<exists>object w2. get c w1 = (Ok object, w2)" if at: "(c, w1) \<in> set (butlast atts)" for c w1
  proof -
    from polled_before [OF p at] obtain s z where "?cond c (w1, s) = (Ok False, z)" by blast
    then have "?cond c (w1, ()) = (Ok False, (fst z, ()))" by (cases z) simp
    then show ?thesis unfolding gone_condition_cases by auto
  qed
  moreover from polled_Ok [OF p] obtain c w1 where "(c, w1) = List.last atts" and "?cond c (w1, ()) = (Ok True, (w', ()))"
    by auto
  ultimately show ?thesis
    using p polled_attempts [OF p] unfolding awaited_gone_def gone_condition_True by (intro exI [of _ atts]) auto
qed

lemma waited_no_pods:
  assumes "poll_contract interrupted (ca_poll ca)"
    and "WaitForNoPodsMatching ip (ca_poll ca) (ca_kube ca) ctx ns sel timeout w = (Ok u, w')"
  shows "awaited_no_pods interrupted ca ns sel w w'"
proof -
  let ?cond = "no_pods_condition (ca_kube ca) ns sel"
  from assms(2) have run: "ca_poll ca ctx pollInterval timeout True ?cond (w, ()) = (Ok (), (w', ()))"
    unfolding WaitForNoPodsMatching_def io_inv by auto
  from assms(1) run obtain atts where p: "polled interrupted ?cond atts (w, ()) (Ok ()) (w', ())"
    by (rule poll_contractD)
  from polled_Ok [OF p] obtain c w1 where "(c, w1) = List.last atts" and "?cond c (w1, ()) = (Ok True, (w', ()))"
    by auto
  then show ?thesis
    using p polled_attempts [OF p] unfolding awaited_no_pods_def no_pods_condition_True by (intro exI [of _ atts]) auto
qed

text \<open>A deletion and a wait that log nothing.\<close>

lemma delete_and_wait:
  assumes "bind_io (ignore_error d) (\<lambda>_. warn_on_error m) (w, l) = (Ok u, (w', l))"
    and "\<And>w1. m w1 = (Ok (), w') \<Longrightarrow> waited w1 w'"
  shows "delete_then d waited w w'"
proof -
  from assms(1) obtain w1 l1 where d: "ignore_error d (w, l) = (Ok (), (w1, l1))"
    and m: "warn_on_error m (w1, l1) = (Ok u, (w', l))"
    unfolding bind_io_Ok by auto
  from ignore_error_run [OF d] m have "warn_on_error m (w1, l) = (Ok u, (w', l))" by simp
  then have "waited w1 w'" using assms(2) unfolding warn_on_error_quiet by blast
  moreover from d obtain res where "d w = (res, w1)"
    by (auto simp: ignore_error_def bind_io_def try_io_def in_cleanup_def split: prod.splits outcome.splits)
  ultimately show ?thesis unfolding delete_then_def by blast
qed

lemma bound_volume_run:
  "bound_volume ca ns n w = (Ok v, w') \<Longrightarrow>
     \<exists>a. k_GetPVC (ca_kube ca Background) ns n w = (a, w') \<and> v = (case a of Ok bound \<Rightarrow> pvc_VolumeName bound | _ \<Rightarrow> [])"
  by (auto simp: bound_volume_def bind_io_def try_io_def split: prod.splits outcome.splits)

lemma pvIsReclaimed_run:
  "pvIsReclaimedByDeletion ca ctx v w = (Ok b, w') \<Longrightarrow>
     \<exists>a. k_GetPV (ca_kube ca ctx) v w = (a, w') \<and> (b \<longleftrightarrow> (\<exists>pv. a = Ok pv \<and> pv_ReclaimPolicy pv = ReclaimDelete))"
  by (auto simp: pvIsReclaimedByDeletion_def bind_io_def try_io_def split: prod.splits outcome.splits)

lemma pvc_cleanup_removes:
  assumes "poll_contract interrupted (ca_poll ca)"
    and "pvc_cleanup ca (pvc_Namespace pvc) (pvc_Name pvc) (w, l) = (Ok u, (w', l))"
  shows "removed interrupted ca (RPVC pvc) w w'"
proof -
  let ?ns = "pvc_Namespace pvc" and ?n = "pvc_Name pvc"
  let ?wait = "WaitForPVCDeleted (ca_isNotFound ca) (ca_poll ca) (ca_kube ca) Background ?ns ?n pvcDeleteTimeout"
  from assms(2) obtain v w1 w3 l3 res w2 l2 where v: "bound_volume ca ?ns ?n w = (Ok v, w1)"
    and del: "ignore_error (k_DeletePVC (ca_kube ca Background) ?ns ?n) (w1, l) = (Ok (), (w3, l3))"
    and wait: "try_io (in_cleanup ?wait) (w3, l3) = (Ok res, (w2, l2))"
    and rest: "(case res of Inl err \<Rightarrow> t_Logf ''warning: %v'' [Error err]
      | Inr _ \<Rightarrow>
         if v = [] then return_io ()
         else bind_io (in_cleanup (pvIsReclaimedByDeletion ca Background v)) (\<lambda>reclaimed.
              if \<not> reclaimed then return_io ()
              else warn_on_error (WaitForPVDeleted (ca_isNotFound ca) (ca_poll ca) (ca_kube ca) Background
                     v pvDeleteTimeout))) (w2, l2) = (Ok u, (w', l))"
    unfolding pvc_cleanup_def bind_io_Ok in_cleanup_inv by auto
  have l3: "l3 = l" using ignore_error_run [OF del] .
  have l2: "l2 = l3" using wait unfolding try_io_Ok in_cleanup_inv by auto
  have res: "res = Inr ()" using rest l2 l3 by (cases res) auto
  then have "awaited_gone interrupted ca (\<lambda>c. k_GetPVC (ca_kube ca c) ?ns ?n) w3 w2"
    using waited_gone [OF assms(1)] wait unfolding try_io_Ok in_cleanup_inv WaitForPVCDeleted_def by auto
  moreover from del obtain r where "k_DeletePVC (ca_kube ca Background) ?ns ?n w1 = (r, w3)"
    by (auto simp: ignore_error_def bind_io_def try_io_def in_cleanup_def split: prod.splits outcome.splits)
  ultimately have gone: "delete_then (k_DeletePVC (ca_kube ca Background) ?ns ?n)
      (awaited_gone interrupted ca (\<lambda>c. k_GetPVC (ca_kube ca c) ?ns ?n)) w1 w2"
    unfolding delete_then_def by blast
  from bound_volume_run [OF v] obtain a where read: "k_GetPVC (ca_kube ca Background) ?ns ?n w = (a, w1)"
    "v = (case a of Ok bound \<Rightarrow> pvc_VolumeName bound | _ \<Rightarrow> [])" by blast
  have last: "if v = [] then w' = w2
     else \<exists>b w4. k_GetPV (ca_kube ca Background) v w2 = (b, w4) \<and>
       (if \<exists>pv. b = Ok pv \<and> pv_ReclaimPolicy pv = ReclaimDelete
        then awaited_gone interrupted ca (\<lambda>c. k_GetPV (ca_kube ca c) v) w4 w' else w' = w4)"
  proof (cases "v = []")
    case True
    with rest res show ?thesis by simp
  next
    case False
    with rest res l2 l3 obtain b w4 where pv: "pvIsReclaimedByDeletion ca Background v w2 = (Ok b, w4)"
      and last: "(if \<not> b then return_io ()
              else warn_on_error (WaitForPVDeleted (ca_isNotFound ca) (ca_poll ca) (ca_kube ca) Background
                     v pvDeleteTimeout)) (w4, l) = (Ok u, (w', l))"
      by (auto simp: bind_io_Ok in_cleanup_inv)
    obtain c where c: "k_GetPV (ca_kube ca Background) v w2 = (c, w4)"
      and b: "b \<longleftrightarrow> (\<exists>pv. c = Ok pv \<and> pv_ReclaimPolicy pv = ReclaimDelete)"
      using pvIsReclaimed_run [OF pv] by blast
    have "if b then awaited_gone interrupted ca (\<lambda>c. k_GetPV (ca_kube ca c) v) w4 w' else w' = w4"
      using last waited_gone [OF assms(1)] by (auto simp: warn_on_error_quiet WaitForPVDeleted_def)
    with c False show ?thesis unfolding b by auto
  qed
  show ?thesis
    unfolding removed.simps using read gone last
    by (intro exI [of _ a] exI [of _ v] exI [of _ w1] exI [of _ w2] conjI) assumption+
qed

lemma resource_cleanup_removes:
  assumes "poll_contract interrupted (ca_poll ca)"
    and "resource_cleanup ca r (w, l) = (Ok u, (w', l))"
  shows "removed interrupted ca r w w'"
proof (cases r)
  case (RPVC pvc)
  show ?thesis
    unfolding RPVC by (rule pvc_cleanup_removes [OF assms(1)]) (use assms(2) RPVC in simp)
next
  case (RDeployment dp)
  show ?thesis
    unfolding RDeployment removed.simps
    by (rule delete_and_wait [OF assms(2) [unfolded RDeployment resource_cleanup.simps deployment_cleanup_def]])
      (rule waited_no_pods [OF assms(1)])
next
  case (RSecret s)
  show ?thesis
    unfolding RSecret removed.simps
    by (rule delete_and_wait [OF assms(2) [unfolded RSecret resource_cleanup.simps secret_cleanup_def]])
      (unfold WaitForSecretDeleted_def, erule waited_gone [OF assms(1)])
next
  case (RStorageClass sc)
  show ?thesis
    unfolding RStorageClass removed.simps
    by (rule delete_and_wait [OF assms(2) [unfolded RStorageClass resource_cleanup.simps storage_class_cleanup_def]])
      (unfold WaitForStorageClassDeleted_def, erule waited_gone [OF assms(1)])
next
  case (RPV pv)
  show ?thesis
    unfolding RPV removed.simps
    by (rule delete_and_wait [OF assms(2) [unfolded RPV resource_cleanup.simps pv_cleanup_def]])
      (unfold WaitForPVDeleted_def, erule waited_gone [OF assms(1)])
next
  case (RPod pod)
  show ?thesis
    unfolding RPod removed.simps
    by (rule delete_and_wait [OF assms(2) [unfolded RPod resource_cleanup.simps pod_cleanup_def]])
      (unfold WaitForPodDeleted_def, erule waited_gone [OF assms(1)])
qed

section \<open>Tearing down\<close>

text \<open>One object after the other: the next is deleted in the world in which the one before has gone.\<close>

fun torn_down :: "(go_error \<Rightarrow> bool) \<Rightarrow> ('w, 'q) cluster_access \<Rightarrow> 'q resource list \<Rightarrow> 'w \<Rightarrow> 'w \<Rightarrow> bool" where
  "torn_down i ca [] w w' \<longleftrightarrow> w' = w"
| "torn_down i ca (r # rs) w w' \<longleftrightarrow> (\<exists>w1. removed i ca r w w1 \<and> torn_down i ca rs w1 w')"

lemma unless_failed_running:
  "\<not> t_failed t \<Longrightarrow> unless_failed d fn t =
     (fst (fn (t_world t, t_log t)),
      t\<lparr>t_world := fst (snd (fn (t_world t, t_log t))), t_log := snd (snd (fn (t_world t, t_log t)))\<rparr>)"
  by (simp add: unless_failed_def split: prod.splits)

lemma run_cleanups_appends:
  assumes "\<And>d f. (d, f) \<in> set cs \<Longrightarrow> appends f" and "run_cleanups cs t = (r, t')"
  shows "\<exists>k. t_log t' = t_log t @ k"
  using assms
proof (induction cs t arbitrary: r t' rule: run_cleanups.induct)
  case (1 t)
  then show ?case by simp
next
  case (2 d fn cs t)
  obtain r1 t1 where u: "unless_failed d fn t = (r1, t1)" by (cases "unless_failed d fn t")
  obtain r2 t2 where rest: "run_cleanups cs t1 = (r2, t2)" by (cases "run_cleanups cs t1")
  have "t' = t2" using 2(3) u rest by (auto split: outcome.splits)
  moreover have "\<exists>k. t_log t2 = t_log t1 @ k"
    by (rule 2(1) [OF u [symmetric] _ rest]) (use 2(2) in auto)
  moreover have "\<exists>k. t_log t1 = t_log t @ k"
  proof (cases "t_failed t")
    case True
    with u show ?thesis by (auto simp: unless_failed_def)
  next
    case False
    obtain s w l where f: "fn (t_world t, t_log t) = (s, (w, l))" by (metis prod.collapse)
    have "appends fn" using 2(2) by auto
    with f have "\<exists>k. l = t_log t @ k" by (rule appendsD [rotated])
    moreover have "t_log t1 = l" using u f unless_failed_running [OF False, of d fn] by auto
    ultimately show ?thesis by blast
  qed
  ultimately show ?case by auto
qed

lemma run_cleanups_torn_down:
  assumes "poll_contract interrupted (ca_poll ca)"
    and "\<not> t_failed t" and "List.map snd cs = List.map (resource_cleanup ca) rs"
    and "run_cleanups cs t = (Ok (), t')" and "t_log t' = t_log t"
  shows "torn_down interrupted ca rs (t_world t) (t_world t')"
  using assms(2-)
proof (induction rs arbitrary: cs t)
  case Nil
  then show ?case by simp
next
  case (Cons r rs)
  then obtain d cs' where cs: "cs = (d, resource_cleanup ca r) # cs'"
    and rest: "List.map snd cs' = List.map (resource_cleanup ca) rs"
    by (cases cs) auto
  obtain s w l where f: "resource_cleanup ca r (t_world t, t_log t) = (s, (w, l))" by (metis prod.collapse)
  let ?t = "t\<lparr>t_world := w, t_log := l\<rparr>"
  have u: "unless_failed d (resource_cleanup ca r) t = (s, ?t)"
    using unless_failed_running [OF Cons.prems(1), of d "resource_cleanup ca r"] f by simp
  obtain r2 t2 where run: "run_cleanups cs' ?t = (r2, t2)" by (cases "run_cleanups cs' ?t")
  have "t2 = t'" and notp: "\<And>p. s \<noteq> Panic p" and r2: "r2 = Ok ()"
    using Cons.prems(3) u run unfolding cs by (auto split: outcome.splits)
  obtain k1 where k1: "l = t_log t @ k1" using appendsD [OF appends_resource f] by blast
  have "appends f" if "(d, f) \<in> set cs'" for d f
  proof -
    from that have "f \<in> set (List.map snd cs')" by force
    then show ?thesis unfolding rest by (auto intro: appends_resource)
  qed
  then have "\<exists>k. t_log t2 = t_log ?t @ k" by (rule run_cleanups_appends [OF _ run])
  then obtain k2 where "t_log t2 = l @ k2" by auto
  with k1 Cons.prems(4) \<open>t2 = t'\<close> have l: "l = t_log t" and log: "t_log t' = t_log ?t" by simp_all
  have "torn_down interrupted ca rs (t_world ?t) (t_world t')"
    by (rule Cons.IH [OF _ rest]) (use Cons.prems(1) run r2 \<open>t2 = t'\<close> log in simp_all)
  moreover have "s = Ok ()"
    using notp f resource_never_Err [of ca r "(t_world t, t_log t)"] by (cases s) auto
  ultimately have ok: "resource_cleanup ca r (t_world t, t_log t) = (Ok (), (w, t_log t))"
    and later: "torn_down interrupted ca rs w (t_world t')"
    using f unfolding l by simp_all
  from ok have "removed interrupted ca r (t_world t) w" by (rule resource_cleanup_removes [OF assms(1)])
  with later show ?case unfolding torn_down.simps by blast
qed

section \<open>A sample set-up\<close>

definition sample_access :: "(cluster, nat) cluster_access" where
  "sample_access = \<lparr>ca_isNotFound = sample_not_found, ca_poll = sample_poll, ca_kube = sample_kube,
     ca_FormatLabelSelector = (\<lambda>_. []), ca_isPrint = (\<lambda>_. True)\<rparr>"

definition sample_setup :: "nat resource list" where
  "sample_setup =
     [RStorageClass \<lparr>sc_Name = ''k'', sc_Provisioner = ''csi'', sc_AllowVolumeExpansion = None,
        sc_ReclaimPolicy = Some ReclaimDelete, sc_Parameters = Map.empty\<rparr>,
      RPVC (pending_claim\<lparr>pvc_StorageClassName := Some ''k''\<rparr>)]"

definition sample_test :: "cluster testing" where
  "sample_test = \<lparr>t_world = empty_cluster, t_failed = False, t_log = [], t_cleanups = []\<rparr>"

text \<open>The same cluster, which refuses to create claims.\<close>

definition refusing_access :: "(cluster, nat) cluster_access" where
  "refusing_access = sample_access\<lparr>ca_kube := \<lambda>c. (sample_kube c)\<lparr>k_CreatePVC := \<lambda>ns p. throw_io out_of_time\<rparr>\<rparr>"

lemmas sample_run = sample_access_def refusing_access_def sample_setup_def sample_test_def apply_defs
  fatal_on_error_def in_test_def try_io_def bind_io_def cluster_defs pending_claim_def

lemmas sample_clean_run = run_test_def unless_failed_def storage_class_cleanup_def pvc_cleanup_def
  ignore_error_def warn_on_error_def in_cleanup_def bound_volume_def pvIsReclaimedByDeletion_def
  waitForGone_def gone_condition_def on_world_def capturing_def wrapf_def sample_poll_def numeral_2_eq_2
  WaitForPVCDeleted_def WaitForPVDeleted_def WaitForStorageClassDeleted_def sample_not_found_def

section \<open>The properties\<close>

text \<open>
  C15 (tearing down) A test that creates objects one after the other, and whose clean-ups log nothing, has
  them removed in the reverse order, each one from the world on in which the one before had gone: a
  call deletes the object, and from its answer on the API server is asked, at once and again while
  the object is there, until it answers that it does not know the object. For a claim bound to a
  volume that is reclaimed by deletion the same is then awaited of the volume. For a Deployment it
  is only awaited that no pod matches its selector.
\<close>

theorem teardown_reverses_setup:
  assumes "poll_contract interrupted (ca_poll ca)"
    and "\<not> t_failed t" and "t_cleanups t = []"
    and "apply_all ca ctx rs t = (Ok (), t1)"
    and "run_test (apply_all ca ctx rs) t = (Ok (), t2)" and "t_log t2 = t_log t1"
  shows "torn_down interrupted ca (rev rs) (t_world t1) (t_world t2)"
proof -
  have c: "List.map snd (t_cleanups t1) = List.map (resource_cleanup ca) (rev rs)"
    and f: "\<not> t_failed t1"
    using apply_all_Ok [OF assms(4)] assms(2,3) by auto
  have run: "run_cleanups (t_cleanups t1) (t1\<lparr>t_cleanups := []\<rparr>) = (Ok (), t2)"
    using assms(4,5) by (simp add: run_test_def Let_def split: prod.splits)
  have "torn_down interrupted ca (rev rs) (t_world (t1\<lparr>t_cleanups := []\<rparr>)) (t_world t2)"
    by (rule run_cleanups_torn_down [OF assms(1) _ c run]) (use f assms(6) in simp_all)
  then show ?thesis by simp
qed

theorem teardown_reverses_setup_witness:
  "torn_down sample_interrupted sample_access (rev sample_setup)
     (t_world (snd (apply_all sample_access Background sample_setup sample_test)))
     (t_world (snd (run_test (apply_all sample_access Background sample_setup) sample_test)))"
proof -
  have c: "poll_contract sample_interrupted (ca_poll sample_access)"
    by (simp add: sample_access_def sample_poll_contract)
  have t: "\<not> t_failed sample_test" "t_cleanups sample_test = []" by (simp_all add: sample_test_def)
  obtain t1 where made: "apply_all sample_access Background sample_setup sample_test = (Ok (), t1)"
    and l1: "t_log t1 = []"
    by (simp add: sample_run)
  obtain t2 where ran: "run_test (apply_all sample_access Background sample_setup) sample_test = (Ok (), t2)"
    and l2: "t_log t2 = []"
    by (simp add: sample_run sample_clean_run)
  from teardown_reverses_setup [OF c t made ran] l1 l2 show ?thesis by (simp add: made ran)
qed

text \<open>
  C33 (a failed test) When an object cannot be created, the clean-ups remove nothing: what was created
  before stays as it was.
\<close>

theorem failed_setup_leaves_objects:
  assumes "apply_all ca ctx rs t = (Err e, t1)" and "run_test (apply_all ca ctx rs) t = (r, t2)"
  shows "t_world t2 = t_world t1"
proof -
  have "t_failed t1" using ends_apply_all assms(1) unfolding ends_by_failing_def by blast
  then show ?thesis using run_test_failed [OF assms(1) _ assms(2)] by simp
qed

theorem failed_setup_leaves_objects_witness:
  "t_world (snd (run_test (apply_all refusing_access Background sample_setup) sample_test)) =
   t_world (snd (apply_all refusing_access Background sample_setup sample_test))"
proof -
  obtain e t1 where made: "apply_all refusing_access Background sample_setup sample_test = (Err e, t1)"
    by (simp add: sample_run)
  obtain r t2 where "run_test (apply_all refusing_access Background sample_setup) sample_test = (r, t2)"
    by (metis prod.collapse)
  from failed_setup_leaves_objects [OF made this] this show ?thesis by (simp add: made)
qed

text \<open>
  (a claim that could not be read) When the claim cannot be read at the start of its clean-up, the
  clean-up ends with the claim: it does not wait for the volume behind it.
\<close>

theorem unread_claim_not_awaited:
  assumes "k_GetPVC (ca_kube ca Background) ns n w = (Err e, w1)"
  shows "pvc_cleanup ca ns n (w, l) =
     bind_io (ignore_error (k_DeletePVC (ca_kube ca Background) ns n)) (\<lambda>_.
       warn_on_error (WaitForPVCDeleted (ca_isNotFound ca) (ca_poll ca) (ca_kube ca) Background ns n
         pvcDeleteTimeout)) (w1, l)"
proof -
  have "in_cleanup (bound_volume ca ns n) (w, l) = (Ok [], (w1, l))"
    using assms by (simp add: bound_volume_def bind_io_def)
  then show ?thesis
    by (simp add: pvc_cleanup_def warn_on_error_def cong: sum.case_cong)
qed

theorem unread_claim_not_awaited_witness:
  "pvc_cleanup sample_access ''ns'' ''c'' (empty_cluster, []) =
     bind_io (ignore_error (k_DeletePVC (sample_kube Background) ''ns'' ''c'')) (\<lambda>_.
       warn_on_error (WaitForPVCDeleted sample_not_found sample_poll sample_kube Background ''ns'' ''c''
         pvcDeleteTimeout)) (empty_cluster, [])"
  using unread_claim_not_awaited [of sample_access "''ns''" "''c''" empty_cluster not_found empty_cluster "[]"]
  by (simp add: sample_access_def cluster_defs)

end
