(* ===== verification/Test_Artifacts.thy ===== *)
theory Test_Artifacts
  imports Test_Waiting
begin

text \<open>
  \<open>framework/artifacts.go\<close> and \<open>framework/exec.go\<close>: manifests written for later use, and commands run in a
  pod. Marshalling to YAML, the file system and the streams of \<open>kubectl exec\<close> are parameters.
\<close>

section \<open>Manifests\<close>

text \<open>\<open>marshal\<close> is \<open>yaml.Marshal\<close> of the object with its kind and version set.\<close>

definition writeResourceYAML ::
  "(string \<Rightarrow> FileMode \<Rightarrow> ('w, unit) io) \<Rightarrow> (string \<Rightarrow> string \<Rightarrow> FileMode \<Rightarrow> ('w, unit) io) \<Rightarrow> string outcome
     \<Rightarrow> string \<Rightarrow> string \<Rightarrow> ('w, string) io" where
  "writeResourceYAML mkdirAll writeFile marshalled dir filename =
     (if dir = [] then return_io []
      else
        bind_io (wrapf ''marshaling %s to yaml: %w'' [filename] (lift_io marshalled)) (\<lambda>data.
        bind_io (wrapf ''creating artifacts dir %s: %w'' [dir] (mkdirAll dir 493)) (\<lambda>_.
        let path = Join [dir, filename]
        in bind_io (wrapf ''writing %s: %w'' [path] (writeFile path data 384)) (\<lambda>_. return_io path))))"

definition DumpSecretYAML ::
  "(string \<Rightarrow> FileMode \<Rightarrow> ('w, unit) io) \<Rightarrow> (string \<Rightarrow> string \<Rightarrow> FileMode \<Rightarrow> ('w, unit) io)
     \<Rightarrow> (string \<Rightarrow> string \<Rightarrow> Secret \<Rightarrow> string outcome) \<Rightarrow> string \<Rightarrow> string \<Rightarrow> Secret \<Rightarrow> ('w, string) io" where
  "DumpSecretYAML mkdirAll writeFile marshal dir pre secret =
     writeResourceYAML mkdirAll writeFile (marshal ''v1'' ''Secret'' secret) dir (pre @ ''-secret.yaml'')"

definition DumpStorageClassYAML ::
  "(string \<Rightarrow> FileMode \<Rightarrow> ('w, unit) io) \<Rightarrow> (string \<Rightarrow> string \<Rightarrow> FileMode \<Rightarrow> ('w, unit) io)
     \<Rightarrow> (string \<Rightarrow> string \<Rightarrow> StorageClass \<Rightarrow> string outcome) \<Rightarrow> string \<Rightarrow> string \<Rightarrow> StorageClass \<Rightarrow> ('w, string) io" where
  "DumpStorageClassYAML mkdirAll writeFile marshal dir pre sc =
     writeResourceYAML mkdirAll writeFile (marshal ''storage.k8s.io/v1'' ''StorageClass'' sc) dir
       (pre @ ''-storageclass.yaml'')"

section \<open>Commands in a pod\<close>

record ExecOptions =
  eo_Container :: string
  eo_Command :: "string list"
  eo_Stdin :: bool
  eo_Stdout :: bool
  eo_Stderr :: bool
  eo_TTY :: bool

text \<open>
  \<open>newExecutor\<close> makes an executor for the exec request of a pod, \<open>stream\<close> runs it: what it wrote to the
  two outputs, and an error or none. The Go function returns its outputs together with an error.
\<close>

type_synonym exec_result = "string \<times> string \<times> go_error option"

definition ExecInPod ::
  "(string \<Rightarrow> string \<Rightarrow> ExecOptions \<Rightarrow> ('w, 'x) io) \<Rightarrow> ('x \<Rightarrow> Context \<Rightarrow> ('w, exec_result) io) \<Rightarrow> (string list \<Rightarrow> string)
     \<Rightarrow> Context \<Rightarrow> string \<Rightarrow> string \<Rightarrow> string \<Rightarrow> string list \<Rightarrow> ('w, exec_result) io" where
  "ExecInPod newExecutor stream showCommand ctx namespace pod container cmd =
     bind_io (try_io (newExecutor namespace pod
                \<lparr>eo_Container = container, eo_Command = cmd, eo_Stdin = False, eo_Stdout = True,
                 eo_Stderr = True, eo_TTY = False\<rparr>)) (\<lambda>res.
       case res of
         Inl err \<Rightarrow> return_io ([], [], Some (Errorw ''creating executor: %w'' [Error err] err))
       | Inr executor \<Rightarrow>
           bind_io (stream executor ctx) (\<lambda>(stdout, stderr, e).
             return_io (stdout, stderr,
               (case e of None \<Rightarrow> None
                | Some err \<Rightarrow> Some (Errorw ''streaming exec %v: %w'' [showCommand cmd, Error err] err)))))"

definition WriteFileInPod ::
  "(string \<Rightarrow> string \<Rightarrow> ExecOptions \<Rightarrow> ('w, 'x) io) \<Rightarrow> ('x \<Rightarrow> Context \<Rightarrow> ('w, exec_result) io) \<Rightarrow> (string list \<Rightarrow> string)
     \<Rightarrow> Context \<Rightarrow> string \<Rightarrow> string \<Rightarrow> string \<Rightarrow> string \<Rightarrow> ('w, unit) io" where
  "WriteFileInPod newExecutor stream showCommand ctx namespace pod path content =
     bind_io (ExecInPod newExecutor stream showCommand ctx namespace pod TestContainerName
                [''sh'', ''-c'', Sprintf ''echo -n %s > %s'' [content, path]]) (\<lambda>(_, stderr, e).
       case e of
         None \<Rightarrow> return_io ()
       | Some err \<Rightarrow> throw_io (Errorw ''writing %s in pod %s/%s: %w (stderr=%s)''
                        [path, namespace, pod, Error err, stderr] err))"

definition ReadFileInPod ::
  "(string \<Rightarrow> string \<Rightarrow> ExecOptions \<Rightarrow> ('w, 'x) io) \<Rightarrow> ('x \<Rightarrow> Context \<Rightarrow> ('w, exec_result) io) \<Rightarrow> (string list \<Rightarrow> string)
     \<Rightarrow> Context \<Rightarrow> string \<Rightarrow> string \<Rightarrow> string \<Rightarrow> ('w, string) io" where
  "ReadFileInPod newExecutor stream showCommand ctx namespace pod path =
     bind_io (ExecInPod newExecutor stream showCommand ctx namespace pod TestContainerName
                [''cat'', path]) (\<lambda>(stdout, stderr, e).
       case e of
         None \<Rightarrow> return_io (TrimSpace stdout)
       | Some err \<Rightarrow> throw_io (Errorw ''reading %s in pod %s/%s: %w (stderr=%s)''
                        [path, namespace, pod, Error err, stderr] err))"

section \<open>What a test relies on\<close>

lemma writeResourceYAML_off: "writeResourceYAML mkdirAll writeFile marshalled [] filename = return_io []"
  by (simp add: writeResourceYAML_def)

text \<open>
  A file that was written is in the directory, with the marshalled text, readable by its owner only.
\<close>

lemma writeResourceYAML_Ok:
  assumes "writeResourceYAML mkdirAll writeFile marshalled dir filename w = (Ok path, w')" and "dir \<noteq> []"
  shows "path = Join [dir, filename] \<and>
     (\<exists>data w1 w2. marshalled = Ok data \<and> mkdirAll dir 493 w = (Ok (), w1) \<and> writeFile path data 384 w1 = (Ok (), w'))"
  using assms by (auto simp: writeResourceYAML_def bind_io_Ok wrapf_Ok Let_def)

text \<open>A read that succeeds is the trimmed output of \<open>cat\<close> in the container with the mount.\<close>

lemma ReadFileInPod_Ok:
  assumes "ReadFileInPod newExecutor stream showCommand ctx ns pod path w = (Ok content, w')"
  shows "\<exists>executor w1 stdout stderr.
     newExecutor ns pod \<lparr>eo_Container = TestContainerName, eo_Command = [''cat'', path], eo_Stdin = False,
        eo_Stdout = True, eo_Stderr = True, eo_TTY = False\<rparr> w = (Ok executor, w1) \<and>
     stream executor ctx w1 = (Ok (stdout, stderr, None), w') \<and> content = TrimSpace stdout"
  using assms unfolding ReadFileInPod_def ExecInPod_def bind_io_def try_io_def
  by (auto split: prod.splits outcome.splits option.splits)

end
