(* ===== verification/Spec2Isabelle.thy ===== *)
theory Spec2Isabelle
  imports Driver Volume_Service Test_Composition Test_Waiting_Facts Test_Cleanup_Facts Test_Artifacts
begin

text \<open>
  A verification development for the Quobyte CSI driver: the Go program under \<open>src/src\<close> (package
  \<open>driver\<close>, program \<open>cmd/main.go\<close>) that lets Kubernetes create, mount and delete Quobyte volumes, and the
  framework of its end-to-end tests, \<open>src/e2e-tests/framework\<close>.

  The program. \<open>main\<close> reads the flags, starts, for the controller, the clean-up of shared volumes in the
  background, and runs a gRPC server on a unix socket. The server has three services. The controller service
  creates, deletes and expands volumes and snapshots through the Quobyte API; a claim is either a volume of
  its own (handle \<open>tenant|volume\<close>) or a directory of a shared volume (handle \<open>tenant|volume|claim\<close>). The node
  service bind-mounts the path of a handle below the mount point of the Quobyte client onto a pod's
  target. A deleted directory claim is renamed to a name with a marker, and the clean-up removes marked
  directories later. The identity service reports the driver's name and abilities.

  The framework. A test loads its configuration from the environment, makes a tenant, a user and a Secret in
  Quobyte behind the driver's back, creates Kubernetes objects, waits for what the driver makes of them, and
  registers with each creation a clean-up that runs after the test, in the reverse order, unless the test failed.

  Theories and what they model: the driver.
    \<^item> \<open>Prelude\<close>: Go errors as a datatype, the outcome of a call (\<open>Ok\<close>, \<open>Err\<close>, \<open>Panic\<close>), calls as functions on an
      opaque world \<open>'w\<close> (\<open>('w, 'a) io\<close>), their combinators, index expressions (\<open>slice_at\<close>, a panic out of range; each
      handler has a lemma \<open>..._guarded\<close>: behind its length checks no look-up panics), and two calculi on them: calls that cannot panic
      (\<open>quiet\<close>) and calls that keep a predicate on the world (\<open>keeps\<close>).
    \<^item> \<open>Go_Strings\<close>, \<open>Go_Strconv\<close>, \<open>Go_Path\<close>, \<open>Go_Url\<close>: what the driver uses of Go's \<open>strings\<close>, \<open>strconv\<close>, \<open>fmt\<close>,
      \<open>path/filepath\<close> and \<open>net/url\<close>, with the laws of splitting and joining (locale \<open>separated_text\<close>), of number
      parsing at its width, and of clean paths.
    \<^item> \<open>Csi_Types\<close>: requests, responses, the interfaces \<open>Mounter\<close> (\<open>driver/mounter.go\<close>) and \<open>QuobyteApi\<close> as records
      of calls, and the driver struct (\<open>driver/driver.go\<close>).
    \<^item> \<open>Utils\<close> (\<open>driver/utils.go\<close>), \<open>Client_Factory\<close> (\<open>driver/quobyte_api_client_factory.go\<close>, locale
      \<open>client_provider\<close>), \<open>Mounter\<close> (\<open>driver/mounter.go\<close>), \<open>Shared_Volume\<close> (\<open>driver/shared_volume_mapper.go\<close>,
      locale \<open>directory_creator\<close>).
    \<^item> \<open>Controller\<close> (\<open>driver/controller.go\<close>, volumes), with \<open>Volume_Parameters\<close> (the parameter loop against a
      reference; \<open>last_param\<close>: what the parameters ask for, read off the map), \<open>Volume_Create\<close> and
      \<open>Volume_Lifecycle\<close> (the properties of creation, stated on the volume a request asks for,
      \<open>requested_volume\<close>; of deletion and expansion); \<open>Snapshots\<close> (\<open>driver/controller.go\<close>, snapshots); \<open>Node\<close>
      (\<open>driver/node.go\<close>).
    \<^item> \<open>Directory_Deleter\<close> (\<open>driver/shared_volume_directory_deleter.go\<close>): the walker, the bounded channel and the
      workers as step relations on a state, and the marker shared with the deletion (locale \<open>marker_scheme\<close>).
    \<^item> \<open>Services\<close> (\<open>driver/identity.go\<close>, the remaining calls, dispatch and interceptor of \<open>driver/driver.go\<close>);
      \<open>Driver\<close> (\<open>driver/driver.go\<close>, \<open>cmd/main.go\<close>): the driver value, \<open>Run\<close>, the flags and \<open>main\<close>.
    \<^item> \<open>Directory_View\<close>, \<open>Handler_Contracts\<close>: the documented behaviour of the file system and of the Quobyte
      service, and a service that is reachable (\<open>service_up\<close>), as predicates that theorems take as hypotheses; \<open>Sample_World\<close>: a small concrete world at which
      the witnesses run the handlers.
    \<^item> \<open>Volume_Service\<close>: an abstract service, a map from names and tenants to volume identifiers, which the
      server refines. This theory: the path from the deletion of a claim to the removal of its directory.

  Theories and what they model: the framework. A Go name that clashes with one of the driver has the prefix
  \<open>framework_\<close>.
    \<^item> \<open>Go_Quote\<close> (\<open>strconv.Quote\<close>) and \<open>Go_Testing\<close> (\<open>testing.T\<close> as a state, \<open>cleanup.go\<close>).
    \<^item> \<open>Test_Client\<close>: the API client of the framework, which extends the one the driver sees; \<open>Test_Volumes\<close>
      (\<open>volume.go\<close>, \<open>task.go\<close>) and \<open>Test_Tenants\<close> (\<open>tenant.go\<close>, \<open>user.go\<close>, \<open>accesskey.go\<close>), with
      \<open>Test_Volumes_Facts\<close> and \<open>Test_Tenants_Facts\<close> on what they do to the service.
    \<^item> \<open>Kube_Objects\<close> (\<open>resources.go\<close>, \<open>storageclass.go\<close>); \<open>Test_Waiting\<close> (\<open>wait.go\<close>,
      \<open>quobyte_client_pods.go\<close>), with \<open>Test_Waiting_Facts\<close> on what a wait has seen when it ends; \<open>Test_Cleanup\<close>
      (\<open>apply.go\<close>), with \<open>Test_Cleanup_Facts\<close> on the tearing down of a test.
    \<^item> \<open>Test_Config\<close> (\<open>config.go\<close>, \<open>upstream.go\<close>, \<open>quobyte_client.go\<close>, \<open>cluster.go\<close>); \<open>Test_Credentials\<close>
      (\<open>credentials.go\<close>); \<open>Test_Artifacts\<close> (\<open>artifacts.go\<close>, \<open>exec.go\<close>).
    \<^item> \<open>Test_Composition\<close>: the framework against the driver. \<open>Sample_Cluster\<close> and \<open>Sample_Quobyte\<close>: a concrete
      cluster and service at which the witnesses run it.
  The polling loop is a parameter: \<open>poll_contract\<close> says by the inductive \<open>polled\<close> which attempts it makes and
  how it ends. \<open>accounts_contract\<close>, \<open>listing_contract\<close> and \<open>task_contract\<close> are the documented behaviour of the
  service towards users and tenants, volumes, and tasks, on views of the world.

  What the lemmas show. Creation is idempotent (a repeated request succeeds with the same response, also for
  snapshots), independent of the order of Go maps, gives distinct claims distinct handles and, in a shared volume, a directory with the requested mode and owner; what was created is
  what is published, expanded and deleted; ids of snapshots mean the same to all calls; no request
  panics; the cache of clients keeps its invariant; every history of requests refines a history of the
  abstract service; the clean-up removes only marked directories, and removes every one it queues. Some theorems
  describe behaviour that looks unintended, such as the deletion of a volume that existed before, when a quota is refused,
  clients shared between credentials, or panics on an unreadable shared volume and on a malformed endpoint.
  Of the framework: the shared volume of a test is the one the driver would make; a user who is not yet an
  admin of a tenant becomes one, and its lists lose what is gone; the task of a deletion is found; the Secret of a
  test is one the driver accepts; a wait returns what it saw; and the clean-ups of a test, when they report
  nothing, have deleted the objects of the test in the reverse order and awaited that each one, or the
  pods of a Deployment, had gone.

  Conventions. Go strings are lists of characters (bytes), \<open>int32\<close>, \<open>int64\<close> and \<open>uint64\<close> are words of their width,
  \<open>int\<close> is an integer (\<open>Atoi\<close> checks the range), a map is an association list in the order of iteration, a nil
  pointer or map that the code tests for is \<open>None\<close>. Log lines are not part of the model. All functions are
  total and need no fuel; the only unbounded behaviour, the goroutines of the clean-up, is a relation, with a measure for
  its sending, receiving and removing steps.

  Not modelled. The gRPC server, the parsing of the command line and the Kubernetes messages' wire format are
  third-party; the Quobyte API client, the LRU cache, extended attributes, UUIDs, the Kubernetes client, the polling
  loop, YAML, the streams of a command in a pod and the Unicode table of printing runes are parameters. Two
  unused variables of \<open>utils.go\<close> and the generated mocks have no model. The tests themselves
  (\<open>*_test.go\<close>) are not part of the program.
\<close>

section \<open>From the deletion of a claim to the removal of its directory\<close>

text \<open>
  C3 (a deleted claim is cleaned up): let the program, with the given flags, launch its clean-up, and let
  its driver successfully delete a claim \<open>pvc-...\<close> whose directory stood in a shared volume of the
  flag's list. When the walker comes to this volume while the marked directory still stands, and it can be
  opened and completely listed, then the walker's step queues the directory, and the workers, which
  cannot work for ever, have passed it to \<open>RemoveAll\<close> when they come to rest.
\<close>

theorem deployed_claim_is_cleaned:
  assumes "cleanup_of role fl = Some c" and cfg: "cfg = deleter_of c sys"
    and d: "d = driver_of clientCache quobyte os apiURL fl"
    and rename: "rename_contract view (mounter d)"
    and client: "\<And>w r w'. new_client d secrets w = (r, w') \<Longrightarrow> view w' = view w"
    and handle: "\<And>p. p \<in> {t, v, dir} \<Longrightarrow> CHR ''|'' \<notin> set p" "\<not> HasPrefix t SnapshotVolumeHandlePrefix"
    and names: "simple_name v" "simple_name dir" "simple_name (delete_marker (f_driver_name fl) dir)" "HasPrefix dir ''pvc-''"
    and stood: "view w (abs_path (cs @ [v, dir])) = Some n"
    and deleted: "DeleteVolume d \<lparr>dv_VolumeId = volume_handle [t, v, dir], dv_Secrets = secrets\<rparr> w = (Ok (), w')"
    and deleter: "entry_names cfg" "volumes_below cfg cs" "\<And>p. quiet (m_RemoveAll (dc_mounter cfg) p)"
    and walker: "deleter_reachable cfg s" "ds_walker s = Walking (v' # vs)" "TrimSpace v' = v" "view (ds_world s) = view w'"
    and "dc_Open cfg (abs_path (cs @ [v])) (ds_world s) = (Ok (), w1)" and "view w1 = view (ds_world s)"
    and "dc_Readdirnames cfg (abs_path (cs @ [v])) w1 = ((found, None), w2)"
    and listing: "\<And>f m. simple_name f \<Longrightarrow> view w1 (abs_path (cs @ [v, f])) = Some m \<Longrightarrow> f \<in> set found"
  shows "\<exists>s1. deleter_step cfg s s1 \<and> wfp (\<lambda>y x. work_step cfg x y) \<and>
     (\<forall>s2. (work_step cfg)\<^sup>*\<^sup>* s1 s2 \<longrightarrow> (\<nexists>s3. work_step cfg s2 s3) \<longrightarrow>
        abs_path (cs @ [v, delete_marker (f_driver_name fl) dir]) \<in> set (ds_removed s2))"
proof -
  let ?f = "delete_marker (f_driver_name fl) dir"
  let ?s1 = "\<lambda>ps. s\<lparr>ds_world := w2, ds_walker := Queueing ps vs\<rparr>"
  have c: "cl_nodeName c = f_driver_name fl" "cl_mountPath c = f_quobyte_mount_path fl" "0 < cl_parallelDeletes c"
    "\<not> f_use_delete_files_task fl"
    using assms(1) by (auto simp: cleanup_of_def Let_def split: if_splits)
  then have conf: "dc_nodeName cfg = f_driver_name fl" "dc_mountPath cfg = f_quobyte_mount_path fl" "0 < dc_parallelDeletes cfg"
    by (simp_all add: cfg deleter_of_def)
  have drv: "drv_Name d = f_driver_name fl" "clientMountPoint d = f_quobyte_mount_path fl" "\<not> UseDeleteFilesTask d"
    using c(4) by (simp_all add: d driver_of_def NewQuobyteDriver_def)
  have mnt: "clientMountPoint d = abs_path cs" using deleter(2) conf(2) drv(2) by (simp add: volumes_below_def)
  have "view w' (abs_path (cs @ [v, delete_marker (drv_Name d) dir])) = Some n"
    by (rule deleted_claim_marked [where view = view, OF rename drv(3) handle client deleted stood mnt deleter(2)])
      (use names drv(1) in simp_all)
  then have "?f \<in> set found"
    using listing [OF names(3)] walker(4) assms(22) drv(1) by simp
  then obtain ps where scan: "scan_volume cfg v' (ds_world s) = (Ok ps, w2)" and p: "abs_path (cs @ [v, ?f]) \<in> set ps"
    using marked_claim_scanned [OF names(4) deleter(2) names(1) _ walker(3) assms(21,23)] names(3) conf(1) by auto
  have step: "deleter_step cfg s (?s1 ps)" by (rule deleter_step.scan [OF walker(2) scan])
  then have "deleter_reachable cfg (?s1 ps)" by (rule deleter_reachable.stepped [OF walker(1)])
  then have "set_mset (pending (?s1 ps)) \<subseteq> set (ds_removed s2)"
    if "(work_step cfg)\<^sup>*\<^sup>* (?s1 ps) s2" and "\<nexists>s3. work_step cfg s2 s3" for s2
    by (rule drained_pipeline [OF _ deleter(1,2) conf(3) _ deleter(3) that]) simp_all
  moreover have "abs_path (cs @ [v, ?f]) \<in># pending (?s1 ps)" using p by (simp add: pending_def)
  ultimately have "abs_path (cs @ [v, ?f]) \<in> set (ds_removed s2)"
    if "(work_step cfg)\<^sup>*\<^sup>* (?s1 ps) s2" and "\<nexists>s3. work_step cfg s2 s3" for s2
    using that by blast
  with step work_step_wf show ?thesis by blast
qed

subsection \<open>A concrete deployment\<close>

definition sample_cache :: "(sample, unit) lru_cache" where
  "sample_cache = \<lparr>lru_Get = (\<lambda>k. return_io None), lru_Add = (\<lambda>k v. return_io ())\<rparr>"

definition sample_clients :: "(sample, unit) client_package" where
  "sample_clients = \<lparr>NewQuobyteClient = (\<lambda>url u p. ()), as_api = (\<lambda>c. sample_api (Ok ()))\<rparr>"

definition sample_os :: "sample os_calls" where
  "sample_os =
     (let m = sample_mounter [] in
     \<lparr>os_MkdirAll = m_Mkdirs m, os_Mkdir = m_Mkdir m, os_Chmod = m_Chmod m, os_Chown = m_Chown m,
      os_Rename = m_Rename m, os_RemoveAll = m_RemoveAll m, os_Stat = m_Stat m, user_Lookup = m_Lookup m,
      user_LookupGroup = m_LookupGroup m, xattr_Set = (\<lambda>p k v. m_SetXAttr m k v p),
      unix_Mount = (\<lambda>src t fs f o'. m_Mount m src t), unix_Unmount = (\<lambda>t f. m_Unmount m t),
      unix_Statfs = m_Statfs m, uuid_New = m_CreateAccessKeyContextHandle m\<rparr>)"

abbreviation deployed_driver :: "sample QuobyteDriver" where
  "deployed_driver \<equiv> driver_of sample_cache sample_clients sample_os [] sample_flags"

abbreviation claim_path :: string where "claim_path \<equiv> ''/mnt/quobyte/mounts/v/pvc-1''"
abbreviation marked_claim_path :: string where "marked_claim_path \<equiv> ''/mnt/quobyte/mounts/v/csi_delete_pvc-1''"

definition sample_cleanup :: cleanup where
  "sample_cleanup = \<lparr>cl_nodeName = ''csi'', cl_mountPath = ''/mnt/quobyte/mounts'', cl_sharedVolumes = [''v''], cl_parallelDeletes = 10\<rparr>"

abbreviation deployed_deleter :: "sample deleter_config" where
  "deployed_deleter \<equiv> deleter_of sample_cleanup (sample_deleter\<lparr>dc_Readdirnames := (\<lambda>p w. (([''csi_delete_pvc-1''], None), w))\<rparr>)"

lemma sample_cleanup_launched: "cleanup_of Controller sample_flags = Some sample_cleanup"
  by (simp add: cleanup_of_def sample_flags_def default_flags_def sample_cleanup_def Let_def)

lemma deployed_rename: "rename_contract files (mounter deployed_driver)"
  using sample_rename_contract [of "[]"]
  by (simp add: rename_contract_def driver_of_def NewQuobyteDriver_def LinuxMounter_def sample_os_def Let_def)

lemma deployed_client: "new_client deployed_driver secrets w = (r, w') \<Longrightarrow> w' = w"
  by (cases "api_credentials secrets")
    (auto simp: driver_of_def NewQuobyteDriver_def QuobyteApiClientFactory_def sample_cache_def Let_def)

lemma deployed_paths:
  "Join [''/mnt/quobyte/mounts'', ''v'', ''pvc-1''] = claim_path"
  "Join [''/mnt/quobyte/mounts'', ''v'', ''csi_delete_pvc-1''] = marked_claim_path"
  using Join_abs_path [of "[''mnt'', ''quobyte'', ''mounts'']" "[''v'', ''pvc-1'']"]
    Join_abs_path [of "[''mnt'', ''quobyte'', ''mounts'']" "[''v'', ''csi_delete_pvc-1'']"]
  by (simp_all add: simple_name_def)

lemma deployed_deletion:
  assumes "files w claim_path = Some n"
  shows "DeleteVolume deployed_driver \<lparr>dv_VolumeId = volume_handle [''t'', ''v'', ''pvc-1''],
       dv_Secrets = [(''user'', ''u''), (''password'', ''p'')]\<rparr> w
     = (Ok (), w\<lparr>files := (files w)(claim_path := None, marked_claim_path := Some n)\<rparr>)"
proof -
  have "api_credentials [(''user'', ''u''), (''password'', ''p'')] = Ok (''u'', ''p'')"
    by (simp add: api_credentials_def hasApiAccessKeyIdAndSecret_def hasApiUserAndPassword_def secret_keys map_get_def)
  then show ?thesis
    using assms
    by (simp add: volume_handle_def DeleteVolume_guarded VOLUME_HANDLE_PART_SEPARATOR_def HasPrefix_def SnapshotVolumeHandlePrefix_def
        mark_for_deletion_def deployed_paths delete_marker_csi numeral_2_eq_2 Let_def driver_of_def NewQuobyteDriver_def
        QuobyteApiClientFactory_def sample_cache_def sample_flags_def default_flags_def LinuxMounter_def sample_os_def
        sample_mounter_def bind_io_def try_io_def)
qed

definition walking_deleter :: "sample \<Rightarrow> sample deleter_state" where
  "walking_deleter w = (LaunchDirectoryDeleter deployed_deleter w)\<lparr>ds_walker := Walking [''v'']\<rparr>"

lemma walking_deleter_reachable: "deleter_reachable deployed_deleter (walking_deleter w)"
proof -
  have "deleter_step deployed_deleter (LaunchDirectoryDeleter deployed_deleter w) (walking_deleter w)"
    using deleter_step.wake [of "LaunchDirectoryDeleter deployed_deleter w" deployed_deleter]
    by (simp add: walking_deleter_def LaunchDirectoryDeleter_def deleter_of_def sample_cleanup_def)
  then show ?thesis by (rule deleter_reachable.stepped [OF deleter_reachable.launched])
qed

lemma deployed_volumes: "volumes_below deployed_deleter [''mnt'', ''quobyte'', ''mounts'']"
proof -
  have "TrimSpace ''v'' = ''v''" by code_simp
  then show ?thesis by (simp add: volumes_below_def deleter_of_def sample_cleanup_def simple_name_def)
qed

theorem deployed_claim_is_cleaned_witness:
  "\<exists>w'. DeleteVolume deployed_driver \<lparr>dv_VolumeId = volume_handle [''t'', ''v'', ''pvc-1''],
        dv_Secrets = [(''user'', ''u''), (''password'', ''p'')]\<rparr> (empty_world\<lparr>files := [claim_path \<mapsto> FileNode]\<rparr>) = (Ok (), w') \<and>
     (\<exists>s1. deleter_step deployed_deleter (walking_deleter w') s1 \<and>
        (\<forall>s2. (work_step deployed_deleter)\<^sup>*\<^sup>* s1 s2 \<longrightarrow> (\<nexists>s3. work_step deployed_deleter s2 s3) \<longrightarrow>
           marked_claim_path \<in> set (ds_removed s2)))"
proof -
  let ?w = "empty_world\<lparr>files := [claim_path \<mapsto> FileNode]\<rparr>"
  let ?w' = "?w\<lparr>files := (files ?w)(claim_path := None, marked_claim_path := Some FileNode)\<rparr>"
  let ?cs = "[''mnt'', ''quobyte'', ''mounts'']"
  have trim: "TrimSpace ''v'' = ''v''" by code_simp
  have run: "DeleteVolume deployed_driver \<lparr>dv_VolumeId = volume_handle [''t'', ''v'', ''pvc-1''],
      dv_Secrets = [(''user'', ''u''), (''password'', ''p'')]\<rparr> ?w = (Ok (), ?w')"
    by (rule deployed_deletion) simp
  have only: "f = ''csi_delete_pvc-1''" if "files ?w' (abs_path (?cs @ [''v'', f])) = Some m" for f m
    using that by (auto split: if_splits)
  have handle: "CHR ''|'' \<notin> set p" if "p \<in> {''t'', ''v'', ''pvc-1''}" for p using that by auto
  have tenant: "\<not> HasPrefix ''t'' SnapshotVolumeHandlePrefix" by (simp add: HasPrefix_def SnapshotVolumeHandlePrefix_def)
  have marker: "delete_marker (f_driver_name sample_flags) ''pvc-1'' = ''csi_delete_pvc-1''"
    by (simp add: sample_flags_def delete_marker_csi)
  have names: "simple_name ''v''" "simple_name ''pvc-1''" "simple_name (delete_marker (f_driver_name sample_flags) ''pvc-1'')"
    "HasPrefix ''pvc-1'' ''pvc-''"
    unfolding marker by (simp_all add: simple_name_def HasPrefix_def)
  have stood: "files ?w (abs_path (?cs @ [''v'', ''pvc-1''])) = Some FileNode" by simp
  have entries: "entry_names deployed_deleter"
    by (simp add: entry_names_def deleter_of_def sample_deleter_def simple_name_def)
  have quiet: "quiet (m_RemoveAll (dc_mounter deployed_deleter) p)" for p
    using sample_removes_quietly by (simp add: deleter_of_def)
  have walker: "ds_walker (walking_deleter ?w') = Walking [''v'']" "ds_world (walking_deleter ?w') = ?w'"
    by (simp_all add: walking_deleter_def LaunchDirectoryDeleter_def)
  have opened: "dc_Open deployed_deleter (abs_path (?cs @ [''v''])) (ds_world (walking_deleter ?w')) = (Ok (), ?w')"
    unfolding walker(2) by (simp add: deleter_of_def sample_deleter_def)
  have read: "dc_Readdirnames deployed_deleter (abs_path (?cs @ [''v''])) ?w' = (([''csi_delete_pvc-1''], None), ?w')"
    by (simp add: deleter_of_def)
  have view: "files (ds_world (walking_deleter ?w')) = files ?w'" "files ?w' = files (ds_world (walking_deleter ?w'))"
    unfolding walker(2) by (rule refl)+
  have listed: "f \<in> set [''csi_delete_pvc-1'']" if "files ?w' (abs_path (?cs @ [''v'', f])) = Some m" for f m
    using only [OF that] by simp
  have client: "files w2 = files w1" if "new_client deployed_driver secrets w1 = (r, w2)" for secrets w1 r w2
    by (rule arg_cong [OF deployed_client [OF that]])
  have "\<exists>s1. deleter_step deployed_deleter (walking_deleter ?w') s1 \<and> wfp (\<lambda>y x. work_step deployed_deleter x y) \<and>
     (\<forall>s2. (work_step deployed_deleter)\<^sup>*\<^sup>* s1 s2 \<longrightarrow> (\<nexists>s3. work_step deployed_deleter s2 s3) \<longrightarrow>
        abs_path (?cs @ [''v'', delete_marker (f_driver_name sample_flags) ''pvc-1'']) \<in> set (ds_removed s2))"
    by (rule deployed_claim_is_cleaned [where view = files, OF sample_cleanup_launched refl refl deployed_rename client handle tenant
          names stood run entries deployed_volumes quiet walking_deleter_reachable walker(1) trim view(1) opened view(2) read listed])
  then show ?thesis
    unfolding marker using run by auto
qed

end
